(* ===== verification/Prelude.thy ===== *)
theory Prelude
  imports Main "HOL-Library.Sublist" "HOL-Library.List_Lexorder" "HOL-Library.Char_ord"
begin

text \<open>
  Shared vocabulary of the development: panics as values, the bind of computations that may
  panic, association lists as Go maps, and the lemma collections the component theories use.

  A Go map is an association list whose key list is distinct.  The order of the list stands for
  the iteration order of one \<open>range\<close> over the map: Go leaves that order open, so a
  statement that holds for every such list holds for every iteration order.
\<close>

named_theorems go_defs \<open>definitions of the modelled standard library\<close>
named_theorems amap_simps \<open>look-up in updated association lists\<close>

section \<open>Panics\<close>

datatype go_panic =
    NilDeref
  | TypeAssertion
  | IndexOutOfRange
  | MustCompile
  | HandlerPanic

type_synonym 'a go = "go_panic + 'a"

definition go_bind :: "'a go \<Rightarrow> ('a \<Rightarrow> 'b go) \<Rightarrow> 'b go" where
  "go_bind m f = (case m of Inl p \<Rightarrow> Inl p | Inr x \<Rightarrow> f x)"

lemma go_bind_simps [simp]:
  "go_bind (Inl p) f = Inl p"
  "go_bind (Inr x) f = f x"
  by (simp_all add: go_bind_def)

lemma go_bind_Inr_iff:
  "go_bind m f = Inr y \<longleftrightarrow> (\<exists>x. m = Inr x \<and> f x = Inr y)"
  by (cases m) simp_all

text \<open>Mapping a computation that may panic over a list stops at the first panic.\<close>

fun go_mapM :: "('a \<Rightarrow> 'b go) \<Rightarrow> 'a list \<Rightarrow> 'b list go" where
  "go_mapM f [] = Inr []"
| "go_mapM f (x # xs) = go_bind (f x) (\<lambda>y. go_bind (go_mapM f xs) (\<lambda>ys. Inr (y # ys)))"

fun go_foldM :: "('a \<Rightarrow> 's \<Rightarrow> 's go) \<Rightarrow> 'a list \<Rightarrow> 's \<Rightarrow> 's go" where
  "go_foldM f [] s = Inr s"
| "go_foldM f (x # xs) s = go_bind (f x s) (go_foldM f xs)"

text \<open>A fold panics as soon as one element does, whatever was collected before.\<close>

lemma go_foldM_panics:
  assumes "x \<in> set xs" "\<And>s. isl (f x s)"
  shows "isl (go_foldM f xs s)"
  using assms(1)
proof (induction xs arbitrary: s)
  case (Cons y xs)
  show ?case
  proof (cases "f y s")
    case (Inr s')
    then show ?thesis using Cons assms(2)[of s] by auto
  qed simp
qed simp

lemma go_foldM_invariant:
  assumes "go_foldM f xs s = Inr s'" and "P s"
    and "\<And>x s s'. x \<in> set xs \<Longrightarrow> P s \<Longrightarrow> f x s = Inr s' \<Longrightarrow> P s'"
  shows "P s'"
  using assms
proof (induction xs arbitrary: s)
  case Nil
  then show ?case by simp
next
  case (Cons x xs)
  from Cons.prems(1) obtain s1 where s1: "f x s = Inr s1" "go_foldM f xs s1 = Inr s'"
    by (auto simp: go_bind_Inr_iff)
  have "P s1" using Cons.prems(3)[of x s s1] Cons.prems(2) s1(1) by simp
  then show ?case using Cons.IH[OF s1(2)] Cons.prems(3) by (metis list.set_intros(2))
qed

section \<open>Go maps as association lists\<close>

type_synonym ('k, 'v) amap = "('k \<times> 'v) list"

abbreviation amap_keys :: "('k, 'v) amap \<Rightarrow> 'k list" where
  "amap_keys m \<equiv> map fst m"

definition amap_ok :: "('k, 'v) amap \<Rightarrow> bool" where
  "amap_ok m \<longleftrightarrow> distinct (amap_keys m)"

fun amap_put :: "'k \<Rightarrow> 'v \<Rightarrow> ('k, 'v) amap \<Rightarrow> ('k, 'v) amap" where
  "amap_put k v [] = [(k, v)]"
| "amap_put k v (p # m) = (if fst p = k then (k, v) # m else p # amap_put k v m)"

definition amap_del :: "'k \<Rightarrow> ('k, 'v) amap \<Rightarrow> ('k, 'v) amap" where
  "amap_del k m = filter (\<lambda>p. fst p \<noteq> k) m"

definition amap_filter_keys :: "('k \<Rightarrow> bool) \<Rightarrow> ('k, 'v) amap \<Rightarrow> ('k, 'v) amap" where
  "amap_filter_keys P m = filter (\<lambda>p. P (fst p)) m"

lemma map_of_amap_put [simp, amap_simps]:
  "map_of (amap_put k v m) k' = (if k' = k then Some v else map_of m k')"
  by (induction m) auto

lemma map_of_amap_del [simp, amap_simps]:
  "map_of (amap_del k m) k' = (if k' = k then None else map_of m k')"
  unfolding amap_del_def by (induction m) auto

lemma map_of_amap_filter_keys [simp, amap_simps]:
  "map_of (amap_filter_keys P m) k = (if P k then map_of m k else None)"
  unfolding amap_filter_keys_def by (induction m) auto

lemma set_keys_amap_put: "set (amap_keys (amap_put k v m)) = insert k (set (amap_keys m))"
  by (induction m) auto

lemma set_amap_put_sub: "set (amap_put k v m) \<subseteq> insert (k, v) (set m)"
  by (induction m) auto

lemma amap_del_sub: "set (amap_del k m) \<subseteq> set m"
  by (auto simp: amap_del_def)

lemma amap_ok_put [simp, intro]: "amap_ok m \<Longrightarrow> amap_ok (amap_put k v m)"
  unfolding amap_ok_def
proof (induction m)
  case Nil
  then show ?case by simp
next
  case (Cons p m)
  then show ?case using set_keys_amap_put[of k v m] by auto
qed

lemma amap_ok_del [simp, intro]: "amap_ok m \<Longrightarrow> amap_ok (amap_del k m)"
  by (simp add: amap_ok_def amap_del_def distinct_map_filter)

lemma amap_ok_filter_keys [simp, intro]: "amap_ok m \<Longrightarrow> amap_ok (amap_filter_keys P m)"
  by (simp add: amap_ok_def amap_filter_keys_def distinct_map_filter)

lemma amap_ok_Nil [simp]: "amap_ok []"
  by (simp add: amap_ok_def)

lemma amap_ok_lookup: "amap_ok m \<Longrightarrow> (k, v) \<in> set m \<Longrightarrow> map_of m k = Some v"
  by (simp add: amap_ok_def)

section \<open>Lists\<close>

lemma prefix_same_length: "prefix xs ys \<Longrightarrow> length xs = length ys \<Longrightarrow> xs = ys"
  by (auto simp: prefix_def)

lemma filter_foldr_simple: "fold (\<lambda>x acc. acc @ f x) xs acc = acc @ concat (map f xs)"
  by (induction xs arbitrary: acc) auto

end
