(* ===== verification/GoStrings.thy ===== *)
theory GoStrings
  imports Prelude
begin

text \<open>
  The parts of Go's packages strings, strconv and net/url that the program uses, on byte strings
  (\<open>string\<close>, one \<open>char\<close> per byte).  Case mapping and white space are the ASCII ones:
  bytes of 128 and above are kept as they are, which is where Go would look at whole UTF-8
  characters.  \<open>strings.HasPrefix\<close>, \<open>HasSuffix\<close> and \<open>Contains\<close> are \<open>prefix\<close>, \<open>suffix\<close>
  and \<open>sublist\<close> of HOL-Library.Sublist.
\<close>

section \<open>Character classes and case\<close>

definition char_nat :: "char \<Rightarrow> nat" where
  "char_nat c = of_char c"

definition is_digit :: "char \<Rightarrow> bool" where
  "is_digit c \<longleftrightarrow> 48 \<le> char_nat c \<and> char_nat c \<le> 57"

definition is_upper :: "char \<Rightarrow> bool" where
  "is_upper c \<longleftrightarrow> 65 \<le> char_nat c \<and> char_nat c \<le> 90"

definition is_lower :: "char \<Rightarrow> bool" where
  "is_lower c \<longleftrightarrow> 97 \<le> char_nat c \<and> char_nat c \<le> 122"

definition upper_char :: "char \<Rightarrow> char" where
  "upper_char c = (if is_lower c then char_of (char_nat c - 32) else c)"

definition lower_char :: "char \<Rightarrow> char" where
  "lower_char c = (if is_upper c then char_of (char_nat c + 32) else c)"

definition ToLower :: "string \<Rightarrow> string" where
  "ToLower s = map lower_char s"

definition ToUpper :: "string \<Rightarrow> string" where
  "ToUpper s = map upper_char s"

definition is_space :: "char \<Rightarrow> bool" where
  "is_space c \<longleftrightarrow> char_nat c \<in> {9, 10, 11, 12, 13, 32}"

definition trim_by :: "(char \<Rightarrow> bool) \<Rightarrow> string \<Rightarrow> string" where
  "trim_by P s = rev (dropWhile P (rev (dropWhile P s)))"

definition TrimSpace :: "string \<Rightarrow> string" where
  "TrimSpace s = trim_by is_space s"

text \<open>\<open>strings.Trim(s, " ")\<close> and \<open>textproto.TrimString\<close>.\<close>

definition TrimBlank :: "string \<Rightarrow> string" where
  "TrimBlank s = trim_by (\<lambda>c. char_nat c = 32) s"

definition TrimString :: "string \<Rightarrow> string" where
  "TrimString s = trim_by (\<lambda>c. char_nat c \<in> {9, 10, 13, 32}) s"

section \<open>Split, Join, CutPrefix\<close>

text \<open>
  \<open>strings.Split(s, sep)\<close> for a non-empty separator: the leftmost occurrences, from left to
  right, do not overlap.  The scanner keeps the current field reversed in \<open>acc\<close>.
\<close>

function split_scan :: "string \<Rightarrow> string \<Rightarrow> string \<Rightarrow> string list" where
  "split_scan sep acc [] = [rev acc]"
| "split_scan sep acc (c # cs) =
     (if sep \<noteq> [] \<and> prefix sep (c # cs)
      then rev acc # split_scan sep [] (drop (length sep) (c # cs))
      else split_scan sep (c # acc) cs)"
  by pat_completeness auto
termination
  by (relation "measure (\<lambda>(sep, acc, s). length s)") (auto simp: neq_Nil_conv)

definition Split :: "string \<Rightarrow> string \<Rightarrow> string list" where
  "Split s sep = split_scan sep [] s"

text \<open>\<open>strings.SplitN(s, sep, 2)\<close>.\<close>

function split2_scan :: "string \<Rightarrow> string \<Rightarrow> string \<Rightarrow> string list" where
  "split2_scan sep acc [] = [rev acc]"
| "split2_scan sep acc (c # cs) =
     (if sep \<noteq> [] \<and> prefix sep (c # cs)
      then [rev acc, drop (length sep) (c # cs)]
      else split2_scan sep (c # acc) cs)"
  by pat_completeness auto
termination
  by (relation "measure (\<lambda>(sep, acc, s). length s)") auto

definition SplitN2 :: "string \<Rightarrow> string \<Rightarrow> string list" where
  "SplitN2 s sep = split2_scan sep [] s"

fun Join :: "string list \<Rightarrow> string \<Rightarrow> string" where
  "Join [] sep = []"
| "Join [x] sep = x"
| "Join (x # y # xs) sep = x @ sep @ Join (y # xs) sep"

definition CutPrefix :: "string \<Rightarrow> string \<Rightarrow> string" where
  "CutPrefix s p = (if prefix p s then drop (length p) s else s)"

text \<open>Splitting at a single character has a simple recursive form.\<close>

fun splitc :: "char \<Rightarrow> string \<Rightarrow> string list" where
  "splitc d [] = [[]]"
| "splitc d (c # cs) =
     (if c = d then [] # splitc d cs
      else (case splitc d cs of [] \<Rightarrow> [[c]] | f # fs \<Rightarrow> (c # f) # fs))"

lemma splitc_not_Nil [simp]: "splitc d s \<noteq> []"
  by (cases s) (auto split: list.splits)

lemma split_scan_single:
  "split_scan [d] acc s = (case splitc d s of f # fs \<Rightarrow> (rev acc @ f) # fs)"
proof (induction s arbitrary: acc)
  case Nil
  then show ?case by simp
next
  case (Cons c cs)
  obtain f fs where ffs: "splitc d cs = f # fs" by (cases "splitc d cs") auto
  show ?case using Cons.IH[of "[]"] Cons.IH[of "c # acc"] ffs by auto
qed

lemma Split_single: "Split s [d] = splitc d s"
  unfolding Split_def split_scan_single by (cases "splitc d s") auto

lemma splitc_no_sep: "d \<notin> set s \<Longrightarrow> splitc d s = [s]"
  by (induction s) auto

lemma splitc_append: "splitc d (a @ d # b) = splitc d a @ splitc d b"
proof (induction a)
  case Nil
  then show ?case by simp
next
  case (Cons c cs)
  obtain f fs where "splitc d cs = f # fs" by (cases "splitc d cs") auto
  with Cons show ?case by auto
qed

lemma splitc_field_no_sep: "f \<in> set (splitc d s) \<Longrightarrow> d \<notin> set f"
proof (induction s arbitrary: f)
  case Nil
  then show ?case by simp
next
  case (Cons c cs)
  obtain g gs where g: "splitc d cs = g # gs" by (cases "splitc d cs") auto
  show ?case
  proof (cases "c = d")
    case True
    with Cons show ?thesis by auto
  next
    case False
    have "d \<notin> set h" if "h \<in> set (g # gs)" for h using Cons.IH that g by simp
    with False Cons.prems g show ?thesis by auto
  qed
qed

lemma Join_splitc: "Join (splitc d s) [d] = s"
proof (induction s)
  case Nil
  then show ?case by simp
next
  case (Cons c cs)
  obtain g gs where g: "splitc d cs = g # gs" by (cases "splitc d cs") auto
  with Cons show ?case by (cases gs) auto
qed

lemma splitc_Join:
  "xs \<noteq> [] \<Longrightarrow> \<forall>x\<in>set xs. d \<notin> set x \<Longrightarrow> splitc d (Join xs [d]) = xs"
proof (induction xs "[d]" rule: Join.induct)
  case (3 x y xs)
  then show ?case by (simp add: splitc_append splitc_no_sep)
qed (simp_all add: splitc_no_sep)

text \<open>A field of the split sits between separators (or the ends) of the string.\<close>

lemma mem_splitc_iff:
  assumes "d \<notin> set w"
  shows "w \<in> set (splitc d s) \<longleftrightarrow>
    s = w \<or> prefix (w @ [d]) s \<or> suffix (d # w) s \<or> sublist (d # w @ [d]) s"
    (is "?L = ?R")
proof
  assume ?L
  then obtain ps qs where pq: "splitc d s = ps @ w # qs" by (meson split_list)
  have s: "s = Join (ps @ w # qs) [d]" using Join_splitc[of d s] pq by simp
  have J: "Join (us @ vs) [d] = Join us [d] @ d # Join vs [d]"
    if "us \<noteq> []" "vs \<noteq> []" for us vs :: "string list"
    using that
  proof (induction us "[d]" rule: Join.induct)
    case (2 x)
    then show ?case by (cases vs) auto
  qed auto
  show ?R
  proof (cases ps)
    case Nil
    then show ?thesis using s by (cases qs) (auto simp: prefix_def)
  next
    case (Cons p ps')
    show ?thesis
    proof (cases qs)
      case Nil
      then show ?thesis using s J[of ps "[w]"] Cons by (auto simp: suffix_def)
    next
      case (Cons q qs')
      have "s = Join ps [d] @ d # (w @ d # Join qs [d])"
        using s J[of ps "w # qs"] J[of "[w]" qs] \<open>ps = p # ps'\<close> Cons by simp
      then show ?thesis by (auto simp: sublist_def)
    qed
  qed
next
  assume ?R
  then consider "s = w" | "prefix (w @ [d]) s" | "suffix (d # w) s" | "sublist (d # w @ [d]) s"
    by blast
  then show ?L
  proof cases
    case 1
    then show ?thesis using assms by (simp add: splitc_no_sep)
  next
    case 2
    then obtain r where "s = w @ d # r" by (auto simp: prefix_def)
    then show ?thesis using assms by (simp add: splitc_append splitc_no_sep)
  next
    case 3
    then obtain r where "s = r @ d # w" by (auto simp: suffix_def)
    then show ?thesis using assms by (simp add: splitc_append splitc_no_sep)
  next
    case 4
    then obtain a b where "s = a @ d # (w @ d # b)" by (auto simp: sublist_def)
    then show ?thesis using assms by (simp only: splitc_append) (simp add: splitc_no_sep)
  qed
qed

end
