(* ===== verification/GoConv.thy ===== *)
theory GoConv
  imports GoStrings
begin

text \<open>
  Go's decimal conversions (package strconv) and the query escaping of package net/url.
\<close>

section \<open>Decimal numbers\<close>

definition digit_char :: "int \<Rightarrow> char" where
  "digit_char n = char_of (48 + n)"

definition digit_val :: "char \<Rightarrow> int" where
  "digit_val c = of_char c - 48"

lemma digit_char_0 [simp]: "digit_char 0 = CHR ''0''"
  by code_simp

function dec_str :: "int \<Rightarrow> string" where
  "dec_str n = (if n < 10 then [digit_char n] else dec_str (n div 10) @ [digit_char (n mod 10)])"
  by pat_completeness auto
termination
  by (relation "measure nat") auto

declare dec_str.simps [simp del]

text \<open>\<open>strconv.Itoa\<close> and the \<open>%d\<close> verb.\<close>

definition Itoa :: "int \<Rightarrow> string" where
  "Itoa i = (if i < 0 then CHR ''-'' # dec_str (- i) else dec_str i)"

datatype num_error = ErrSyntax | ErrRange

text \<open>
  \<open>strconv.ParseUint(s, 10, bits)\<close> reads from the left: a character that is no digit is a
  syntax error, and the first prefix above the maximum is a range error, whatever follows it.
\<close>

fun parse_uint_scan :: "int \<Rightarrow> int \<Rightarrow> string \<Rightarrow> num_error + int" where
  "parse_uint_scan mx n [] = Inr n"
| "parse_uint_scan mx n (c # cs) =
     (if \<not> is_digit c then Inl ErrSyntax
      else let n1 = n * 10 + digit_val c
           in if mx < n1 then Inl ErrRange else parse_uint_scan mx n1 cs)"

definition ParseUint :: "nat \<Rightarrow> string \<Rightarrow> num_error + int" where
  "ParseUint bits s = (if s = [] then Inl ErrSyntax else parse_uint_scan (2 ^ bits - 1) 0 s)"

definition max_int64 :: int where
  "max_int64 = 9223372036854775807"

definition min_int64 :: int where
  "min_int64 = -9223372036854775808"

text \<open>
  \<open>strconv.Atoi\<close>: the value it returns and whether the error is nil.  On a range error the
  value is the nearest \<open>int64\<close>; on a syntax error it is 0.
\<close>

definition signed_result :: "bool \<Rightarrow> num_error + int \<Rightarrow> int \<times> bool" where
  "signed_result neg r = (case r of
       Inl ErrSyntax \<Rightarrow> (0, False)
     | Inl ErrRange \<Rightarrow> (if neg then min_int64 else max_int64, False)
     | Inr n \<Rightarrow>
         if \<not> neg \<and> max_int64 < n then (max_int64, False)
         else if neg \<and> - n < min_int64 then (min_int64, False)
         else (if neg then - n else n, True))"

definition Atoi :: "string \<Rightarrow> int \<times> bool" where
  "Atoi s = (case s of
       [] \<Rightarrow> (0, False)
     | c # cs \<Rightarrow>
         if c = CHR ''-'' then signed_result True (ParseUint 64 cs)
         else if c = CHR ''+'' then signed_result False (ParseUint 64 cs)
         else signed_result False (ParseUint 64 s))"

lemma char_nat_of [simp]: "n < 256 \<Longrightarrow> char_nat (char_of n) = n"
  by (simp add: char_nat_def)

lemma digit_val_char [simp]: "0 \<le> n \<Longrightarrow> n < 10 \<Longrightarrow> digit_val (digit_char n) = n"
  by (simp add: digit_char_def digit_val_def)

lemma char_nat_int: "int (char_nat c) = of_char c"
  by (simp add: char_nat_def of_nat_of_char)

lemma is_digit_digit_char [simp]: "0 \<le> n \<Longrightarrow> n < 10 \<Longrightarrow> is_digit (digit_char n)"
proof -
  assume n: "0 \<le> n" "n < 10"
  have "int (char_nat (digit_char n)) = 48 + n"
    unfolding char_nat_int using n by (simp add: digit_char_def)
  with n show ?thesis by (simp add: is_digit_def)
qed

lemma digit_val_bounds: "is_digit c \<Longrightarrow> 0 \<le> digit_val c \<and> digit_val c \<le> 9"
proof -
  assume "is_digit c"
  moreover have "digit_val c = int (char_nat c) - 48" by (simp add: digit_val_def char_nat_int)
  ultimately show ?thesis by (simp add: is_digit_def)
qed

lemma dec_str_not_Nil [simp]: "dec_str n \<noteq> []"
  by (subst dec_str.simps) simp

lemma dec_str_digits: "0 \<le> n \<Longrightarrow> c \<in> set (dec_str n) \<Longrightarrow> is_digit c"
proof (induction n rule: dec_str.induct)
  case (1 n)
  then show ?case by (cases "n < 10") (auto simp: dec_str.simps[of n])
qed

lemma dec_str_hd [simp]: "0 \<le> n \<Longrightarrow> is_digit (hd (dec_str n))"
  using dec_str_digits[of n "hd (dec_str n)"] by simp

lemma parse_uint_scan_snoc:
  "parse_uint_scan mx n (s @ [c]) =
     (case parse_uint_scan mx n s of Inl e \<Rightarrow> Inl e | Inr m \<Rightarrow> parse_uint_scan mx m [c])"
  by (induction s arbitrary: n) (auto simp: Let_def)

lemma parse_uint_dec_str: "0 \<le> n \<Longrightarrow> n \<le> mx \<Longrightarrow> parse_uint_scan mx 0 (dec_str n) = Inr n"
proof (induction n rule: dec_str.induct)
  case (1 n)
  show ?case
  proof (cases "n < 10")
    case True
    with 1 show ?thesis by (simp add: dec_str.simps[of n])
  next
    case False
    from 1 False have "parse_uint_scan mx 0 (dec_str (n div 10)) = Inr (n div 10)" by simp
    moreover have "n div 10 * 10 + n mod 10 = n" by simp
    ultimately show ?thesis
      using False 1 by (simp add: dec_str.simps[of n] parse_uint_scan_snoc Let_def)
  qed
qed

lemma not_digit_sign [simp]:
  "\<not> is_digit CHR ''-''" "\<not> is_digit CHR ''+''" "\<not> is_digit CHR ''.''"
  by (simp_all add: is_digit_def char_nat_def)

text \<open>Printing and reading back an \<open>int64\<close>.\<close>

lemma Atoi_Itoa:
  assumes "min_int64 \<le> i" and "i \<le> max_int64"
  shows "Atoi (Itoa i) = (i, True)"
proof (cases "i < 0")
  case True
  have "ParseUint 64 (dec_str (- i)) = Inr (- i)"
    using True assms by (simp add: ParseUint_def parse_uint_dec_str min_int64_def)
  with True assms show ?thesis
    by (simp add: Atoi_def Itoa_def signed_result_def)
next
  case False
  obtain c cs where cs: "dec_str i = c # cs" by (cases "dec_str i") auto
  have "is_digit c" using dec_str_hd[of i] cs False by simp
  then have "c \<noteq> CHR ''-''" "c \<noteq> CHR ''+''" by auto
  have "ParseUint 64 (dec_str i) = Inr i"
    using False assms by (simp add: ParseUint_def parse_uint_dec_str max_int64_def)
  with False assms cs \<open>c \<noteq> CHR ''-''\<close> \<open>c \<noteq> CHR ''+''\<close> show ?thesis
    by (simp add: Atoi_def Itoa_def signed_result_def)
qed

section \<open>Query escaping\<close>

text \<open>\<open>url.QueryEscape\<close> and \<open>url.QueryUnescape\<close> (mode encodeQueryComponent).\<close>

definition unreserved :: "char \<Rightarrow> bool" where
  "unreserved c \<longleftrightarrow> is_digit c \<or> is_upper c \<or> is_lower c \<or>
     c \<in> {CHR ''-'', CHR ''_'', CHR ''.'', CHR ''~''}"

definition upper_hex :: "nat \<Rightarrow> char" where
  "upper_hex n = (if n < 10 then char_of (48 + n) else char_of (55 + n))"

definition unhex :: "char \<Rightarrow> nat option" where
  "unhex c = (let n = char_nat c in
     if is_digit c then Some (n - 48)
     else if 97 \<le> n \<and> n \<le> 102 then Some (n - 87)
     else if 65 \<le> n \<and> n \<le> 70 then Some (n - 55)
     else None)"

definition escape_char :: "char \<Rightarrow> string" where
  "escape_char c =
     (if unreserved c then [c]
      else if c = CHR '' '' then ''+''
      else [CHR ''%'', upper_hex (char_nat c div 16), upper_hex (char_nat c mod 16)])"

definition QueryEscape :: "string \<Rightarrow> string" where
  "QueryEscape s = concat (map escape_char s)"

fun QueryUnescape :: "string \<Rightarrow> string option" where
  "QueryUnescape [] = Some []"
| "QueryUnescape (c # cs) =
     (if c = CHR ''%'' then
        (case cs of
           h # l # rest \<Rightarrow>
             (case (unhex h, unhex l) of
                (Some a, Some b) \<Rightarrow>
                  map_option (\<lambda>r. char_of (16 * a + b) # r) (QueryUnescape rest)
              | _ \<Rightarrow> None)
         | _ \<Rightarrow> None)
      else map_option (\<lambda>r. (if c = CHR ''+'' then CHR '' '' else c) # r) (QueryUnescape cs))"

lemma char_nat_less [simp]: "char_nat c < 256"
  unfolding char_nat_def by (cases c) simp

lemma char_of_char_nat [simp]: "char_of (char_nat c) = c"
  by (simp add: char_nat_def)

lemma char_nat_div16 [simp]: "char_nat c div 16 < 16"
  by (rule less_mult_imp_div_less) simp

lemma unhex_upper_hex [simp]: "n < 16 \<Longrightarrow> unhex (upper_hex n) = Some n"
  by (cases "n < 10") (simp_all add: unhex_def upper_hex_def is_digit_def Let_def)

lemma unreserved_special [simp]:
  "\<not> unreserved CHR ''%''" "\<not> unreserved CHR ''+''" "\<not> unreserved CHR '',''"
  "\<not> unreserved CHR '' ''" "\<not> unreserved CHR '';''" "\<not> unreserved CHR '':''"
  by (simp_all add: unreserved_def is_digit_def is_upper_def is_lower_def char_nat_def)

lemma upper_hex_unreserved [simp]: "n < 16 \<Longrightarrow> unreserved (upper_hex n)"
  by (cases "n < 10")
    (simp_all add: unreserved_def upper_hex_def is_digit_def is_upper_def)

lemma unescape_escape_char:
  "QueryUnescape (escape_char c @ r) = map_option (\<lambda>r. c # r) (QueryUnescape r)"
proof (cases "unreserved c")
  case True
  then have "c \<noteq> CHR ''%''" "c \<noteq> CHR ''+''" by auto
  with True show ?thesis by (simp add: escape_char_def)
next
  case False
  have "16 * (char_nat c div 16) + char_nat c mod 16 = char_nat c" by simp
  with False show ?thesis by (simp add: escape_char_def)
qed

lemma QueryUnescape_QueryEscape: "QueryUnescape (QueryEscape s) = Some s"
  unfolding QueryEscape_def by (induction s) (simp_all add: unescape_escape_char)

lemma QueryEscape_inj: "QueryEscape s = QueryEscape t \<longleftrightarrow> s = t"
  by (metis QueryUnescape_QueryEscape option.inject)

lemma QueryEscape_chars:
  "c \<in> set (QueryEscape s) \<Longrightarrow> unreserved c \<or> c = CHR ''+'' \<or> c = CHR ''%''"
proof -
  assume "c \<in> set (QueryEscape s)"
  then obtain d where c: "c \<in> set (escape_char d)" by (auto simp: QueryEscape_def)
  then show ?thesis by (auto simp: escape_char_def split: if_splits)
qed

lemma QueryEscape_no_comma: "CHR '','' \<notin> set (QueryEscape s)"
  using QueryEscape_chars[of "CHR '',''" s] by auto

lemma QueryEscape_Nil_iff [simp]: "QueryEscape s = [] \<longleftrightarrow> s = []"
  by (cases s) (auto simp: QueryEscape_def escape_char_def)

text \<open>
  Without a percent sign in the escaped text, every character was unreserved or a blank.
\<close>

lemma escape_no_percent:
  "CHR ''%'' \<notin> set (QueryEscape s) \<longleftrightarrow> (\<forall>c\<in>set s. unreserved c \<or> c = CHR '' '')"
proof -
  have "CHR ''%'' \<in> set (escape_char c) \<longleftrightarrow> \<not> (unreserved c \<or> c = CHR '' '')" for c
    by (auto simp: escape_char_def)
  then show ?thesis by (auto simp: QueryEscape_def)
qed

lemma QueryEscape_unreserved: "\<forall>c\<in>set s. unreserved c \<Longrightarrow> QueryEscape s = s"
  unfolding QueryEscape_def by (induction s) (simp_all add: escape_char_def)

end
