(* ===== verification/GoHeader.thy ===== *)
theory GoHeader
  imports GoConv
begin

text \<open>
  \<open>http.Header\<close>: a map from canonical field names to their values, as an association list
  (see Prelude), with the operations of package net/http.
\<close>

type_synonym header = "(string, string list) amap"

section \<open>Canonical field names\<close>

definition valid_field_byte :: "char \<Rightarrow> bool" where
  "valid_field_byte c \<longleftrightarrow> is_digit c \<or> is_upper c \<or> is_lower c \<or>
     c \<in> {CHR ''!'', CHR ''#'', CHR ''$'', CHR ''%'', CHR ''&'', CHR 0x27, CHR ''*'', CHR ''+'',
          CHR ''-'', CHR ''.'', CHR ''^'', CHR ''_'', CHR 0x60, CHR ''|'', CHR ''~''}"

fun canon_scan :: "bool \<Rightarrow> string \<Rightarrow> string" where
  "canon_scan upper [] = []"
| "canon_scan upper (c # cs) =
     (let d = (if upper then upper_char c else lower_char c) in d # canon_scan (d = CHR ''-'') cs)"

text \<open>\<open>http.CanonicalHeaderKey\<close>: names with other bytes are left as they are.\<close>

definition CanonicalHeaderKey :: "string \<Rightarrow> string" where
  "CanonicalHeaderKey s = (if list_all valid_field_byte s then canon_scan True s else s)"

section \<open>Operations\<close>

definition header_values :: "header \<Rightarrow> string \<Rightarrow> string list" where
  "header_values h k = (case map_of h (CanonicalHeaderKey k) of None \<Rightarrow> [] | Some vs \<Rightarrow> vs)"

definition header_get :: "header \<Rightarrow> string \<Rightarrow> string" where
  "header_get h k = (case header_values h k of [] \<Rightarrow> [] | v # _ \<Rightarrow> v)"

definition header_set :: "string \<Rightarrow> string \<Rightarrow> header \<Rightarrow> header" where
  "header_set k v h = amap_put (CanonicalHeaderKey k) [v] h"

definition header_add :: "string \<Rightarrow> string \<Rightarrow> header \<Rightarrow> header" where
  "header_add k v h = amap_put (CanonicalHeaderKey k) (header_values h k @ [v]) h"

definition header_del :: "string \<Rightarrow> header \<Rightarrow> header" where
  "header_del k h = amap_del (CanonicalHeaderKey k) h"

text \<open>\<open>headers[name]\<close>, an index expression without canonicalisation.\<close>

definition header_index :: "header \<Rightarrow> string \<Rightarrow> string list" where
  "header_index h k = (case map_of h k of None \<Rightarrow> [] | Some vs \<Rightarrow> vs)"

text \<open>\<open>maps.Copy(dst, src)\<close> and the loops \<open>for h, v := range src { dst[h] = v }\<close>.\<close>

definition header_copy :: "header \<Rightarrow> header \<Rightarrow> header" where
  "header_copy dst src = fold (\<lambda>(k, v) h. amap_put k v h) src dst"

subsection \<open>Laws\<close>

lemma header_get_set [simp]:
  "header_get (header_set k v h) k' =
     (if CanonicalHeaderKey k' = CanonicalHeaderKey k then v else header_get h k')"
  by (simp add: header_get_def header_values_def header_set_def)

lemma header_get_del [simp]:
  "header_get (header_del k h) k' =
     (if CanonicalHeaderKey k' = CanonicalHeaderKey k then [] else header_get h k')"
  by (simp add: header_get_def header_values_def header_del_def)

lemma header_values_set [simp]:
  "header_values (header_set k v h) k' =
     (if CanonicalHeaderKey k' = CanonicalHeaderKey k then [v] else header_values h k')"
  by (simp add: header_values_def header_set_def)

lemma header_values_del [simp]:
  "header_values (header_del k h) k' =
     (if CanonicalHeaderKey k' = CanonicalHeaderKey k then [] else header_values h k')"
  by (simp add: header_values_def header_del_def)

lemma header_ok_ops [simp, intro]:
  "amap_ok h \<Longrightarrow> amap_ok (header_set k v h)"
  "amap_ok h \<Longrightarrow> amap_ok (header_add k v h)"
  "amap_ok h \<Longrightarrow> amap_ok (header_del k h)"
  by (simp_all add: header_set_def header_add_def header_del_def)

lemma header_copy_ok [simp, intro]: "amap_ok h \<Longrightarrow> amap_ok (header_copy h src)"
  unfolding header_copy_def by (induction src arbitrary: h) auto

lemma map_of_header_copy:
  "amap_ok src \<Longrightarrow> map_of (header_copy dst src) k = (case map_of src k of None \<Rightarrow> map_of dst k | Some v \<Rightarrow> Some v)"
proof (induction src arbitrary: dst)
  case Nil
  then show ?case by (simp add: header_copy_def)
next
  case (Cons p src)
  obtain a b where p: "p = (a, b)" by fastforce
  have ok: "amap_ok src" and a: "a \<notin> set (amap_keys src)" using Cons.prems p by (simp_all add: amap_ok_def)
  have "map_of src a = None" using a by (simp add: map_of_eq_None_iff)
  with Cons.IH[OF ok, of "amap_put a b dst"] show ?case
    by (auto simp: header_copy_def p split: option.splits)
qed

lemma upper_lower_fixed:
  "upper_char (upper_char c) = upper_char c" "lower_char (lower_char c) = lower_char c"
  by (auto simp: upper_char_def lower_char_def is_upper_def is_lower_def)

lemma valid_byte_cases [simp]:
  "valid_field_byte c \<Longrightarrow> valid_field_byte (upper_char c)"
  "valid_field_byte c \<Longrightarrow> valid_field_byte (lower_char c)"
  by (auto simp: valid_field_byte_def upper_char_def lower_char_def is_upper_def is_lower_def)

lemma canon_scan_valid: "list_all valid_field_byte s \<Longrightarrow> list_all valid_field_byte (canon_scan u s)"
  by (induction u s rule: canon_scan.induct) (auto simp: Let_def)

lemma canon_scan_idem: "canon_scan u (canon_scan u s) = canon_scan u s"
  by (induction u s rule: canon_scan.induct) (auto simp: Let_def upper_lower_fixed)

lemma CanonicalHeaderKey_idem [simp]:
  "CanonicalHeaderKey (CanonicalHeaderKey s) = CanonicalHeaderKey s"
  by (simp add: CanonicalHeaderKey_def canon_scan_valid canon_scan_idem)

section \<open>Comma-separated values\<close>

text \<open>\<open>rfc.HeaderAllCommaSepValues\<close> and \<open>HeaderAllCommaSepValuesString\<close> (pkg/rfc/utils.go).\<close>

definition HeaderAllCommaSepValues :: "header \<Rightarrow> string \<Rightarrow> string list" where
  "HeaderAllCommaSepValues headers headerName =
     concat (map (\<lambda>val. map TrimSpace (Split val '',''))
       (header_index headers (CanonicalHeaderKey headerName)))"

definition HeaderAllCommaSepValuesString :: "header \<Rightarrow> string \<Rightarrow> string" where
  "HeaderAllCommaSepValuesString headers headerName =
     Join (HeaderAllCommaSepValues headers headerName) '', ''"

section \<open>Writing a header\<close>

text \<open>
  \<open>Header.Write\<close>: fields in the order of their names, one line per value, line breaks in a
  value turned into blanks; names that are no valid field names are skipped.
\<close>

definition crlf :: string where
  "crlf = [CHR 0x0D, CHR 0x0A]"

definition newline_to_space :: "string \<Rightarrow> string" where
  "newline_to_space v = map (\<lambda>c. if c = CHR 0x0D \<or> c = CHR 0x0A then CHR '' '' else c) v"

definition header_line :: "string \<Rightarrow> string \<Rightarrow> string" where
  "header_line k v = k @ '': '' @ TrimString (newline_to_space v) @ crlf"

definition header_write :: "header \<Rightarrow> string" where
  "header_write h =
     concat (map (\<lambda>k. if k \<noteq> [] \<and> list_all valid_field_byte k
                      then concat (map (header_line k) (header_index h k)) else [])
       (sort (amap_keys h)))"

end
