(* ===== verification/CacheObject.thy ===== *)
theory CacheObject
  imports GoHeader
begin

text \<open>
  Cache-Control parsing: package cacheobject (pquerna/cachecontrol v0.2.0), whose source the
  repository vendors under plugins/traefik/vendor.  The index arithmetic of \<open>parse\<close> becomes
  recursion on the unread rest of the value.  Delta seconds are \<open>int32\<close> in the code; here they
  are integers, and \<open>cc_bounded\<close> states that they stay within \<open>int32\<close>.  A header value that
  does not parse gives a nil directive set, which is \<open>None\<close>.
\<close>

section \<open>Lexical rules\<close>

definition cc_whitespace :: "char \<Rightarrow> bool" where
  "cc_whitespace c \<longleftrightarrow> char_nat c = 9 \<or> char_nat c = 32"

definition isSeparator :: "char \<Rightarrow> bool" where
  "isSeparator c \<longleftrightarrow> c \<in> {CHR ''('', CHR '')'', CHR ''<'', CHR ''>'', CHR ''@'', CHR '','', CHR '';'',
     CHR '':'', CHR 0x5C, CHR 0x22, CHR ''/'', CHR ''['', CHR '']'', CHR ''?'', CHR ''='',
     CHR ''{'', CHR ''}'', CHR '' '', CHR 0x09}"

definition isCtl :: "char \<Rightarrow> bool" where
  "isCtl c \<longleftrightarrow> char_nat c \<le> 31 \<or> char_nat c = 127"

definition isToken :: "char \<Rightarrow> bool" where
  "isToken c \<longleftrightarrow> char_nat c \<le> 127 \<and> \<not> isCtl c \<and> \<not> isSeparator c"

definition isQdText :: "char \<Rightarrow> bool" where
  "isQdText c \<longleftrightarrow> \<not> isCtl c \<and> c \<noteq> CHR 0x22"

definition httpUnquotePair :: "char \<Rightarrow> char" where
  "httpUnquotePair b =
     (if b = CHR ''a'' then CHR 0x07 else if b = CHR ''b'' then CHR 0x08
      else if b = CHR ''f'' then CHR 0x0C else if b = CHR ''n'' then CHR 0x0A
      else if b = CHR ''r'' then CHR 0x0D else if b = CHR ''t'' then CHR 0x09
      else if b = CHR ''v'' then CHR 0x0B
      else if b = CHR 0x5C \<or> b = CHR 0x27 \<or> b = CHR 0x22 then b else CHR ''?'')"

text \<open>
  The loop of \<open>httpUnquote\<close> after the opening quote: the unquoted text and what follows the
  closing quote; \<open>None\<close> stands for the returned \<open>-1\<close>.
\<close>

fun unquote_loop :: "string \<Rightarrow> string \<Rightarrow> (string \<times> string) option" where
  "unquote_loop acc [] = None"
| "unquote_loop acc (b # bs) =
     (if b = CHR 0x22 then Some (rev acc, bs)
      else if b = CHR 0x5C then
        (case bs of [] \<Rightarrow> None | e # es \<Rightarrow> unquote_loop (httpUnquotePair e # acc) es)
      else unquote_loop ((if isQdText b then b else CHR ''?'') # acc) bs)"

definition httpUnquote :: "string \<Rightarrow> (string \<times> string) option" where
  "httpUnquote raw = (case raw of
       [] \<Rightarrow> None
     | q # rest \<Rightarrow> if q \<noteq> CHR 0x22 then None else unquote_loop [] rest)"

lemma unquote_loop_length: "unquote_loop acc s = Some (t, r) \<Longrightarrow> length r < length s"
  by (induction acc s rule: unquote_loop.induct) (auto split: if_splits list.splits)

lemma httpUnquote_length: "httpUnquote s = Some (t, r) \<Longrightarrow> length r < length s"
  by (auto simp: httpUnquote_def dest: unquote_loop_length split: list.splits if_splits)

section \<open>Errors and delta seconds\<close>

datatype cc_error =
    ErrQuoteMismatch
  | ErrMaxAgeDeltaSeconds
  | ErrSMaxAgeDeltaSeconds
  | ErrMaxStaleDeltaSeconds
  | ErrMinFreshDeltaSeconds
  | ErrStaleIfErrorDeltaSeconds
  | ErrDeltaSyntax
  | ErrNoArgs string

definition MaxInt32 :: int where
  "MaxInt32 = 2147483647"

definition parseDeltaSeconds :: "string \<Rightarrow> cc_error + int" where
  "parseDeltaSeconds v = (case ParseUint 32 v of
       Inl ErrRange \<Rightarrow> Inr MaxInt32
     | Inl ErrSyntax \<Rightarrow> Inl ErrDeltaSyntax
     | Inr n \<Rightarrow> if MaxInt32 < n then Inr MaxInt32 else Inr n)"

lemma parse_uint_scan_nonneg: "0 \<le> n \<Longrightarrow> parse_uint_scan mx n s = Inr m \<Longrightarrow> 0 \<le> m"
proof (induction mx n s rule: parse_uint_scan.induct)
  case (2 mx n c cs)
  then show ?case using digit_val_bounds[of c] by (auto simp: Let_def split: if_splits)
qed simp

lemma parseDeltaSeconds_bounds: "parseDeltaSeconds v = Inr n \<Longrightarrow> 0 \<le> n \<and> n \<le> MaxInt32"
  using parse_uint_scan_nonneg[of 0 "2 ^ 32 - 1" v]
  by (auto simp: parseDeltaSeconds_def ParseUint_def MaxInt32_def split: sum.splits num_error.splits if_splits)

section \<open>Directive sets\<close>

record request_directives =
  rq_MaxAge :: int
  rq_MaxStale :: int
  rq_MaxStaleSet :: bool
  rq_MinFresh :: int
  rq_NoCache :: bool
  rq_NoStore :: bool
  rq_NoTransform :: bool
  rq_OnlyIfCached :: bool
  rq_StaleIfError :: int
  rq_Extensions :: "string list"

record response_directives =
  rs_MustRevalidate :: bool
  rs_NoCache :: "(string, bool) amap"
  rs_NoCachePresent :: bool
  rs_NoStore :: bool
  rs_NoTransform :: bool
  rs_Public :: bool
  rs_Private :: "(string, bool) amap"
  rs_PrivatePresent :: bool
  rs_ProxyRevalidate :: bool
  rs_MaxAge :: int
  rs_SMaxAge :: int
  rs_Immutable :: bool
  rs_StaleIfError :: int
  rs_StaleWhileRevalidate :: int
  rs_Extensions :: "string list"

text \<open>The results of a pair whose value is a number of seconds.\<close>

definition delta_field :: "cc_error \<Rightarrow> string \<Rightarrow> (int \<Rightarrow> 'd) \<Rightarrow> cc_error + 'd" where
  "delta_field e v upd = (case parseDeltaSeconds v of Inl _ \<Rightarrow> Inl e | Inr n \<Rightarrow> Inr (upd n))"

definition rq_addToken :: "string \<Rightarrow> request_directives \<Rightarrow> cc_error + request_directives" where
  "rq_addToken token cd =
     (if token = ''max-age'' then Inl ErrMaxAgeDeltaSeconds
      else if token = ''min-fresh'' then Inl ErrMinFreshDeltaSeconds
      else if token = ''max-stale'' then Inr (cd\<lparr>rq_MaxStaleSet := True\<rparr>)
      else if token = ''no-cache'' then Inr (cd\<lparr>rq_NoCache := True\<rparr>)
      else if token = ''no-store'' then Inr (cd\<lparr>rq_NoStore := True\<rparr>)
      else if token = ''no-transform'' then Inr (cd\<lparr>rq_NoTransform := True\<rparr>)
      else if token = ''only-if-cached'' then Inr (cd\<lparr>rq_OnlyIfCached := True\<rparr>)
      else if token = ''stale-if-error'' then Inl ErrMaxAgeDeltaSeconds
      else Inr (cd\<lparr>rq_Extensions := rq_Extensions cd @ [token]\<rparr>))"

definition rq_addPair :: "string \<Rightarrow> string \<Rightarrow> request_directives \<Rightarrow> cc_error + request_directives" where
  "rq_addPair token v cd =
     (if token = ''max-age'' then delta_field ErrMaxAgeDeltaSeconds v (\<lambda>n. cd\<lparr>rq_MaxAge := n\<rparr>)
      else if token = ''max-stale'' then delta_field ErrMaxStaleDeltaSeconds v (\<lambda>n. cd\<lparr>rq_MaxStale := n\<rparr>)
      else if token = ''min-fresh'' then delta_field ErrMinFreshDeltaSeconds v (\<lambda>n. cd\<lparr>rq_MinFresh := n\<rparr>)
      else if token \<in> {''no-cache'', ''no-store'', ''no-transform'', ''only-if-cached''} then Inl (ErrNoArgs token)
      else if token = ''stale-if-error'' then delta_field ErrStaleIfErrorDeltaSeconds v (\<lambda>n. cd\<lparr>rq_StaleIfError := n\<rparr>)
      else Inr (cd\<lparr>rq_Extensions := rq_Extensions cd @ [token @ ''='' @ v]\<rparr>))"

definition hasFieldNames :: "string \<Rightarrow> bool" where
  "hasFieldNames token \<longleftrightarrow> token = ''no-cache'' \<or> token = ''private''"

definition rs_addToken :: "string \<Rightarrow> response_directives \<Rightarrow> cc_error + response_directives" where
  "rs_addToken token cd =
     (if token = ''must-revalidate'' then Inr (cd\<lparr>rs_MustRevalidate := True\<rparr>)
      else if token = ''no-cache'' then Inr (cd\<lparr>rs_NoCachePresent := True\<rparr>)
      else if token = ''no-store'' then Inr (cd\<lparr>rs_NoStore := True\<rparr>)
      else if token = ''no-transform'' then Inr (cd\<lparr>rs_NoTransform := True\<rparr>)
      else if token = ''public'' then Inr (cd\<lparr>rs_Public := True\<rparr>)
      else if token = ''private'' then Inr (cd\<lparr>rs_PrivatePresent := True\<rparr>)
      else if token = ''proxy-revalidate'' then Inr (cd\<lparr>rs_ProxyRevalidate := True\<rparr>)
      else if token = ''max-age'' then Inl ErrMaxAgeDeltaSeconds
      else if token = ''s-maxage'' then Inl ErrSMaxAgeDeltaSeconds
      else if token = ''immutable'' then Inr (cd\<lparr>rs_Immutable := True\<rparr>)
      else if token = ''stale-if-error'' then Inl ErrMaxAgeDeltaSeconds
      else if token = ''stale-while-revalidate'' then Inl ErrMaxAgeDeltaSeconds
      else Inr (cd\<lparr>rs_Extensions := rs_Extensions cd @ [token]\<rparr>))"

text \<open>A list of field names adds each of them, trimmed and canonical, to the set.\<close>

definition add_field_names :: "string \<Rightarrow> (string, bool) amap \<Rightarrow> (string, bool) amap" where
  "add_field_names v m =
     fold (\<lambda>t m. amap_put (CanonicalHeaderKey (TrimString t)) True m) (Split v '','') m"

definition rs_addPair :: "string \<Rightarrow> string \<Rightarrow> response_directives \<Rightarrow> cc_error + response_directives" where
  "rs_addPair token v cd =
     (if token \<in> {''must-revalidate'', ''no-store'', ''no-transform'', ''public'', ''proxy-revalidate'', ''immutable''}
      then Inl (ErrNoArgs token)
      else if token = ''no-cache''
        then Inr (cd\<lparr>rs_NoCachePresent := True, rs_NoCache := add_field_names v (rs_NoCache cd)\<rparr>)
      else if token = ''private''
        then Inr (cd\<lparr>rs_PrivatePresent := True, rs_Private := add_field_names v (rs_Private cd)\<rparr>)
      else if token = ''max-age'' then delta_field ErrDeltaSyntax v (\<lambda>n. cd\<lparr>rs_MaxAge := n\<rparr>)
      else if token = ''s-maxage'' then delta_field ErrDeltaSyntax v (\<lambda>n. cd\<lparr>rs_SMaxAge := n\<rparr>)
      else if token = ''stale-if-error'' then delta_field ErrDeltaSyntax v (\<lambda>n. cd\<lparr>rs_StaleIfError := n\<rparr>)
      else if token = ''stale-while-revalidate''
        then delta_field ErrDeltaSyntax v (\<lambda>n. cd\<lparr>rs_StaleWhileRevalidate := n\<rparr>)
      else Inr (cd\<lparr>rs_Extensions := rs_Extensions cd @ [token @ ''='' @ v]\<rparr>))"

section \<open>The scanner\<close>

text \<open>
  One step of the loop of \<open>parse\<close> at a byte that is neither blank nor comma: the token, then a
  quoted or plain value after an equals sign, and the unread rest.
\<close>

datatype cc_item = Token string | Pair string string

definition drop_last_comma :: "string \<Rightarrow> string" where
  "drop_last_comma v = (if v \<noteq> [] \<and> last v = CHR '','' then butlast v else v)"

definition scan_item :: "string \<Rightarrow> cc_error + (cc_item \<times> string)" where
  "scan_item s =
     (let token = ToLower (hd s # takeWhile isToken (tl s));
          rest = dropWhile isToken (tl s)
      in case rest of
           e # q # qs \<Rightarrow>
             if e = CHR ''='' then
               (if q = CHR 0x22 then
                  (case httpUnquote (q # qs) of
                     None \<Rightarrow> Inl ErrQuoteMismatch
                   | Some (result, r) \<Rightarrow> Inr (Pair token result, r))
                else
                  let stop = (\<lambda>c. cc_whitespace c \<or> (\<not> hasFieldNames token \<and> c = CHR '',''));
                      value = takeWhile (\<lambda>c. \<not> stop c) (q # qs)
                  in Inr (Pair token (drop_last_comma value), dropWhile (\<lambda>c. \<not> stop c) (q # qs)))
             else Inr (Token token, rest)
         | _ \<Rightarrow> Inr (Token token, rest))"

definition add_item ::
  "(string \<Rightarrow> 'd \<Rightarrow> cc_error + 'd) \<Rightarrow> (string \<Rightarrow> string \<Rightarrow> 'd \<Rightarrow> cc_error + 'd) \<Rightarrow> cc_item \<Rightarrow> 'd \<Rightarrow> cc_error + 'd" where
  "add_item addToken addPair it cd =
     (case it of Token t \<Rightarrow> addToken t cd | Pair t v \<Rightarrow> addPair t v cd)"

lemma scan_item_rest:
  assumes "scan_item s = Inr (it, r)"
  shows "length r \<le> length (dropWhile isToken (tl s))"
proof -
  define rest where "rest = dropWhile isToken (tl s)"
  from assms have "length r \<le> length rest"
    by (cases rest rule: remdups_adj.cases)
      (auto simp: scan_item_def Let_def rest_def [symmetric] split: if_splits option.splits
        dest!: httpUnquote_length intro: le_trans[OF length_dropWhile_le])
  then show ?thesis by (simp add: rest_def)
qed

lemma scan_item_shorter:
  assumes "scan_item s = Inr (it, r)" and "s \<noteq> []"
  shows "length r < length s"
proof -
  have "length (dropWhile isToken (tl s)) < length s"
    using assms(2) length_dropWhile_le[of isToken "tl s"] by (cases s) auto
  with scan_item_rest[OF assms(1)] show ?thesis by simp
qed

function cc_parse ::
  "(string \<Rightarrow> 'd \<Rightarrow> cc_error + 'd) \<Rightarrow> (string \<Rightarrow> string \<Rightarrow> 'd \<Rightarrow> cc_error + 'd) \<Rightarrow> string \<Rightarrow> 'd \<Rightarrow> cc_error + 'd" where
  "cc_parse addToken addPair s cd =
     (case s of
        [] \<Rightarrow> Inr cd
      | c # cs \<Rightarrow>
          if cc_whitespace c \<or> c = CHR '','' then cc_parse addToken addPair cs cd
          else (case scan_item (c # cs) of
              Inl e \<Rightarrow> Inl e
            | Inr (it, r) \<Rightarrow>
                (case add_item addToken addPair it cd of
                   Inl e \<Rightarrow> Inl e
                 | Inr cd' \<Rightarrow> cc_parse addToken addPair r cd')))"
  by pat_completeness auto
termination
  by (relation "measure (\<lambda>(_, _, s, _). length s)") (auto dest!: scan_item_shorter)

declare cc_parse.simps [simp del]

definition request_directives0 :: request_directives where
  "request_directives0 = \<lparr>rq_MaxAge = -1, rq_MaxStale = -1, rq_MaxStaleSet = False, rq_MinFresh = -1,
     rq_NoCache = False, rq_NoStore = False, rq_NoTransform = False, rq_OnlyIfCached = False,
     rq_StaleIfError = 0, rq_Extensions = []\<rparr>"

definition response_directives0 :: response_directives where
  "response_directives0 = \<lparr>rs_MustRevalidate = False, rs_NoCache = [], rs_NoCachePresent = False,
     rs_NoStore = False, rs_NoTransform = False, rs_Public = False, rs_Private = [],
     rs_PrivatePresent = False, rs_ProxyRevalidate = False, rs_MaxAge = -1, rs_SMaxAge = -1,
     rs_Immutable = False, rs_StaleIfError = -1, rs_StaleWhileRevalidate = -1, rs_Extensions = []\<rparr>"

definition ok_or_nil :: "cc_error + 'd \<Rightarrow> 'd option" where
  "ok_or_nil r = (case r of Inl _ \<Rightarrow> None | Inr d \<Rightarrow> Some d)"

definition ParseRequestCacheControl :: "string \<Rightarrow> request_directives option" where
  "ParseRequestCacheControl value = ok_or_nil (cc_parse rq_addToken rq_addPair value request_directives0)"

definition ParseResponseCacheControl :: "string \<Rightarrow> response_directives option" where
  "ParseResponseCacheControl value = ok_or_nil (cc_parse rs_addToken rs_addPair value response_directives0)"

section \<open>Properties\<close>

text \<open>An invariant that every directive keeps holds for whatever the scanner returns.\<close>

lemma cc_parse_invariant:
  assumes "cc_parse addToken addPair s cd = Inr cd'" and "P cd"
    and "\<And>it cd cd'. P cd \<Longrightarrow> add_item addToken addPair it cd = Inr cd' \<Longrightarrow> P cd'"
  shows "P cd'"
  using assms
proof (induction addToken addPair s cd rule: cc_parse.induct)
  case (1 addToken addPair s cd)
  show ?case
  proof (cases s)
    case Nil
    with 1 show ?thesis by (simp add: cc_parse.simps[of _ _ "[]"])
  next
    case (Cons c cs)
    show ?thesis
    proof (cases "cc_whitespace c \<or> c = CHR '',''")
      case True
      with 1 Cons show ?thesis by (auto simp: cc_parse.simps[of _ _ "c # cs"])
    next
      case False
      from 1(3) Cons False obtain it r cd1 where it: "scan_item (c # cs) = Inr (it, r)"
        and cd1: "add_item addToken addPair it cd = Inr cd1"
        and rest: "cc_parse addToken addPair r cd1 = Inr cd'"
        by (auto simp: cc_parse.simps[of _ _ "c # cs"] split: sum.splits prod.splits)
      have "P cd1" using 1(5)[OF 1(4) cd1] .
      with 1(2)[OF Cons False it refl cd1 rest] 1(5) show ?thesis by blast
    qed
  qed
qed

definition delta_ok :: "int \<Rightarrow> bool" where
  "delta_ok n \<longleftrightarrow> -1 \<le> n \<and> n \<le> MaxInt32"

definition rq_bounded :: "request_directives \<Rightarrow> bool" where
  "rq_bounded cd \<longleftrightarrow> delta_ok (rq_MaxAge cd) \<and> delta_ok (rq_MaxStale cd) \<and> delta_ok (rq_MinFresh cd)
     \<and> delta_ok (rq_StaleIfError cd)"

definition rs_bounded :: "response_directives \<Rightarrow> bool" where
  "rs_bounded cd \<longleftrightarrow> delta_ok (rs_MaxAge cd) \<and> delta_ok (rs_SMaxAge cd) \<and> delta_ok (rs_StaleIfError cd)
     \<and> delta_ok (rs_StaleWhileRevalidate cd)"

lemma delta_field_Inr:
  assumes "delta_field e v upd = Inr d"
  shows "\<exists>n. delta_ok n \<and> d = upd n"
proof -
  from assms obtain n where "parseDeltaSeconds v = Inr n" "d = upd n"
    by (auto simp: delta_field_def split: sum.splits)
  moreover from this parseDeltaSeconds_bounds[of v n] have "delta_ok n" by (simp add: delta_ok_def)
  ultimately show ?thesis by blast
qed

lemma rq_add_item_bounded:
  "rq_bounded cd \<Longrightarrow> add_item rq_addToken rq_addPair it cd = Inr cd' \<Longrightarrow> rq_bounded cd'"
  by (cases it)
    (auto simp: add_item_def rq_addToken_def rq_addPair_def rq_bounded_def
      dest!: delta_field_Inr split: if_splits)

lemma rs_add_item_bounded:
  "rs_bounded cd \<Longrightarrow> add_item rs_addToken rs_addPair it cd = Inr cd' \<Longrightarrow> rs_bounded cd'"
  by (cases it)
    (auto simp: add_item_def rs_addToken_def rs_addPair_def rs_bounded_def
      dest!: delta_field_Inr split: if_splits)

lemma ParseRequestCacheControl_bounded:
  "ParseRequestCacheControl v = Some cd \<Longrightarrow> rq_bounded cd"
  unfolding ParseRequestCacheControl_def ok_or_nil_def
  by (auto split: sum.splits dest!: cc_parse_invariant[where P = rq_bounded]
      intro: rq_add_item_bounded simp: rq_bounded_def delta_ok_def request_directives0_def MaxInt32_def)

text \<open>
  Every delta-seconds of a parsed response \<open>Cache-Control\<close> is \<open>-1\<close> (absent) or lies between zero
  and the largest 32-bit integer, whatever number the header holds.
\<close>

theorem ParseResponseCacheControl_bounded:
  assumes "ParseResponseCacheControl v = Some cd"
  shows "delta_ok (rs_MaxAge cd) \<and> delta_ok (rs_SMaxAge cd) \<and> delta_ok (rs_StaleIfError cd)
    \<and> delta_ok (rs_StaleWhileRevalidate cd)"
proof -
  have "rs_bounded cd"
    using assms unfolding ParseResponseCacheControl_def ok_or_nil_def
    by (auto split: sum.splits dest!: cc_parse_invariant[where P = rs_bounded]
        intro: rs_add_item_bounded simp: rs_bounded_def delta_ok_def response_directives0_def MaxInt32_def)
  then show ?thesis by (simp add: rs_bounded_def)
qed

theorem ParseResponseCacheControl_bounded_witness:
  "\<exists>cd. ParseResponseCacheControl ''max-age=99999999999'' = Some cd \<and> delta_ok (rs_MaxAge cd)
     \<and> rs_MaxAge cd = MaxInt32"
proof -
  have "map_option rs_MaxAge (ParseResponseCacheControl ''max-age=99999999999'') = Some MaxInt32"
    by code_simp
  then obtain cd where "ParseResponseCacheControl ''max-age=99999999999'' = Some cd" "rs_MaxAge cd = MaxInt32" by auto
  with ParseResponseCacheControl_bounded show ?thesis by blast
qed

end
