(* ===== verification/GoTime.thy ===== *)
theory GoTime
  imports GoConv
begin

text \<open>
  Go's package time, as far as the program uses it: instants and durations are integers counting
  nanoseconds (instants from the Unix epoch), the text layouts RFC1123, \<open>http.TimeFormat\<close>,
  RFC850, ANSIC and RFC3339, and the text form of durations.  Local time is UTC.  The program's
  durations stay within \<open>int64\<close>; \<open>fits_duration\<close> states it where a theorem needs it.
\<close>

type_synonym gtime = int
type_synonym duration = int

definition Nanosecond :: duration where "Nanosecond = 1"
definition Microsecond :: duration where "Microsecond = 1000"
definition Millisecond :: duration where "Millisecond = 1000000"
definition Second :: duration where "Second = 1000000000"
definition Minute :: duration where "Minute = 60 * Second"
definition Hour :: duration where "Hour = 60 * Minute"

definition fits_duration :: "duration \<Rightarrow> bool" where
  "fits_duration d \<longleftrightarrow> min_int64 \<le> d \<and> d \<le> max_int64"

text \<open>\<open>time.Time{}\<close>: the first instant of year 1.\<close>

definition zero_time :: gtime where
  "zero_time = -62135596800 * Second"

text \<open>\<open>int(d.Seconds())\<close> truncates toward zero; \<open>math.Ceil(d.Seconds())\<close> rounds up.\<close>

definition Seconds_trunc :: "duration \<Rightarrow> int" where
  "Seconds_trunc d = (if d < 0 then - ((- d) div Second) else d div Second)"

definition Seconds_ceil :: "duration \<Rightarrow> int" where
  "Seconds_ceil d = - ((- d) div Second)"

section \<open>Calendar\<close>

record civil =
  c_year :: int
  c_month :: int
  c_day :: int

definition civil_of_days :: "int \<Rightarrow> civil" where
  "civil_of_days days =
     (let z = days + 719468;
          era = z div 146097;
          doe = z mod 146097;
          yoe = (doe - doe div 1460 + doe div 36524 - doe div 146096) div 365;
          doy = doe - (365 * yoe + yoe div 4 - yoe div 100);
          mp = (5 * doy + 2) div 153;
          d = doy - (153 * mp + 2) div 5 + 1;
          m = (if mp < 10 then mp + 3 else mp - 9)
      in \<lparr>c_year = yoe + era * 400 + (if m \<le> 2 then 1 else 0), c_month = m, c_day = d\<rparr>)"

definition days_of_civil :: "civil \<Rightarrow> int" where
  "days_of_civil c =
     (let y = (if c_month c \<le> 2 then c_year c - 1 else c_year c);
          era = y div 400;
          yoe = y mod 400;
          mp = (if c_month c > 2 then c_month c - 3 else c_month c + 9);
          doy = (153 * mp + 2) div 5 + c_day c - 1;
          doe = yoe * 365 + yoe div 4 - yoe div 100 + doy
      in era * 146097 + doe - 719468)"

definition is_leap :: "int \<Rightarrow> bool" where
  "is_leap y \<longleftrightarrow> y mod 4 = 0 \<and> (y mod 100 \<noteq> 0 \<or> y mod 400 = 0)"

definition days_in_month :: "int \<Rightarrow> int \<Rightarrow> int" where
  "days_in_month m y =
     (if m = 2 then (if is_leap y then 29 else 28)
      else if m \<in> {4, 6, 9, 11} then 30 else 31)"

text \<open>Weekday of a day number, Sunday being 0.\<close>

definition weekday_of_days :: "int \<Rightarrow> int" where
  "weekday_of_days days = (days + 4) mod 7"

section \<open>Layouts\<close>

definition short_days :: "string list" where
  "short_days = [''Sun'', ''Mon'', ''Tue'', ''Wed'', ''Thu'', ''Fri'', ''Sat'']"

definition long_days :: "string list" where
  "long_days = [''Sunday'', ''Monday'', ''Tuesday'', ''Wednesday'', ''Thursday'', ''Friday'',
     ''Saturday'']"

definition short_months :: "string list" where
  "short_months = [''Jan'', ''Feb'', ''Mar'', ''Apr'', ''May'', ''Jun'', ''Jul'', ''Aug'',
     ''Sep'', ''Oct'', ''Nov'', ''Dec'']"

datatype lay =
    Lit string
  | LWeekDay
  | LLongWeekDay
  | LZeroDay
  | LUnderDay
  | LMonth
  | LYear2
  | LYear4
  | LHour
  | LMinute
  | LSecond
  | LTZ

text \<open>\<open>time.RFC1123\<close>, \<open>http.TimeFormat\<close>, \<open>time.RFC850\<close>, \<open>time.ANSIC\<close>.\<close>

definition RFC1123 :: "lay list" where
  "RFC1123 = [LWeekDay, Lit '', '', LZeroDay, Lit '' '', LMonth, Lit '' '', LYear4, Lit '' '',
     LHour, Lit '':'', LMinute, Lit '':'', LSecond, Lit '' '', LTZ]"

definition TimeFormat :: "lay list" where
  "TimeFormat = [LWeekDay, Lit '', '', LZeroDay, Lit '' '', LMonth, Lit '' '', LYear4, Lit '' '',
     LHour, Lit '':'', LMinute, Lit '':'', LSecond, Lit '' GMT'']"

definition RFC850 :: "lay list" where
  "RFC850 = [LLongWeekDay, Lit '', '', LZeroDay, Lit ''-'', LMonth, Lit ''-'', LYear2, Lit '' '',
     LHour, Lit '':'', LMinute, Lit '':'', LSecond, Lit '' '', LTZ]"

definition ANSIC :: "lay list" where
  "ANSIC = [LWeekDay, Lit '' '', LMonth, Lit '' '', LUnderDay, Lit '' '',
     LHour, Lit '':'', LMinute, Lit '':'', LSecond, Lit '' '', LYear4]"

subsection \<open>Formatting\<close>

definition pad2 :: "int \<Rightarrow> string" where
  "pad2 n = (if n < 10 then CHR ''0'' # dec_str n else dec_str n)"

definition pad4 :: "int \<Rightarrow> string" where
  "pad4 n = (let s = dec_str n in replicate (4 - length s) CHR ''0'' @ s)"

definition format_elem :: "gtime \<Rightarrow> lay \<Rightarrow> string" where
  "format_elem t l =
     (let secs = t div Second; days = secs div 86400; sod = secs mod 86400;
          c = civil_of_days days; wd = nat (weekday_of_days days)
      in case l of
           Lit s \<Rightarrow> s
         | LWeekDay \<Rightarrow> short_days ! wd
         | LLongWeekDay \<Rightarrow> long_days ! wd
         | LZeroDay \<Rightarrow> pad2 (c_day c)
         | LUnderDay \<Rightarrow> (if c_day c < 10 then CHR '' '' # dec_str (c_day c)
                        else dec_str (c_day c))
         | LMonth \<Rightarrow> short_months ! nat (c_month c - 1)
         | LYear2 \<Rightarrow> pad2 (c_year c mod 100)
         | LYear4 \<Rightarrow> pad4 (c_year c)
         | LHour \<Rightarrow> pad2 (sod div 3600)
         | LMinute \<Rightarrow> pad2 (sod mod 3600 div 60)
         | LSecond \<Rightarrow> pad2 (sod mod 60)
         | LTZ \<Rightarrow> ''UTC'')"

text \<open>\<open>t.Format(layout)\<close> for a UTC instant of the years 0 to 9999.\<close>

definition Format :: "lay list \<Rightarrow> gtime \<Rightarrow> string" where
  "Format ls t = concat (map (format_elem t) ls)"

subsection \<open>Parsing\<close>

record tfields =
  f_year :: int
  f_month :: int
  f_day :: int
  f_hour :: int
  f_min :: int
  f_sec :: int
  f_nsec :: int

definition tfields0 :: tfields where
  "tfields0 = \<lparr>f_year = 0, f_month = -1, f_day = -1, f_hour = 0, f_min = 0, f_sec = 0, f_nsec = 0\<rparr>"

text \<open>\<open>skip\<close>: one blank of the layout stands for any run of blanks, none included only at the end.\<close>

function skip_lit :: "string \<Rightarrow> string \<Rightarrow> string option" where
  "skip_lit [] v = Some v"
| "skip_lit (p # ps) v =
     (if p = CHR '' '' then
        (if v \<noteq> [] \<and> hd v \<noteq> CHR '' '' then None
         else skip_lit (dropWhile (\<lambda>c. c = CHR '' '') ps) (dropWhile (\<lambda>c. c = CHR '' '') v))
      else case v of
          [] \<Rightarrow> None
        | c # cs \<Rightarrow> if c = p then skip_lit ps cs else None)"
  by pat_completeness auto
termination
  by (relation "measure (\<lambda>(p, v). length p)")
    (auto simp: le_imp_less_Suc length_dropWhile_le)

definition fold_eq :: "string \<Rightarrow> string \<Rightarrow> bool" where
  "fold_eq a b \<longleftrightarrow> ToLower a = ToLower b"

fun lookup_name :: "nat \<Rightarrow> string list \<Rightarrow> string \<Rightarrow> (nat \<times> string) option" where
  "lookup_name i [] v = None"
| "lookup_name i (n # ns) v =
     (if length n \<le> length v \<and> fold_eq (take (length n) v) n
      then Some (i, drop (length n) v) else lookup_name (Suc i) ns v)"

definition digit_at :: "string \<Rightarrow> nat \<Rightarrow> bool" where
  "digit_at s i \<longleftrightarrow> i < length s \<and> is_digit (s ! i)"

definition getnum :: "string \<Rightarrow> bool \<Rightarrow> (int \<times> string) option" where
  "getnum s fixed =
     (if \<not> digit_at s 0 then None
      else if \<not> digit_at s 1 then (if fixed then None else Some (digit_val (s ! 0), drop 1 s))
      else Some (digit_val (s ! 0) * 10 + digit_val (s ! 1), drop 2 s))"

fun digits_value :: "int \<Rightarrow> string \<Rightarrow> int" where
  "digits_value n [] = n"
| "digits_value n (c # cs) = digits_value (n * 10 + digit_val c) cs"

definition all_digits :: "string \<Rightarrow> bool" where
  "all_digits s \<longleftrightarrow> list_all is_digit s"

text \<open>Zone abbreviations, \<open>parseTimeZone\<close>; the result is how many bytes they take.\<close>

definition signed_offset_len :: "string \<Rightarrow> nat" where
  "signed_offset_len v =
     (case v of
        [] \<Rightarrow> 0
      | c # cs \<Rightarrow>
          let ds = takeWhile is_digit cs
          in if c \<noteq> CHR ''+'' \<and> c \<noteq> CHR ''-'' then 0
             else if ds = [] \<or> 23 < digits_value 0 ds then 0 else Suc (length ds))"

definition time_zone_len :: "string \<Rightarrow> nat option" where
  "time_zone_len v =
     (if length v < 3 then None
      else if 4 \<le> length v \<and> (take 4 v = ''ChST'' \<or> take 4 v = ''MeST'') then Some 4
      else if take 3 v = ''GMT'' then Some (3 + signed_offset_len (drop 3 v))
      else if v ! 0 = CHR ''+'' \<or> v ! 0 = CHR ''-'' then
        (if signed_offset_len v > 0 then Some (signed_offset_len v) else None)
      else let n = length (takeWhile is_upper (take 6 v))
           in if n = 5 \<and> v ! 4 = CHR ''T'' then Some 5
              else if n = 4 \<and> (v ! 3 = CHR ''T'' \<or> take 4 v = ''WITA'') then Some 4
              else if n = 3 then Some 3 else None)"

text \<open>A fraction after the seconds is read even when the layout has none.\<close>

definition parse_fraction :: "string \<Rightarrow> int \<times> string" where
  "parse_fraction v =
     (if 2 \<le> length v \<and> (v ! 0 = CHR ''.'' \<or> v ! 0 = CHR '','') \<and> digit_at v 1 then
        let ds = takeWhile is_digit (drop 1 v); used = take 9 ds
        in (digits_value 0 used * 10 ^ (9 - length used), drop (Suc (length ds)) v)
      else (0, v))"

definition parse_elem :: "lay \<Rightarrow> string \<Rightarrow> tfields \<Rightarrow> (string \<times> tfields) option" where
  "parse_elem l v f =
     (case l of
        Lit s \<Rightarrow> (case skip_lit s v of None \<Rightarrow> None | Some v' \<Rightarrow> Some (v', f))
      | LWeekDay \<Rightarrow> (case lookup_name 0 short_days v of None \<Rightarrow> None | Some (_, v') \<Rightarrow> Some (v', f))
      | LLongWeekDay \<Rightarrow> (case lookup_name 0 long_days v of None \<Rightarrow> None | Some (_, v') \<Rightarrow> Some (v', f))
      | LZeroDay \<Rightarrow> (case getnum v True of None \<Rightarrow> None | Some (d, v') \<Rightarrow> Some (v', f\<lparr>f_day := d\<rparr>))
      | LUnderDay \<Rightarrow>
          (let v1 = (if v \<noteq> [] \<and> hd v = CHR '' '' then tl v else v)
           in case getnum v1 False of None \<Rightarrow> None | Some (d, v') \<Rightarrow> Some (v', f\<lparr>f_day := d\<rparr>))
      | LMonth \<Rightarrow> (case lookup_name 0 short_months v of
            None \<Rightarrow> None | Some (i, v') \<Rightarrow> Some (v', f\<lparr>f_month := int i + 1\<rparr>))
      | LYear2 \<Rightarrow>
          (if length v < 2 \<or> \<not> all_digits (take 2 v) then None
           else let y = digits_value 0 (take 2 v)
                in Some (drop 2 v, f\<lparr>f_year := (if 69 \<le> y then y + 1900 else y + 2000)\<rparr>))
      | LYear4 \<Rightarrow>
          (if length v < 4 \<or> \<not> all_digits (take 4 v) then None
           else Some (drop 4 v, f\<lparr>f_year := digits_value 0 (take 4 v)\<rparr>))
      | LHour \<Rightarrow> (case getnum v False of None \<Rightarrow> None
          | Some (h, v') \<Rightarrow> if 24 \<le> h then None else Some (v', f\<lparr>f_hour := h\<rparr>))
      | LMinute \<Rightarrow> (case getnum v True of None \<Rightarrow> None
          | Some (m, v') \<Rightarrow> if 60 \<le> m then None else Some (v', f\<lparr>f_min := m\<rparr>))
      | LSecond \<Rightarrow> (case getnum v True of None \<Rightarrow> None
          | Some (s, v') \<Rightarrow> if 60 \<le> s then None
              else let (ns, v'') = parse_fraction v' in Some (v'', f\<lparr>f_sec := s, f_nsec := ns\<rparr>))
      | LTZ \<Rightarrow>
          (if prefix ''UTC'' v then Some (drop 3 v, f)
           else case time_zone_len v of None \<Rightarrow> None | Some n \<Rightarrow> Some (drop n v, f)))"

fun parse_elems :: "lay list \<Rightarrow> string \<Rightarrow> tfields \<Rightarrow> tfields option" where
  "parse_elems [] v f = (if v = [] then Some f else None)"
| "parse_elems (l # ls) v f =
     (case parse_elem l v f of None \<Rightarrow> None | Some (v', f') \<Rightarrow> parse_elems ls v' f')"

definition fields_time :: "tfields \<Rightarrow> gtime" where
  "fields_time f =
     (days_of_civil \<lparr>c_year = f_year f, c_month = f_month f, c_day = f_day f\<rparr> * 86400
        + f_hour f * 3600 + f_min f * 60 + f_sec f) * Second + f_nsec f"

text \<open>\<open>time.Parse\<close>: an error is \<open>None\<close>.\<close>

definition Parse :: "lay list \<Rightarrow> string \<Rightarrow> gtime option" where
  "Parse ls v =
     (case parse_elems ls v tfields0 of
        None \<Rightarrow> None
      | Some f \<Rightarrow>
          if f_day f < 1 \<or> days_in_month (f_month f) (f_year f) < f_day f then None
          else Some (fields_time f))"

text \<open>The value \<open>t, _ := time.Parse(...)\<close> keeps when the error is dropped.\<close>

definition parsed_or_zero :: "gtime option \<Rightarrow> gtime" where
  "parsed_or_zero r = (case r of None \<Rightarrow> zero_time | Some t \<Rightarrow> t)"

text \<open>\<open>http.ParseTime\<close> tries the three layouts of RFC 9110 in turn.\<close>

definition http_ParseTime :: "string \<Rightarrow> gtime option" where
  "http_ParseTime v =
     (case Parse TimeFormat v of
        Some t \<Rightarrow> Some t
      | None \<Rightarrow> (case Parse RFC850 v of
          Some t \<Rightarrow> Some t
        | None \<Rightarrow> Parse ANSIC v))"

subsection \<open>RFC 3339\<close>

definition format_rfc3339 :: "gtime \<Rightarrow> string" where
  "format_rfc3339 t =
     (let secs = t div Second; days = secs div 86400; sod = secs mod 86400;
          c = civil_of_days days
      in pad4 (c_year c) @ ''-'' @ pad2 (c_month c) @ ''-'' @ pad2 (c_day c) @ ''T'' @
         pad2 (sod div 3600) @ '':'' @ pad2 (sod mod 3600 div 60) @ '':'' @ pad2 (sod mod 60) @ ''Z'')"

text \<open>
  \<open>time.Parse(time.RFC3339, s)\<close>: fixed columns, an optional fraction, then Z or an offset.
\<close>

definition num2 :: "string \<Rightarrow> nat \<Rightarrow> int" where
  "num2 s i = digit_val (s ! i) * 10 + digit_val (s ! Suc i)"

definition rfc3339_zone :: "string \<Rightarrow> int option" where
  "rfc3339_zone z =
     (if z = ''Z'' then Some 0
      else if length z = 6 \<and> (z ! 0 = CHR ''+'' \<or> z ! 0 = CHR ''-'') \<and> z ! 3 = CHR '':'' \<and>
           all_digits [z ! 1, z ! 2, z ! 4, z ! 5] \<and> num2 z 1 \<le> 24 \<and> num2 z 4 < 60
        then Some ((if z ! 0 = CHR ''-'' then -1 else 1) * (num2 z 1 * 3600 + num2 z 4 * 60))
      else None)"

definition parse_rfc3339 :: "string \<Rightarrow> gtime option" where
  "parse_rfc3339 s =
     (if length s < 20 \<or> \<not> all_digits (map (\<lambda>i. s ! i) [0, 1, 2, 3, 5, 6, 8, 9, 11, 12, 14, 15, 17, 18])
         \<or> s ! 4 \<noteq> CHR ''-'' \<or> s ! 7 \<noteq> CHR ''-'' \<or> s ! 10 \<noteq> CHR ''T'' \<or> s ! 13 \<noteq> CHR '':'' \<or> s ! 16 \<noteq> CHR '':''
      then None
      else let f = \<lparr>f_year = digits_value 0 (take 4 s), f_month = num2 s 5, f_day = num2 s 8,
                    f_hour = num2 s 11, f_min = num2 s 14, f_sec = num2 s 17,
                    f_nsec = fst (parse_fraction (drop 19 s))\<rparr>
           in if f_month f < 1 \<or> 12 < f_month f \<or> f_day f < 1
                 \<or> days_in_month (f_month f) (f_year f) < f_day f
                 \<or> 24 \<le> f_hour f \<or> 60 \<le> f_min f \<or> 60 \<le> f_sec f then None
              else (case rfc3339_zone (snd (parse_fraction (drop 19 s))) of
                  None \<Rightarrow> None
                | Some off \<Rightarrow> Some (fields_time f - off * Second)))"

end
