(* ===== verification/GoDuration.thy ===== *)
theory GoDuration
  imports GoTime
begin

text \<open>
  The text form of \<open>time.Duration\<close>: \<open>d.String()\<close> and \<open>time.ParseDuration\<close>.  The program
  passes a response's lifetime from the moment it is stored to the moments it is served and
  backfilled through this text (header X-Souin-Stored-TTL), so reading it back must be exact.
  Go computes the fraction of a unit in floating point; the model computes it exactly.  The two
  agree on every fraction that \<open>d.String()\<close> prints.
\<close>

section \<open>Printing\<close>

definition zero_pad :: "nat \<Rightarrow> string \<Rightarrow> string" where
  "zero_pad n s = replicate (n - length s) CHR ''0'' @ s"

definition strip_zeros :: "string \<Rightarrow> string" where
  "strip_zeros s = rev (dropWhile (\<lambda>c. c = CHR ''0'') (rev s))"

definition frac_digits :: "int \<Rightarrow> nat \<Rightarrow> string" where
  "frac_digits u prec = strip_zeros (zero_pad prec (dec_str (u mod 10 ^ prec)))"

definition fmt_frac :: "int \<Rightarrow> nat \<Rightarrow> string" where
  "fmt_frac u prec =
     (let f = (if u mod 10 ^ prec = 0 then [] else frac_digits u prec)
      in if f = [] then [] else CHR ''.'' # f)"

definition micro_sign :: string where
  "micro_sign = [CHR 0xC2, CHR 0xB5]"

definition fmt_abs :: "int \<Rightarrow> string" where
  "fmt_abs u =
     (if u = 0 then ''0s''
      else if u < 1000 then dec_str u @ ''ns''
      else if u < 1000000 then dec_str (u div 1000) @ fmt_frac u 3 @ micro_sign @ ''s''
      else if u < 1000000000 then dec_str (u div 1000000) @ fmt_frac u 6 @ ''ms''
      else
        let total = u div 1000000000; mins = total div 60; hours = mins div 60
        in (if hours > 0 then dec_str hours @ ''h'' else [])
           @ (if mins > 0 then dec_str (mins mod 60) @ ''m'' else [])
           @ dec_str (total mod 60) @ fmt_frac u 9 @ ''s'')"

definition Duration_String :: "duration \<Rightarrow> string" where
  "Duration_String d = (if d < 0 then CHR ''-'' # fmt_abs (- d) else fmt_abs d)"

section \<open>Parsing\<close>

definition unit_ns :: "string \<Rightarrow> int option" where
  "unit_ns u =
     (if u = ''ns'' then Some 1
      else if u = ''us'' \<or> u = micro_sign @ ''s'' \<or> u = [CHR 0xCE, CHR 0xBC] @ ''s'' then Some 1000
      else if u = ''ms'' then Some 1000000
      else if u = ''s'' then Some 1000000000
      else if u = ''m'' then Some 60000000000
      else if u = ''h'' then Some 3600000000000
      else None)"

fun leading_int :: "int \<Rightarrow> string \<Rightarrow> (int \<times> string) option" where
  "leading_int x [] = Some (x, [])"
| "leading_int x (c # cs) =
     (if \<not> is_digit c then Some (x, c # cs)
      else if 922337203685477580 < x then None
      else let y = x * 10 + digit_val c in if 9223372036854775808 < y then None else leading_int y cs)"

fun leading_fraction :: "int \<Rightarrow> int \<Rightarrow> bool \<Rightarrow> string \<Rightarrow> int \<times> int \<times> string" where
  "leading_fraction x scale over [] = (x, scale, [])"
| "leading_fraction x scale over (c # cs) =
     (if \<not> is_digit c then (x, scale, c # cs)
      else if over then leading_fraction x scale over cs
      else if 922337203685477580 < x then leading_fraction x scale True cs
      else let y = x * 10 + digit_val c
           in if 9223372036854775808 < y then leading_fraction x scale True cs
              else leading_fraction y (scale * 10) False cs)"

definition is_unit_char :: "char \<Rightarrow> bool" where
  "is_unit_char c \<longleftrightarrow> c \<noteq> CHR ''.'' \<and> \<not> is_digit c"

text \<open>One number with its unit at the front of the text: its nanoseconds and the rest.\<close>

definition parse_component :: "string \<Rightarrow> (int \<times> string) option" where
  "parse_component s =
     (if s = [] \<or> is_unit_char (hd s) then None
      else case leading_int 0 s of
        None \<Rightarrow> None
      | Some (v, s1) \<Rightarrow>
          let pre = (s1 \<noteq> s);
              (f, scale, s2) = (if s1 \<noteq> [] \<and> hd s1 = CHR ''.'' then leading_fraction 0 1 False (tl s1)
                                else (0, 1, s1));
              post = (s1 \<noteq> [] \<and> hd s1 = CHR ''.'' \<and> s2 \<noteq> tl s1)
          in if \<not> pre \<and> \<not> post then None
             else case unit_ns (takeWhile is_unit_char s2) of
               None \<Rightarrow> None
             | Some u \<Rightarrow>
                 let total = v * u + f * u div scale
                 in if 9223372036854775808 div u < v \<or> 9223372036854775808 < total then None
                    else Some (total, dropWhile is_unit_char s2))"

lemma leading_int_length: "leading_int x s = Some (v, r) \<Longrightarrow> length r \<le> length s"
  by (induction x s rule: leading_int.induct) (auto simp: Let_def split: if_splits)

lemma leading_fraction_length: "leading_fraction x k b s = (f, m, r) \<Longrightarrow> length r \<le> length s"
  by (induction x k b s rule: leading_fraction.induct) (auto simp: Let_def split: if_splits)

lemma unit_ns_Nil [simp]: "unit_ns [] = None"
  by (simp add: unit_ns_def)

lemma parse_component_shorter:
  assumes "parse_component s = Some (n, r)"
  shows "length r < length s"
proof -
  from assms obtain v s1 where v: "leading_int 0 s = Some (v, s1)"
    by (auto simp: parse_component_def split: if_splits option.splits)
  define p where "p = (if s1 \<noteq> [] \<and> hd s1 = CHR ''.'' then leading_fraction 0 1 False (tl s1)
                                else (0, 1, s1))"
  obtain f k s2 where p: "p = (f, k, s2)" by (cases p) auto
  have l2: "length s2 \<le> length s1"
    using p leading_fraction_length[of 0 1 False "tl s1" f k s2]
    by (auto simp: p_def split: if_splits)
  have "takeWhile is_unit_char s2 \<noteq> []" and r: "r = dropWhile is_unit_char s2"
    using assms v p
    by (auto simp: parse_component_def p_def [symmetric] Let_def split: if_splits option.splits)
  then have "length r < length s2"
    by (metis length_append length_greater_0_conv less_add_same_cancel2 takeWhile_dropWhile_id)
  with l2 leading_int_length[OF v] show ?thesis by simp
qed

function parse_components :: "int \<Rightarrow> string \<Rightarrow> int option" where
  "parse_components acc s =
     (if s = [] then Some acc
      else case parse_component s of
        None \<Rightarrow> None
      | Some (n, r) \<Rightarrow> if 9223372036854775808 < acc + n then None else parse_components (acc + n) r)"
  by pat_completeness auto
termination
  by (relation "measure (\<lambda>(acc, s). length s)") (auto simp: parse_component_shorter)

declare parse_components.simps [simp del]

text \<open>\<open>time.ParseDuration\<close>; an error is \<open>None\<close>.\<close>

definition ParseDuration :: "string \<Rightarrow> duration option" where
  "ParseDuration s0 =
     (let neg = (s0 \<noteq> [] \<and> hd s0 = CHR ''-'');
          s = (if s0 \<noteq> [] \<and> (hd s0 = CHR ''-'' \<or> hd s0 = CHR ''+'') then tl s0 else s0)
      in if s = ''0'' then Some 0
         else if s = [] then None
         else case parse_components 0 s of
           None \<Rightarrow> None
         | Some d \<Rightarrow>
             if neg then Some (- d)
             else if max_int64 < d then None else Some d)"

text \<open>\<open>d, _ := time.ParseDuration(s)\<close>: a dropped error leaves 0.\<close>

definition duration_or_zero :: "duration option \<Rightarrow> duration" where
  "duration_or_zero r = (case r of None \<Rightarrow> 0 | Some d \<Rightarrow> d)"

section \<open>Reading back what was printed\<close>

definition dval :: "int \<Rightarrow> string \<Rightarrow> int" where
  "dval x ds = foldl (\<lambda>x c. x * 10 + digit_val c) x ds"

lemma dval_simps [simp]:
  "dval x [] = x"
  "dval x (c # cs) = dval (x * 10 + digit_val c) cs"
  "dval x (xs @ ys) = dval (dval x xs) ys"
  by (simp_all add: dval_def)

lemma dval_mono: "list_all is_digit ds \<Longrightarrow> 0 \<le> x \<Longrightarrow> x \<le> dval x ds"
proof (induction ds arbitrary: x)
  case Nil
  then show ?case by simp
next
  case (Cons c cs)
  have d: "0 \<le> digit_val c" using Cons.prems digit_val_bounds by simp
  have "x \<le> x * 10 + digit_val c" using d Cons.prems by simp
  also have "\<dots> \<le> dval (x * 10 + digit_val c) cs" using Cons d by simp
  finally show ?case by simp
qed

definition stops :: "string \<Rightarrow> bool" where
  "stops r \<longleftrightarrow> r = [] \<or> \<not> is_digit (hd r)"

lemma leading_int_dec_str:
  "0 \<le> n \<Longrightarrow> n \<le> 9223372036854775808 \<Longrightarrow> leading_int 0 (dec_str n @ r) = leading_int n r"
proof (induction n arbitrary: r rule: dec_str.induct)
  case (1 n)
  show ?case
  proof (cases "n < 10")
    case True
    then show ?thesis using 1 by (simp add: dec_str.simps[of n])
  next
    case False
    have "leading_int 0 (dec_str n @ r) = leading_int 0 (dec_str (n div 10) @ digit_char (n mod 10) # r)"
      using False by (simp add: dec_str.simps[of n])
    also have "\<dots> = leading_int (n div 10) (digit_char (n mod 10) # r)"
      using 1 False by simp
    also have "\<dots> = leading_int n r"
    proof -
      have "\<not> 922337203685477580 < n div 10" using 1(3) by linarith
      then show ?thesis using 1(2,3) by (simp add: Let_def)
    qed
    finally show ?thesis .
  qed
qed

lemma leading_int_stops: "stops r \<Longrightarrow> leading_int n r = Some (n, r)"
  by (cases r) (auto simp: stops_def)

lemma leading_fraction_stops: "stops r \<Longrightarrow> leading_fraction x k b r = (x, k, r)"
  by (cases r) (auto simp: stops_def)

lemma leading_fraction_digits:
  assumes "list_all is_digit ds" and "0 \<le> x" and "dval x ds < 10 ^ 9" and "stops r"
  shows "leading_fraction x k False (ds @ r) = (dval x ds, k * 10 ^ length ds, r)"
  using assms
proof (induction ds arbitrary: x k)
  case Nil
  then show ?case by (simp add: leading_fraction_stops)
next
  case (Cons c cs)
  have d: "0 \<le> digit_val c" using Cons.prems digit_val_bounds by simp
  have "x * 10 + digit_val c \<le> dval (x * 10 + digit_val c) cs"
    using Cons.prems d by (intro dval_mono) auto
  then have "x * 10 + digit_val c < 10 ^ 9" using Cons.prems by simp
  moreover from this have "\<not> 922337203685477580 < x" using d by simp
  ultimately show ?case using Cons d by (simp add: Let_def mult.assoc)
qed

lemma dval_dec_str: "0 \<le> n \<Longrightarrow> dval 0 (dec_str n) = n"
proof (induction n rule: dec_str.induct)
  case (1 n)
  then show ?case by (cases "n < 10") (simp_all add: dec_str.simps[of n])
qed

lemma dval_zeros: "dval x (replicate k CHR ''0'') = x * 10 ^ k"
  by (induction k arbitrary: x) (simp_all add: digit_val_def)

lemma length_dec_str: "0 \<le> n \<Longrightarrow> n < 10 ^ p \<Longrightarrow> 0 < p \<Longrightarrow> length (dec_str n) \<le> p"
proof (induction n arbitrary: p rule: dec_str.induct)
  case (1 n)
  show ?case
  proof (cases "n < 10")
    case True
    with 1 show ?thesis by (simp add: dec_str.simps[of n])
  next
    case False
    with 1 have "p \<noteq> 1" by auto
    with 1 obtain q where q: "p = Suc q" "0 < q" by (cases p) auto
    have "n div 10 < 10 ^ q" using 1 q by simp
    then show ?thesis using 1 False q by (simp add: dec_str.simps[of n])
  qed
qed

lemma strip_zeros_split: "\<exists>k. s = strip_zeros s @ replicate k CHR ''0''"
proof -
  let ?P = "\<lambda>c. c = CHR ''0''"
  have "rev s = takeWhile ?P (rev s) @ dropWhile ?P (rev s)" by simp
  moreover have "takeWhile ?P (rev s) = replicate (length (takeWhile ?P (rev s))) CHR ''0''"
    by (rule replicate_eqI) (auto dest: set_takeWhileD)
  ultimately have "s = strip_zeros s @ replicate (length (takeWhile ?P (rev s))) CHR ''0''"
    unfolding strip_zeros_def by (metis rev_append rev_rev_ident rev_replicate)
  then show ?thesis ..
qed

lemma is_digit_zero [simp]: "is_digit CHR ''0''"
  by (simp add: is_digit_def char_nat_def)

lemma frac_digits_value:
  assumes "0 < p"
  shows "\<exists>k. dval 0 (frac_digits u p) * 10 ^ k = u mod 10 ^ p \<and> length (frac_digits u p) + k = p
     \<and> list_all is_digit (frac_digits u p)"
proof -
  define m where "m = u mod 10 ^ p"
  define z where "z = zero_pad p (dec_str m)"
  have m: "0 \<le> m" "m < 10 ^ p" by (simp_all add: m_def)
  have f: "frac_digits u p = strip_zeros z" by (simp add: frac_digits_def z_def m_def)
  obtain k where k: "z = strip_zeros z @ replicate k CHR ''0''" using strip_zeros_split by blast
  have "dval 0 z = m" using m by (simp add: z_def zero_pad_def dval_zeros dval_dec_str)
  moreover have "length z = p" using length_dec_str[OF m assms] by (simp add: z_def zero_pad_def)
  moreover have "list_all is_digit z"
    using dec_str_digits[OF m(1)] by (auto simp: z_def zero_pad_def list_all_iff)
  moreover have "dval 0 z = dval 0 (strip_zeros z) * 10 ^ k"
    by (subst k) (simp add: dval_zeros)
  moreover have "length z = length (strip_zeros z) + k" by (subst k) simp
  moreover have "list_all is_digit (strip_zeros z)" if "list_all is_digit z"
    using that by (subst (asm) k) simp
  ultimately show ?thesis unfolding f m_def [symmetric] by metis
qed

definition unit_word :: "string \<Rightarrow> int \<Rightarrow> bool" where
  "unit_word w u \<longleftrightarrow> w \<noteq> [] \<and> list_all is_unit_char w \<and> unit_ns w = Some u \<and> 0 < u"

definition starts_number :: "string \<Rightarrow> bool" where
  "starts_number r \<longleftrightarrow> r = [] \<or> is_digit (hd r)"

lemma unit_takeWhile:
  assumes "unit_word w u" and "starts_number r"
  shows "takeWhile is_unit_char (w @ r) = w" and "dropWhile is_unit_char (w @ r) = r"
  using assms
  by (cases r; auto simp: unit_word_def starts_number_def list_all_iff is_unit_char_def
      takeWhile_append dropWhile_append)+

lemma unit_word_stops: "unit_word w u \<Longrightarrow> stops (w @ r)"
  by (cases w) (auto simp: unit_word_def stops_def is_unit_char_def)

lemma unit_word_no_dot: "unit_word w u \<Longrightarrow> w @ r \<noteq> [] \<and> hd (w @ r) \<noteq> CHR ''.''"
  by (cases w) (auto simp: unit_word_def is_unit_char_def)

lemma parse_component_whole:
  assumes w: "unit_word w u" and r: "starts_number r" and n: "0 \<le> n" "n * u \<le> 9223372036854775808"
  shows "parse_component (dec_str n @ w @ r) = Some (n * u, r)"
proof -
  have u: "0 < u" using w by (simp add: unit_word_def)
  then have "n * 1 \<le> n * u" using n(1) by (intro mult_left_mono) auto
  then have n63: "n \<le> 9223372036854775808" using n by simp
  have li: "leading_int 0 (dec_str n @ w @ r) = Some (n, w @ r)"
    using leading_int_dec_str[OF n(1) n63] leading_int_stops unit_word_stops[OF w] by simp
  have "\<not> 9223372036854775808 div u < n"
    using zdiv_mono1[OF n(2) u] u by simp
  moreover have "unit_ns w = Some u" using w by (simp add: unit_word_def)
  ultimately show ?thesis
    using li unit_word_no_dot[OF w, of r] unit_takeWhile[OF w r] n
    by (simp add: parse_component_def is_unit_char_def Let_def)
qed

lemma parse_component_frac:
  assumes w: "unit_word w (10 ^ p)" and r: "starts_number r" and p: "0 < p" "p \<le> 9"
    and n: "0 \<le> n" "n * 10 ^ p + u mod 10 ^ p \<le> 9223372036854775808"
  shows "parse_component (dec_str n @ fmt_frac u p @ w @ r) = Some (n * 10 ^ p + u mod 10 ^ p, r)"
proof (cases "fmt_frac u p = []")
  case True
  obtain k where k: "dval 0 (frac_digits u p) * 10 ^ k = u mod 10 ^ p"
    using frac_digits_value[OF p(1)] by blast
  have "u mod 10 ^ p = 0"
    using True k by (auto simp: fmt_frac_def Let_def split: if_splits)
  with True n parse_component_whole[OF w r, of n] show ?thesis by simp
next
  case False
  define ds where "ds = frac_digits u p"
  have fr: "fmt_frac u p = CHR ''.'' # ds"
    using False by (auto simp: fmt_frac_def ds_def Let_def split: if_splits)
  obtain k where k: "dval 0 ds * 10 ^ k = u mod 10 ^ p" "length ds + k = p" "list_all is_digit ds"
    using frac_digits_value[OF p(1), of u] unfolding ds_def by blast
  have um: "0 \<le> u mod 10 ^ p" "u mod 10 ^ p < 10 ^ p" by simp_all
  have "n * 1 \<le> n * 10 ^ p" using n(1) by (intro mult_left_mono) auto
  then have n63: "n \<le> 9223372036854775808" and np: "n * 10 ^ p \<le> 9223372036854775808"
    using n um by linarith+
  have li: "leading_int 0 (dec_str n @ fmt_frac u p @ w @ r) = Some (n, CHR ''.'' # ds @ w @ r)"
    using leading_int_dec_str[OF n(1) n63] by (simp add: fr)
  have d0: "0 \<le> dval 0 ds" using dval_mono[OF k(3), of 0] by simp
  then have "dval 0 ds * 1 \<le> dval 0 ds * 10 ^ k" by (intro mult_left_mono) auto
  then have "dval 0 ds < 10 ^ p" using k(1) um by linarith
  also have "(10::int) ^ p \<le> 10 ^ 9" using p(2) by (rule power_increasing) simp
  finally have lf: "leading_fraction 0 1 False (ds @ w @ r) = (dval 0 ds, 10 ^ length ds, w @ r)"
    using leading_fraction_digits[OF k(3), of 0 "w @ r" 1] unit_word_stops[OF w] by simp
  have "dval 0 ds * 10 ^ p div 10 ^ length ds = dval 0 ds * 10 ^ k"
    unfolding k(2) [symmetric] power_add by (simp add: mult.left_commute)
  with k(1) have val: "dval 0 ds * 10 ^ p div 10 ^ length ds = u mod 10 ^ p" by simp
  have "\<not> 9223372036854775808 div 10 ^ p < n"
    using zdiv_mono1[OF np, of "10 ^ p"] by simp
  moreover have "unit_ns w = Some (10 ^ p)" using w by (simp add: unit_word_def)
  moreover have "CHR ''.'' # ds @ w @ r \<noteq> dec_str n @ fmt_frac u p @ w @ r"
  proof
    assume eq: "CHR ''.'' # ds @ w @ r = dec_str n @ fmt_frac u p @ w @ r"
    have "is_digit (hd (CHR ''.'' # ds @ w @ r))" unfolding eq using n(1) by simp
    then show False by simp
  qed
  ultimately show ?thesis
    using li lf val unit_takeWhile[OF w r] n
    by (simp add: parse_component_def is_unit_char_def Let_def)
qed

lemma unit_words:
  "unit_word ''ns'' 1" "unit_word (micro_sign @ ''s'') (10 ^ 3)" "unit_word ''ms'' (10 ^ 6)"
  "unit_word ''s'' (10 ^ 9)" "unit_word ''m'' 60000000000" "unit_word ''h'' 3600000000000"
  by (simp_all add: unit_word_def unit_ns_def micro_sign_def is_unit_char_def is_digit_def char_nat_def)

lemma starts_number_dec_str [simp]: "0 \<le> n \<Longrightarrow> starts_number (dec_str n @ s)"
  by (simp add: starts_number_def)

lemma starts_number_Nil [simp]: "starts_number []"
  by (simp add: starts_number_def)

lemma parse_components_step:
  assumes "parse_component s = Some (n, r)" and "acc + n \<le> 9223372036854775808"
  shows "parse_components acc s = parse_components (acc + n) r"
proof -
  have "s \<noteq> []" using assms(1) by (auto simp: parse_component_def)
  with assms show ?thesis by (subst parse_components.simps) simp
qed

lemma parse_components_Nil [simp]: "parse_components acc [] = Some acc"
  by (simp add: parse_components.simps)

lemma parse_components_last:
  assumes "unit_word w (10 ^ p)" and "0 < p" "p \<le> 9" and "0 \<le> acc" "0 \<le> n"
    and "acc + (n * 10 ^ p + u mod 10 ^ p) \<le> 9223372036854775808"
  shows "parse_components acc (dec_str n @ fmt_frac u p @ w) = Some (acc + (n * 10 ^ p + u mod 10 ^ p))"
proof -
  have "n * 10 ^ p + u mod 10 ^ p \<le> 9223372036854775808" using assms by linarith
  from parse_components_step[OF parse_component_frac[OF assms(1) starts_number_Nil assms(2,3,5) this]]
  show ?thesis using assms(6) by simp
qed

lemma parse_components_whole:
  assumes "unit_word w u" and "starts_number r" and "0 \<le> acc" "0 \<le> n"
    and "acc + n * u \<le> 9223372036854775808"
  shows "parse_components acc (dec_str n @ w @ r) = parse_components (acc + n * u) r"
proof -
  have "n * u \<le> 9223372036854775808" using assms by linarith
  from parse_components_step[OF parse_component_whole[OF assms(1,2,4) this]]
  show ?thesis using assms(5) by simp
qed

text \<open>The durations of a second and more: hours, minutes and seconds, each with its unit.\<close>

lemma parse_components_seconds:
  assumes u: "1000000000 \<le> u" "u \<le> 9223372036854775808"
  shows "parse_components 0 (fmt_abs u) = Some u"
proof -
  define total mins hours where "total = u div 1000000000" and "mins = total div 60"
    and "hours = mins div 60"
  have pos: "0 \<le> total" "0 \<le> mins" "0 \<le> hours" "0 \<le> total mod 60" "0 \<le> mins mod 60"
    using u by (simp_all add: total_def mins_def hours_def)
  let ?f = "total mod 60 * 10 ^ 9 + u mod 10 ^ 9"
  let ?h = "hours * 3600000000000" and ?m = "mins mod 60 * 60000000000"
  have eqs: "u = total * 10 ^ 9 + u mod 10 ^ 9" "total = mins * 60 + total mod 60"
    "mins = hours * 60 + mins mod 60"
    by (simp_all add: total_def mins_def hours_def)
  have "?h + ?m + ?f = ((hours * 60 + mins mod 60) * 60 + total mod 60) * 10 ^ 9 + u mod 10 ^ 9"
    by (simp add: algebra_simps)
  then have sum: "?h + ?m + ?f = u" unfolding eqs(3) [symmetric] eqs(2) [symmetric] eqs(1) [symmetric] .
  let ?s = "dec_str (total mod 60) @ fmt_frac u 9 @ ''s''"
  let ?ms = "(if mins > 0 then dec_str (mins mod 60) @ ''m'' @ ?s else ?s)"
  have secs: "parse_components acc ?s = Some (acc + ?f)" if "0 \<le> acc" "acc \<le> ?h + ?m" for acc
    using that sum u(2) pos by (intro parse_components_last[OF unit_words(4)]) linarith+
  have minutes: "parse_components ?h ?ms = Some u"
  proof (cases "mins > 0")
    case True
    have "parse_components ?h (dec_str (mins mod 60) @ ''m'' @ ?s) = parse_components (?h + ?m) ?s"
      using sum u(2) pos by (intro parse_components_whole[OF unit_words(5)]) auto
    then show ?thesis using True secs[of "?h + ?m"] sum pos by simp
  next
    case False
    then have "?m = 0" "hours = 0" using pos by (simp_all add: hours_def)
    then show ?thesis using False secs[of ?h] sum pos by simp
  qed
  have fmt: "fmt_abs u = (if hours > 0 then dec_str hours @ ''h'' @ ?ms else ?ms)"
    using u by (simp add: fmt_abs_def Let_def total_def [symmetric] mins_def [symmetric] hours_def [symmetric])
  show ?thesis
  proof (cases "hours > 0")
    case True
    have "starts_number ?ms" using pos by simp
    then have "parse_components 0 (dec_str hours @ ''h'' @ ?ms) = parse_components (0 + ?h) ?ms"
      using sum u(2) pos by (intro parse_components_whole[OF unit_words(6)]) auto
    then show ?thesis using True minutes fmt by simp
  next
    case False
    then have "hours = 0" using pos by simp
    then show ?thesis using minutes fmt by simp
  qed
qed

lemma parse_components_fmt_abs:
  assumes "0 < u" and "u \<le> 9223372036854775808"
  shows "parse_components 0 (fmt_abs u) = Some u"
proof -
  consider "u < 1000" | "1000 \<le> u" "u < 1000000" | "1000000 \<le> u" "u < 1000000000"
    | "1000000000 \<le> u" by linarith
  then show ?thesis
  proof cases
    case 1
    then show ?thesis
      using assms parse_components_whole[OF unit_words(1) starts_number_Nil, of 0 u]
      by (simp add: fmt_abs_def)
  next
    case 2
    have "u div 10 ^ 3 * 10 ^ 3 + u mod 10 ^ 3 = u" by (rule div_mult_mod_eq)
    with 2 assms show ?thesis
      using parse_components_last[OF unit_words(2), of 0 "u div 1000" u] by (simp add: fmt_abs_def)
  next
    case 3
    have "u div 10 ^ 6 * 10 ^ 6 + u mod 10 ^ 6 = u" by (rule div_mult_mod_eq)
    with 3 assms show ?thesis
      using parse_components_last[OF unit_words(3), of 0 "u div 1000000" u] by (simp add: fmt_abs_def)
  next
    case 4
    then show ?thesis using assms(2) by (rule parse_components_seconds)
  qed
qed

text \<open>Every printed duration starts with a digit and ends in the letter s.\<close>

lemma fmt_abs_form: "0 \<le> u \<Longrightarrow> \<exists>n r. 0 \<le> n \<and> fmt_abs u = dec_str n @ r @ ''s''"
proof -
  assume u: "0 \<le> u"
  consider "u = 0" | "0 < u" "u < 1000" | "1000 \<le> u" "u < 1000000" | "1000000 \<le> u" "u < 1000000000"
    | "1000000000 \<le> u" using u by linarith
  then show ?thesis
  proof cases
    case 1
    then have "fmt_abs u = dec_str 0 @ [] @ ''s''" by (simp add: fmt_abs_def dec_str.simps[of 0])
    then show ?thesis by blast
  next
    case 2
    then have "fmt_abs u = dec_str u @ ''n'' @ ''s''" by (simp add: fmt_abs_def)
    with u show ?thesis by blast
  next
    case 3
    then have "fmt_abs u = dec_str (u div 1000) @ (fmt_frac u 3 @ micro_sign) @ ''s''"
      by (simp add: fmt_abs_def)
    moreover have "0 \<le> u div 1000" using u by simp
    ultimately show ?thesis by blast
  next
    case 4
    then have "fmt_abs u = dec_str (u div 1000000) @ (fmt_frac u 6 @ ''m'') @ ''s''"
      by (simp add: fmt_abs_def)
    moreover have "0 \<le> u div 1000000" using u by simp
    ultimately show ?thesis by blast
  next
    case 5
    define total mins hours where "total = u div 1000000000" and "mins = total div 60"
      and "hours = mins div 60"
    have pos: "0 \<le> hours" "0 \<le> mins mod 60" "0 \<le> total mod 60"
      using u by (simp_all add: total_def mins_def hours_def)
    let ?sec = "dec_str (total mod 60) @ fmt_frac u 9 @ ''s''"
    have f: "fmt_abs u = (if hours > 0 then dec_str hours @ ''h'' else [])
        @ (if mins > 0 then dec_str (mins mod 60) @ ''m'' else []) @ ?sec"
      using 5 by (simp add: fmt_abs_def Let_def total_def mins_def hours_def)
    have "fmt_abs u = dec_str hours @ (''h'' @ (if mins > 0 then dec_str (mins mod 60) @ ''m'' else [])
        @ dec_str (total mod 60) @ fmt_frac u 9) @ ''s''" if "hours > 0"
      using that by (simp add: f)
    moreover have "fmt_abs u = dec_str (mins mod 60) @ (''m'' @ dec_str (total mod 60) @ fmt_frac u 9) @ ''s''"
      if "\<not> hours > 0" "mins > 0" using that by (simp add: f)
    moreover have "fmt_abs u = dec_str (total mod 60) @ fmt_frac u 9 @ ''s''"
      if "\<not> hours > 0" "\<not> mins > 0" using that by (simp add: f)
    ultimately show ?thesis using pos by blast
  qed
qed

lemma ParseDuration_String:
  assumes "fits_duration d"
  shows "ParseDuration (Duration_String d) = Some d"
proof -
  obtain n r where form: "0 \<le> n" "fmt_abs \<bar>d\<bar> = dec_str n @ r @ ''s''"
    using fmt_abs_form[of "\<bar>d\<bar>"] by auto
  have ne: "fmt_abs \<bar>d\<bar> \<noteq> []" "fmt_abs \<bar>d\<bar> \<noteq> ''0''" and hd: "is_digit (hd (fmt_abs \<bar>d\<bar>))"
    using form by (auto simp: append_eq_Cons_conv)
  have shape: "ParseDuration (Duration_String d) =
      (case parse_components 0 (fmt_abs \<bar>d\<bar>) of
         None \<Rightarrow> None
       | Some x \<Rightarrow> if d < 0 then Some (- x) else if max_int64 < x then None else Some x)"
  proof (cases "d < 0")
    case True
    then show ?thesis using ne
      by (simp add: ParseDuration_def Duration_String_def split: option.split)
  next
    case False
    then have "hd (fmt_abs d) \<noteq> CHR ''-''" "hd (fmt_abs d) \<noteq> CHR ''+''"
      using hd by auto
    with False ne show ?thesis
      by (simp add: ParseDuration_def Duration_String_def split: option.split)
  qed
  show ?thesis
  proof (cases "d = 0")
    case True
    have "parse_components 0 (dec_str 0 @ ''s'' @ []) = parse_components (0 + 0 * 10 ^ 9) []"
      by (rule parse_components_whole[OF unit_words(4)]) auto
    then have "parse_components 0 (fmt_abs 0) = Some 0"
      by (simp add: fmt_abs_def dec_str.simps[of 0])
    with True show ?thesis unfolding shape by (simp add: max_int64_def)
  next
    case False
    then have "parse_components 0 (fmt_abs \<bar>d\<bar>) = Some \<bar>d\<bar>"
      using assms by (intro parse_components_fmt_abs) (auto simp: fits_duration_def min_int64_def max_int64_def)
    with assms show ?thesis unfolding shape by (auto simp: fits_duration_def)
  qed
qed

end
