(* ===== verification/HttpTypes.thy ===== *)
theory HttpTypes
  imports CacheObject GoDuration
begin

text \<open>
  Requests, responses and the values a request's context carries (the keys of package context).
  Every key that \<open>SetBaseContext\<close> and \<open>SetContext\<close> always set before it is read is a plain
  field; the three keys the code also reads when they may be absent are options.
\<close>

record mode_context =
  Strict :: bool
  Bypass_request :: bool
  Bypass_response :: bool

record request_context =
  cx_CacheName :: string
  cx_RequestCacheControl :: "request_directives option"
  cx_GraphQL :: bool
  cx_HashBody :: string
  cx_IsMutationRequest :: bool
  cx_Key :: "string option"
  cx_DisplayableKey :: "bool option"
  cx_DisableVary :: "bool option"
  cx_IgnoredHeaders :: "string list"
  cx_Hashed :: bool
  cx_SupportedMethod :: bool
  cx_Mode :: mode_context
  cx_Now :: gtime
  cx_Deadline :: "gtime option"
  cx_TimeoutCache :: duration

definition request_context0 :: request_context where
  "request_context0 = \<lparr>cx_CacheName = [], cx_RequestCacheControl = None, cx_GraphQL = False,
     cx_HashBody = [], cx_IsMutationRequest = False, cx_Key = None, cx_DisplayableKey = None,
     cx_DisableVary = None, cx_IgnoredHeaders = [], cx_Hashed = False, cx_SupportedMethod = False,
     cx_Mode = \<lparr>Strict = False, Bypass_request = False, Bypass_response = False\<rparr>, cx_Now = 0,
     cx_Deadline = None, cx_TimeoutCache = 0\<rparr>"

record request =
  req_Method :: string
  req_RequestURI :: string
  req_Host :: string
  req_Path :: string
  req_RawQuery :: string
  req_TLS :: bool
  req_Header :: header
  req_Body :: "string option"
  req_ctx :: request_context

text \<open>A response knows the request it answers (\<open>resp.Request\<close>).\<close>

record response =
  resp_StatusCode :: int
  resp_Header :: header
  resp_Body :: string
  resp_Request :: request

section \<open>Status texts\<close>

definition status_texts :: "(int \<times> string) list" where
  "status_texts =
     [(100, ''Continue''), (101, ''Switching Protocols''), (102, ''Processing''), (103, ''Early Hints''),
      (200, ''OK''), (201, ''Created''), (202, ''Accepted''), (203, ''Non-Authoritative Information''),
      (204, ''No Content''), (205, ''Reset Content''), (206, ''Partial Content''), (207, ''Multi-Status''),
      (208, ''Already Reported''), (226, ''IM Used''), (300, ''Multiple Choices''),
      (301, ''Moved Permanently''), (302, ''Found''), (303, ''See Other''), (304, ''Not Modified''),
      (305, ''Use Proxy''), (307, ''Temporary Redirect''), (308, ''Permanent Redirect''),
      (400, ''Bad Request''), (401, ''Unauthorized''), (402, ''Payment Required''), (403, ''Forbidden''),
      (404, ''Not Found''), (405, ''Method Not Allowed''), (406, ''Not Acceptable''),
      (407, ''Proxy Authentication Required''), (408, ''Request Timeout''), (409, ''Conflict''),
      (410, ''Gone''), (411, ''Length Required''), (412, ''Precondition Failed''),
      (413, ''Request Entity Too Large''), (414, ''Request URI Too Long''),
      (415, ''Unsupported Media Type''), (416, ''Requested Range Not Satisfiable''),
      (417, ''Expectation Failed''), (418, [CHR ''I'', CHR 0x27] @ ''m a teapot''), (421, ''Misdirected Request''),
      (422, ''Unprocessable Entity''), (423, ''Locked''), (424, ''Failed Dependency''), (425, ''Too Early''),
      (426, ''Upgrade Required''), (428, ''Precondition Required''), (429, ''Too Many Requests''),
      (431, ''Request Header Fields Too Large''), (451, ''Unavailable For Legal Reasons''),
      (500, ''Internal Server Error''), (501, ''Not Implemented''), (502, ''Bad Gateway''),
      (503, ''Service Unavailable''), (504, ''Gateway Timeout''), (505, ''HTTP Version Not Supported''),
      (506, ''Variant Also Negotiates''), (507, ''Insufficient Storage''), (508, ''Loop Detected''),
      (510, ''Not Extended''), (511, ''Network Authentication Required'')]"

definition StatusText :: "int \<Rightarrow> string" where
  "StatusText code = (case map_of status_texts code of None \<Rightarrow> [] | Some t \<Rightarrow> t)"

section \<open>Sample values\<close>

text \<open>A request and a response, for the concrete instances.\<close>

definition sample_request :: request where
  "sample_request = \<lparr>req_Method = ''GET'', req_RequestURI = ''/a'', req_Host = ''h'', req_Path = ''/a'',
     req_RawQuery = [], req_TLS = False, req_Header = [(''Accept'', [''x''])], req_Body = None,
     req_ctx = request_context0\<rparr>"

definition sample_response :: response where
  "sample_response = \<lparr>resp_StatusCode = 200, resp_Header = [], resp_Body = ''body'', resp_Request = sample_request\<rparr>"

end
