(* ===== verification/Rfc.thy ===== *)
theory Rfc
  imports HttpTypes
begin

text \<open>
  Package pkg/rfc: the age checks (age.go), the Cache-Status and validation helpers
  (cache_status.go), the conditional request (revalidation.go) and the varied key (vary.go).
  \<open>now\<close> is the clock reading of the call.  A nil directive set is \<open>None\<close>, and reading a field of
  it is the panic \<open>NilDeref\<close>.  The record \<open>Revalidator\<close> of storages/core stands here because
  \<open>ParseRequest\<close> builds it.
\<close>

section \<open>age.go\<close>

definition validateMaxAgeCachedResponse :: "response \<Rightarrow> int \<Rightarrow> int \<Rightarrow> response option" where
  "validateMaxAgeCachedResponse res maxAge addTime =
     (let a = fst (Atoi (header_get (resp_Header res) ''Age''))
      in if 0 \<le> maxAge \<and> maxAge + addTime < a then None else Some res)"

definition ValidateMaxAgeCachedResponse :: "request_directives \<Rightarrow> response \<Rightarrow> response option go" where
  "ValidateMaxAgeCachedResponse co res =
     (case ParseResponseCacheControl (HeaderAllCommaSepValuesString (resp_Header res) ''Cache-Control'') of
        None \<Rightarrow> Inl NilDeref
      | Some responseCc \<Rightarrow>
          let ma0 = rq_MaxAge co;
              ma1 = (if rs_MaxAge responseCc > -1 then rs_MaxAge responseCc else ma0);
              ma2 = (if rs_SMaxAge responseCc > -1 then rs_SMaxAge responseCc else ma1)
          in Inr (validateMaxAgeCachedResponse res ma2 0))"

definition ValidateMaxAgeCachedStaleResponse ::
  "request_directives \<Rightarrow> response_directives option \<Rightarrow> response \<Rightarrow> int \<Rightarrow> response option" where
  "ValidateMaxAgeCachedStaleResponse co resCo res addTime =
     (if rq_MaxStaleSet co then Some res
      else
        let by_response = (case resCo of
              None \<Rightarrow> None
            | Some rc \<Rightarrow>
                if rs_StaleIfError rc > -1 then validateMaxAgeCachedResponse res (rs_StaleIfError rc) addTime
                else None);
            by_request = (case resCo of
              None \<Rightarrow> None
            | Some rc \<Rightarrow>
                if rq_StaleIfError co > 0 then validateMaxAgeCachedResponse res (rq_StaleIfError co) addTime
                else None)
        in if by_response \<noteq> None then by_response
           else if by_request \<noteq> None then by_request
           else if rq_MaxStale co < 0 then None
           else validateMaxAgeCachedResponse res (rq_MaxStale co) addTime)"

section \<open>cache_status.go\<close>

definition StoredTTLHeader :: string where
  "StoredTTLHeader = ''X-Souin-Stored-TTL''"

definition StoredLengthHeader :: string where
  "StoredLengthHeader = ''X-Souin-Stored-Length''"

definition SetRequestCacheStatus :: "string \<Rightarrow> string \<Rightarrow> header \<Rightarrow> header" where
  "SetRequestCacheStatus hn cacheName h =
     header_set ''Cache-Status'' (cacheName @ ''; fwd=request; detail='' @ hn) h"

definition setMalformedHeader :: "string \<Rightarrow> string \<Rightarrow> header \<Rightarrow> header" where
  "setMalformedHeader hn cacheName h = SetRequestCacheStatus (''MALFORMED-'' @ hn) cacheName h"

definition validateTimeHeader :: "string \<Rightarrow> string \<Rightarrow> string \<Rightarrow> header \<Rightarrow> bool \<times> header" where
  "validateTimeHeader hn t cacheName h =
     (if http_ParseTime t = None then (False, setMalformedHeader hn cacheName h) else (True, h))"

definition emptyHeaders :: "string list" where
  "emptyHeaders = [''Expires'', ''Last-Modified'']"

fun validate_empty_loop :: "string list \<Rightarrow> string \<Rightarrow> header \<Rightarrow> header" where
  "validate_empty_loop [] cacheName h = h"
| "validate_empty_loop (n # ns) cacheName h =
     (if header_get h n \<noteq> [] then
        (case validateTimeHeader (ToUpper n) (header_get h n) cacheName h of
           (ok, h') \<Rightarrow> if ok then validate_empty_loop ns cacheName h' else h')
      else validate_empty_loop ns cacheName h)"

definition validateEmptyHeaders :: "string \<Rightarrow> header \<Rightarrow> header" where
  "validateEmptyHeaders cacheName h = validate_empty_loop emptyHeaders cacheName h"

text \<open>
  \<open>ValidateCacheControl\<close>: the verdict and the response, whose Cache-Status is set when its
  Cache-Control is malformed.
\<close>

definition ValidateCacheControl :: "gtime \<Rightarrow> response \<Rightarrow> request_directives \<Rightarrow> bool \<times> response" where
  "ValidateCacheControl now r requestCc =
     (if ParseResponseCacheControl (HeaderAllCommaSepValuesString (resp_Header r) ''Cache-Control'') = None
      then (False, r\<lparr>resp_Header := setMalformedHeader ''CACHE-CONTROL''
              (cx_CacheName (req_ctx (resp_Request r))) (resp_Header r)\<rparr>)
      else if 0 \<le> rq_MinFresh requestCc then
        (case http_ParseTime (header_get (resp_Header r) ''Date'') of
           None \<Rightarrow> (False, r)
         | Some t \<Rightarrow> (rq_MinFresh requestCc < Seconds_trunc (now - t), r))
      else (True, r))"

definition GetCacheKeyFromCtx :: "request_context \<Rightarrow> string" where
  "GetCacheKeyFromCtx ctx =
     (case cx_DisplayableKey ctx of
        Some True \<Rightarrow> (case cx_Key ctx of Some k \<Rightarrow> k | None \<Rightarrow> ''*****'')
      | _ \<Rightarrow> ''*****'')"

definition HitStaleCache :: "header \<Rightarrow> header" where
  "HitStaleCache h = header_set ''Cache-Status'' (header_get h ''Cache-Status'' @ ''; fwd=stale'') h"

definition manageAge :: "gtime \<Rightarrow> duration \<Rightarrow> string \<Rightarrow> string \<Rightarrow> string \<Rightarrow> header \<Rightarrow> header" where
  "manageAge now ttl0 cacheName key storerName h0 =
     (let utc1 = now;
          dh = header_get h0 ''Date'';
          (ok, h1) = (if dh = [] then (True, header_set ''Date'' (Format TimeFormat utc1) h0)
                      else validateTimeHeader ''DATE'' dh cacheName h0)
      in if \<not> ok then h1
         else case http_ParseTime (header_get h1 ''Date'') of
           None \<Rightarrow> h1
         | Some utc2 \<Rightarrow>
             let stored = header_get h1 StoredTTLHeader;
                 ttl = (if stored \<noteq> [] then duration_or_zero (ParseDuration stored) else ttl0);
                 h2 = (if stored \<noteq> [] then header_del StoredTTLHeader h1 else h1);
                 apparentAge = max 0 (utc1 - utc2);
                 oldAge = (case Atoi (header_get h2 ''Age'') of (n, ok') \<Rightarrow> if ok' then n else 0);
                 cage = Seconds_ceil apparentAge;
                 h3 = header_set ''Age'' (Itoa (oldAge + cage)) h2
             in header_set ''Cache-Status''
                  (cacheName @ ''; hit; ttl='' @ Itoa (Seconds_trunc ttl - cage) @ ''; key='' @ key
                   @ ''; detail='' @ storerName) h3)"

definition SetCacheStatusHeader :: "gtime \<Rightarrow> response \<Rightarrow> string \<Rightarrow> response" where
  "SetCacheStatusHeader now resp storerName =
     (let ctx = req_ctx (resp_Request resp);
          h1 = validateEmptyHeaders (cx_CacheName ctx) (resp_Header resp);
          h2 = manageAge now 0 (cx_CacheName ctx) (GetCacheKeyFromCtx ctx) storerName h1
      in resp\<lparr>resp_Header := h2\<rparr>)"

section \<open>revalidation.go\<close>

record revalidator =
  rv_Matched :: bool
  rv_IfNoneMatchPresent :: bool
  rv_IfMatchPresent :: bool
  rv_IfModifiedSincePresent :: bool
  rv_IfUnmodifiedSincePresent :: bool
  rv_IfUnmotModifiedSincePresent :: bool
  rv_NeedRevalidation :: bool
  rv_NotModified :: bool
  rv_IfModifiedSince :: gtime
  rv_IfUnmodifiedSince :: gtime
  rv_IfNoneMatch :: "string list"
  rv_IfMatch :: "string list"
  rv_RequestETags :: "string list"
  rv_ResponseETag :: string

definition ParseRequest :: "request \<Rightarrow> revalidator" where
  "ParseRequest req =
     (let h = req_Header req;
          inm = header_get h ''If-None-Match'';
          rqEtags = (if inm \<noteq> [] then map TrimBlank (Split inm '','') else []);
          ims = header_get h ''If-Modified-Since'';
          ius = header_get h ''If-Unmodified-Since'';
          inms = header_values h ''If-None-Match''
      in \<lparr>rv_Matched = False,
          rv_IfNoneMatchPresent = (inms \<noteq> []),
          rv_IfMatchPresent = False,
          rv_IfModifiedSincePresent = (ims \<noteq> []),
          rv_IfUnmodifiedSincePresent = (ius \<noteq> []),
          rv_IfUnmotModifiedSincePresent = False,
          rv_NeedRevalidation = (ims \<noteq> [] \<or> ius \<noteq> []),
          rv_NotModified = (rqEtags \<noteq> []),
          rv_IfModifiedSince = (if ims \<noteq> [] then parsed_or_zero (Parse RFC1123 ims) else zero_time),
          rv_IfUnmodifiedSince = (if ius \<noteq> [] then parsed_or_zero (Parse RFC1123 ius) else zero_time),
          rv_IfNoneMatch = inms,
          rv_IfMatch = [],
          rv_RequestETags = rqEtags,
          rv_ResponseETag = []\<rparr>)"

section \<open>vary.go\<close>

definition VarySeparator :: string where
  "VarySeparator = ''{-VARY-}''"

definition DecodedHeaderSeparator :: string where
  "DecodedHeaderSeparator = '';''"

definition vary_value :: "request \<Rightarrow> string \<Rightarrow> string" where
  "vary_value rq v =
     (let h = TrimSpace (header_get (req_Header rq) v)
      in if sublist '';'' h \<or> sublist '':'' h then QueryEscape h else h)"

text \<open>
  \<open>GetVariedCacheKey\<close> overwrites the slice of header names it is given with \<open>name:value\<close>
  entries; the second component is the slice after the call.
\<close>

definition GetVariedCacheKey :: "request \<Rightarrow> string list \<Rightarrow> string \<times> string list" where
  "GetVariedCacheKey rq headers =
     (if cx_DisableVary (req_ctx rq) = Some True \<or> headers = [] then ([], headers)
      else let entries = map (\<lambda>v. v @ '':'' @ vary_value rq v) headers
           in (VarySeparator @ Join entries DecodedHeaderSeparator, entries))"

definition VariedHeaderAllCommaSepValues :: "header \<Rightarrow> string list \<times> bool" where
  "VariedHeaderAllCommaSepValues headers =
     (let vals = HeaderAllCommaSepValues headers ''Vary''
      in if ''*'' \<in> set vals then ([''*''], True) else (vals, False))"

end
