(* ===== verification/StorageCore.thy ===== *)
theory StorageCore
  imports Rfc
begin

text \<open>
  The multi-level storage of package storages/core (vendored under plugins/traefik/vendor): the
  conditional validation of an entity tag, the mapping of a base key to its varied entries, its
  update and the election of the entry that answers a request.  The storer interface is a record
  of operations over a state \<open>'w\<close>; several storers may share one state.

  Third-party codecs are the parameter \<open>codec\<close>: protobuf for mappings, lz4 for bodies, and lz4
  followed by \<open>http.ReadResponse\<close> for reading a stored response back.
\<close>

definition MappingKeyPrefix :: string where
  "MappingKeyPrefix = ''IDX_''"

section \<open>Mappings\<close>

record key_index =
  ki_StoredAt :: gtime
  ki_FreshTime :: gtime
  ki_StaleTime :: gtime
  ki_VariedHeaders :: header
  ki_Etag :: string
  ki_RealKey :: string

type_synonym storage_mapper = "(string, key_index) amap"

record codec =
  cd_Marshal :: "storage_mapper \<Rightarrow> string option"
  cd_Unmarshal :: "string \<Rightarrow> storage_mapper option"
  cd_Compress :: "string \<Rightarrow> string"
  cd_Read :: "string \<Rightarrow> request \<Rightarrow> response option"

text \<open>What the program relies on: a mapping that was encoded decodes to itself, and not from the empty text unless empty.\<close>

definition codec_ok :: "codec \<Rightarrow> bool" where
  "codec_ok cd \<longleftrightarrow> (\<forall>m b. cd_Marshal cd m = Some b \<longrightarrow> cd_Unmarshal cd b = Some m \<and> (b = [] \<longrightarrow> m = []))"

section \<open>The storer interface\<close>

text \<open>
  A result of type \<open>bool\<close> tells whether an error was returned.  Operations whose code holds an
  unchecked type assertion may panic; the state they reach by then is kept.
\<close>

record 'w storer =
  st_Name :: string
  st_Uuid :: string
  st_MapKeys :: "gtime \<Rightarrow> string \<Rightarrow> 'w \<Rightarrow> (string, string) amap \<times> 'w"
  st_ListKeys :: "gtime \<Rightarrow> 'w \<Rightarrow> string list go \<times> 'w"
  st_Get :: "gtime \<Rightarrow> string \<Rightarrow> 'w \<Rightarrow> string option \<times> 'w"
  st_Set :: "gtime \<Rightarrow> string \<Rightarrow> string \<Rightarrow> duration \<Rightarrow> 'w \<Rightarrow> bool \<times> 'w"
  st_Delete :: "string \<Rightarrow> 'w \<Rightarrow> 'w"
  st_DeleteMany :: "gtime \<Rightarrow> string \<Rightarrow> 'w \<Rightarrow> 'w"
  st_Reset :: "gtime \<Rightarrow> 'w \<Rightarrow> bool \<times> 'w"
  st_GetMultiLevel :: "gtime \<Rightarrow> string \<Rightarrow> request \<Rightarrow> revalidator \<Rightarrow> 'w
     \<Rightarrow> (response option \<times> response option \<times> revalidator) go \<times> 'w"
  st_SetMultiLevel :: "gtime \<Rightarrow> string \<Rightarrow> string \<Rightarrow> string \<Rightarrow> header \<Rightarrow> string \<Rightarrow> duration \<Rightarrow> string \<Rightarrow> 'w
     \<Rightarrow> bool go \<times> 'w"

definition bytes_of :: "string option \<Rightarrow> string" where
  "bytes_of r = (case r of None \<Rightarrow> [] | Some b \<Rightarrow> b)"

lemma bytes_of_simps: "bytes_of None = []" "bytes_of (Some b) = b"
  by (simp_all add: bytes_of_def)

section \<open>revalidator.go\<close>

definition etag_listed :: "string list \<Rightarrow> string \<Rightarrow> bool" where
  "etag_listed tags etag \<longleftrightarrow> list_ex (\<lambda>t. t = ''*'' \<or> t = etag) tags"

definition ValidateETagFromHeader :: "string \<Rightarrow> revalidator \<Rightarrow> revalidator" where
  "ValidateETagFromHeader etag v0 =
     (let v1 = v0\<lparr>rv_ResponseETag := etag,
            rv_NeedRevalidation := (rv_NeedRevalidation v0 \<or> (etag \<noteq> [] \<and> rv_RequestETags v0 \<noteq> [])),
            rv_Matched := (etag = [] \<or> (etag \<noteq> [] \<and> rv_RequestETags v0 = []))\<rparr>
      in if rv_RequestETags v1 = [] then v1\<lparr>rv_NotModified := False\<rparr>
         else if rv_IfNoneMatchPresent v1 then v1\<lparr>rv_Matched := etag_listed (rv_IfNoneMatch v1) etag\<rparr>
         else if rv_IfMatchPresent v1 then
           (if etag = [] then v1\<lparr>rv_Matched := False\<rparr>
            else v1\<lparr>rv_Matched := etag_listed (rv_IfMatch v1) etag\<rparr>)
         else v1)"

section \<open>Election\<close>

definition headers_match :: "request \<Rightarrow> key_index \<Rightarrow> bool" where
  "headers_match req ki \<longleftrightarrow>
     cx_DisableVary (req_ctx req) = Some True \<or>
     list_all (\<lambda>(hname, hval). header_get (req_Header req) hname = Join hval '', '') (ki_VariedHeaders ki)"

text \<open>
  The loop of \<open>MappingElection\<close> over the entries, in the order of the list.  The result holds
  the fresh response, the stale one, the validator as the loop leaves it and whether reading a
  stored response failed.
\<close>

type_synonym election = "response option \<times> response option \<times> revalidator \<times> bool"

fun election_loop ::
  "codec \<Rightarrow> (string \<Rightarrow> 'w \<Rightarrow> string option \<times> 'w) \<Rightarrow> gtime \<Rightarrow> request \<Rightarrow> storage_mapper
     \<Rightarrow> response option \<Rightarrow> revalidator \<Rightarrow> 'w \<Rightarrow> election \<times> 'w" where
  "election_loop cd get now req [] stale v w = ((None, stale, v, False), w)"
| "election_loop cd get now req ((k, ki) # m) stale v w =
     (if \<not> headers_match req ki then election_loop cd get now req m stale v w
      else
        let v1 = ValidateETagFromHeader (ki_Etag ki) v
        in if \<not> rv_Matched v1 then election_loop cd get now req m stale v1 w
           else
             let (fresh_bytes, w1) = (if now < ki_FreshTime ki then get k w else (None, w))
             in case fresh_bytes of
                  Some b \<Rightarrow>
                    (case cd_Read cd b req of
                       None \<Rightarrow> ((None, stale, v1, True), w1)
                     | Some r \<Rightarrow> ((Some r, stale, v1, False), w1))
                | None \<Rightarrow>
                    (let (stale_bytes, w2) = (if now < ki_StaleTime ki then get k w1 else (None, w1))
                     in case stale_bytes of
                          None \<Rightarrow> election_loop cd get now req m stale v1 w2
                        | Some b \<Rightarrow>
                            (case cd_Read cd b req of
                               None \<Rightarrow> ((None, None, v1, True), w2)
                             | Some r \<Rightarrow> election_loop cd get now req m (Some r) v1 w2)))"

definition MappingElection ::
  "codec \<Rightarrow> (string \<Rightarrow> 'w \<Rightarrow> string option \<times> 'w) \<Rightarrow> gtime \<Rightarrow> string \<Rightarrow> request \<Rightarrow> revalidator
     \<Rightarrow> 'w \<Rightarrow> election \<times> 'w" where
  "MappingElection cd get now item req v w =
     (case (if item \<noteq> [] then cd_Unmarshal cd item else Some []) of
        None \<Rightarrow> ((None, None, v, True), w)
      | Some m \<Rightarrow> election_loop cd get now req m None v w)"

definition MappingUpdater ::
  "codec \<Rightarrow> string \<Rightarrow> string \<Rightarrow> gtime \<Rightarrow> gtime \<Rightarrow> gtime \<Rightarrow> header \<Rightarrow> string \<Rightarrow> string \<Rightarrow> string option" where
  "MappingUpdater cd key item now freshTime staleTime variedHeaders etag realKey =
     (case (if item \<noteq> [] then cd_Unmarshal cd item else Some []) of
        None \<Rightarrow> None
      | Some m \<Rightarrow>
          cd_Marshal cd (amap_put key
            \<lparr>ki_StoredAt = now, ki_FreshTime = freshTime, ki_StaleTime = staleTime,
             ki_VariedHeaders = variedHeaders, ki_Etag = etag, ki_RealKey = realKey\<rparr> m))"

end
