(* ===== verification/StorerContract.thy ===== *)
theory StorerContract
  imports StorageCore
begin

text \<open>
  The contract of a storer, as a locale: what its clients rely on when they read, write and
  delete values.  \<open>val t k w\<close> is the value a client sees under \<open>k\<close> at time \<open>t\<close> in state
  \<open>w\<close>; \<open>user_key\<close> tells the keys a client may write.  Inside the locale stand the laws of
  reads after writes and the correctness of the election, which only reads through \<open>Get\<close>.
\<close>

section \<open>Validation of an entity tag\<close>

text \<open>Whether the validator lets an entity tag through; the static fields decide it.\<close>

definition etag_accepts :: "revalidator \<Rightarrow> string \<Rightarrow> bool" where
  "etag_accepts v etag \<longleftrightarrow>
     (if rv_RequestETags v = [] then True
      else if rv_IfNoneMatchPresent v then etag_listed (rv_IfNoneMatch v) etag
      else if rv_IfMatchPresent v then etag \<noteq> [] \<and> etag_listed (rv_IfMatch v) etag
      else etag = [])"

lemma Matched_ValidateETag: "rv_Matched (ValidateETagFromHeader etag v) = etag_accepts v etag"
  by (simp add: ValidateETagFromHeader_def etag_accepts_def Let_def)

lemma ValidateETag_keeps [simp]:
  "rv_RequestETags (ValidateETagFromHeader etag v) = rv_RequestETags v"
  "rv_IfNoneMatchPresent (ValidateETagFromHeader etag v) = rv_IfNoneMatchPresent v"
  "rv_IfMatchPresent (ValidateETagFromHeader etag v) = rv_IfMatchPresent v"
  "rv_IfNoneMatch (ValidateETagFromHeader etag v) = rv_IfNoneMatch v"
  "rv_IfMatch (ValidateETagFromHeader etag v) = rv_IfMatch v"
  by (simp_all add: ValidateETagFromHeader_def Let_def)

lemma etag_accepts_ValidateETag [simp]: "etag_accepts (ValidateETagFromHeader e v) = etag_accepts v"
  by (rule ext) (simp add: etag_accepts_def)

text \<open>An entry answers the request: its varied headers and its entity tag fit.\<close>

definition entry_fits :: "request \<Rightarrow> revalidator \<Rightarrow> key_index \<Rightarrow> bool" where
  "entry_fits req v ki \<longleftrightarrow> headers_match req ki \<and> etag_accepts v (ki_Etag ki)"

lemma entry_fits_ValidateETag [simp]: "entry_fits req (ValidateETagFromHeader e v) = entry_fits req v"
  by (rule ext) (simp add: entry_fits_def)

section \<open>The election over a fixed content\<close>

text \<open>
  The election as a function of what the storer holds, without the state a look-up may change:
  the loop with \<open>look\<close> in place of \<open>Get\<close>.
\<close>

fun elect ::
  "codec \<Rightarrow> (string \<Rightarrow> string option) \<Rightarrow> gtime \<Rightarrow> request \<Rightarrow> storage_mapper \<Rightarrow> response option
     \<Rightarrow> revalidator \<Rightarrow> election" where
  "elect cd look now req [] stale v = (None, stale, v, False)"
| "elect cd look now req ((k, ki) # m) stale v =
     (let v1 = (if headers_match req ki then ValidateETagFromHeader (ki_Etag ki) v else v)
      in if \<not> entry_fits req v ki then elect cd look now req m stale v1
         else if now < ki_FreshTime ki \<and> look k \<noteq> None then
           (case cd_Read cd (the (look k)) req of
              None \<Rightarrow> (None, stale, v1, True)
            | Some r \<Rightarrow> (Some r, stale, v1, False))
         else if now < ki_StaleTime ki \<and> look k \<noteq> None then
           (case cd_Read cd (the (look k)) req of
              None \<Rightarrow> (None, None, v1, True)
            | Some r \<Rightarrow> elect cd look now req m (Some r) v1)
         else elect cd look now req m stale v1)"

definition served :: "codec \<Rightarrow> (string \<Rightarrow> string option) \<Rightarrow> request \<Rightarrow> string \<Rightarrow> response \<Rightarrow> bool" where
  "served cd look req k r \<longleftrightarrow> (\<exists>b. look k = Some b \<and> cd_Read cd b req = Some r)"

text \<open>Soundness: the elected responses are read back from fitting entries within their periods.\<close>

lemma elect_fresh_sound:
  assumes "elect cd look now req m stale v = (Some r, st, v', err)"
  shows "\<exists>(k, ki) \<in> set m. entry_fits req v ki \<and> now < ki_FreshTime ki \<and> served cd look req k r"
  using assms
proof (induction m arbitrary: stale v)
  case (Cons p m)
  obtain k ki where p: "p = (k, ki)" by fastforce
  show ?case
    using Cons.prems Cons.IH by (fastforce simp: p Let_def served_def split: if_splits option.splits)
qed simp

lemma elect_stale_sound:
  assumes "elect cd look now req m stale v = (fr, Some r, v', err)"
  shows "stale = Some r \<or>
    (\<exists>(k, ki) \<in> set m. entry_fits req v ki \<and> now < ki_StaleTime ki \<and> served cd look req k r)"
  using assms
proof (induction m arbitrary: stale v)
  case (Cons p m)
  obtain k ki where p: "p = (k, ki)" by fastforce
  show ?case
    using Cons.prems Cons.IH by (fastforce simp: p Let_def served_def split: if_splits option.splits)
qed simp

text \<open>Completeness: when nothing is elected and nothing failed, no fitting entry is within its period.\<close>

lemma elect_none_complete:
  assumes "elect cd look now req m stale v = (None, st, v', False)"
    and "(k, ki) \<in> set m" "entry_fits req v ki" "look k \<noteq> None"
  shows "ki_FreshTime ki \<le> now \<and> (now < ki_StaleTime ki \<longrightarrow> st \<noteq> None)"
proof -
  have keep: "elect cd look now req m' (Some r) v0 = (None, s', v'', False) \<Longrightarrow> s' \<noteq> None"
    for m' r v0 s' v''
    by (induction m' arbitrary: r v0) (auto simp: Let_def split: if_splits option.splits)
  show ?thesis
    using assms
  proof (induction m arbitrary: stale v)
    case (Cons p m)
    obtain k0 ki0 where p: "p = (k0, ki0)" by fastforce
    show ?case
    proof (cases "p = (k, ki)")
      case True
      then show ?thesis using Cons.prems keep
        by (fastforce simp: Let_def split: if_splits option.splits)
    next
      case False
      then have "(k, ki) \<in> set m" using Cons.prems by simp
      then show ?thesis using Cons.prems Cons.IH
        by (fastforce simp: p Let_def split: if_splits option.splits)
    qed
  qed simp
qed

section \<open>The contract\<close>

text \<open>
  \<open>kv_storer\<close> is what every storer of the program offers its clients: reads up to the
  difference between no value and an empty one, writes that are visible while \<open>lasts\<close> says so
  (time of the write, duration, time of the read), deletions and listings.  Clients prove their
  lemmas inside it once for all storers.  \<open>storer_contract\<close> adds that a read tells no value from
  an empty one and that a value is visible strictly before its duration has passed.
\<close>

locale kv_storer =
  fixes S :: "'w storer"
    and wf :: "'w \<Rightarrow> bool"
    and val :: "gtime \<Rightarrow> string \<Rightarrow> 'w \<Rightarrow> string option"
    and user_key :: "string \<Rightarrow> bool"
    and lasts :: "gtime \<Rightarrow> duration \<Rightarrow> gtime \<Rightarrow> bool"
  assumes get_bytes: "wf w \<Longrightarrow> bytes_of (fst (st_Get S now k w)) = bytes_of (val now k w)"
    and get_keeps: "wf w \<Longrightarrow> now \<le> t \<Longrightarrow> val t k' (snd (st_Get S now k w)) = val t k' w"
    and get_wf: "wf w \<Longrightarrow> wf (snd (st_Get S now k w))"
    and set_val: "wf w \<Longrightarrow> user_key k \<Longrightarrow>
      val t k' (snd (st_Set S now k b d w)) = (if k' = k then if lasts now d t then Some b else None else val t k' w)"
    and set_wf: "wf w \<Longrightarrow> user_key k \<Longrightarrow> wf (snd (st_Set S now k b d w))"
    and set_no_error: "\<not> fst (st_Set S now k b d w)"
    and delete_val: "wf w \<Longrightarrow> val t k' (st_Delete S k w) = (if k' = k then None else val t k' w)"
    and delete_wf: "wf w \<Longrightarrow> wf (st_Delete S k w)"
    and delete_many_val: "wf w \<Longrightarrow> prefix p k \<Longrightarrow> now \<le> t \<Longrightarrow> val t k (st_DeleteMany S now p w) = None"
    and delete_many_mono: "wf w \<Longrightarrow> val t k (st_DeleteMany S now p w) \<in> {None, val t k w}"
    and delete_many_wf: "wf w \<Longrightarrow> wf (st_DeleteMany S now p w)"
    and map_keys_val: "wf w \<Longrightarrow> map_of (fst (st_MapKeys S now p w)) k = val now (p @ k) w"
    and map_keys_keeps: "wf w \<Longrightarrow> now \<le> t \<Longrightarrow> val t k (snd (st_MapKeys S now p w)) = val t k w"
    and map_keys_wf: "wf w \<Longrightarrow> wf (snd (st_MapKeys S now p w))"
begin

lemma bytes_after_set:
  assumes "wf w" "user_key k"
  shows "bytes_of (fst (st_Get S t k' (snd (st_Set S now k b d w)))) =
    (if k' = k then if lasts now d t then b else [] else bytes_of (val t k' w))"
  using assms by (simp add: get_bytes set_wf set_val bytes_of_simps)

lemma bytes_after_delete:
  "wf w \<Longrightarrow> bytes_of (fst (st_Get S t k' (st_Delete S k w))) = (if k' = k then [] else bytes_of (val t k' w))"
  by (simp add: get_bytes delete_wf delete_val bytes_of_simps)

lemma bytes_after_get:
  "wf w \<Longrightarrow> now \<le> t \<Longrightarrow> bytes_of (fst (st_Get S t k (snd (st_Get S now k' w)))) = bytes_of (val t k w)"
  by (simp add: get_bytes get_wf get_keeps)

lemma map_keys_after_set:
  assumes "wf w" "user_key (p @ k)"
  shows "map_of (fst (st_MapKeys S t p (snd (st_Set S now (p @ k) b d w)))) k
    = (if lasts now d t then Some b else None)"
  using assms by (simp add: map_keys_val set_wf set_val)

lemma fold_delete_val:
  "wf w \<Longrightarrow> wf (fold (st_Delete S) ks w) \<and>
    val t k (fold (st_Delete S) ks w) = (if k \<in> set ks then None else val t k w)"
  by (induction ks arbitrary: w) (auto simp: delete_wf delete_val)

end

locale storer_contract = kv_storer S wf val user_key "\<lambda>now d t. t < now + d"
  for S :: "'w storer" and wf :: "'w \<Rightarrow> bool"
    and val :: "gtime \<Rightarrow> string \<Rightarrow> 'w \<Rightarrow> string option" and user_key :: "string \<Rightarrow> bool" +
  assumes get_val: "wf w \<Longrightarrow> fst (st_Get S now k w) = val now k w"
begin

text \<open>The stateful election computes the election over the content of the state it starts in.\<close>

lemma election_loop_elect:
  assumes "wf w"
  shows "fst (election_loop cd (st_Get S now) now req m stale v w) = elect cd (\<lambda>k. val now k w) now req m stale v
    \<and> wf (snd (election_loop cd (st_Get S now) now req m stale v w))
    \<and> (\<forall>t\<ge>now. \<forall>k. val t k (snd (election_loop cd (st_Get S now) now req m stale v w)) = val t k w)"
  using assms
proof (induction m arbitrary: stale v w)
  case (Cons p m)
  obtain k ki where p: "p = (k, ki)" by fastforce
  obtain r1 w1 where g1: "st_Get S now k w = (r1, w1)" by fastforce
  obtain r2 w2 where g2: "st_Get S now k w1 = (r2, w2)" by fastforce
  obtain r3 w3 where g3: "st_Get S now k w = (r3, w3)" by fastforce
  have f1: "r1 = val now k w" "wf w1" "\<And>t k'. now \<le> t \<Longrightarrow> val t k' w1 = val t k' w"
    using get_val[OF Cons.prems, of now k] get_wf[OF Cons.prems, of now k]
      get_keeps[OF Cons.prems, of now _ _ k] by (auto simp: g1)
  have f2: "r2 = val now k w" "wf w2" "\<And>t k'. now \<le> t \<Longrightarrow> val t k' w2 = val t k' w"
    using get_val[OF f1(2), of now k] get_wf[OF f1(2), of now k]
      get_keeps[OF f1(2), of now _ _ k] f1(3) by (auto simp: g2)
  note IH = Cons.IH[OF Cons.prems] Cons.IH[OF f1(2)] Cons.IH[OF f2(2)]
  show ?case
    using IH Cons.prems f1 f2
    by (simp add: p g1 g2 Let_def entry_fits_def Matched_ValidateETag split: option.splits)
qed simp

end

section \<open>The multi-level contract\<close>

text \<open>
  On top of the reads and writes: every base key has a mapping from varied keys to their
  metadata.  \<open>grace\<close> is how long an entry is kept past its fresh period.
\<close>

definition new_entry :: "gtime \<Rightarrow> duration \<Rightarrow> duration \<Rightarrow> header \<Rightarrow> string \<Rightarrow> string \<Rightarrow> key_index" where
  "new_entry now d grace vh etag rk =
     \<lparr>ki_StoredAt = now, ki_FreshTime = now + d, ki_StaleTime = now + (d + grace),
      ki_VariedHeaders = vh, ki_Etag = etag, ki_RealKey = rk\<rparr>"

definition mapping_or_empty :: "storage_mapper option \<Rightarrow> storage_mapper" where
  "mapping_or_empty m = (case m of None \<Rightarrow> [] | Some x \<Rightarrow> x)"

definition elected :: "election \<Rightarrow> response option \<times> response option \<times> revalidator" where
  "elected e = (case e of (fresh, stale, v, _) \<Rightarrow> (fresh, stale, v))"

locale multi_level_contract = storer_contract S wf val user_key
  for S :: "'w storer" and wf :: "'w \<Rightarrow> bool"
    and val :: "gtime \<Rightarrow> string \<Rightarrow> 'w \<Rightarrow> string option" and user_key :: "string \<Rightarrow> bool" +
  fixes cd :: codec and grace :: "'w \<Rightarrow> duration" and mapping :: "string \<Rightarrow> 'w \<Rightarrow> storage_mapper option"
  assumes get_multi: "wf w \<Longrightarrow> fst (st_GetMultiLevel S now bk req v w) =
      Inr (elected (elect cd (\<lambda>k. val now k w) now req (mapping_or_empty (mapping bk w)) None v))"
    and get_multi_wf: "wf w \<Longrightarrow> wf (snd (st_GetMultiLevel S now bk req v w))"
    and set_multi_total: "wf w \<Longrightarrow> user_key vk \<Longrightarrow> \<exists>e. fst (st_SetMultiLevel S now bk vk b vh etag d rk w) = Inr e"
    and set_multi_wf: "wf w \<Longrightarrow> user_key vk \<Longrightarrow> user_key rk \<Longrightarrow>
      wf (snd (st_SetMultiLevel S now bk vk b vh etag d rk w))"
    and set_multi_val: "wf w \<Longrightarrow> user_key vk \<Longrightarrow>
      val t k (snd (st_SetMultiLevel S now bk vk b vh etag d rk w)) =
        (if k = vk then if t < now + (d + grace w) then Some (cd_Compress cd b) else None else val t k w)"
    and set_multi_mapping: "wf w \<Longrightarrow> user_key vk \<Longrightarrow>
      fst (st_SetMultiLevel S now bk vk b vh etag d rk w) = Inr False \<Longrightarrow>
      mapping bk' (snd (st_SetMultiLevel S now bk vk b vh etag d rk w)) =
        (if bk' = bk
         then Some (amap_put vk (new_entry now d (grace w) vh etag rk) (mapping_or_empty (mapping bk w)))
         else mapping bk' w)"
begin

text \<open>What a look-up serves as fresh was stored under a fitting entry that is still fresh.\<close>

lemma get_multi_fresh_sound:
  assumes "wf w" and "fst (st_GetMultiLevel S now bk req v w) = Inr (Some r, st, v')"
  shows "\<exists>(k, ki) \<in> set (mapping_or_empty (mapping bk w)).
    entry_fits req v ki \<and> now < ki_FreshTime ki \<and> served cd (\<lambda>k. val now k w) req k r"
  using assms elect_fresh_sound
  by (auto simp: get_multi elected_def split: prod.splits dest!: elect_fresh_sound)

lemma get_multi_stale_sound:
  assumes "wf w" and "fst (st_GetMultiLevel S now bk req v w) = Inr (fr, Some r, v')"
  shows "\<exists>(k, ki) \<in> set (mapping_or_empty (mapping bk w)).
    entry_fits req v ki \<and> now < ki_StaleTime ki \<and> served cd (\<lambda>k. val now k w) req k r"
  using assms
  by (auto simp: get_multi elected_def split: prod.splits dest!: elect_stale_sound)

text \<open>
  What was stored under a base key that had no mapping yet is served fresh for its duration,
  stale for the grace period and not at all after that.
\<close>

lemma store_then_get:
  assumes w: "wf w" "user_key vk" "user_key rk" and new: "mapping bk w = None"
    and ok: "fst (st_SetMultiLevel S now bk vk b vh etag d rk w) = Inr False"
    and fits: "entry_fits req v (new_entry now d (grace w) vh etag rk)"
    and read: "cd_Read cd (cd_Compress cd b) req = Some r"
    and t: "now \<le> t" "0 \<le> grace w"
  defines "w' \<equiv> snd (st_SetMultiLevel S now bk vk b vh etag d rk w)"
  shows "\<exists>v'. fst (st_GetMultiLevel S t bk req v w') =
    Inr (if t < now + d then Some r else None,
         if now + d \<le> t \<and> t < now + (d + grace w) then Some r else None, v')"
proof -
  have wf': "wf w'" using w by (simp add: w'_def set_multi_wf)
  have m: "mapping_or_empty (mapping bk w') = [(vk, new_entry now d (grace w) vh etag rk)]"
    using w ok new by (simp add: w'_def set_multi_mapping mapping_or_empty_def)
  have v: "val t vk w' = (if t < now + (d + grace w) then Some (cd_Compress cd b) else None)"
    using w by (simp add: w'_def set_multi_val)
  show ?thesis
    using fits read t v
    by (auto simp: get_multi[OF wf'] m elected_def Let_def new_entry_def)
qed

end

end
