(* ===== verification/ConfigTypes.thy ===== *)
theory ConfigTypes
  imports GoDuration GoHeader
begin

text \<open>
  The configuration data of configurationtypes/types.go and of the middleware's
  \<open>BaseConfiguration\<close> (pkg/middleware/configuration.go).  The getters of the interfaces are the
  field selectors; those that compute something are definitions of their own.  Regular
  expressions are kept as their patterns: compiling and matching are parameters where they are
  used.
\<close>

section \<open>Dynamic values\<close>

text \<open>
  Go values of type \<open>interface{}\<close> as a configuration front end hands them over.  The order of
  a map is the order in which a \<open>range\<close> visits it.  A float is the text it is printed as: the
  program never computes with one.
\<close>

datatype any =
    VNil
  | VStr string
  | VBool bool
  | VInt int
  | VUint64 int
  | VFloat string
  | VDuration duration
  | VBytes string
  | VStrs "string list"
  | VInts "int list"
  | VList "any list"
  | VMap "(string \<times> any) list"

section \<open>Regular expressions\<close>

text \<open>
  Package regexp, a parameter: which patterns compile, whether one matches, its leftmost match,
  and all its matches with their submatches.
\<close>

record regexp_engine =
  re_ok :: "string \<Rightarrow> bool"
  re_MatchString :: "string \<Rightarrow> string \<Rightarrow> bool"
  re_FindString :: "string \<Rightarrow> string \<Rightarrow> string"
  re_FindAllStringSubmatch :: "string \<Rightarrow> string \<Rightarrow> string list list"

text \<open>An engine that compiles nothing, for the concrete instances.\<close>

definition no_regexp :: regexp_engine where
  "no_regexp = \<lparr>re_ok = (\<lambda>p. False), re_MatchString = (\<lambda>p s. False), re_FindString = (\<lambda>p s. []),
     re_FindAllStringSubmatch = (\<lambda>p s. [])\<rparr>"

section \<open>Structures\<close>

record cache_key_rule =
  ck_DisableBody :: bool
  ck_DisableHost :: bool
  ck_DisableMethod :: bool
  ck_DisableQuery :: bool
  ck_DisableScheme :: bool
  ck_DisableVary :: bool
  ck_SortQuery :: bool
  ck_Hash :: bool
  ck_Hide :: bool
  ck_Template :: string
  ck_Headers :: "string list"

definition cache_key_rule0 :: cache_key_rule where
  "cache_key_rule0 = \<lparr>ck_DisableBody = False, ck_DisableHost = False, ck_DisableMethod = False,
     ck_DisableQuery = False, ck_DisableScheme = False, ck_DisableVary = False, ck_SortQuery = False,
     ck_Hash = False, ck_Hide = False, ck_Template = [], ck_Headers = []\<rparr>"

text \<open>\<open>CacheKeys\<close>: a list of maps from a pattern to its rule.\<close>

type_synonym cache_keys = "(string, cache_key_rule) amap list"

record url_config =
  url_TTL :: duration
  url_Headers :: "string list"
  url_DefaultCacheControl :: string

record cache_provider =
  cp_Uuid :: string
  cp_Found :: bool
  cp_URL :: string
  cp_Path :: string
  cp_Configuration :: any

definition cache_provider0 :: cache_provider where
  "cache_provider0 = \<lparr>cp_Uuid = [], cp_Found = False, cp_URL = [], cp_Path = [], cp_Configuration = VNil\<rparr>"

record timeout_config =
  to_Backend :: duration
  to_Cache :: duration

record cdn_config =
  cdn_APIKey :: string
  cdn_Dynamic :: bool
  cdn_Email :: string
  cdn_Hostname :: string
  cdn_Network :: string
  cdn_Provider :: string
  cdn_Strategy :: string
  cdn_ServiceID :: string
  cdn_ZoneID :: string

definition cdn_config0 :: cdn_config where
  "cdn_config0 = \<lparr>cdn_APIKey = [], cdn_Dynamic = False, cdn_Email = [], cdn_Hostname = [],
     cdn_Network = [], cdn_Provider = [], cdn_Strategy = [], cdn_ServiceID = [], cdn_ZoneID = []\<rparr>"

record default_cache =
  dc_AllowedHTTPVerbs :: "string list"
  dc_AllowedAdditionalStatusCodes :: "int list"
  dc_Badger :: cache_provider
  dc_CDN :: cdn_config
  dc_CacheName :: string
  dc_Distributed :: bool
  dc_Headers :: "string list"
  dc_Key :: cache_key_rule
  dc_Etcd :: cache_provider
  dc_Mode :: string
  dc_Nats :: cache_provider
  dc_Nuts :: cache_provider
  dc_Olric :: cache_provider
  dc_Otter :: cache_provider
  dc_Redis :: cache_provider
  dc_PortWeb :: string
  dc_PortTLS :: string
  dc_RegexExclude :: string
  dc_SimpleFS :: cache_provider
  dc_Stale :: duration
  dc_Storers :: "string list"
  dc_Timeout :: timeout_config
  dc_TTL :: duration
  dc_DefaultCacheControl :: string
  dc_MaxBodyBytes :: int
  dc_DisableCoalescing :: bool
  dc_MappingEvictionInterval :: duration

definition default_cache0 :: default_cache where
  "default_cache0 = \<lparr>dc_AllowedHTTPVerbs = [], dc_AllowedAdditionalStatusCodes = [],
     dc_Badger = cache_provider0, dc_CDN = cdn_config0, dc_CacheName = [], dc_Distributed = False,
     dc_Headers = [], dc_Key = cache_key_rule0, dc_Etcd = cache_provider0, dc_Mode = [],
     dc_Nats = cache_provider0, dc_Nuts = cache_provider0, dc_Olric = cache_provider0,
     dc_Otter = cache_provider0, dc_Redis = cache_provider0, dc_PortWeb = [], dc_PortTLS = [],
     dc_RegexExclude = [], dc_SimpleFS = cache_provider0, dc_Stale = 0, dc_Storers = [],
     dc_Timeout = \<lparr>to_Backend = 0, to_Cache = 0\<rparr>, dc_TTL = 0, dc_DefaultCacheControl = [],
     dc_MaxBodyBytes = 0, dc_DisableCoalescing = False, dc_MappingEvictionInterval = 0\<rparr>"

definition GetMappingEvictionInterval :: "default_cache \<Rightarrow> duration" where
  "GetMappingEvictionInterval d =
     (if dc_MappingEvictionInterval d = 0 then Minute else dc_MappingEvictionInterval d)"

record api_endpoint =
  ep_BasePath :: string
  ep_Enable :: bool
  ep_Security :: bool

definition api_endpoint0 :: api_endpoint where
  "api_endpoint0 = \<lparr>ep_BasePath = [], ep_Enable = False, ep_Security = False\<rparr>"

record security_api =
  sec_BasePath :: string
  sec_Enable :: bool
  sec_Secret :: string
  sec_Users :: "(string \<times> string) list"

record api_config =
  api_BasePath :: string
  api_Debug :: api_endpoint
  api_Prometheus :: api_endpoint
  api_Souin :: api_endpoint
  api_Security :: security_api

definition api_config0 :: api_config where
  "api_config0 = \<lparr>api_BasePath = [], api_Debug = api_endpoint0, api_Prometheus = api_endpoint0,
     api_Souin = api_endpoint0,
     api_Security = \<lparr>sec_BasePath = [], sec_Enable = False, sec_Secret = [], sec_Users = []\<rparr>\<rparr>"

record surrogate_keys =
  sk_Storer :: string
  sk_URL :: string
  sk_Headers :: "(string, string) amap"

definition surrogate_keys0 :: surrogate_keys where
  "surrogate_keys0 = \<lparr>sk_Storer = [], sk_URL = [], sk_Headers = []\<rparr>"

record base_configuration =
  bc_DefaultCache :: default_cache
  bc_API :: api_config
  bc_CacheKeys :: cache_keys
  bc_URLs :: "(string, url_config) amap"
  bc_LogLevel :: string
  bc_PluginName :: string
  bc_Ykeys :: "(string, surrogate_keys) amap"
  bc_SurrogateKeys :: "(string, surrogate_keys) amap"
  bc_SurrogateKeyDisabled :: bool

definition base_configuration0 :: base_configuration where
  "base_configuration0 = \<lparr>bc_DefaultCache = default_cache0, bc_API = api_config0, bc_CacheKeys = [],
     bc_URLs = [], bc_LogLevel = [], bc_PluginName = [], bc_Ykeys = [], bc_SurrogateKeys = [],
     bc_SurrogateKeyDisabled = False\<rparr>"

text \<open>\<open>GetYkeys\<close> returns the surrogate keys, not the ykeys.\<close>

definition GetYkeys :: "base_configuration \<Rightarrow> (string, surrogate_keys) amap" where
  "GetYkeys c = bc_SurrogateKeys c"

section \<open>Durations in JSON\<close>

text \<open>
  \<open>Duration.MarshalJSON\<close>: a JSON string around \<open>d.String()\<close>, which holds no character that JSON
  escapes.  \<open>Duration.UnmarshalJSON\<close> cuts the first and the last byte off, whatever they are,
  and panics when there is only one.
\<close>

definition Duration_MarshalJSON :: "duration \<Rightarrow> string" where
  "Duration_MarshalJSON d = [CHR 0x22] @ Duration_String d @ [CHR 0x22]"

definition Duration_UnmarshalJSON :: "string \<Rightarrow> duration go" where
  "Duration_UnmarshalJSON b =
     (if length b < 2 then Inl IndexOutOfRange
      else Inr (duration_or_zero (ParseDuration (butlast (tl b)))))"

text \<open>
  C38. A duration written to JSON is read back as it was, for every duration an \<open>int64\<close> holds.
\<close>

theorem Duration_JSON_roundtrip:
  assumes "fits_duration d"
  shows "Duration_UnmarshalJSON (Duration_MarshalJSON d) = Inr d"
  using assms by (simp add: Duration_UnmarshalJSON_def Duration_MarshalJSON_def ParseDuration_String duration_or_zero_def)

theorem Duration_JSON_roundtrip_witness:
  "Duration_UnmarshalJSON (Duration_MarshalJSON (90 * Minute + 5)) = Inr (90 * Minute + 5)"
  by (rule Duration_JSON_roundtrip) (simp add: fits_duration_def min_int64_def max_int64_def Minute_def Second_def Millisecond_def)

section \<open>Cache keys from JSON tokens\<close>

text \<open>
  \<open>parseJSON\<close> looks at the decoder's tokens only through \<open>fmt.Sprint\<close> and a comparison with
  nil: a token is its printed text, and \<open>None\<close> is the nil token (JSON null, or the end).
\<close>

type_synonym json_token = "string option"

definition Sprint :: "json_token \<Rightarrow> string" where
  "Sprint t = (case t of None \<Rightarrow> ''<nil>'' | Some s \<Rightarrow> s)"

definition ParseBool :: "string \<Rightarrow> bool" where
  "ParseBool s \<longleftrightarrow> s \<in> {''1'', ''t'', ''T'', ''true'', ''TRUE'', ''True''}"

definition next_token :: "json_token list \<Rightarrow> json_token \<times> json_token list" where
  "next_token ts = (case ts of [] \<Rightarrow> (None, []) | t # r \<Rightarrow> (t, r))"

text \<open>The header list: everything up to the closing bracket; \<open>None\<close> when there is none, where Go's loop does not stop.\<close>

fun json_headers :: "json_token list \<Rightarrow> (string list \<times> json_token list) option" where
  "json_headers [] = None"
| "json_headers (t # ts) =
     (if Sprint t = '']'' then Some ([], ts)
      else map_option (\<lambda>(hs, r). (Sprint t # hs, r)) (json_headers ts))"

definition json_flags :: "string list" where
  "json_flags = [''disable_body'', ''disable_host'', ''disable_method'', ''disable_query'',
     ''disable_scheme'', ''disable_vary'', ''sort_query'', ''hash'', ''hide'']"

definition set_json_flag :: "string \<Rightarrow> bool \<Rightarrow> cache_key_rule \<Rightarrow> cache_key_rule" where
  "set_json_flag field b key =
     (if field = ''disable_body'' then key\<lparr>ck_DisableBody := b\<rparr>
      else if field = ''disable_host'' then key\<lparr>ck_DisableHost := b\<rparr>
      else if field = ''disable_method'' then key\<lparr>ck_DisableMethod := b\<rparr>
      else if field = ''disable_query'' then key\<lparr>ck_DisableQuery := b\<rparr>
      else if field = ''disable_scheme'' then key\<lparr>ck_DisableScheme := b\<rparr>
      else if field = ''disable_vary'' then key\<lparr>ck_DisableVary := b\<rparr>
      else if field = ''sort_query'' then key\<lparr>ck_SortQuery := b\<rparr>
      else if field = ''hash'' then key\<lparr>ck_Hash := b\<rparr>
      else if field = ''hide'' then key\<lparr>ck_Hide := b\<rparr>
      else key)"

lemma json_headers_length: "json_headers ts = Some (hs, r) \<Longrightarrow> length r < length ts"
proof (induction ts arbitrary: hs r)
  case Nil
  then show ?case by simp
next
  case (Cons t ts)
  then show ?case by (cases "Sprint t = '']''") (auto simp: less_Suc_eq)
qed

lemma next_token_length: "next_token ts = (t, r) \<Longrightarrow> length r \<le> length ts"
  by (auto simp: next_token_def split: list.splits)

text \<open>
  The inner loop: the fields of one rule up to its closing brace.  \<open>None\<close> is the endless loop
  of an unclosed header list.
\<close>

function json_rule ::
  "json_token list \<Rightarrow> cache_key_rule \<Rightarrow> (cache_key_rule \<times> json_token list) option" where
  "json_rule ts key =
     (case ts of
        [] \<Rightarrow> Some (key, [])
      | t # r \<Rightarrow>
          if t = None \<or> t = Some ''}'' then Some (key, r)
          else if Sprint t \<in> set json_flags then
            (case next_token r of (v, r') \<Rightarrow> json_rule r' (set_json_flag (Sprint t) (ParseBool (Sprint v)) key))
          else if Sprint t = ''template'' then
            (case next_token r of (v, r') \<Rightarrow> json_rule r' (key\<lparr>ck_Template := Sprint v\<rparr>))
          else if Sprint t = ''headers'' then
            (case next_token r of (v, r1) \<Rightarrow>
               if Sprint v = '']'' then json_rule r1 (key\<lparr>ck_Headers := []\<rparr>)
               else case json_headers r1 of
                 None \<Rightarrow> None
               | Some (hs, r') \<Rightarrow> json_rule r' (key\<lparr>ck_Headers := hs\<rparr>))
          else json_rule r key)"
  by pat_completeness auto
termination
  by (relation "measure (\<lambda>(ts, _). length ts)")
    (auto dest!: json_headers_length next_token_length sym[of _ "next_token _"])

declare json_rule.simps [simp del]

lemma json_rule_length: "json_rule ts key = Some (k, r) \<Longrightarrow> length r \<le> length ts"
proof (induction ts key rule: json_rule.induct)
  case (1 ts key)
  show ?case
  proof (cases ts)
    case Nil
    with 1(6) show ?thesis by (simp add: json_rule.simps[of "[]"])
  next
    case (Cons t r')
    obtain v r1 where n: "next_token r' = (v, r1)" by fastforce
    have l: "length r1 \<le> length r'" using next_token_length[OF n] .
    show ?thesis
      using 1 l json_headers_length[of r1]
      by (fastforce simp: Cons json_rule.simps[of "t # r'"] n split: if_splits option.splits)
  qed
qed

text \<open>The outer loop: the rules with the tokens that name them.\<close>

function json_rules :: "json_token list \<Rightarrow> (string \<times> cache_key_rule) list option" where
  "json_rules ts =
     (case ts of
        [] \<Rightarrow> Some []
      | t # r \<Rightarrow>
          if t = None \<or> t = Some ''}'' then json_rules r
          else (case json_rule r cache_key_rule0 of
              None \<Rightarrow> None
            | Some (key, r') \<Rightarrow> map_option (\<lambda>ks. (Sprint t, key) # ks) (json_rules r')))"
  by pat_completeness auto
termination
  by (relation "measure length") (auto dest!: json_rule_length)

declare json_rules.simps [simp del]

text \<open>
  \<open>CacheKeys.parseJSON\<close>: the first three tokens are skipped, then one rule after the other is
  appended; \<open>re\<close> tells which patterns compile, \<open>regexp.MustCompile\<close> panics on the others.
\<close>

definition CacheKeys_parseJSON ::
  "regexp_engine \<Rightarrow> json_token list \<Rightarrow> cache_keys \<Rightarrow> cache_keys go option" where
  "CacheKeys_parseJSON re ts c =
     (case json_rules (drop 3 ts) of
        None \<Rightarrow> None
      | Some rs \<Rightarrow>
          Some (if list_all (\<lambda>(rg, _). re_ok re rg) rs
                then Inr (c @ map (\<lambda>(rg, key). [(rg, key)]) rs) else Inl MustCompile))"

end
