(* ===== verification/DefaultStorage.thy ===== *)
theory DefaultStorage
  imports StorerContract ConfigTypes
begin

text \<open>
  The in-memory storer (pkg/storage/defaultProvider.go).  Its \<open>sync.Map\<close> is an association list
  from keys to values of the three dynamic types the code asserts.  A \<open>Range\<close> visits the keys
  present at its start and skips those deleted meanwhile.  Operations that read the clock take
  the reading \<open>now\<close>.  The first part holds the operations, the second the invariant of the map,
  the third the contract of a key-value storer as a locale, interpreted on this storer.
\<close>

section \<open>State and operations\<close>

datatype stored =
    Item (invalidAt: gtime) (item_value: string)
  | Bytes string
  | Mapper storage_mapper

record default_provider =
  ds_m :: "(string, stored) amap"
  ds_stale :: duration

definition default_provider_Factory :: "duration \<Rightarrow> default_provider" where
  "default_provider_Factory stale = \<lparr>ds_m = [], ds_stale = stale\<rparr>"

definition DefaultStorageName :: string where
  "DefaultStorageName = ''DEFAULT''"

definition ds_Get :: "gtime \<Rightarrow> string \<Rightarrow> default_provider \<Rightarrow> string option \<times> default_provider" where
  "ds_Get now key s =
     (case map_of (ds_m s) key of
        Some (Item t v) \<Rightarrow> if now < t then (Some v, s) else (None, s\<lparr>ds_m := amap_del key (ds_m s)\<rparr>)
      | _ \<Rightarrow> (None, s))"

text \<open>\<open>MapKeys\<close>: the inner loop serves a stored mapping object, then the loop over the keys.\<close>

fun map_keys_mapping ::
  "gtime \<Rightarrow> (string \<times> key_index) list \<Rightarrow> (string, string) amap \<Rightarrow> default_provider
     \<Rightarrow> (string, string) amap \<times> default_provider" where
  "map_keys_mapping now [] keys s = (keys, s)"
| "map_keys_mapping now ((_, v) # m) keys s =
     (if now < ki_StaleTime v then
        (case ds_Get now (ki_RealKey v) s of
           (r, s') \<Rightarrow> map_keys_mapping now m (amap_put (ki_RealKey v) (bytes_of r) keys) s')
      else map_keys_mapping now m keys s)"

fun map_keys_loop ::
  "gtime \<Rightarrow> string \<Rightarrow> string list \<Rightarrow> (string, string) amap \<Rightarrow> default_provider
     \<Rightarrow> (string, string) amap \<times> default_provider" where
  "map_keys_loop now pre [] keys s = (keys, s)"
| "map_keys_loop now pre (key # ks) keys s =
     (if \<not> prefix pre key then map_keys_loop now pre ks keys s
      else case map_of (ds_m s) key of
        None \<Rightarrow> map_keys_loop now pre ks keys s
      | Some (Item t v) \<Rightarrow>
          map_keys_loop now pre ks (if now < t then amap_put (CutPrefix key pre) v keys else keys) s
      | Some (Mapper m) \<Rightarrow>
          (case map_keys_mapping now m keys s of (keys', s') \<Rightarrow> map_keys_loop now pre ks keys' s')
      | Some (Bytes _) \<Rightarrow> map_keys_loop now pre ks keys s)"

definition ds_MapKeys :: "gtime \<Rightarrow> string \<Rightarrow> default_provider \<Rightarrow> (string, string) amap \<times> default_provider" where
  "ds_MapKeys now pre s = map_keys_loop now pre (amap_keys (ds_m s)) [] s"

text \<open>\<open>ListKeys\<close>: the live real keys of every mapping; the real keys of dead entries are deleted.\<close>

fun list_keys_mapping ::
  "gtime \<Rightarrow> (string \<times> key_index) list \<Rightarrow> string list \<Rightarrow> default_provider \<Rightarrow> string list \<times> default_provider" where
  "list_keys_mapping now [] keys s = (keys, s)"
| "list_keys_mapping now ((_, v) # m) keys s =
     (if now < ki_StaleTime v then list_keys_mapping now m (keys @ [ki_RealKey v]) s
      else list_keys_mapping now m keys (s\<lparr>ds_m := amap_del (ki_RealKey v) (ds_m s)\<rparr>))"

fun list_keys_loop ::
  "codec \<Rightarrow> gtime \<Rightarrow> string list \<Rightarrow> string list \<Rightarrow> default_provider \<Rightarrow> string list go \<times> default_provider" where
  "list_keys_loop cd now [] keys s = (Inr keys, s)"
| "list_keys_loop cd now (key # ks) keys s =
     (if \<not> prefix MappingKeyPrefix key then list_keys_loop cd now ks keys s
      else case map_of (ds_m s) key of
        None \<Rightarrow> list_keys_loop cd now ks keys s
      | Some (Bytes b) \<Rightarrow>
          (case cd_Unmarshal cd b of
             None \<Rightarrow> list_keys_loop cd now ks keys s
           | Some m \<Rightarrow>
               (case list_keys_mapping now m keys s of (keys', s') \<Rightarrow> list_keys_loop cd now ks keys' s'))
      | Some _ \<Rightarrow> (Inl TypeAssertion, s))"

definition ds_ListKeys :: "codec \<Rightarrow> gtime \<Rightarrow> default_provider \<Rightarrow> string list go \<times> default_provider" where
  "ds_ListKeys cd now s = list_keys_loop cd now (amap_keys (ds_m s)) [] s"

definition ds_GetMultiLevel ::
  "codec \<Rightarrow> gtime \<Rightarrow> string \<Rightarrow> request \<Rightarrow> revalidator \<Rightarrow> default_provider
     \<Rightarrow> (response option \<times> response option \<times> revalidator) go \<times> default_provider" where
  "ds_GetMultiLevel cd now key req v s =
     (case map_of (ds_m s) (MappingKeyPrefix @ key) of
        None \<Rightarrow> (Inr (None, None, v), s)
      | Some (Bytes b) \<Rightarrow>
          (case MappingElection cd (ds_Get now) now b req v s of
             ((fresh, stale, v', _), s') \<Rightarrow> (Inr (fresh, stale, v'), s'))
      | Some _ \<Rightarrow> (Inl TypeAssertion, s))"

definition ds_SetMultiLevel ::
  "codec \<Rightarrow> gtime \<Rightarrow> string \<Rightarrow> string \<Rightarrow> string \<Rightarrow> header \<Rightarrow> string \<Rightarrow> duration \<Rightarrow> string
     \<Rightarrow> default_provider \<Rightarrow> bool go \<times> default_provider" where
  "ds_SetMultiLevel cd now baseKey variedKey val variedHeaders etag d realKey s =
     (let s1 = s\<lparr>ds_m := amap_put variedKey (Item (now + (d + ds_stale s)) (cd_Compress cd val)) (ds_m s)\<rparr>;
          mappingKey = MappingKeyPrefix @ baseKey;
          update = (\<lambda>old. case MappingUpdater cd variedKey old now (now + d) (now + (d + ds_stale s))
                              variedHeaders etag realKey of
                      None \<Rightarrow> (Inr True, s1)
                    | Some b \<Rightarrow> (Inr False, s1\<lparr>ds_m := amap_put mappingKey (Bytes b) (ds_m s1)\<rparr>))
      in case map_of (ds_m s1) mappingKey of
           None \<Rightarrow> update []
         | Some (Bytes b) \<Rightarrow> update b
         | Some _ \<Rightarrow> (Inl TypeAssertion, s1))"

definition ds_Set :: "gtime \<Rightarrow> string \<Rightarrow> string \<Rightarrow> duration \<Rightarrow> default_provider \<Rightarrow> bool \<times> default_provider" where
  "ds_Set now key val d s = (False, s\<lparr>ds_m := amap_put key (Item (now + d) val) (ds_m s)\<rparr>)"

definition ds_Delete :: "string \<Rightarrow> default_provider \<Rightarrow> default_provider" where
  "ds_Delete key s = s\<lparr>ds_m := amap_del key (ds_m s)\<rparr>"

text \<open>\<open>DeleteMany\<close>: the argument is at once a pattern, searched anywhere in the key, and a prefix.\<close>

definition delete_many_hits :: "regexp_engine \<Rightarrow> string \<Rightarrow> string \<Rightarrow> bool" where
  "delete_many_hits re key current \<longleftrightarrow> (re_ok re key \<and> re_MatchString re key current) \<or> prefix key current"

definition ds_DeleteMany :: "regexp_engine \<Rightarrow> string \<Rightarrow> default_provider \<Rightarrow> default_provider" where
  "ds_DeleteMany re key s = s\<lparr>ds_m := amap_filter_keys (\<lambda>k. \<not> delete_many_hits re key k) (ds_m s)\<rparr>"

definition ds_Reset :: "default_provider \<Rightarrow> bool \<times> default_provider" where
  "ds_Reset s = (False, s\<lparr>ds_m := []\<rparr>)"

definition default_storer :: "regexp_engine \<Rightarrow> codec \<Rightarrow> default_provider storer" where
  "default_storer re cd = \<lparr>st_Name = DefaultStorageName, st_Uuid = [], st_MapKeys = ds_MapKeys,
     st_ListKeys = ds_ListKeys cd, st_Get = ds_Get, st_Set = ds_Set, st_Delete = ds_Delete,
     st_DeleteMany = (\<lambda>now. ds_DeleteMany re), st_Reset = (\<lambda>now. ds_Reset), st_GetMultiLevel = ds_GetMultiLevel cd,
     st_SetMultiLevel = ds_SetMultiLevel cd\<rparr>"

section \<open>The invariant\<close>

text \<open>
  Keys in the mapping name space hold encoded mappings, all the others hold items; no mapping
  object is ever stored, and no entry's real key lies in the mapping name space.
\<close>

definition user_key :: "string \<Rightarrow> bool" where
  "user_key k \<longleftrightarrow> \<not> prefix MappingKeyPrefix k"

definition mapping_value_ok :: "codec \<Rightarrow> stored \<Rightarrow> bool" where
  "mapping_value_ok cd x \<longleftrightarrow>
     (case x of Bytes b \<Rightarrow> (case cd_Unmarshal cd b of
           Some m \<Rightarrow> list_all (\<lambda>(k, ki). user_key (ki_RealKey ki)) m \<and> (b = [] \<longrightarrow> m = []) | None \<Rightarrow> False)
        | _ \<Rightarrow> False)"

definition value_ok :: "codec \<Rightarrow> string \<Rightarrow> stored \<Rightarrow> bool" where
  "value_ok cd k x \<longleftrightarrow> (if user_key k then (\<exists>t v. x = Item t v) else mapping_value_ok cd x)"

definition ds_ok :: "codec \<Rightarrow> default_provider \<Rightarrow> bool" where
  "ds_ok cd s \<longleftrightarrow> amap_ok (ds_m s) \<and> (\<forall>k x. map_of (ds_m s) k = Some x \<longrightarrow> value_ok cd k x)"

text \<open>The value visible at a time, and the mapping of a base key.\<close>

definition ds_val :: "gtime \<Rightarrow> string \<Rightarrow> default_provider \<Rightarrow> string option" where
  "ds_val t k s = (case map_of (ds_m s) k of Some (Item u v) \<Rightarrow> if t < u then Some v else None | _ \<Rightarrow> None)"

definition ds_mapping :: "codec \<Rightarrow> string \<Rightarrow> default_provider \<Rightarrow> storage_mapper option" where
  "ds_mapping cd bk s =
     (case map_of (ds_m s) (MappingKeyPrefix @ bk) of Some (Bytes b) \<Rightarrow> cd_Unmarshal cd b | _ \<Rightarrow> None)"

lemma not_user_key_mapping [simp]: "\<not> user_key (MappingKeyPrefix @ k)"
  by (simp add: user_key_def)

lemma ds_ok_lookup: "ds_ok cd s \<Longrightarrow> map_of (ds_m s) k = Some x \<Longrightarrow> value_ok cd k x"
  by (simp add: ds_ok_def)

lemma value_ok_simps [simp]:
  "value_ok cd k (Item t v) \<longleftrightarrow> user_key k"
  "\<not> value_ok cd k (Mapper m)"
  by (auto simp: value_ok_def mapping_value_ok_def)

lemma ds_ok_put: "ds_ok cd s \<Longrightarrow> value_ok cd k x \<Longrightarrow> ds_ok cd (s\<lparr>ds_m := amap_put k x (ds_m s)\<rparr>)"
  by (simp add: ds_ok_def)

lemma ds_ok_del: "ds_ok cd s \<Longrightarrow> ds_ok cd (s\<lparr>ds_m := amap_del k (ds_m s)\<rparr>)"
  by (auto simp: ds_ok_def)

lemma ds_ok_filter: "ds_ok cd s \<Longrightarrow> ds_ok cd (s\<lparr>ds_m := amap_filter_keys P (ds_m s)\<rparr>)"
  by (auto simp: ds_ok_def)

lemma ds_ok_Reset: "ds_ok cd (s\<lparr>ds_m := []\<rparr>)"
  by (simp add: ds_ok_def)

lemma ds_ok_Factory: "ds_ok cd (default_provider_Factory stale)"
  by (simp add: ds_ok_def default_provider_Factory_def)

lemma ds_ok_cases:
  assumes "ds_ok cd s" and "map_of (ds_m s) k = Some x"
  obtains (user) t v where "x = Item t v" "user_key k"
  | (mapping) b m where "x = Bytes b" "\<not> user_key k" "cd_Unmarshal cd b = Some m"
      "\<forall>(k, ki) \<in> set m. user_key (ki_RealKey ki)" "b = [] \<longrightarrow> m = []"
  using ds_ok_lookup[OF assms]
  by (fastforce simp: value_ok_def mapping_value_ok_def list_all_iff split: if_splits stored.splits option.splits)

section \<open>Reads\<close>

lemma ds_val_update [simp]:
  "ds_val t k' (s\<lparr>ds_m := amap_put k (Item u v) (ds_m s)\<rparr>) =
     (if k' = k then if t < u then Some v else None else ds_val t k' s)"
  "ds_val t k' (s\<lparr>ds_m := amap_put k (Bytes b) (ds_m s)\<rparr>) = (if k' = k then None else ds_val t k' s)"
  "ds_val t k' (s\<lparr>ds_m := amap_del k (ds_m s)\<rparr>) = (if k' = k then None else ds_val t k' s)"
  "ds_val t k' (s\<lparr>ds_m := amap_filter_keys P (ds_m s)\<rparr>) = (if P k' then ds_val t k' s else None)"
  by (simp_all add: ds_val_def)

lemma ds_Get_val: "fst (ds_Get now k s) = ds_val now k s"
  by (simp add: ds_Get_def ds_val_def split: option.split stored.split)

lemma ds_Get_keeps: "now \<le> t \<Longrightarrow> ds_val t k' (snd (ds_Get now k s)) = ds_val t k' s"
  by (auto simp: ds_Get_def ds_val_def split: option.split stored.split)

lemmas ds_op_defs = ds_Set_def ds_Delete_def ds_DeleteMany_def ds_Reset_def

lemma ds_Get_ok: "ds_ok cd s \<Longrightarrow> ds_ok cd (snd (ds_Get now k s))"
  by (auto simp: ds_Get_def ds_ok_del split: option.split stored.split)

lemma map_keys_loop_ok:
  assumes "ds_ok cd s" "\<forall>k\<in>set ks. k \<in> set (amap_keys (ds_m s))" "distinct ks"
  shows "snd (map_keys_loop now p ks acc s) = s \<and>
    map_of (fst (map_keys_loop now p ks acc s)) k =
      (if p @ k \<in> set ks \<and> ds_val now (p @ k) s \<noteq> None then ds_val now (p @ k) s else map_of acc k)"
  using assms(2,3)
proof (induction ks arbitrary: acc)
  case (Cons key ks)
  obtain x where x: "map_of (ds_m s) key = Some x"
    using Cons.prems(1) by (metis list.set_intros(1) map_of_eq_None_iff list.set_map not_None_eq)
  have cut: "prefix p key \<Longrightarrow> (k = CutPrefix key p) = (key = p @ k)"
    by (auto simp: CutPrefix_def prefix_def)
  show ?case
    using assms(1) x
  proof (cases rule: ds_ok_cases)
    case (user t v)
    then show ?thesis using Cons x cut
      by (auto simp: ds_val_def)
  next
    case (mapping b m)
    then show ?thesis using Cons x
      by (auto simp: ds_val_def)
  qed
qed simp

lemma ds_MapKeys_val:
  assumes "ds_ok cd s"
  shows "snd (ds_MapKeys now p s) = s" "map_of (fst (ds_MapKeys now p s)) k = ds_val now (p @ k) s"
proof -
  have "distinct (amap_keys (ds_m s))" using assms by (simp add: ds_ok_def amap_ok_def)
  note l = map_keys_loop_ok[OF assms _ this, of now p "[]" k, simplified]
  show "snd (ds_MapKeys now p s) = s" using l by (simp add: ds_MapKeys_def)
  have "p @ k \<notin> set (amap_keys (ds_m s)) \<Longrightarrow> ds_val now (p @ k) s = None"
    by (simp add: ds_val_def map_of_eq_None_iff[symmetric])
  then show "map_of (fst (ds_MapKeys now p s)) k = ds_val now (p @ k) s"
    using l by (auto simp: ds_MapKeys_def)
qed

text \<open>\<open>ListKeys\<close> deletes only items, so the mappings it still has to visit stay in place.\<close>

definition live_real_keys :: "gtime \<Rightarrow> storage_mapper \<Rightarrow> string list" where
  "live_real_keys now m = map (\<lambda>(_, ki). ki_RealKey ki) (filter (\<lambda>(_, ki). now < ki_StaleTime ki) m)"

lemma list_keys_mapping_spec:
  assumes "ds_ok cd s" "\<forall>(k, ki) \<in> set m. user_key (ki_RealKey ki)"
  shows "fst (list_keys_mapping now m keys s) = keys @ live_real_keys now m \<and>
    ds_ok cd (snd (list_keys_mapping now m keys s)) \<and>
    (\<forall>k. \<not> user_key k \<longrightarrow> map_of (ds_m (snd (list_keys_mapping now m keys s))) k = map_of (ds_m s) k)"
  using assms
proof (induction m arbitrary: keys s)
  case (Cons p m)
  obtain k ki where p: "p = (k, ki)" by fastforce
  show ?case
  proof (cases "now < ki_StaleTime ki")
    case True
    with Cons.IH[of s "keys @ [ki_RealKey ki]"] Cons.prems show ?thesis by (simp add: p live_real_keys_def)
  next
    case False
    let ?s = "s\<lparr>ds_m := amap_del (ki_RealKey ki) (ds_m s)\<rparr>"
    have "ds_ok cd ?s" using Cons.prems(1) by (rule ds_ok_del)
    with Cons.IH[of ?s keys] Cons.prems False show ?thesis by (auto simp: p live_real_keys_def)
  qed
qed (simp add: live_real_keys_def)

definition keys_of_mapping :: "codec \<Rightarrow> gtime \<Rightarrow> default_provider \<Rightarrow> string \<Rightarrow> string list" where
  "keys_of_mapping cd now s key = live_real_keys now
     (case map_of (ds_m s) key of Some (Bytes b) \<Rightarrow> mapping_or_empty (cd_Unmarshal cd b) | _ \<Rightarrow> [])"

lemma live_real_keys_Nil [simp]: "live_real_keys now [] = []"
  by (simp add: live_real_keys_def)

lemma list_keys_loop_spec:
  assumes "ds_ok cd s"
  shows "fst (list_keys_loop cd now ks keys s) =
      Inr (keys @ concat (map (keys_of_mapping cd now s) (filter (\<lambda>k. \<not> user_key k) ks))) \<and>
    ds_ok cd (snd (list_keys_loop cd now ks keys s)) \<and>
    (\<forall>k. \<not> user_key k \<longrightarrow> map_of (ds_m (snd (list_keys_loop cd now ks keys s))) k = map_of (ds_m s) k)"
  using assms
proof (induction ks arbitrary: keys s)
  case (Cons key ks)
  show ?case
  proof (cases "user_key key \<or> map_of (ds_m s) key = None")
    case True
    then show ?thesis using Cons.IH[OF Cons.prems, of keys]
      by (auto simp: user_key_def keys_of_mapping_def)
  next
    case False
    then obtain x where x: "map_of (ds_m s) key = Some x" "\<not> user_key key" by auto
    from Cons.prems x(1) show ?thesis
    proof (cases rule: ds_ok_cases)
      case user
      then show ?thesis using x by simp
    next
      case (mapping b m)
      obtain keys' s' where l: "list_keys_mapping now m keys s = (keys', s')" by fastforce
      note sp = list_keys_mapping_spec[OF Cons.prems mapping(4), of now keys, unfolded l]
      have same: "keys_of_mapping cd now s' k = keys_of_mapping cd now s k" if "\<not> user_key k" for k
        using sp that by (simp add: keys_of_mapping_def)
      have "concat (map (keys_of_mapping cd now s') (filter (\<lambda>k. \<not> user_key k) ks))
          = concat (map (keys_of_mapping cd now s) (filter (\<lambda>k. \<not> user_key k) ks))"
        by (rule arg_cong[where f = concat], rule map_cong) (simp_all add: same)
      moreover have "keys_of_mapping cd now s key = live_real_keys now m"
        using x mapping by (simp add: keys_of_mapping_def mapping_or_empty_def)
      moreover have "prefix MappingKeyPrefix key" using x by (simp add: user_key_def)
      ultimately show ?thesis
        using Cons.IH[of s' keys'] sp by (simp add: x mapping l del: map_eq_conv)
    qed
  qed
qed simp

section \<open>Multi-level operations\<close>

lemma ds_storer: "storer_contract (default_storer re cd) (ds_ok cd) ds_val user_key"
  by unfold_locales
    (simp_all add: default_storer_def ds_op_defs ds_Get_val ds_Get_keeps ds_Get_ok ds_ok_put ds_ok_del
      ds_ok_filter ds_MapKeys_val delete_many_hits_def)

interpretation ds: storer_contract "default_storer re cd" "ds_ok cd" ds_val user_key
  for re cd by (rule ds_storer)

lemma ds_mapping_value:
  assumes "ds_ok cd s" "map_of (ds_m s) (MappingKeyPrefix @ bk) = Some x"
  obtains b m where "x = Bytes b" "cd_Unmarshal cd b = Some m" "ds_mapping cd bk s = Some m"
    "\<forall>(k, ki) \<in> set m. user_key (ki_RealKey ki)" "b = [] \<longrightarrow> m = []"
  using assms by (elim ds_ok_cases) (auto simp: ds_mapping_def)

lemma MappingElection_ds:
  assumes "ds_ok cd s" "cd_Unmarshal cd b = Some m" "b = [] \<longrightarrow> m = []"
  shows "fst (MappingElection cd (ds_Get now) now b req v s) = elect cd (\<lambda>k. ds_val now k s) now req m None v"
    "ds_ok cd (snd (MappingElection cd (ds_Get now) now b req v s))"
  using assms ds.election_loop_elect[OF assms(1), where now = now and req = req and m = m and stale = None and v = v, unfolded default_storer_def]
  by (auto simp: MappingElection_def)

lemma ds_GetMultiLevel_elect:
  assumes "ds_ok cd s"
  shows "fst (ds_GetMultiLevel cd now bk req v s) =
      Inr (elected (elect cd (\<lambda>k. ds_val now k s) now req (mapping_or_empty (ds_mapping cd bk s)) None v))"
    and "ds_ok cd (snd (ds_GetMultiLevel cd now bk req v s))"
proof (atomize (full), cases "map_of (ds_m s) (MappingKeyPrefix @ bk)")
  case None
  then show "fst (ds_GetMultiLevel cd now bk req v s) =
      Inr (elected (elect cd (\<lambda>k. ds_val now k s) now req (mapping_or_empty (ds_mapping cd bk s)) None v))
    \<and> ds_ok cd (snd (ds_GetMultiLevel cd now bk req v s))"
    using assms by (simp add: ds_GetMultiLevel_def ds_mapping_def mapping_or_empty_def elected_def)
next
  case (Some x)
  from assms Some obtain b m where m: "x = Bytes b" "cd_Unmarshal cd b = Some m" "ds_mapping cd bk s = Some m"
    "b = [] \<longrightarrow> m = []" by (rule ds_mapping_value)
  note e = MappingElection_ds[OF assms m(2) m(4), of now req v]
  then show "fst (ds_GetMultiLevel cd now bk req v s) =
      Inr (elected (elect cd (\<lambda>k. ds_val now k s) now req (mapping_or_empty (ds_mapping cd bk s)) None v))
    \<and> ds_ok cd (snd (ds_GetMultiLevel cd now bk req v s))"
    using e by (cases "MappingElection cd (ds_Get now) now b req v s")
      (auto simp: ds_GetMultiLevel_def Some m mapping_or_empty_def elected_def split: prod.splits)
qed

lemma MappingUpdater_Some:
  assumes "codec_ok cd" "MappingUpdater cd vk old now f st vh etag rk = Some b"
    "old = [] \<and> m = [] \<or> cd_Unmarshal cd old = Some m \<and> (old = [] \<longrightarrow> m = [])"
  shows "cd_Unmarshal cd b = Some (amap_put vk \<lparr>ki_StoredAt = now, ki_FreshTime = f, ki_StaleTime = st,
      ki_VariedHeaders = vh, ki_Etag = etag, ki_RealKey = rk\<rparr> m) \<and> b \<noteq> []"
proof -
  have ne: "amap_put vk e m \<noteq> []" for e by (cases m) auto
  show ?thesis using assms ne by (auto simp: MappingUpdater_def codec_ok_def split: if_splits)
qed

lemma list_all_amap_put:
  "list_all (\<lambda>(k, v). P v) m \<Longrightarrow> P v \<Longrightarrow> list_all (\<lambda>(k, v). P v) (amap_put k v m)"
  by (induction m) auto

text \<open>The effect of a store that returns no error, and of one whose mapping cannot be encoded.\<close>

lemma ds_SetMultiLevel_cases:
  fixes now :: gtime and d :: duration and b :: string
  assumes "codec_ok cd" "ds_ok cd s" "user_key vk"
  defines "s1 \<equiv> s\<lparr>ds_m := amap_put vk (Item (now + (d + ds_stale s)) (cd_Compress cd b)) (ds_m s)\<rparr>"
  obtains (error) "ds_SetMultiLevel cd now bk vk b vh etag d rk s = (Inr True, s1)"
  | (stored) e where "ds_SetMultiLevel cd now bk vk b vh etag d rk s
        = (Inr False, s1\<lparr>ds_m := amap_put (MappingKeyPrefix @ bk) (Bytes e) (ds_m s1)\<rparr>)"
      "cd_Unmarshal cd e = Some (amap_put vk (new_entry now d (ds_stale s) vh etag rk)
         (mapping_or_empty (ds_mapping cd bk s)))" "e \<noteq> []"
      "list_all (\<lambda>(k, ki). user_key (ki_RealKey ki)) (mapping_or_empty (ds_mapping cd bk s))"
proof -
  let ?k = "MappingKeyPrefix @ bk"
  have ne: "?k \<noteq> vk" using assms(3) by auto
  have mo: "(map_of (ds_m s) ?k = None \<and> mapping_or_empty (ds_mapping cd bk s) = []) \<or>
     (\<exists>o' m. map_of (ds_m s) ?k = Some (Bytes o') \<and> cd_Unmarshal cd o' = Some m \<and> (o' = [] \<longrightarrow> m = []) \<and>
        mapping_or_empty (ds_mapping cd bk s) = m \<and> list_all (\<lambda>(k, ki). user_key (ki_RealKey ki)) m)"
  proof (cases "map_of (ds_m s) ?k")
    case None
    then show ?thesis by (simp add: ds_mapping_def mapping_or_empty_def)
  next
    case (Some x)
    with assms(2) show ?thesis
      by (rule ds_mapping_value) (auto simp: Some mapping_or_empty_def list_all_iff)
  qed
  define old where "old = (case map_of (ds_m s) ?k of Some (Bytes o') \<Rightarrow> o' | _ \<Rightarrow> [])"
  have oldm: "old = [] \<and> mapping_or_empty (ds_mapping cd bk s) = [] \<or>
      cd_Unmarshal cd old = Some (mapping_or_empty (ds_mapping cd bk s)) \<and>
      (old = [] \<longrightarrow> mapping_or_empty (ds_mapping cd bk s) = [])"
    using mo by (auto simp: old_def)
  have all: "list_all (\<lambda>(k, ki). user_key (ki_RealKey ki)) (mapping_or_empty (ds_mapping cd bk s))"
    using mo by auto
  show ?thesis
  proof (cases "MappingUpdater cd vk old now (now + d) (now + (d + ds_stale s)) vh etag rk")
    case None
    then show ?thesis using mo ne
      by (intro error) (auto simp: ds_SetMultiLevel_def old_def s1_def Let_def)
  next
    case (Some e)
    note u = MappingUpdater_Some[OF assms(1) Some oldm]
    show ?thesis using mo ne u Some all
      by (intro stored[of e]) (auto simp: ds_SetMultiLevel_def old_def s1_def Let_def new_entry_def)
  qed
qed

definition ds_wf :: "codec \<Rightarrow> default_provider \<Rightarrow> bool" where
  "ds_wf cd s \<longleftrightarrow> codec_ok cd \<and> ds_ok cd s"

lemma ds_SetMultiLevel_ok:
  assumes "codec_ok cd" "ds_ok cd s" "user_key vk" "user_key rk"
  shows "ds_ok cd (snd (ds_SetMultiLevel cd now bk vk b vh etag d rk s))"
  using assms(1-3)
proof (cases rule: ds_SetMultiLevel_cases[where now = now and bk = bk and b = b and vh = vh and etag = etag
      and d = d and rk = rk])
  case error
  then show ?thesis using assms by (simp add: ds_ok_put)
next
  case (stored e)
  have "mapping_value_ok cd (Bytes e)"
    using stored assms(4) by (simp add: mapping_value_ok_def list_all_amap_put new_entry_def)
  then have v: "value_ok cd (MappingKeyPrefix @ bk) (Bytes e)" by (simp add: value_ok_def)
  show ?thesis
    unfolding stored(1) snd_conv using assms by (intro ds_ok_put v) simp_all
qed

lemma ds_val_mapping_key [simp]: "ds_ok cd s \<Longrightarrow> \<not> user_key k \<Longrightarrow> ds_val t k s = None"
  by (cases "map_of (ds_m s) k") (auto simp: ds_val_def elim: ds_ok_cases)

lemma ds_SetMultiLevel_val:
  assumes "codec_ok cd" "ds_ok cd s" "user_key vk"
  shows "ds_val t k (snd (ds_SetMultiLevel cd now bk vk b vh etag d rk s)) =
    (if k = vk then if t < now + (d + ds_stale s) then Some (cd_Compress cd b) else None else ds_val t k s)"
  using assms
proof (cases rule: ds_SetMultiLevel_cases[where now = now and bk = bk and b = b and vh = vh and etag = etag
      and d = d and rk = rk])
  case (stored e)
  then show ?thesis using assms(2,3) ds_val_mapping_key[OF assms(2), of "MappingKeyPrefix @ bk" t]
    by (auto simp: ds_val_update[where s = "s\<lparr>ds_m := _\<rparr>", simplified])
qed simp

lemma ds_SetMultiLevel_mapping:
  assumes "codec_ok cd" "ds_ok cd s" "user_key vk"
    and "fst (ds_SetMultiLevel cd now bk vk b vh etag d rk s) = Inr False"
  shows "ds_mapping cd bk' (snd (ds_SetMultiLevel cd now bk vk b vh etag d rk s)) =
    (if bk' = bk then Some (amap_put vk (new_entry now d (ds_stale s) vh etag rk) (mapping_or_empty (ds_mapping cd bk s)))
     else ds_mapping cd bk' s)"
  using assms(1-3)
proof (cases rule: ds_SetMultiLevel_cases[where now = now and bk = bk and b = b and vh = vh and etag = etag
      and d = d and rk = rk])
  case (stored e)
  then show ?thesis using assms(3) by (auto simp: ds_mapping_def)
qed (use assms(4) in simp)

lemma ds_SetMultiLevel_total:
  assumes "codec_ok cd" "ds_ok cd s" "user_key vk"
  shows "\<exists>e. fst (ds_SetMultiLevel cd now bk vk b vh etag d rk s) = Inr e"
  using assms by (rule ds_SetMultiLevel_cases[where now = now and bk = bk and b = b and vh = vh and etag = etag
      and d = d and rk = rk]) auto

lemma ds_multi: "multi_level_contract (default_storer re cd) (ds_wf cd) ds_val user_key cd ds_stale (ds_mapping cd)"
  by unfold_locales
    (auto simp: ds_wf_def default_storer_def ds_op_defs ds_Get_val ds_Get_keeps ds_Get_ok ds_ok_put ds_ok_del
      ds_ok_filter ds_MapKeys_val delete_many_hits_def ds_SetMultiLevel_total ds_GetMultiLevel_elect ds_SetMultiLevel_ok
      ds_SetMultiLevel_val ds_SetMultiLevel_mapping)

interpretation dm: multi_level_contract "default_storer re cd" "ds_wf cd" ds_val user_key cd ds_stale "ds_mapping cd"
  for re cd by (rule ds_multi)

section \<open>Sample data\<close>

text \<open>One stored entry and a codec that knows it, for the concrete instances.\<close>

definition sample_revalidator :: revalidator where
  "sample_revalidator = \<lparr>rv_Matched = False, rv_IfNoneMatchPresent = False, rv_IfMatchPresent = False,
     rv_IfModifiedSincePresent = False, rv_IfUnmodifiedSincePresent = False, rv_IfUnmotModifiedSincePresent = False,
     rv_NeedRevalidation = False, rv_NotModified = False, rv_IfModifiedSince = 0, rv_IfUnmodifiedSince = 0,
     rv_IfNoneMatch = [], rv_IfMatch = [], rv_RequestETags = [], rv_ResponseETag = []\<rparr>"

definition sample_key :: string where
  "sample_key = ''GET-h-/a''"

definition sample_entry :: key_index where
  "sample_entry = new_entry 0 10 5 [(''Accept'', [''x''])] [] sample_key"

definition sample_codec :: codec where
  "sample_codec = \<lparr>cd_Marshal = (\<lambda>m. if m = [(sample_key, sample_entry)] then Some ''m'' else None),
     cd_Unmarshal = (\<lambda>b. if b = ''m'' then Some [(sample_key, sample_entry)] else None),
     cd_Compress = (\<lambda>b. b), cd_Read = (\<lambda>b req. if b = ''r'' then Some sample_response else None)\<rparr>"

definition sample_provider :: default_provider where
  "sample_provider = default_provider_Factory 5"

definition sample_filled :: default_provider where
  "sample_filled = snd (ds_SetMultiLevel sample_codec 0 sample_key sample_key ''r'' [(''Accept'', [''x''])] [] 10
     sample_key sample_provider)"

lemmas sample_defs = sample_request_def sample_response_def sample_revalidator_def sample_key_def
  sample_entry_def sample_codec_def sample_provider_def

lemma sample_codec_ok: "codec_ok sample_codec"
  by (simp add: codec_ok_def sample_codec_def)

lemma sample_provider_wf: "ds_wf sample_codec sample_provider"
  by (simp add: ds_wf_def sample_codec_ok sample_provider_def ds_ok_Factory)

lemma sample_key_user: "user_key sample_key"
  by (simp add: user_key_def sample_key_def MappingKeyPrefix_def)

lemma sample_store:
  "fst (ds_SetMultiLevel sample_codec 0 sample_key sample_key ''r'' [(''Accept'', [''x''])] [] 10 sample_key
     sample_provider) = Inr False"
  "ds_mapping sample_codec sample_key sample_provider = None"
  by (simp_all add: sample_defs ds_SetMultiLevel_def default_provider_Factory_def MappingUpdater_def new_entry_def
      ds_mapping_def MappingKeyPrefix_def Let_def)

lemma sample_filled_wf: "ds_wf sample_codec sample_filled"
  unfolding sample_filled_def using sample_provider_wf sample_key_user
  by (simp add: ds_wf_def ds_SetMultiLevel_ok)

lemma sample_fits: "entry_fits sample_request sample_revalidator sample_entry"
  by code_simp

section \<open>Properties\<close>

text \<open>
  C13. A response stored for a base key that had no mapping is served fresh for its duration,
  stale for the provider's stale period after it, and not at all later, to every request whose
  headers and entity tags fit the entry.
\<close>

theorem ds_store_then_get:
  assumes "ds_wf cd s" "user_key vk" "user_key rk" "ds_mapping cd bk s = None" "0 \<le> ds_stale s"
    and "fst (ds_SetMultiLevel cd now bk vk b vh etag d rk s) = Inr False"
    and "entry_fits req v (new_entry now d (ds_stale s) vh etag rk)"
    and "cd_Read cd (cd_Compress cd b) req = Some r" and "now \<le> t"
  shows "\<exists>v'. fst (ds_GetMultiLevel cd t bk req v (snd (ds_SetMultiLevel cd now bk vk b vh etag d rk s))) =
    Inr (if t < now + d then Some r else None,
         if now + d \<le> t \<and> t < now + (d + ds_stale s) then Some r else None, v')"
  using dm.store_then_get[of cd s vk rk bk _ now b vh etag d req v r t, unfolded default_storer_def] assms
  by simp

theorem ds_store_then_get_witness:
  "\<exists>v'. fst (ds_GetMultiLevel sample_codec 12 sample_key sample_request sample_revalidator
     (snd (ds_SetMultiLevel sample_codec 0 sample_key sample_key ''r'' [(''Accept'', [''x''])] [] 10 sample_key
        sample_provider))) = Inr (None, Some sample_response, v')"
  using ds_store_then_get[OF sample_provider_wf sample_key_user sample_key_user sample_store(2) _ sample_store(1),
    of sample_request sample_revalidator sample_response 12] sample_fits
  by (simp add: sample_provider_def default_provider_Factory_def sample_entry_def sample_codec_def)

text \<open>
  C14. Whatever the provider serves as fresh was stored under an entry of the base key's mapping
  that fits the request and is still in its fresh period, and is what the stored bytes read back to.
\<close>

theorem ds_fresh_sound:
  assumes "ds_wf cd s" and "fst (ds_GetMultiLevel cd now bk req v s) = Inr (Some r, st, v')"
  shows "\<exists>(k, ki) \<in> set (mapping_or_empty (ds_mapping cd bk s)).
    headers_match req ki \<and> etag_accepts v (ki_Etag ki) \<and> now < ki_FreshTime ki \<and>
    (\<exists>b. ds_val now k s = Some b \<and> cd_Read cd b req = Some r)"
  using dm.get_multi_fresh_sound[of cd s _ now bk req v r st v', unfolded default_storer_def] assms
  by (simp add: entry_fits_def served_def)

theorem ds_fresh_sound_witness:
  "\<exists>(k, ki) \<in> set (mapping_or_empty (ds_mapping sample_codec sample_key sample_filled)).
    headers_match sample_request ki \<and> etag_accepts sample_revalidator (ki_Etag ki) \<and> 3 < ki_FreshTime ki \<and>
    (\<exists>b. ds_val 3 k sample_filled = Some b \<and> cd_Read sample_codec b sample_request = Some sample_response)"
  by (rule ds_fresh_sound[OF sample_filled_wf, of 3 sample_key sample_request sample_revalidator sample_response None
        "ValidateETagFromHeader [] sample_revalidator"]) code_simp

text \<open>
  C17. No operation of the in-memory storer panics on keys outside the mapping name space, and
  every one keeps its invariant: mappings hold encoded mapping records, all other keys hold items.
\<close>

theorem ds_operations_safe:
  assumes "ds_wf cd s" "user_key k" "user_key rk"
  shows "ds_wf cd (snd (ds_Get now k' s)) \<and> ds_wf cd (snd (ds_MapKeys now p s))
    \<and> ds_wf cd (snd (ds_ListKeys cd now s)) \<and> (\<exists>ks. fst (ds_ListKeys cd now s) = Inr ks)
    \<and> ds_wf cd (snd (ds_Set now k b d s)) \<and> ds_wf cd (ds_Delete k' s) \<and> ds_wf cd (ds_DeleteMany re k' s)
    \<and> ds_wf cd (snd (ds_Reset s))
    \<and> ds_wf cd (snd (ds_GetMultiLevel cd now bk req v s)) \<and> (\<exists>x. fst (ds_GetMultiLevel cd now bk req v s) = Inr x)
    \<and> ds_wf cd (snd (ds_SetMultiLevel cd now bk k b vh etag d rk s))
    \<and> (\<exists>e. fst (ds_SetMultiLevel cd now bk k b vh etag d rk s) = Inr e)"
  using assms list_keys_loop_spec[of cd s now "amap_keys (ds_m s)" "[]"]
  by (auto simp: ds_wf_def ds_Get_ok ds_MapKeys_val ds_ListKeys_def ds_op_defs ds_ok_put ds_ok_del ds_ok_filter
      ds_GetMultiLevel_elect ds_SetMultiLevel_ok ds_SetMultiLevel_total ds_ok_Reset
      simp del: split_paired_Ex)

theorem ds_operations_safe_witness:
  "ds_wf sample_codec (snd (ds_ListKeys sample_codec 20 sample_filled))
    \<and> (\<exists>e. fst (ds_SetMultiLevel sample_codec 20 sample_key sample_key ''q'' [] [] 1 sample_key sample_filled) = Inr e)"
  using ds_operations_safe[OF sample_filled_wf sample_key_user sample_key_user] by blast

text \<open>
  \<open>ListKeys\<close> returns, mapping by mapping, the real keys of the entries still within their
  stale period, and nothing else.
\<close>

theorem ds_ListKeys_live:
  assumes "ds_wf cd s"
  shows "fst (ds_ListKeys cd now s) =
    Inr (concat (map (keys_of_mapping cd now s) (filter (prefix MappingKeyPrefix) (amap_keys (ds_m s)))))"
  using assms list_keys_loop_spec[of cd s now "amap_keys (ds_m s)" "[]"]
  by (simp add: ds_wf_def ds_ListKeys_def user_key_def)

theorem ds_ListKeys_live_witness:
  "fst (ds_ListKeys sample_codec 3 sample_filled) = Inr [sample_key]"
  by (subst ds_ListKeys_live[OF sample_filled_wf]) code_simp

text \<open>
  \<open>DeleteMany\<close> on a key removes every other key that extends it, and with it any response
  stored under a longer key; the keys that neither extend it nor match it stay.
\<close>

theorem ds_DeleteMany_exact:
  "ds_val t k (ds_DeleteMany re key s) =
    (if prefix key k \<or> (re_ok re key \<and> re_MatchString re key k) then None else ds_val t k s)"
  by (simp add: ds_DeleteMany_def delete_many_hits_def)

end
