(* ===== verification/Surrogate.thy ===== *)
theory Surrogate
  imports DefaultStorage GoConv
begin

text \<open>
  The surrogate keys (pkg/surrogate/providers): a tag names the comma-separated list of the
  escaped cache keys stored with it, under the prefix \<open>SURROGATE_\<close> of a storer.  The four CDN
  providers embed \<open>baseStorage\<close> and answer the methods it calls on its parent; here a provider is
  a value of \<open>cdn_layer\<close>.  Requests to a CDN's own API run in goroutines and are returned as a
  list of \<open>cdn_request\<close> values.  Definitions come first, then the laws inside a locale that
  extends the storer contract, then the properties over the in-memory storer.
\<close>

section \<open>Providers\<close>

datatype cdn_layer =
    Akamai (akamai_url: string)
  | Cloudflare (cf_providerAPIKey: string) (cf_email: string) (cf_zoneID: string)
  | Fastly (fa_providerAPIKey: string) (fa_serviceID: string) (fa_strategy: string)
  | SouinLayer

definition generateAkamaiInstance :: "cdn_config \<Rightarrow> cdn_layer" where
  "generateAkamaiInstance cdn =
     (let strategy = (if cdn_Strategy cdn = ''soft'' then ''invalidate'' else ''delete'');
          url = ''https://'' @ cdn_Hostname cdn @ ''/ccu/v3/'' @ strategy @ ''/tag''
      in Akamai (if cdn_Network cdn \<noteq> [] then url @ ''/'' @ cdn_Network cdn else url))"

definition generateCloudflareInstance :: "cdn_config \<Rightarrow> cdn_layer" where
  "generateCloudflareInstance cdn = Cloudflare (cdn_APIKey cdn) (cdn_Email cdn) (cdn_ZoneID cdn)"

definition generateFastlyInstance :: "cdn_config \<Rightarrow> cdn_layer" where
  "generateFastlyInstance cdn =
     Fastly (cdn_APIKey cdn) (cdn_ServiceID cdn) (if cdn_Strategy cdn = ''soft'' then ''1'' else ''0'')"

definition SurrogateFactory :: "cdn_config \<Rightarrow> cdn_layer" where
  "SurrogateFactory cdn =
     (if cdn_Provider cdn = ''akamai'' then generateAkamaiInstance cdn
      else if cdn_Provider cdn = ''cloudflare'' then generateCloudflareInstance cdn
      else if cdn_Provider cdn = ''fastly'' then generateFastlyInstance cdn
      else SouinLayer)"

definition getHeaderSeparator :: "cdn_layer \<Rightarrow> string" where
  "getHeaderSeparator p = (case p of Akamai _ \<Rightarrow> '', '' | Cloudflare _ _ _ \<Rightarrow> '','' | Fastly _ _ _ \<Rightarrow> '' ''
     | SouinLayer \<Rightarrow> '', '')"

definition getOrderedSurrogateKeyHeadersCandidate :: "cdn_layer \<Rightarrow> string list" where
  "getOrderedSurrogateKeyHeadersCandidate p =
     (case p of
        Cloudflare _ _ _ \<Rightarrow> [''Cache-Tag'', ''Surrogate-Key'']
      | Fastly _ _ _ \<Rightarrow> [''Surrogate-Key'']
      | _ \<Rightarrow> [''Cache-Groups'', ''Surrogate-Key'', ''Edge-Cache-Tag'', ''Cache-Tags''])"

definition getOrderedSurrogateControlHeadersCandidate :: "cdn_layer \<Rightarrow> string list" where
  "getOrderedSurrogateControlHeadersCandidate p =
     (let base = [''Souin-Cache-Control'', ''Surrogate-Control'', ''CDN-Cache-Control'', ''Cache-Control'']
      in case p of Fastly _ _ _ \<Rightarrow> ''Fastly-Cache-Control'' # base | _ \<Rightarrow> base)"

section \<open>The base storage\<close>

definition surrogatePrefix :: string where
  "surrogatePrefix = ''SURROGATE_''"

definition OneYearDuration :: duration where
  "OneYearDuration = 365 * 24 * Hour"

definition storageToInfiniteTTLMap :: "(string, duration) amap" where
  "storageToInfiniteTTLMap = [(''BADGER'', OneYearDuration), (''ETCD'', OneYearDuration), (''NUTS'', 0),
     (''OLRIC'', OneYearDuration), (''OTTER'', OneYearDuration), (''REDIS'', -1), (''SIMPLEFS'', 0),
     (DefaultStorageName, OneYearDuration)]"

record keys_regexp_inner =
  kr_Headers :: "(string, string) amap"
  kr_Url :: string

record 'w base_storage =
  bs_parent :: cdn_layer
  bs_Storage :: "'w storer"
  bs_Keys :: "(string, surrogate_keys) amap"
  bs_keysRegexp :: "(string, keys_regexp_inner) amap"
  bs_dynamic :: bool
  bs_keepStale :: bool
  bs_duration :: duration

definition bs_ParseHeaders :: "'w base_storage \<Rightarrow> string \<Rightarrow> string list" where
  "bs_ParseHeaders s v = map TrimSpace (Split v (getHeaderSeparator (bs_parent s)))"

fun getCandidateHeader :: "header \<Rightarrow> string list \<Rightarrow> string \<times> string" where
  "getCandidateHeader h [] = ([], [])"
| "getCandidateHeader h [candidate] = (candidate, header_get h candidate)"
| "getCandidateHeader h (candidate # cs) =
     (if header_get h candidate \<noteq> [] then (candidate, header_get h candidate) else getCandidateHeader h cs)"

definition isSafeHTTPMethod :: "string \<Rightarrow> bool" where
  "isSafeHTTPMethod m \<longleftrightarrow> m \<in> {''GET'', ''HEAD'', ''OPTIONS'', ''TRACE''}"

text \<open>\<open>uniqueTag\<close>: an item that does not unescape becomes the empty string.\<close>

fun unique_tag_loop :: "string list \<Rightarrow> string list \<Rightarrow> string list" where
  "unique_tag_loop tmp [] = []"
| "unique_tag_loop tmp (item # items) =
     (if item = [] \<or> item \<in> set tmp then unique_tag_loop tmp items
      else (if CHR ''%'' \<in> set item then bytes_of (QueryUnescape item) else item)
             # unique_tag_loop (item # tmp) items)"

definition uniqueTag :: "string list \<Rightarrow> string list" where
  "uniqueTag vs = unique_tag_loop [] vs"

text \<open>
  \<open>init\<close>: the storer comes from the registry, by the name configured under \<open>_configuration\<close> or
  by the given default, else the default storer; without any the last line dereferences nil.
\<close>

definition compile_pattern :: "regexp_engine \<Rightarrow> string \<Rightarrow> string go" where
  "compile_pattern re p = (if p = [] then Inr ''.+'' else if re_ok re p then Inr p else Inl MustCompile)"

definition keys_regexp_of :: "regexp_engine \<Rightarrow> surrogate_keys \<Rightarrow> keys_regexp_inner go" where
  "keys_regexp_of re regexps =
     go_bind (go_mapM (\<lambda>(hk, hv). go_bind (compile_pattern re hv) (\<lambda>p. Inr (hk, p))) (sk_Headers regexps))
       (\<lambda>headers. go_bind (compile_pattern re (sk_URL regexps))
          (\<lambda>u. Inr \<lparr>kr_Headers = headers, kr_Url = u\<rparr>))"

definition bs_init ::
  "regexp_engine \<Rightarrow> (string \<Rightarrow> 'w storer option) \<Rightarrow> base_configuration \<Rightarrow> string \<Rightarrow> cdn_layer \<Rightarrow> 'w base_storage go" where
  "bs_init re registry config defaultStorerName parent =
     (let wanted = (case map_of (bc_SurrogateKeys config) ''_configuration'' of
                      Some configuration \<Rightarrow> registry (sk_Storer configuration)
                    | None \<Rightarrow> registry defaultStorerName);
          storage = (case wanted of Some s \<Rightarrow> Some s | None \<Rightarrow> registry (DefaultStorageName @ ''-''));
          cdn = dc_CDN (bc_DefaultCache config)
      in go_bind (go_mapM (\<lambda>(key, regexps). go_bind (keys_regexp_of re regexps) (\<lambda>i. Inr (key, i)))
                    (bc_SurrogateKeys config))
           (\<lambda>keysRegexp. case storage of
              None \<Rightarrow> Inl NilDeref
            | Some st \<Rightarrow> Inr \<lparr>bs_parent = parent, bs_Storage = st, bs_Keys = bc_SurrogateKeys config,
                bs_keysRegexp = keysRegexp, bs_dynamic = cdn_Dynamic cdn,
                bs_keepStale = (cdn_Strategy cdn \<noteq> ''hard''),
                bs_duration = (case map_of storageToInfiniteTTLMap (st_Name st) of Some d \<Rightarrow> d | None \<Rightarrow> 0)\<rparr>))"

definition InitializeSurrogate ::
  "regexp_engine \<Rightarrow> (string \<Rightarrow> 'w storer option) \<Rightarrow> base_configuration \<Rightarrow> string \<Rightarrow> 'w base_storage go" where
  "InitializeSurrogate re registry config storageName =
     bs_init re registry config storageName (SurrogateFactory (dc_CDN (bc_DefaultCache config)))"

definition containsCacheKey :: "string \<Rightarrow> string \<Rightarrow> bool" where
  "containsCacheKey currentValue cacheKey \<longleftrightarrow>
     (if currentValue = [] then False
      else currentValue = cacheKey \<or> prefix (cacheKey @ '','') currentValue
        \<or> suffix ('','' @ cacheKey) currentValue \<or> sublist ('','' @ cacheKey @ '','') currentValue)"

definition storeTag :: "gtime \<Rightarrow> 'w base_storage \<Rightarrow> string \<Rightarrow> string \<Rightarrow> 'w \<Rightarrow> 'w" where
  "storeTag now s tag cacheKey w =
     (case st_Get (bs_Storage s) now (surrogatePrefix @ tag) w of
        (r, w1) \<Rightarrow>
          let currentValue = bytes_of r
          in if containsCacheKey currentValue cacheKey then w1
             else snd (st_Set (bs_Storage s) now (surrogatePrefix @ tag)
               (if currentValue = [] then cacheKey else currentValue @ '','' @ cacheKey) (bs_duration s) w1))"

definition candidateStore :: "string \<Rightarrow> bool" where
  "candidateStore tag \<longleftrightarrow> \<not> sublist ''no-store'' tag"

definition GetSurrogateControl :: "'w base_storage \<Rightarrow> header \<Rightarrow> string \<times> string" where
  "GetSurrogateControl s h = getCandidateHeader h (getOrderedSurrogateControlHeadersCandidate (bs_parent s))"

definition GetSurrogateControlName :: "'w base_storage \<Rightarrow> string" where
  "GetSurrogateControlName s = hd (getOrderedSurrogateControlHeadersCandidate (bs_parent s))"

definition getSurrogateKey :: "'w base_storage \<Rightarrow> header \<Rightarrow> string" where
  "getSurrogateKey s h = snd (getCandidateHeader h (getOrderedSurrogateKeyHeadersCandidate (bs_parent s)))"

definition purgeTag :: "gtime \<Rightarrow> 'w base_storage \<Rightarrow> string \<Rightarrow> 'w \<Rightarrow> string list \<times> 'w" where
  "purgeTag now s tag w =
     (case st_Get (bs_Storage s) now (surrogatePrefix @ tag) w of
        (r, w1) \<Rightarrow>
          (Split (bytes_of r) '','',
           if bs_keepStale s then w1 else st_Delete (bs_Storage s) (surrogatePrefix @ tag) w1))"

text \<open>\<open>Store\<close> of the base storage: the decision on a key, then the loop over the keys.\<close>

definition tag_storable :: "'w base_storage \<Rightarrow> header \<Rightarrow> bool" where
  "tag_storable s h \<longleftrightarrow>
     (let controls = bs_ParseHeaders s (snd (GetSurrogateControl s h))
      in controls = [] \<or> (length controls = 1 \<and> hd controls = []) \<or> list_ex candidateStore controls)"

fun store_keys :: "gtime \<Rightarrow> 'w base_storage \<Rightarrow> bool \<Rightarrow> string \<Rightarrow> string \<Rightarrow> string list \<Rightarrow> 'w \<Rightarrow> 'w" where
  "store_keys now s storable cacheKey uri [] w = w"
| "store_keys now s storable cacheKey uri (key # keys) w =
     store_keys now s storable cacheKey uri keys
       (if storable then storeTag now s uri cacheKey (storeTag now s key cacheKey w) else w)"

definition bs_Store :: "gtime \<Rightarrow> 'w base_storage \<Rightarrow> header \<Rightarrow> string \<Rightarrow> string \<Rightarrow> 'w \<Rightarrow> 'w" where
  "bs_Store now s h cacheKey uri w =
     store_keys now s (tag_storable s h) (QueryEscape cacheKey) uri (bs_ParseHeaders s (getSurrogateKey s h)) w"

fun purge_tags :: "gtime \<Rightarrow> 'w base_storage \<Rightarrow> string list \<Rightarrow> 'w \<Rightarrow> string list \<times> 'w" where
  "purge_tags now s [] w = ([], w)"
| "purge_tags now s (su # sus) w =
     (case purgeTag now s su w of (ks, w1) \<Rightarrow>
        (case purge_tags now s sus w1 of (ks', w2) \<Rightarrow> (ks @ ks', w2)))"

definition bs_Purge :: "gtime \<Rightarrow> 'w base_storage \<Rightarrow> header \<Rightarrow> 'w \<Rightarrow> (string list \<times> string list) \<times> 'w" where
  "bs_Purge now s h w =
     (let surrogates = bs_ParseHeaders s (getSurrogateKey s h)
      in case purge_tags now s surrogates w of (ks, w1) \<Rightarrow> ((uniqueTag ks, surrogates), w1))"

text \<open>\<open>Invalidate\<close> drops the keys that \<open>purgeTag\<close> returns.\<close>

definition bs_Invalidate :: "gtime \<Rightarrow> 'w base_storage \<Rightarrow> string \<Rightarrow> header \<Rightarrow> 'w \<Rightarrow> 'w" where
  "bs_Invalidate now s meth h w =
     (if isSafeHTTPMethod meth then w
      else snd (purge_tags now s (header_index h ''Cache-Group-Invalidation'') w))"

definition bs_List :: "gtime \<Rightarrow> 'w base_storage \<Rightarrow> 'w \<Rightarrow> (string, string) amap \<times> 'w" where
  "bs_List now s w = st_MapKeys (bs_Storage s) now surrogatePrefix w"

definition bs_Destruct :: "gtime \<Rightarrow> 'w base_storage \<Rightarrow> 'w \<Rightarrow> bool \<times> 'w" where
  "bs_Destruct now s w = st_Reset (bs_Storage s) now w"

section \<open>The providers' own methods\<close>

text \<open>
  \<open>Store\<close> as the middleware calls it: the header of the response after the call, and the state.
\<close>

definition sp_Store ::
  "gtime \<Rightarrow> 'w base_storage \<Rightarrow> header \<Rightarrow> string \<Rightarrow> string \<Rightarrow> 'w \<Rightarrow> header \<times> 'w" where
  "sp_Store now s h cacheKey uri w =
     (let w1 = bs_Store now s h cacheKey uri w;
          strip = (\<lambda>h. header_del ''Surrogate-Control'' (header_del ''Surrogate-Key'' h))
      in case bs_parent s of
           Akamai _ \<Rightarrow> (strip (header_set ''Edge-Cache-Tag'' (header_get h ''Surrogate-Key'') h), w1)
         | Cloudflare _ _ _ \<Rightarrow>
             (strip (header_set ''Cache-Tag''
                (Join (bs_ParseHeaders s (header_get h ''Surrogate-Key'')) (getHeaderSeparator (bs_parent s))) h), w1)
         | _ \<Rightarrow> (h, w1))"

text \<open>
  A request to a CDN.  The body is the JSON object with one list of strings that
  \<open>encoding/json\<close> writes, given by its field name and that list.
\<close>

record cdn_request =
  cr_Method :: string
  cr_URL :: string
  cr_RequestURI :: string
  cr_Header :: "(string \<times> string) list"
  cr_Body :: "(string \<times> string list) option"

fun processBatches :: "nat \<Rightarrow> string list \<Rightarrow> string list list" where
  "processBatches 0 arr = []"
| "processBatches (Suc f) arr = (if arr = [] then [] else take 30 arr # processBatches f (drop 30 arr))"

definition cdn_requests :: "(string \<Rightarrow> bool) \<Rightarrow> cdn_layer \<Rightarrow> string list \<Rightarrow> cdn_request list" where
  "cdn_requests url_ok p headers =
     (case p of
        Akamai u \<Rightarrow>
          if url_ok u then
            [\<lparr>cr_Method = ''POST'', cr_URL = u, cr_RequestURI = [],
              cr_Header = [(''Accept'', ''application/json''), (''Content-Type'', ''application/json'')],
              cr_Body = Some (''objects'', headers)\<rparr>]
          else []
      | Cloudflare k e z \<Rightarrow>
          let u = ''https://api.cloudflare.com/client/v4/zones/'' @ z @ ''/purge''
          in if url_ok u then
               map (\<lambda>batch. \<lparr>cr_Method = ''POST'', cr_URL = u, cr_RequestURI = [],
                   cr_Header = [(''X-Auth-Email'', e), (''X-Auth-Key'', k), (''Content-Type'', ''application/json'')],
                   cr_Body = Some (''tags'', batch)\<rparr>) (processBatches (length headers) headers)
             else []
      | Fastly k sid strategy \<Rightarrow>
          if url_ok (''https://api.fastly.com/service/'' @ sid @ ''/purge'') then
            map (\<lambda>h. \<lparr>cr_Method = ''POST'', cr_URL = ''/service/'' @ sid @ ''/purge/'' @ h,
                  cr_RequestURI = ''/service/'' @ sid @ ''/purge/'' @ h,
                  cr_Header = [(''Fastly-Soft-Purge'', strategy), (''Fastly-Key'', k), (''Accept'', ''application/json'')],
                  cr_Body = None\<rparr>)
              (filter (\<lambda>h. url_ok (''/service/'' @ sid @ ''/purge/'' @ h)) headers)
          else []
      | SouinLayer \<Rightarrow> [])"

text \<open>\<open>http.Client.Do\<close> refuses a request whose RequestURI is set: it fails before it is sent.\<close>

definition client_Do_sends :: "cdn_request \<Rightarrow> bool" where
  "client_Do_sends r \<longleftrightarrow> cr_RequestURI r = []"

definition sp_Purge ::
  "gtime \<Rightarrow> (string \<Rightarrow> bool) \<Rightarrow> 'w base_storage \<Rightarrow> header \<Rightarrow> 'w
     \<Rightarrow> (string list \<times> string list \<times> cdn_request list) \<times> 'w" where
  "sp_Purge now url_ok s h w =
     (case bs_Purge now s h w of ((ks, headers), w1) \<Rightarrow>
        ((ks, headers, cdn_requests url_ok (bs_parent s) headers), w1))"

section \<open>Lists of cache keys\<close>

lemma split_scan_not_Nil: "split_scan sep acc s \<noteq> []"
  by (induction sep acc s rule: split_scan.induct) auto

lemma bs_ParseHeaders_not_Nil [simp]: "bs_ParseHeaders s v \<noteq> []"
  by (simp add: bs_ParseHeaders_def Split_def split_scan_not_Nil)

text \<open>\<open>containsCacheKey\<close> is membership in the comma-separated list, for keys without a comma.\<close>

lemma containsCacheKey_iff:
  assumes "CHR '','' \<notin> set k"
  shows "containsCacheKey cur k \<longleftrightarrow> cur \<noteq> [] \<and> k \<in> set (Split cur '','')"
  using mem_splitc_iff[OF assms, of cur] by (simp add: containsCacheKey_def Split_single)

lemma Split_comma_append: "Split (a @ '','' @ b) '','' = Split a '','' @ Split b '',''"
  using splitc_append[of "CHR '',''" a b] by (simp add: Split_single)

lemma Split_comma_single: "CHR '','' \<notin> set k \<Longrightarrow> Split k '','' = [k]"
  by (simp add: Split_single splitc_no_sep)

text \<open>The keys a tag lists: the non-empty fields of its value.\<close>

definition listed_keys :: "string option \<Rightarrow> string list" where
  "listed_keys v = (if bytes_of v = [] then [] else Split (bytes_of v) '','')"

lemma set_unique_tag_loop:
  "set (unique_tag_loop tmp items) =
    (\<lambda>i. if CHR ''%'' \<in> set i then bytes_of (QueryUnescape i) else i) ` {i \<in> set items. i \<noteq> [] \<and> i \<notin> set tmp}"
  by (induction items arbitrary: tmp) (auto simp: image_iff)

lemma set_uniqueTag:
  "set (uniqueTag items) =
    (\<lambda>i. if CHR ''%'' \<in> set i then bytes_of (QueryUnescape i) else i) ` {i \<in> set items. i \<noteq> []}"
  by (simp add: uniqueTag_def set_unique_tag_loop)

text \<open>
  An escaped key comes back as the key, when it had something to escape besides blanks or
  nothing at all: \<open>uniqueTag\<close> unescapes only what holds a percent sign.
\<close>

definition restorable :: "string \<Rightarrow> bool" where
  "restorable k \<longleftrightarrow> k \<noteq> [] \<and> (CHR '' '' \<in> set k \<longrightarrow> (\<exists>c\<in>set k. \<not> unreserved c \<and> c \<noteq> CHR '' ''))"

lemma uniqueTag_restores:
  assumes "restorable k" "QueryEscape k \<in> set items"
  shows "k \<in> set (uniqueTag items)"
proof -
  let ?f = "\<lambda>i. if CHR ''%'' \<in> set i then bytes_of (QueryUnescape i) else i"
  have "?f (QueryEscape k) = k"
  proof (cases "CHR ''%'' \<in> set (QueryEscape k)")
    case True
    then show ?thesis by (simp add: QueryUnescape_QueryEscape bytes_of_def)
  next
    case False
    then have "\<forall>c\<in>set k. unreserved c" using assms(1) escape_no_percent[of k] by (auto simp: restorable_def)
    then show ?thesis using False by (simp add: QueryEscape_unreserved)
  qed
  moreover have "QueryEscape k \<noteq> []" using assms(1) by (simp add: restorable_def)
  ultimately have "k \<in> ?f ` {i \<in> set items. i \<noteq> []}"
    using assms(2) by (intro image_eqI[of k ?f "QueryEscape k"]) simp_all
  then show ?thesis by (simp only: set_uniqueTag)
qed

section \<open>Tags in a storer\<close>

locale surrogate_storer = storer_contract S wf val user_key
  for S :: "'w storer" and wf :: "'w \<Rightarrow> bool"
    and val :: "gtime \<Rightarrow> string \<Rightarrow> 'w \<Rightarrow> string option" and user_key :: "string \<Rightarrow> bool" +
  assumes surrogate_key: "user_key (surrogatePrefix @ tag)"
begin

lemma storeTag_wf: "bs_Storage s = S \<Longrightarrow> wf w \<Longrightarrow> wf (storeTag now s tag k w)"
  using get_wf[of w now "surrogatePrefix @ tag"] set_wf[OF get_wf surrogate_key, of w now _ tag]
  by (cases "st_Get S now (surrogatePrefix @ tag) w") (simp add: storeTag_def Let_def set_wf surrogate_key)

text \<open>The value of the tag after \<open>storeTag\<close>, and of every other key.\<close>

lemma storeTag_val:
  assumes "bs_Storage s = S" "wf w" "now \<le> t"
  shows "val t k' (storeTag now s tag k w) =
    (let cur = bytes_of (val now (surrogatePrefix @ tag) w)
     in if k' = surrogatePrefix @ tag \<and> \<not> containsCacheKey cur k
        then (if t < now + bs_duration s then Some (if cur = [] then k else cur @ '','' @ k) else None)
        else val t k' w)"
proof -
  obtain r w1 where g: "st_Get S now (surrogatePrefix @ tag) w = (r, w1)" by fastforce
  have r: "r = val now (surrogatePrefix @ tag) w" and w1: "wf w1"
    and keep: "\<And>t k'. now \<le> t \<Longrightarrow> val t k' w1 = val t k' w"
    using get_val[OF assms(2)] get_wf[OF assms(2)] get_keeps[OF assms(2)] g by (metis fst_conv snd_conv)+
  show ?thesis
    using assms by (simp add: storeTag_def g Let_def r set_val[OF w1 surrogate_key] keep)
qed

lemma storeTag_listed:
  assumes "bs_Storage s = S" "wf w" "CHR '','' \<notin> set k" "k \<noteq> []" "0 < bs_duration s"
  shows "set (listed_keys (val now (surrogatePrefix @ tag') (storeTag now s tag k w))) =
    (if tag' = tag then insert k (set (listed_keys (val now (surrogatePrefix @ tag) w)))
     else set (listed_keys (val now (surrogatePrefix @ tag') w)))"
proof (cases "tag' = tag")
  case True
  define cur where "cur = bytes_of (val now (surrogatePrefix @ tag) w)"
  show ?thesis
  proof (cases "containsCacheKey cur k")
    case True
    then have "k \<in> set (Split cur '','')" "cur \<noteq> []" using containsCacheKey_iff[OF assms(3)] by auto
    then show ?thesis using assms True \<open>tag' = tag\<close>
      by (auto simp: storeTag_val cur_def listed_keys_def)
  next
    case False
    then show ?thesis using assms \<open>tag' = tag\<close> Split_comma_append[of cur k] Split_comma_single[OF assms(3)]
      by (auto simp: storeTag_val Let_def listed_keys_def cur_def[symmetric] bytes_of_def[of "Some _"])
  qed
next
  case False
  then show ?thesis using assms by (simp add: storeTag_val Let_def)
qed

definition lists_of :: "gtime \<Rightarrow> 'w \<Rightarrow> string \<Rightarrow> string set" where
  "lists_of now w tag = set (listed_keys (val now (surrogatePrefix @ tag) w))"

lemma storeTag_lists_of:
  assumes "bs_Storage s = S" "wf w" "CHR '','' \<notin> set k" "k \<noteq> []" "0 < bs_duration s"
  shows "x \<in> lists_of now (storeTag now s tag' k w) tag \<longleftrightarrow> x \<in> lists_of now w tag \<or> (x = k \<and> tag = tag')"
  using storeTag_listed[OF assms, of now tag tag'] by (auto simp: lists_of_def)

lemma store_keys_listed:
  assumes "bs_Storage s = S" "wf w" "CHR '','' \<notin> set k" "k \<noteq> []" "0 < bs_duration s"
  shows "wf (store_keys now s storable k uri keys w) \<and>
    (\<forall>x. x \<in> lists_of now (store_keys now s storable k uri keys w) tag \<longleftrightarrow> x \<in> lists_of now w tag \<or>
      (x = k \<and> storable \<and> keys \<noteq> [] \<and> (tag = uri \<or> tag \<in> set keys)))"
  using assms(2)
proof (induction keys arbitrary: w)
  case (Cons key keys)
  let ?w = "storeTag now s uri k (storeTag now s key k w)"
  have w: "wf (storeTag now s key k w)" "wf ?w" using assms(1) Cons.prems by (simp_all add: storeTag_wf)
  have step: "x \<in> lists_of now ?w tag \<longleftrightarrow> x \<in> lists_of now w tag \<or> (x = k \<and> (tag = uri \<or> tag = key))" for x
    using storeTag_lists_of[OF assms(1) w(1) assms(3-5)] storeTag_lists_of[OF assms(1) Cons.prems assms(3-5)]
    by blast
  show ?case
  proof (cases storable)
    case True
    have ne: "tag \<in> set keys \<Longrightarrow> keys \<noteq> []" by auto
    have run: "store_keys now s storable k uri (key # keys) w = store_keys now s storable k uri keys ?w"
      using True by simp
    show ?thesis
      unfolding run list.set using Cons.IH[OF w(2)] step ne True by blast
  next
    case False
    then show ?thesis using Cons.IH[OF Cons.prems] by simp
  qed
qed simp

lemma Store_listed:
  assumes "bs_Storage s = S" "wf w" "cacheKey \<noteq> []" "0 < bs_duration s"
  shows "wf (bs_Store now s h cacheKey uri w)"
    and "x \<in> lists_of now (bs_Store now s h cacheKey uri w) tag \<longleftrightarrow> x \<in> lists_of now w tag \<or>
      (x = QueryEscape cacheKey \<and> tag_storable s h \<and>
        (tag = uri \<or> tag \<in> set (bs_ParseHeaders s (getSurrogateKey s h))))"
  using store_keys_listed[OF assms(1,2) QueryEscape_no_comma, of cacheKey now "tag_storable s h" uri
      "bs_ParseHeaders s (getSurrogateKey s h)" tag] assms bs_ParseHeaders_not_Nil[of s "getSurrogateKey s h"]
  by (simp_all add: bs_Store_def)

text \<open>Purging returns the listed keys of every tag asked for, and in hard mode empties the tags.\<close>

lemma purgeTag_val:
  assumes "bs_Storage s = S" "wf w" "now \<le> t"
  shows "fst (purgeTag now s tag w) = Split (bytes_of (val now (surrogatePrefix @ tag) w)) '',''"
    and "wf (snd (purgeTag now s tag w))"
    and "val t k (snd (purgeTag now s tag w)) =
      (if \<not> bs_keepStale s \<and> k = surrogatePrefix @ tag then None else val t k w)"
proof -
  obtain r w1 where g: "st_Get S now (surrogatePrefix @ tag) w = (r, w1)" by fastforce
  have r: "r = val now (surrogatePrefix @ tag) w" and w1: "wf w1"
    and keep: "\<And>t k'. now \<le> t \<Longrightarrow> val t k' w1 = val t k' w"
    using get_val[OF assms(2)] get_wf[OF assms(2)] get_keeps[OF assms(2)] g by (metis fst_conv snd_conv)+
  show "fst (purgeTag now s tag w) = Split (bytes_of (val now (surrogatePrefix @ tag) w)) '',''"
    "wf (snd (purgeTag now s tag w))"
    "val t k (snd (purgeTag now s tag w)) =
      (if \<not> bs_keepStale s \<and> k = surrogatePrefix @ tag then None else val t k w)"
    using assms(1,3) by (simp_all add: purgeTag_def g r w1 keep delete_wf[OF w1] delete_val[OF w1])
qed

lemma purge_tags_wf: "bs_Storage s = S \<Longrightarrow> wf w \<Longrightarrow> wf (snd (purge_tags now s tags w))"
proof (induction tags arbitrary: w)
  case (Cons su sus)
  have "wf (snd (purgeTag now s su w))" using Cons.prems by (rule purgeTag_val(2)) (rule order.refl)
  with Cons show ?case by (metis (no_types, lifting) purge_tags.simps(2) case_prod_beta snd_conv)
qed simp

lemma purge_tags_val:
  assumes "bs_Storage s = S" "wf w" "now \<le> t"
  shows "val t k (snd (purge_tags now s tags w)) =
    (if \<not> bs_keepStale s \<and> k \<in> (\<lambda>tag. surrogatePrefix @ tag) ` set tags then None else val t k w)"
  using assms(2)
proof (induction tags arbitrary: w)
  case (Cons su sus)
  obtain ks w1 where p: "purgeTag now s su w = (ks, w1)" by fastforce
  have "wf w1" "val t k w1 = (if \<not> bs_keepStale s \<and> k = surrogatePrefix @ su then None else val t k w)"
    using purgeTag_val(2,3)[OF assms(1) Cons.prems assms(3), where tag = su] p by auto
  with Cons.IH[of w1] show ?case by (auto simp: p split: prod.split)
qed simp

lemma purge_tags_keys:
  assumes "bs_Storage s = S" "wf w" "tag \<in> set tags"
  shows "lists_of now w tag \<subseteq> set (fst (purge_tags now s tags w))"
  using assms(2,3)
proof (induction tags arbitrary: w)
  case (Cons su sus)
  obtain ks w1 where p: "purgeTag now s su w = (ks, w1)" by fastforce
  have w1: "wf w1" and ks: "ks = Split (bytes_of (val now (surrogatePrefix @ su) w)) '',''"
    and v: "\<And>k. val now k w1 = (if \<not> bs_keepStale s \<and> k = surrogatePrefix @ su then None else val now k w)"
    using purgeTag_val[OF assms(1) Cons.prems(1), where now = now and t = now and tag = su] p by auto
  show ?case
  proof (cases "tag = su")
    case True
    then have "lists_of now w tag \<subseteq> set ks" by (auto simp: lists_of_def listed_keys_def ks)
    then show ?thesis by (auto simp: p split: prod.split)
  next
    case False
    then have "lists_of now w tag = lists_of now w1 tag" by (simp add: lists_of_def v)
    with Cons.IH[OF w1] Cons.prems(2) False show ?thesis by (auto simp: p split: prod.split)
  qed
qed simp

text \<open>What was stored with a tag comes back when the tag is purged.\<close>

lemma Store_Purge:
  assumes "bs_Storage s = S" "wf w" "0 < bs_duration s" "restorable cacheKey" "tag_storable s h"
    and "set (bs_ParseHeaders s (getSurrogateKey s h')) \<inter>
      insert uri (set (bs_ParseHeaders s (getSurrogateKey s h))) \<noteq> {}"
  shows "cacheKey \<in> set (fst (fst (bs_Purge now s h' (bs_Store now s h cacheKey uri w))))"
proof -
  obtain tag where tag: "tag \<in> set (bs_ParseHeaders s (getSurrogateKey s h'))"
    "tag = uri \<or> tag \<in> set (bs_ParseHeaders s (getSurrogateKey s h))" using assms(6) by blast
  have "cacheKey \<noteq> []" using assms(4) by (simp add: restorable_def)
  note st = Store_listed[OF assms(1,2) this assms(3), where now = now and h = h and uri = uri]
  have "QueryEscape cacheKey \<in> lists_of now (bs_Store now s h cacheKey uri w) tag"
    using st(2) tag(2) assms(5) by blast
  with purge_tags_keys[OF assms(1) st(1) tag(1), of now]
  have "cacheKey \<in> set (uniqueTag (fst (purge_tags now s (bs_ParseHeaders s (getSurrogateKey s h'))
      (bs_Store now s h cacheKey uri w))))"
    by (intro uniqueTag_restores[OF assms(4)]) blast
  then show ?thesis by (simp add: bs_Purge_def Let_def case_prod_beta)
qed

end

lemma ds_surrogate: "surrogate_storer (default_storer re cd) (ds_ok cd) ds_val user_key"
  unfolding surrogate_storer_def surrogate_storer_axioms_def
  by (auto simp: ds_storer user_key_def surrogatePrefix_def MappingKeyPrefix_def)

interpretation ss: surrogate_storer "default_storer re cd" "ds_ok cd" ds_val user_key
  for re cd by (rule ds_surrogate)

section \<open>Properties\<close>

definition sample_surrogate :: "cdn_layer \<Rightarrow> bool \<Rightarrow> default_provider base_storage" where
  "sample_surrogate p keep = \<lparr>bs_parent = p, bs_Storage = default_storer no_regexp sample_codec, bs_Keys = [],
     bs_keysRegexp = [], bs_dynamic = True, bs_keepStale = keep, bs_duration = OneYearDuration\<rparr>"

text \<open>
  The fast search of a cache key in a tag's value agrees with splitting the value at its
  commas, for every key without a comma, and every escaped key is one.
\<close>

theorem containsCacheKey_member:
  "containsCacheKey currentValue (QueryEscape k) \<longleftrightarrow>
     currentValue \<noteq> [] \<and> QueryEscape k \<in> set (Split currentValue '','')"
  by (rule containsCacheKey_iff[OF QueryEscape_no_comma])

text \<open>
  C29. After \<open>Store\<close> the tags of the response and its URI list the escaped cache key in addition to
  what they listed, unless every control directive forbids it; all other tags list what they did.
\<close>

theorem surrogate_Store_lists:
  assumes "bs_Storage s = default_storer re cd" "ds_ok cd w" "cacheKey \<noteq> []" "0 < bs_duration s"
  shows "set (listed_keys (ds_val now (surrogatePrefix @ tag) (bs_Store now s h cacheKey uri w))) =
    set (listed_keys (ds_val now (surrogatePrefix @ tag) w)) \<union>
      (if tag_storable s h \<and> (tag = uri \<or> tag \<in> set (bs_ParseHeaders s (getSurrogateKey s h)))
       then {QueryEscape cacheKey} else {})"
  using ss.Store_listed(2)[OF assms(1,2,3,4), of _ now h uri tag] by (auto simp: ss.lists_of_def)

definition sample_tags :: header where
  "sample_tags = [(''Surrogate-Key'', [''a, b''])]"

lemma sample_surrogate_facts:
  "bs_Storage (sample_surrogate p keep) = default_storer no_regexp sample_codec"
  "ds_ok sample_codec sample_provider" "sample_key \<noteq> []" "0 < bs_duration (sample_surrogate p keep)"
  using sample_provider_wf
  by (simp_all add: sample_surrogate_def ds_wf_def sample_key_def OneYearDuration_def Hour_def Minute_def Second_def)

lemma sample_candidates:
  "getCandidateHeader sample_tags (getOrderedSurrogateKeyHeadersCandidate SouinLayer) = (''Surrogate-Key'', ''a, b'')"
  "getCandidateHeader sample_tags (getOrderedSurrogateControlHeadersCandidate SouinLayer) = (''Cache-Control'', [])"
  by code_simp+

lemma sample_splits:
  "map TrimSpace (Split ''a, b'' (getHeaderSeparator SouinLayer)) = [''a'', ''b'']"
  "map TrimSpace (Split [] (getHeaderSeparator SouinLayer)) = [[]]"
  by code_simp+

lemma sample_parent: "bs_parent (sample_surrogate p keep) = p"
  by (simp add: sample_surrogate_def)

lemma sample_tags_parsed:
  "tag_storable (sample_surrogate SouinLayer keep) sample_tags"
  "bs_ParseHeaders (sample_surrogate SouinLayer keep) (getSurrogateKey (sample_surrogate SouinLayer keep) sample_tags)
     = [''a'', ''b'']"
  by (simp_all add: tag_storable_def bs_ParseHeaders_def getSurrogateKey_def GetSurrogateControl_def sample_parent
      sample_candidates sample_splits)

theorem surrogate_Store_lists_witness:
  "QueryEscape sample_key \<in> set (listed_keys (ds_val 0 (surrogatePrefix @ ''b'')
     (bs_Store 0 (sample_surrogate SouinLayer True) sample_tags sample_key ''/a'' sample_provider)))"
  using surrogate_Store_lists[OF sample_surrogate_facts, where now = 0 and tag = "''b''" and h = sample_tags
      and uri = "''/a''"] sample_tags_parsed
  by simp

text \<open>
  C30. A cache key stored with a tag is among the keys that a purge of that tag returns, as
  itself again, unless escaping it changes blanks only.
\<close>

theorem surrogate_Store_Purge:
  assumes "bs_Storage s = default_storer re cd" "ds_ok cd w" "0 < bs_duration s" "restorable cacheKey"
    and "tag_storable s h"
    and "set (bs_ParseHeaders s (getSurrogateKey s h')) \<inter>
      insert uri (set (bs_ParseHeaders s (getSurrogateKey s h))) \<noteq> {}"
  shows "cacheKey \<in> set (fst (fst (sp_Purge now url_ok s h' (bs_Store now s h cacheKey uri w))))"
  using ss.Store_Purge[OF assms, of now] by (simp add: sp_Purge_def case_prod_beta)

lemma sample_key_restorable: "restorable sample_key"
  by code_simp

theorem surrogate_Store_Purge_witness:
  "sample_key \<in> set (fst (fst (sp_Purge 0 (\<lambda>u. True) (sample_surrogate SouinLayer False) sample_tags
     (bs_Store 0 (sample_surrogate SouinLayer False) sample_tags sample_key ''/a'' sample_provider))))"
  using surrogate_Store_Purge[OF sample_surrogate_facts(1,2,4) sample_key_restorable sample_tags_parsed(1),
      where h' = sample_tags and uri = "''/a''" and now = 0 and url_ok = "\<lambda>u. True"] sample_tags_parsed
  by simp

text \<open>
  A hard purge empties exactly the tags it names; with any other strategy a purge, and an
  invalidation by \<open>Cache-Group-Invalidation\<close>, change nothing that a client can read.
\<close>

theorem surrogate_purge_effect:
  assumes "bs_Storage s = default_storer re cd" "ds_ok cd w" "now \<le> t"
  shows "ds_val t k (snd (bs_Purge now s h w)) =
      (if \<not> bs_keepStale s \<and> (\<exists>tag \<in> set (bs_ParseHeaders s (getSurrogateKey s h)). k = surrogatePrefix @ tag)
       then None else ds_val t k w)
    \<and> (bs_keepStale s \<longrightarrow> ds_val t k (bs_Invalidate now s meth h w) = ds_val t k w)"
  using ss.purge_tags_val[OF assms, of k]
  by (auto simp: bs_Purge_def bs_Invalidate_def case_prod_beta image_iff Let_def)

theorem surrogate_purge_effect_witness:
  "ds_val 5 (surrogatePrefix @ ''b'') (snd (bs_Purge 3 (sample_surrogate SouinLayer False) sample_tags sample_provider))
     = None"
  using surrogate_purge_effect[OF sample_surrogate_facts(1,2), where now = 3 and t = 5 and h = sample_tags
      and k = "surrogatePrefix @ ''b''" and p1 = SouinLayer and keep1 = False] sample_tags_parsed
  by (simp add: sample_surrogate_def)

text \<open>
  No request that the Fastly provider prepares for a purge is ever sent: each carries a
  \<open>RequestURI\<close>, which the HTTP client refuses.  Akamai's and Cloudflare's requests are sent.
\<close>

theorem fastly_purge_never_sent:
  "\<not> list_ex client_Do_sends (cdn_requests url_ok (Fastly k sid st) headers)
   \<and> list_all client_Do_sends (cdn_requests url_ok (Akamai u) headers)
   \<and> list_all client_Do_sends (cdn_requests url_ok (Cloudflare k e z) headers)"
  by (auto simp: cdn_requests_def client_Do_sends_def list_ex_iff list_all_iff Let_def)

text \<open>C35. Cloudflare's batches hold at most thirty tags each and together all of them, in order.\<close>

theorem processBatches_partition:
  "concat (processBatches (length arr) arr) = arr \<and> list_all (\<lambda>b. 0 < length b \<and> length b \<le> 30) (processBatches (length arr) arr)"
proof -
  have "length arr \<le> f \<Longrightarrow> concat (processBatches f arr) = arr \<and>
    list_all (\<lambda>b. 0 < length b \<and> length b \<le> 30) (processBatches f arr)" for f
  proof (induction f arbitrary: arr)
    case (Suc f)
    then show ?case by (cases arr) auto
  qed simp
  then show ?thesis by simp
qed

end
