(* ===== verification/RequestContext.thy ===== *)
theory RequestContext
  imports HttpTypes ConfigTypes DefaultStorage "HOL-Library.Multiset"
begin

text \<open>
  Package context: the contexts that decorate a request before the cache looks at it, and the
  cache key they compute.  Outside parameters: \<open>sha256_hex\<close>, the lower-case hexadecimal digest
  of crypto/sha256; \<open>replace_all\<close>, Caddy's \<open>Replacer.ReplaceAll\<close> on the request; the
  regular-expression engine \<open>re\<close>.
\<close>

section \<open>Query strings (net/url)\<close>

text \<open>
  \<open>url.ParseQuery\<close> as the list of its pairs in the order of the text: empty pieces, pieces with
  a semicolon and pieces that do not unescape are left out.
\<close>

definition query_pair :: "string \<Rightarrow> (string \<times> string) option" where
  "query_pair piece =
     (if piece = [] \<or> CHR '';'' \<in> set piece then None
      else let k = takeWhile (\<lambda>c. c \<noteq> CHR ''='') piece;
               v = drop 1 (dropWhile (\<lambda>c. c \<noteq> CHR ''='') piece)
           in case QueryUnescape k of
                None \<Rightarrow> None
              | Some k' \<Rightarrow> map_option (\<lambda>v'. (k', v')) (QueryUnescape v))"

definition ParseQuery :: "string \<Rightarrow> (string \<times> string) list" where
  "ParseQuery q = List.map_filter query_pair (splitc (CHR ''&'') q)"

definition query_values :: "string \<Rightarrow> (string \<times> string) list \<Rightarrow> string list" where
  "query_values k ps = map snd (filter (\<lambda>p. fst p = k) ps)"

text \<open>\<open>Values.Encode\<close> on the values grouped by key, after \<open>sort.Strings\<close> on every group.\<close>

definition encode_sorted :: "(string \<times> string) list \<Rightarrow> string" where
  "encode_sorted ps =
     Join (concat (map (\<lambda>k. map (\<lambda>v. QueryEscape k @ ''='' @ QueryEscape v) (sort (query_values k ps)))
        (sort (remdups (map fst ps))))) ''&''"

section \<open>The key context (key.go)\<close>

record key_info =
  kc_disable_body :: bool
  kc_disable_host :: bool
  kc_disable_method :: bool
  kc_disable_query :: bool
  kc_sort_query :: bool
  kc_disable_vary :: bool
  kc_disable_scheme :: bool
  kc_displayable :: bool
  kc_hash :: bool
  kc_headers :: "string list"
  kc_template :: string

record key_context =
  kc_info :: key_info
  kc_overrides :: "(string, key_info) amap list"

definition key_info_of :: "cache_key_rule \<Rightarrow> key_info" where
  "key_info_of k = \<lparr>kc_disable_body = ck_DisableBody k, kc_disable_host = ck_DisableHost k,
     kc_disable_method = ck_DisableMethod k, kc_disable_query = ck_DisableQuery k,
     kc_sort_query = ck_SortQuery k, kc_disable_vary = ck_DisableVary k,
     kc_disable_scheme = ck_DisableScheme k, kc_displayable = (\<not> ck_Hide k), kc_hash = ck_Hash k,
     kc_headers = ck_Headers k, kc_template = ck_Template k\<rparr>"

definition key_SetupContext :: "base_configuration \<Rightarrow> key_context" where
  "key_SetupContext c = \<lparr>kc_info = key_info_of (dc_Key (bc_DefaultCache c)),
     kc_overrides = concat (map (map (\<lambda>(r, v). [(r, key_info_of v)])) (bc_CacheKeys c))\<rparr>"

record key_informations =
  kq_query :: string
  kq_body :: string
  kq_host :: string
  kq_scheme :: string
  kq_method :: string
  kq_headerValues :: string
  kq_headers :: "string list"
  kq_displayable :: bool
  kq_hash :: bool

definition parseKeyInformations :: "request \<Rightarrow> key_info \<Rightarrow> key_informations" where
  "parseKeyInformations req k =
     \<lparr>kq_query = (if \<not> kc_disable_query k \<and> req_RawQuery req \<noteq> []
                  then ''?'' @ (if kc_sort_query k then encode_sorted (ParseQuery (req_RawQuery req))
                                else req_RawQuery req)
                  else []),
      kq_body = (if kc_disable_body k then [] else cx_HashBody (req_ctx req)),
      kq_host = (if kc_disable_host k then [] else req_Host req @ ''-''),
      kq_scheme = (if kc_disable_scheme k then [] else if req_TLS req then ''https-'' else ''http-''),
      kq_method = (if kc_disable_method k then [] else req_Method req @ ''-''),
      kq_headerValues = concat (map (\<lambda>hn. ''-'' @ header_get (req_Header req) hn) (kc_headers k)),
      kq_headers = kc_headers k,
      kq_displayable = kc_displayable k,
      kq_hash = kc_hash k\<rparr>"

text \<open>The overrides are tried in order; the first pattern that matches the request URI wins.\<close>

fun first_match :: "regexp_engine \<Rightarrow> string \<Rightarrow> (string, 'a) amap list \<Rightarrow> 'a option" where
  "first_match re uri [] = None"
| "first_match re uri (current # os) =
     (case find (\<lambda>(k, v). re_MatchString re k uri) current of
        Some (k, v) \<Rightarrow> Some v
      | None \<Rightarrow> first_match re uri os)"

type_synonym computed_key = "string \<times> string list \<times> bool \<times> bool"

definition template_key :: "(request \<Rightarrow> string \<Rightarrow> string) \<Rightarrow> request \<Rightarrow> key_info \<Rightarrow> computed_key" where
  "template_key replace_all req k =
     (replace_all req (kc_template k), kc_headers k, kc_hash k, kc_displayable k)"

definition plain_key :: "request \<Rightarrow> key_info \<Rightarrow> computed_key" where
  "plain_key req k =
     (let i = parseKeyInformations req k
      in (kq_method i @ kq_scheme i @ kq_host i @ req_Path req @ kq_query i @ kq_body i @ kq_headerValues i,
          kq_headers i, kq_hash i, kq_displayable i))"

text \<open>\<open>computeKey\<close>: the key, the headers that take part in it, whether it is hashed and displayable.\<close>

definition computeKey ::
  "regexp_engine \<Rightarrow> (request \<Rightarrow> string \<Rightarrow> string) \<Rightarrow> key_context \<Rightarrow> request \<Rightarrow> computed_key" where
  "computeKey re replace_all g req =
     (if kc_template (kc_info g) \<noteq> [] then template_key replace_all req (kc_info g)
      else case first_match re (req_RequestURI req) (kc_overrides g) of
        None \<Rightarrow> plain_key req (kc_info g)
      | Some v \<Rightarrow> if kc_template v \<noteq> [] then template_key replace_all req v else plain_key req v)"

definition key_SetContext ::
  "regexp_engine \<Rightarrow> (request \<Rightarrow> string \<Rightarrow> string) \<Rightarrow> key_context \<Rightarrow> request \<Rightarrow> request" where
  "key_SetContext re replace_all g req =
     (case computeKey re replace_all g req of (key, headers, hash, displayable) \<Rightarrow>
        req\<lparr>req_ctx := (req_ctx req)\<lparr>cx_Key := Some key, cx_DisableVary := Some (kc_disable_vary (kc_info g)),
          cx_Hashed := hash, cx_IgnoredHeaders := headers, cx_DisplayableKey := Some displayable\<rparr>\<rparr>)"

section \<open>The other contexts\<close>

definition defaultCacheName :: string where
  "defaultCacheName = ''Souin''"

definition cache_SetupContext :: "base_configuration \<Rightarrow> string" where
  "cache_SetupContext c =
     (if dc_CacheName (bc_DefaultCache c) \<noteq> [] then dc_CacheName (bc_DefaultCache c) else defaultCacheName)"

definition cache_SetContext :: "string \<Rightarrow> request \<Rightarrow> request" where
  "cache_SetContext cacheName req =
     req\<lparr>req_ctx := (req_ctx req)\<lparr>cx_CacheName := cacheName,
       cx_RequestCacheControl := ParseRequestCacheControl (header_get (req_Header req) ''Cache-Control'')\<rparr>\<rparr>"

definition graphql_SetupContext :: "base_configuration \<Rightarrow> bool" where
  "graphql_SetupContext c \<longleftrightarrow> dc_AllowedHTTPVerbs (bc_DefaultCache c) \<noteq> []"

definition mutation_prefix :: string where
  "mutation_prefix = ''{'' @ [CHR 0x22] @ ''query'' @ [CHR 0x22, CHR '':'', CHR 0x22] @ ''mutation''"

definition isMutation :: "string \<Rightarrow> bool" where
  "isMutation b \<longleftrightarrow> 18 < length b \<and> take 18 b = mutation_prefix"

definition graphql_fields :: "(string \<Rightarrow> string) \<Rightarrow> bool \<Rightarrow> request \<Rightarrow> request_context \<Rightarrow> request_context" where
  "graphql_fields sha256_hex custom req ctx =
     (let ctx1 = ctx\<lparr>cx_GraphQL := custom, cx_HashBody := [], cx_IsMutationRequest := False\<rparr>
      in case (if custom then req_Body req else None) of
           None \<Rightarrow> ctx1
         | Some b \<Rightarrow>
             if b = [] then ctx1
             else if isMutation b then ctx1\<lparr>cx_IsMutationRequest := True\<rparr>
             else ctx1\<lparr>cx_HashBody := ''-'' @ sha256_hex b\<rparr>)"

definition graphql_SetContext :: "(string \<Rightarrow> string) \<Rightarrow> bool \<Rightarrow> request \<Rightarrow> request" where
  "graphql_SetContext sha256_hex custom req =
     req\<lparr>req_ctx := graphql_fields sha256_hex custom req (req_ctx req)\<rparr>"

text \<open>
  The variant with a base request drains the body into one buffer and gives that buffer to both
  requests.
\<close>

definition graphql_SetContextWithBaseRequest ::
  "(string \<Rightarrow> string) \<Rightarrow> bool \<Rightarrow> request \<Rightarrow> request \<Rightarrow> request \<times> request" where
  "graphql_SetContextWithBaseRequest sha256_hex custom req baseRq =
     (graphql_SetContext sha256_hex custom req,
      if custom \<and> req_Body req \<noteq> None then baseRq\<lparr>req_Body := req_Body req\<rparr> else baseRq)"

definition defaultVerbs :: "string list" where
  "defaultVerbs = [''GET'', ''HEAD'']"

definition method_SetupContext :: "base_configuration \<Rightarrow> string list" where
  "method_SetupContext c =
     (if dc_AllowedHTTPVerbs (bc_DefaultCache c) \<noteq> [] then dc_AllowedHTTPVerbs (bc_DefaultCache c)
      else defaultVerbs)"

definition method_SetContext :: "string list \<Rightarrow> request \<Rightarrow> request" where
  "method_SetContext allowedVerbs req =
     req\<lparr>req_ctx := (req_ctx req)\<lparr>cx_SupportedMethod := list_ex (\<lambda>a. req_Method req = a) allowedVerbs\<rparr>\<rparr>"

definition mode_SetupContext :: "base_configuration \<Rightarrow> mode_context" where
  "mode_SetupContext c =
     (let mode = dc_Mode (bc_DefaultCache c);
          breq = (mode = ''bypass'' \<or> mode = ''bypass_request'');
          bres = (mode = ''bypass'' \<or> mode = ''bypass_response'')
      in \<lparr>Strict = (\<not> breq \<and> \<not> bres), Bypass_request = breq, Bypass_response = bres\<rparr>)"

definition mode_SetContext :: "mode_context \<Rightarrow> request \<Rightarrow> request" where
  "mode_SetContext mc req = req\<lparr>req_ctx := (req_ctx req)\<lparr>cx_Mode := mc\<rparr>\<rparr>"

definition now_SetContext :: "gtime \<Rightarrow> request \<Rightarrow> request" where
  "now_SetContext clock req =
     (case Parse RFC1123 (header_get (req_Header req) ''Date'') of
        Some t \<Rightarrow> req\<lparr>req_ctx := (req_ctx req)\<lparr>cx_Now := t\<rparr>\<rparr>
      | None \<Rightarrow> req\<lparr>req_Header := header_set ''Date'' (Format RFC1123 clock) (req_Header req),
          req_ctx := (req_ctx req)\<lparr>cx_Now := clock\<rparr>\<rparr>)"

definition defaultTimeoutBackend :: duration where
  "defaultTimeoutBackend = 10 * Second"

definition defaultTimeoutCache :: duration where
  "defaultTimeoutCache = 10 * Millisecond"

record timeout_context =
  tc_timeoutCache :: duration
  tc_timeoutBackend :: duration

definition timeout_SetupContext :: "base_configuration \<Rightarrow> timeout_context" where
  "timeout_SetupContext c =
     (let t = dc_Timeout (bc_DefaultCache c)
      in \<lparr>tc_timeoutCache = (if to_Cache t \<noteq> 0 then to_Cache t else defaultTimeoutCache),
          tc_timeoutBackend = (if to_Backend t \<noteq> 0 then to_Backend t else defaultTimeoutBackend)\<rparr>)"

text \<open>\<open>context.WithTimeout\<close> keeps the earlier of the parent's deadline and its own.\<close>

definition timeout_SetContext :: "gtime \<Rightarrow> timeout_context \<Rightarrow> request \<Rightarrow> request" where
  "timeout_SetContext clock t req =
     (let own = clock + tc_timeoutBackend t;
          dl = (case cx_Deadline (req_ctx req) of None \<Rightarrow> own | Some d \<Rightarrow> min d own)
      in req\<lparr>req_ctx := (req_ctx req)\<lparr>cx_Deadline := Some dl, cx_TimeoutCache := tc_timeoutCache t\<rparr>\<rparr>)"

section \<open>All contexts (types.go)\<close>

record http_context =
  hc_CacheName :: string
  hc_GraphQL :: bool
  hc_Key :: key_context
  hc_Method :: "string list"
  hc_Mode :: mode_context
  hc_Timeout :: timeout_context

definition Context_Init :: "base_configuration \<Rightarrow> http_context" where
  "Context_Init c = \<lparr>hc_CacheName = cache_SetupContext c, hc_GraphQL = graphql_SetupContext c,
     hc_Key = key_SetupContext c, hc_Method = method_SetupContext c, hc_Mode = mode_SetupContext c,
     hc_Timeout = timeout_SetupContext c\<rparr>"

definition SetBaseContext :: "gtime \<Rightarrow> http_context \<Rightarrow> request \<Rightarrow> request" where
  "SetBaseContext clock c req =
     mode_SetContext (hc_Mode c) (timeout_SetContext clock (hc_Timeout c)
       (method_SetContext (hc_Method c) (cache_SetContext (hc_CacheName c) (now_SetContext clock req))))"

definition SetContext ::
  "regexp_engine \<Rightarrow> (request \<Rightarrow> string \<Rightarrow> string) \<Rightarrow> (string \<Rightarrow> string) \<Rightarrow> http_context
     \<Rightarrow> request \<Rightarrow> request \<Rightarrow> request \<times> request" where
  "SetContext re replace_all sha256_hex c req baseRq =
     (case graphql_SetContextWithBaseRequest sha256_hex (hc_GraphQL c) req baseRq of
        (req', baseRq') \<Rightarrow> (key_SetContext re replace_all (hc_Key c) req', baseRq'))"

section \<open>Sorted queries\<close>

lemma query_values_mset:
  "mset ps = mset qs \<Longrightarrow> mset (query_values k ps) = mset (query_values k qs)"
  by (simp add: query_values_def)

lemma encode_sorted_perm:
  assumes "mset ps = mset qs"
  shows "encode_sorted ps = encode_sorted qs"
proof -
  have "set ps = set qs" using assms by (metis set_mset_mset)
  then have keys: "sort (remdups (map fst ps)) = sort (remdups (map fst qs))"
    by (simp flip: sorted_list_of_set_sort_remdups)
  have vals: "sort (query_values k ps) = sort (query_values k qs)" for k
    using query_values_mset[OF assms, of k] by (metis mset_sort properties_for_sort sorted_sort)
  show ?thesis by (simp add: encode_sorted_def keys vals)
qed

section \<open>What the key separates\<close>

lemma append_cut:
  assumes "c \<notin> set a" "c \<notin> set b" and "a @ c # x = b @ c # y"
  shows "a = b \<and> x = y"
  using assms
proof (induction a arbitrary: b)
  case Nil
  then show ?case by (cases b) auto
next
  case (Cons d a)
  then show ?case by (cases b) auto
qed

lemma append_cut_end:
  assumes "c \<notin> set a" "c \<notin> set b" "x = [] \<or> hd x = c" "y = [] \<or> hd y = c" and "a @ x = b @ y"
  shows "a = b \<and> x = y"
proof (cases x)
  case Nil
  with assms show ?thesis by (cases y) auto
next
  case (Cons d xs)
  then have d: "d = c" using assms(3) by simp
  with Cons assms obtain ys where "y = c # ys" by (cases y) auto
  with append_cut[OF assms(1,2), of xs ys] assms(5) Cons d show ?thesis by simp
qed

text \<open>A request whose parts stay within their own alphabets: what an HTTP server accepts, short of an escaped question mark.\<close>

definition separable :: "request \<Rightarrow> bool" where
  "separable r \<longleftrightarrow> CHR ''-'' \<notin> set (req_Method r) \<and> CHR ''/'' \<notin> set (req_Host r) \<and>
     (\<exists>p. req_Path r = CHR ''/'' # p) \<and> CHR ''?'' \<notin> set (req_Path r) \<and> cx_HashBody (req_ctx r) = []"

definition plain_info :: "key_info \<Rightarrow> bool" where
  "plain_info k \<longleftrightarrow> \<not> kc_disable_host k \<and> \<not> kc_disable_method k \<and> \<not> kc_disable_query k \<and> \<not> kc_disable_scheme k
     \<and> \<not> kc_sort_query k \<and> kc_headers k = []"

lemma plain_key_separable:
  assumes "plain_info k" "separable r"
  shows "fst (plain_key r k) = req_Method r @ CHR ''-'' # (if req_TLS r then ''https'' else ''http'') @ CHR ''-''
    # req_Host r @ CHR ''-'' # req_Path r @ (if req_RawQuery r = [] then [] else CHR ''?'' # req_RawQuery r)"
  using assms by (auto simp: plain_key_def parseKeyInformations_def plain_info_def separable_def Let_def)

lemma plain_key_inj:
  assumes k: "plain_info k" and r: "separable r" and r': "separable r'"
    and eq: "fst (plain_key r k) = fst (plain_key r' k)"
  shows "req_Method r = req_Method r' \<and> req_TLS r = req_TLS r' \<and> req_Host r = req_Host r' \<and>
    req_Path r = req_Path r' \<and> req_RawQuery r = req_RawQuery r'"
proof -
  let ?sch = "\<lambda>r. if req_TLS r then ''https'' else ''http''"
  let ?q = "\<lambda>r. if req_RawQuery r = [] then [] else CHR ''?'' # req_RawQuery r"
  note eq' = eq[unfolded plain_key_separable[OF k r] plain_key_separable[OF k r']]
  have m: "req_Method r = req_Method r'"
    and 1: "?sch r @ CHR ''-'' # req_Host r @ CHR ''-'' # req_Path r @ ?q r
      = ?sch r' @ CHR ''-'' # req_Host r' @ CHR ''-'' # req_Path r' @ ?q r'"
    using append_cut[OF _ _ eq'] r r' by (auto simp: separable_def)
  have s: "?sch r = ?sch r'"
    and 2: "req_Host r @ CHR ''-'' # req_Path r @ ?q r = req_Host r' @ CHR ''-'' # req_Path r' @ ?q r'"
    using append_cut[OF _ _ 1] by (auto split: if_splits)
  obtain p p' where p: "req_Path r = CHR ''/'' # p" "req_Path r' = CHR ''/'' # p'"
    using r r' by (auto simp: separable_def)
  have 3: "(req_Host r @ ''-'') @ CHR ''/'' # p @ ?q r = (req_Host r' @ ''-'') @ CHR ''/'' # p' @ ?q r'"
    using 2 by (simp add: p)
  have ns: "CHR ''/'' \<notin> set (req_Host r @ ''-'')" "CHR ''/'' \<notin> set (req_Host r' @ ''-'')"
    "CHR ''?'' \<notin> set p" "CHR ''?'' \<notin> set p'"
    using r r' p by (simp_all add: separable_def)
  note h = append_cut[OF ns(1,2) 3]
  have "?q r = [] \<or> hd (?q r) = CHR ''?''" "?q r' = [] \<or> hd (?q r') = CHR ''?''" by simp_all
  then have "p = p' \<and> ?q r = ?q r'"
    using append_cut_end[OF ns(3,4)] h by blast
  with m s h p show ?thesis by (auto split: if_splits)
qed

section \<open>Properties\<close>

text \<open>
  C20. Under the default key rule two requests get the same cache key only if their method,
  scheme, host, path and query agree, provided no path holds a (decoded) question mark.
\<close>

theorem default_key_injective:
  assumes "kc_template (kc_info g) = []" "kc_overrides g = []" "plain_info (kc_info g)"
    and "separable r" "separable r'"
    and "fst (computeKey re ra g r) = fst (computeKey re ra g r')"
  shows "req_Method r = req_Method r' \<and> req_TLS r = req_TLS r' \<and> req_Host r = req_Host r' \<and>
    req_Path r = req_Path r' \<and> req_RawQuery r = req_RawQuery r'"
  using assms plain_key_inj[of "kc_info g" r r'] by (simp add: computeKey_def)

definition default_key_context :: key_context where
  "default_key_context = key_SetupContext base_configuration0"

theorem default_key_injective_witness:
  "req_Host sample_request = req_Host (sample_request\<lparr>req_Header := []\<rparr>)
    \<and> req_Path sample_request = req_Path (sample_request\<lparr>req_Header := []\<rparr>)"
  using default_key_injective[of default_key_context sample_request "sample_request\<lparr>req_Header := []\<rparr>" no_regexp "\<lambda>r t. t"]
  by (simp add: default_key_context_def key_SetupContext_def base_configuration0_def default_cache0_def
      cache_key_rule0_def key_info_of_def plain_info_def separable_def sample_request_def request_context0_def
      computeKey_def plain_key_def parseKeyInformations_def Let_def)

text \<open>
  The path enters the key decoded: a request whose path holds an escaped question mark has
  the key of the request whose query starts there, although they are different resources.
\<close>

theorem key_collision_question_mark:
  assumes "\<not> kc_disable_query k" "\<not> kc_sort_query k" "q \<noteq> []" "req_Path r = p @ ''?'' @ q" "req_RawQuery r = []"
  shows "plain_key r k = plain_key (r\<lparr>req_Path := p, req_RawQuery := q\<rparr>) k"
  using assms by (simp add: plain_key_def parseKeyInformations_def Let_def)

theorem key_collision_question_mark_witness:
  "plain_key (sample_request\<lparr>req_Path := ''/a?b''\<rparr>) (key_info_of cache_key_rule0)
     = plain_key (sample_request\<lparr>req_RawQuery := ''b''\<rparr>) (key_info_of cache_key_rule0)"
  using key_collision_question_mark[of "key_info_of cache_key_rule0" "''b''" "sample_request\<lparr>req_Path := ''/a?b''\<rparr>" "''/a''"]
  by (simp add: key_info_of_def cache_key_rule0_def sample_request_def)

text \<open>
  With \<open>sort_query\<close> the key does not depend on the order of the query's parameters: two raw
  queries with the same parameters, counted with their multiplicity, give the same key.
\<close>

theorem sort_query_order_independent:
  assumes "kc_sort_query k" "q \<noteq> []" "q' \<noteq> []" "mset (ParseQuery q) = mset (ParseQuery q')"
  shows "plain_key (r\<lparr>req_RawQuery := q\<rparr>) k = plain_key (r\<lparr>req_RawQuery := q'\<rparr>) k"
  using assms encode_sorted_perm[OF assms(4)] by (simp add: plain_key_def parseKeyInformations_def)

theorem sort_query_order_independent_witness:
  "plain_key (sample_request\<lparr>req_RawQuery := ''b=2&a=1''\<rparr>) (key_info_of (cache_key_rule0\<lparr>ck_SortQuery := True\<rparr>))
     = plain_key (sample_request\<lparr>req_RawQuery := ''a=1&b=2''\<rparr>) (key_info_of (cache_key_rule0\<lparr>ck_SortQuery := True\<rparr>))"
proof (rule sort_query_order_independent)
  have "ParseQuery ''b=2&a=1'' = [(''b'', ''2''), (''a'', ''1'')]"
    "ParseQuery ''a=1&b=2'' = [(''a'', ''1''), (''b'', ''2'')]" by code_simp+
  then show "mset (ParseQuery ''b=2&a=1'') = mset (ParseQuery ''a=1&b=2'')" by simp
qed (simp_all add: key_info_of_def)

text \<open>
  The whole context: a request leaves \<open>SetBaseContext\<close> with exactly one of the modes' meanings,
  a supported method exactly when it is an allowed verb, a deadline no later than the backend
  timeout, and its headers unchanged except for a missing or malformed date.
\<close>

theorem SetBaseContext_fields:
  fixes clock :: gtime and c :: base_configuration and req :: request
  defines "r \<equiv> SetBaseContext clock (Context_Init c) req"
  shows "cx_CacheName (req_ctx r) \<noteq> []
    \<and> (Strict (cx_Mode (req_ctx r)) = (\<not> Bypass_request (cx_Mode (req_ctx r)) \<and> \<not> Bypass_response (cx_Mode (req_ctx r))))
    \<and> (cx_SupportedMethod (req_ctx r) = (req_Method req \<in> set (method_SetupContext c)))
    \<and> (\<exists>dl. cx_Deadline (req_ctx r) = Some dl \<and> dl \<le> clock + tc_timeoutBackend (timeout_SetupContext c))
    \<and> req_Header r = (if Parse RFC1123 (header_get (req_Header req) ''Date'') = None
         then header_set ''Date'' (Format RFC1123 clock) (req_Header req) else req_Header req)"
  unfolding r_def
  by (cases "Parse RFC1123 (header_get (req_Header req) ''Date'')"; cases "cx_Deadline (req_ctx req)")
    (auto simp: SetBaseContext_def Context_Init_def mode_SetContext_def timeout_SetContext_def method_SetContext_def
      cache_SetContext_def now_SetContext_def cache_SetupContext_def defaultCacheName_def mode_SetupContext_def
      list_ex_iff Let_def)

text \<open>An override's \<open>disable_vary\<close> has no effect: only the one of the default rule reaches the request.\<close>

lemma override_disable_vary_ignored:
  "cx_DisableVary (req_ctx (key_SetContext re ra g r)) = Some (kc_disable_vary (kc_info g))"
  by (simp add: key_SetContext_def split: prod.split)

end
