(* ===== verification/Writer.thy ===== *)
theory Writer
  imports Rfc
begin

text \<open>
  The response writers: the server's own \<open>http.ResponseWriter\<close>, what an upstream handler does to
  a writer (\<open>writer_call\<close>), and the buffering \<open>CustomWriter\<close> of pkg/middleware/writer.go.
  A custom writer reaches the server's header map through \<open>Header()\<close>, which hands out an empty
  map once the headers are sent or the request's context has ended; writes to that map are lost.
  \<open>cw_Done\<close> says whether the context has ended.  A status code of 100 to 199 is treated like a
  final one.
\<close>

section \<open>The server's writer\<close>

text \<open>The header map, the status line with the headers as they were sent, and the body so far.\<close>

record response_writer =
  rw_Header :: header
  rw_Sent :: "(int \<times> header) option"
  rw_Body :: string

definition response_writer0 :: response_writer where
  "response_writer0 = \<lparr>rw_Header = [], rw_Sent = None, rw_Body = []\<rparr>"

definition rw_WriteHeader :: "int \<Rightarrow> response_writer \<Rightarrow> response_writer" where
  "rw_WriteHeader code rw = (if rw_Sent rw = None then rw\<lparr>rw_Sent := Some (code, rw_Header rw)\<rparr> else rw)"

definition rw_Write :: "string \<Rightarrow> response_writer \<Rightarrow> response_writer" where
  "rw_Write b rw = (let rw1 = rw_WriteHeader 200 rw in rw1\<lparr>rw_Body := rw_Body rw1 @ b\<rparr>)"

definition rw_status :: "response_writer \<Rightarrow> int option" where
  "rw_status rw = map_option fst (rw_Sent rw)"

section \<open>What an upstream handler does\<close>

datatype writer_call =
    SetHeader string string
  | AddHeader string string
  | DelHeader string
  | CallWriteHeader int
  | CallWrite string

fun header_call :: "writer_call \<Rightarrow> header \<Rightarrow> header" where
  "header_call (SetHeader k v) h = header_set k v h"
| "header_call (AddHeader k v) h = header_add k v h"
| "header_call (DelHeader k) h = header_del k h"
| "header_call _ h = h"

fun rw_call :: "writer_call \<Rightarrow> response_writer \<Rightarrow> response_writer" where
  "rw_call (CallWriteHeader code) rw = rw_WriteHeader code rw"
| "rw_call (CallWrite b) rw = rw_Write b rw"
| "rw_call c rw = rw\<lparr>rw_Header := header_call c (rw_Header rw)\<rparr>"

definition rw_calls :: "writer_call list \<Rightarrow> response_writer \<Rightarrow> response_writer" where
  "rw_calls cs rw = fold rw_call cs rw"

text \<open>\<open>statusCodeLogger\<close> remembers the last code passed to \<open>WriteHeader\<close>, 0 when there was none.\<close>

fun logged_status :: "int \<Rightarrow> writer_call list \<Rightarrow> int" where
  "logged_status s [] = s"
| "logged_status s (CallWriteHeader code # cs) = logged_status code cs"
| "logged_status s (_ # cs) = logged_status s cs"

section \<open>CustomWriter\<close>

record custom_writer =
  cw_statusCode :: int
  cw_Buf :: string
  cw_Req :: request
  cw_Rw :: response_writer
  cw_Headers :: header
  cw_headersSent :: bool
  cw_Done :: bool

definition NewCustomWriter :: "request \<Rightarrow> response_writer \<Rightarrow> custom_writer" where
  "NewCustomWriter rq rw = \<lparr>cw_statusCode = 200, cw_Buf = [], cw_Req = rq, cw_Rw = rw, cw_Headers = [],
     cw_headersSent = False, cw_Done = False\<rparr>"

text \<open>\<open>Header()\<close> to read from, and an update made through it.\<close>

definition cw_detached :: "custom_writer \<Rightarrow> bool" where
  "cw_detached cw \<longleftrightarrow> cw_headersSent cw \<or> cw_Done cw"

definition cw_Header :: "custom_writer \<Rightarrow> header" where
  "cw_Header cw = (if cw_detached cw then [] else rw_Header (cw_Rw cw))"

definition cw_update_Header :: "(header \<Rightarrow> header) \<Rightarrow> custom_writer \<Rightarrow> custom_writer" where
  "cw_update_Header f cw =
     (if cw_detached cw then cw
      else cw\<lparr>cw_Rw := (cw_Rw cw)\<lparr>rw_Header := f (rw_Header (cw_Rw cw))\<rparr>\<rparr>)"

definition cw_Set :: "string \<Rightarrow> string \<Rightarrow> custom_writer \<Rightarrow> custom_writer" where
  "cw_Set k v cw = cw_update_Header (header_set k v) cw"

definition cw_WriteHeader :: "int \<Rightarrow> custom_writer \<Rightarrow> custom_writer" where
  "cw_WriteHeader code cw = (if cw_headersSent cw then cw else cw\<lparr>cw_statusCode := code\<rparr>)"

definition cw_Write :: "string \<Rightarrow> custom_writer \<Rightarrow> custom_writer" where
  "cw_Write b cw = cw\<lparr>cw_Buf := cw_Buf cw @ b\<rparr>"

fun cw_call :: "writer_call \<Rightarrow> custom_writer \<Rightarrow> custom_writer" where
  "cw_call (CallWriteHeader code) cw = cw_WriteHeader code cw"
| "cw_call (CallWrite b) cw = cw_Write b cw"
| "cw_call c cw = cw_update_Header (header_call c) cw"

definition cw_calls :: "writer_call list \<Rightarrow> custom_writer \<Rightarrow> custom_writer" where
  "cw_calls cs cw = fold cw_call cs cw"

text \<open>
  \<open>Send\<close>.  \<open>serve_content\<close> is \<open>http.ServeContent\<close> with an empty name: method, headers of the
  request, modification time, content and the writer it writes to.  The buffer is emptied on
  every way out.
\<close>

type_synonym serve_content = "string \<Rightarrow> header \<Rightarrow> gtime \<Rightarrow> string \<Rightarrow> response_writer \<Rightarrow> response_writer"

definition send_prepare :: "custom_writer \<Rightarrow> custom_writer" where
  "send_prepare cw =
     (let storedLength = header_get (cw_Header cw) StoredLengthHeader;
          cw1 = (if storedLength \<noteq> [] then cw_Set ''Content-Length'' storedLength cw else cw)
      in cw_update_Header (\<lambda>h. header_del StoredTTLHeader (header_del StoredLengthHeader h)) cw1)"

definition send_range :: "serve_content \<Rightarrow> string \<Rightarrow> custom_writer \<Rightarrow> custom_writer" where
  "send_range serve rangeHeader cw =
     (let cw1 = cw_Set ''Accept-Ranges'' ''bytes'' cw;
          ifRange = header_get (req_Header (cw_Req cw1)) ''If-Range'';
          h0 = [(''Range'', [rangeHeader])];
          h = (if ifRange \<noteq> [] then header_set ''If-Range'' ifRange h0 else h0);
          lastModified = header_get (cw_Header cw1) ''Last-Modified'';
          modtime = (if lastModified \<noteq> [] then parsed_or_zero (http_ParseTime lastModified) else zero_time)
      in cw1\<lparr>cw_headersSent := True,
             cw_Rw := serve (req_Method (cw_Req cw1)) h modtime (cw_Buf cw1) (cw_Rw cw1)\<rparr>)"

definition send_plain :: "custom_writer \<Rightarrow> custom_writer" where
  "send_plain cw =
     (let result = cw_Buf cw;
          cw1 = (if result \<noteq> [] then cw_Set ''Content-Length'' (Itoa (int (length result))) cw else cw);
          cw2 = cw_update_Header (\<lambda>h. header_del StoredTTLHeader (header_del StoredLengthHeader h)) cw1;
          cw3 = (if \<not> cw_headersSent cw2
                 then cw2\<lparr>cw_Rw := rw_WriteHeader (cw_statusCode cw2) (cw_Rw cw2), cw_headersSent := True\<rparr>
                 else cw2)
      in cw3\<lparr>cw_Rw := rw_Write result (cw_Rw cw3)\<rparr>)"

definition Send :: "serve_content \<Rightarrow> custom_writer \<Rightarrow> custom_writer" where
  "Send serve cw =
     (let cw1 = send_prepare cw;
          rangeHeader = header_get (cw_Headers cw1) ''Range'';
          cw2 = (if rangeHeader \<noteq> [] \<and> cw_statusCode cw1 = 200 \<and> \<not> cw_headersSent cw1
                 then send_range serve rangeHeader cw1 else send_plain cw1)
      in cw2\<lparr>cw_Buf := []\<rparr>)"

section \<open>What is delivered\<close>

lemma internal_headers_canonical:
  "CanonicalHeaderKey StoredTTLHeader = ''X-Souin-Stored-Ttl''"
  "CanonicalHeaderKey StoredLengthHeader = ''X-Souin-Stored-Length''"
  "CanonicalHeaderKey ''Content-Length'' = ''Content-Length''"
  "CanonicalHeaderKey ''Accept-Ranges'' = ''Accept-Ranges''"
  by code_simp+

lemma send_prepare_fields [simp]:
  "cw_statusCode (send_prepare cw) = cw_statusCode cw" "cw_Buf (send_prepare cw) = cw_Buf cw"
  "cw_headersSent (send_prepare cw) = cw_headersSent cw" "cw_Done (send_prepare cw) = cw_Done cw"
  "cw_Headers (send_prepare cw) = cw_Headers cw" "cw_Req (send_prepare cw) = cw_Req cw"
  "rw_Sent (cw_Rw (send_prepare cw)) = rw_Sent (cw_Rw cw)" "rw_Body (cw_Rw (send_prepare cw)) = rw_Body (cw_Rw cw)"
  by (simp_all add: send_prepare_def Let_def cw_update_Header_def cw_Set_def cw_detached_def)

text \<open>
  C19. Without a range request \<open>Send\<close> sends the status code that was set and exactly the buffered
  body, with the content length of that body, and the cache's internal headers do not leave.
\<close>

theorem Send_delivers:
  assumes "\<not> cw_headersSent cw" "\<not> cw_Done cw" "rw_Sent (cw_Rw cw) = None"
    and "header_get (cw_Headers cw) ''Range'' = []"
  shows "\<exists>h. rw_Sent (cw_Rw (Send serve cw)) = Some (cw_statusCode cw, h)
    \<and> rw_Body (cw_Rw (Send serve cw)) = rw_Body (cw_Rw cw) @ cw_Buf cw
    \<and> (cw_Buf cw \<noteq> [] \<longrightarrow> header_get h ''Content-Length'' = Itoa (int (length (cw_Buf cw))))
    \<and> header_get h StoredTTLHeader = [] \<and> header_get h StoredLengthHeader = []
    \<and> cw_Buf (Send serve cw) = [] \<and> cw_headersSent (Send serve cw)"
  using assms
  by (auto simp: Send_def send_plain_def Let_def cw_update_Header_def cw_Set_def cw_detached_def rw_WriteHeader_def
      rw_Write_def internal_headers_canonical)

theorem Send_delivers_witness:
  "\<exists>h. rw_Sent (cw_Rw (Send (\<lambda>m h t c rw. rw) (cw_Write ''hi'' (NewCustomWriter sample_request response_writer0))))
    = Some (200, h)"
  using Send_delivers[of "cw_Write ''hi'' (NewCustomWriter sample_request response_writer0)" "\<lambda>m h t c rw. rw"]
  by (auto simp: NewCustomWriter_def cw_Write_def response_writer0_def header_get_def header_values_def)

end
