(* ===== verification/Api.thy ===== *)
theory Api
  imports Surrogate RequestContext Writer
begin

text \<open>
  The administration API (pkg/api): the invalidation endpoint souin.go, the debug and prometheus
  endpoints and the map of enabled handlers.  Parameters: the protobuf codec of the mappings, the
  regular-expression engine, \<open>url_parts\<close> (host and path of \<open>http.NewRequest(GET, "//" + k)\<close>, or its
  error), \<open>decode\<close> (\<open>json.NewDecoder(body).Decode\<close> on an invalidation), and what pprof and promhttp write.
  A protobuf message that does not decode is treated as an empty mapping.
\<close>

section \<open>JSON output (encoding/json)\<close>

definition json_quote :: string where
  "json_quote = [CHR 0x22]"

definition lower_hex :: "nat \<Rightarrow> char" where
  "lower_hex n = ''0123456789abcdef'' ! n"

definition json_char :: "char \<Rightarrow> string" where
  "json_char c =
     (if c = CHR 0x22 \<or> c = CHR 0x5C then [CHR 0x5C, c]
      else if c = CHR 0x08 then [CHR 0x5C, CHR ''b''] else if c = CHR 0x0C then [CHR 0x5C, CHR ''f'']
      else if c = CHR 0x0A then [CHR 0x5C, CHR ''n''] else if c = CHR 0x0D then [CHR 0x5C, CHR ''r'']
      else if c = CHR 0x09 then [CHR 0x5C, CHR ''t'']
      else if char_nat c < 32 \<or> c \<in> {CHR ''<'', CHR ''>'', CHR ''&''}
        then CHR 0x5C # ''u00'' @ [lower_hex (char_nat c div 16), lower_hex (char_nat c mod 16)]
      else [c])"

definition json_string :: "string \<Rightarrow> string" where
  "json_string s = json_quote @ concat (map json_char s) @ json_quote"

definition json_strings :: "string list \<Rightarrow> string" where
  "json_strings xs = ''['' @ Join (map json_string xs) '','' @ '']''"

definition json_object :: "(string, string) amap \<Rightarrow> string" where
  "json_object m = ''{'' @ Join (map (\<lambda>(k, v). json_string k @ '':'' @ json_string v)
     (sort_key fst m)) '','' @ ''}''"

section \<open>The endpoint's state\<close>

datatype invalidation_type = UriInvalidation | UriPrefixInvalidation | OriginInvalidation | GroupInvalidation | OtherInvalidation

record invalidation =
  iv_Type :: invalidation_type
  iv_Selectors :: "string list"
  iv_Groups :: "string list"
  iv_Purge :: bool

record 'w souin_api =
  sa_basePath :: string
  sa_enabled :: bool
  sa_storers :: "'w storer list"
  sa_surrogateStorage :: "'w base_storage"
  sa_allowedMethods :: "string list"
  sa_compiledBP :: string
  sa_extractArgsBP :: string

definition initializeSouin ::
  "regexp_engine \<Rightarrow> base_configuration \<Rightarrow> 'w storer list \<Rightarrow> 'w base_storage \<Rightarrow> 'w souin_api go" where
  "initializeSouin re c storers surrogateStorage =
     (let bp0 = ep_BasePath (api_Souin (bc_API c));
          bp = (if bp0 = [] then ''/souin'' else bp0);
          verbs = dc_AllowedHTTPVerbs (bc_DefaultCache c)
      in if \<not> re_ok re (bp @ ''/.+'') \<or> \<not> re_ok re (bp @ ''/(.+)'') then Inl MustCompile
         else Inr \<lparr>sa_basePath = bp, sa_enabled = ep_Enable (api_Souin (bc_API c)), sa_storers = storers,
           sa_surrogateStorage = surrogateStorage,
           sa_allowedMethods = (if verbs = [] then [''GET'', ''HEAD''] else verbs),
           sa_compiledBP = bp @ ''/.+'', sa_extractArgsBP = bp @ ''/(.+)''\<rparr>)"

definition api_storageToInfiniteTTLMap :: "(string, duration) amap" where
  "api_storageToInfiniteTTLMap = [(''BADGER'', OneYearDuration), (''ETCD'', OneYearDuration), (''GO-REDIS'', 0),
     (''NUTS'', 0), (''OLRIC'', OneYearDuration), (''OTTER'', OneYearDuration), (''REDIS'', -1),
     (''SIMPLEFS'', 0), (DefaultStorageName, OneYearDuration)]"

definition infinite_ttl :: "'w storer \<Rightarrow> duration" where
  "infinite_ttl s = (case map_of api_storageToInfiniteTTLMap (st_Name s) of Some d \<Rightarrow> d | None \<Rightarrow> 0)"

section \<open>Deletion\<close>

definition sa_Delete :: "regexp_engine \<Rightarrow> gtime \<Rightarrow> 'w souin_api \<Rightarrow> string \<Rightarrow> 'w \<Rightarrow> 'w" where
  "sa_Delete re now s key w =
     fold (\<lambda>current. if re_ok re key then st_DeleteMany current now key else st_Delete current key) (sa_storers s) w"

text \<open>\<open>BulkDelete\<close> on one storer: the entries of the mapping go, the mapping itself only on a purge.\<close>

definition bulk_delete_mapping ::
  "codec \<Rightarrow> gtime \<Rightarrow> 'w storer \<Rightarrow> string \<Rightarrow> bool \<Rightarrow> string \<Rightarrow> 'w \<Rightarrow> 'w" where
  "bulk_delete_mapping cd now current key purge b w =
     (let mapping = mapping_or_empty (cd_Unmarshal cd b);
          w1 = fold (\<lambda>k. st_Delete current k) (amap_keys mapping) w
      in if purge then w1
         else let mapping' = map (\<lambda>(k, v). (k, v\<lparr>ki_FreshTime := now\<rparr>)) mapping;
                  v = cd_Marshal cd mapping';
                  w2 = (if v = None then st_Delete current (MappingKeyPrefix @ key) w1 else w1)
              in snd (st_Set current now (MappingKeyPrefix @ key) (bytes_of v) (infinite_ttl current) w2))"

definition bulk_delete_storer :: "codec \<Rightarrow> gtime \<Rightarrow> string \<Rightarrow> bool \<Rightarrow> 'w storer \<Rightarrow> 'w \<Rightarrow> 'w" where
  "bulk_delete_storer cd now key purge current w =
     (case st_Get current now (MappingKeyPrefix @ key) w of
        (r, w1) \<Rightarrow>
          let b = bytes_of r;
              w2 = (if b \<noteq> [] then bulk_delete_mapping cd now current key purge b w1 else w1);
              w3 = (if purge then st_Delete current (MappingKeyPrefix @ key) w2 else w2)
          in st_Delete current key w3)"

definition BulkDelete :: "regexp_engine \<Rightarrow> codec \<Rightarrow> gtime \<Rightarrow> 'w souin_api \<Rightarrow> string \<Rightarrow> bool \<Rightarrow> 'w \<Rightarrow> 'w" where
  "BulkDelete re cd now s key0 purge w =
     (let key = CutPrefix key0 MappingKeyPrefix
      in sa_Delete re now s key (fold (bulk_delete_storer cd now key purge) (sa_storers s) w))"

section \<open>Listing\<close>

fun list_all_keys :: "gtime \<Rightarrow> 'w storer list \<Rightarrow> string list \<Rightarrow> 'w \<Rightarrow> string list go \<times> 'w" where
  "list_all_keys now [] keys w = (Inr keys, w)"
| "list_all_keys now (current # ss) keys w =
     (case st_ListKeys current now w of
        (Inl p, w1) \<Rightarrow> (Inl p, w1)
      | (Inr ks, w1) \<Rightarrow> list_all_keys now ss (keys @ ks) w1)"

definition GetAll :: "gtime \<Rightarrow> 'w souin_api \<Rightarrow> 'w \<Rightarrow> string list go \<times> 'w" where
  "GetAll now s w = list_all_keys now (sa_storers s) [] w"

definition api_listKeys :: "regexp_engine \<Rightarrow> gtime \<Rightarrow> 'w souin_api \<Rightarrow> string \<Rightarrow> 'w \<Rightarrow> string list go \<times> 'w" where
  "api_listKeys re now s search w =
     (if \<not> re_ok re search then (Inr [], w)
      else case GetAll now s w of
        (Inl p, w1) \<Rightarrow> (Inl p, w1)
      | (Inr ks, w1) \<Rightarrow> (Inr (filter (re_MatchString re search) ks), w1))"

section \<open>Eviction of dead mapping entries\<close>

definition entry_dead :: "gtime \<Rightarrow> key_index \<Rightarrow> bool" where
  "entry_dead now v \<longleftrightarrow> 0 < now - ki_FreshTime v \<and> 0 < now - ki_StaleTime v"

definition evict_mapping_value :: "codec \<Rightarrow> gtime \<Rightarrow> 'w storer \<Rightarrow> string \<times> string \<Rightarrow> 'w \<Rightarrow> 'w" where
  "evict_mapping_value cd now current kv w =
     (case kv of (k, v) \<Rightarrow>
        case (if v = [] then Some [] else cd_Unmarshal cd v) of
          None \<Rightarrow> st_Delete current (MappingKeyPrefix @ k) w
        | Some mapping \<Rightarrow>
            let dead = filter (\<lambda>(_, val). entry_dead now val) mapping;
                kept = filter (\<lambda>(_, val). \<not> entry_dead now val) mapping;
                w1 = fold (\<lambda>(key, val) w. st_Delete current (ki_RealKey val) (st_Delete current key w)) dead w;
                w2 = (if dead = [] then w1
                      else let v' = cd_Marshal cd kept;
                               w' = (if v' = None then st_Delete current (MappingKeyPrefix @ k) w1 else w1)
                           in snd (st_Set current now (MappingKeyPrefix @ k) (bytes_of v') (infinite_ttl current) w'))
            in if kept = [] then st_Delete current (MappingKeyPrefix @ k) w2 else w2)"

definition EvictMapping :: "codec \<Rightarrow> gtime \<Rightarrow> 'w storer \<Rightarrow> 'w \<Rightarrow> 'w" where
  "EvictMapping cd now current w =
     (case st_MapKeys current now MappingKeyPrefix w of
        (vs, w1) \<Rightarrow> fold (evict_mapping_value cd now current) vs w1)"

definition purgeMapping :: "codec \<Rightarrow> gtime \<Rightarrow> 'w souin_api \<Rightarrow> 'w \<Rightarrow> 'w" where
  "purgeMapping cd now s w = fold (EvictMapping cd now) (sa_storers s) w"

section \<open>HandleRequest\<close>

type_synonym 'w http_handler = "gtime \<Rightarrow> request \<Rightarrow> response_writer \<Rightarrow> 'w \<Rightarrow> response_writer go \<times> 'w"

text \<open>The parameters of the endpoint, bundled.\<close>

record api_env =
  ae_re :: regexp_engine
  ae_codec :: codec
  ae_decode :: "string \<Rightarrow> invalidation option"
  ae_url_parts :: "string \<Rightarrow> (string \<times> string) option"
  ae_url_ok :: "string \<Rightarrow> bool"
  ae_pprof :: "string \<Rightarrow> request \<Rightarrow> response_writer \<Rightarrow> response_writer"
  ae_promhttp :: "request \<Rightarrow> response_writer \<Rightarrow> response_writer"

definition rw_set_header :: "string \<Rightarrow> string \<Rightarrow> response_writer \<Rightarrow> response_writer" where
  "rw_set_header k v rw = rw\<lparr>rw_Header := header_set k v (rw_Header rw)\<rparr>"

text \<open>\<open>s.extractArgsBP.FindAllStringSubmatch(uri, -1)[0][1]\<close>.\<close>

definition extract_arg :: "regexp_engine \<Rightarrow> 'w souin_api \<Rightarrow> string \<Rightarrow> string go" where
  "extract_arg re s uri = (case re_FindAllStringSubmatch re (sa_extractArgsBP s) uri of
       (_ # a # _) # _ \<Rightarrow> Inr a
     | _ \<Rightarrow> Inl IndexOutOfRange)"

definition api_GET :: "api_env \<Rightarrow> 'w souin_api \<Rightarrow> 'w http_handler" where
  "api_GET e s now r rw w =
     (let re = ae_re e;
          compile = re_FindString re (sa_compiledBP s) (req_RequestURI r) \<noteq> [];
          finish = (\<lambda>res rw. rw_Write res (rw_set_header ''Content-Type'' ''application/json'' rw))
      in if sublist (sa_basePath s @ ''/surrogate_keys'') (req_RequestURI r) then
           (case bs_List now (sa_surrogateStorage s) w of (m, w1) \<Rightarrow> (Inr (finish (json_object m) rw), w1))
         else if compile then
           (case extract_arg re s (req_RequestURI r) of
              Inl p \<Rightarrow> (Inl p, w)
            | Inr search \<Rightarrow>
                (case api_listKeys re now s search w of
                   (Inl p, w1) \<Rightarrow> (Inl p, w1)
                 | (Inr ks, w1) \<Rightarrow>
                     (let res = json_strings ks;
                          rw1 = (if length res = 2 then rw_WriteHeader 404 rw else rw)
                      in (Inr (finish res rw1), w1))))
         else (case GetAll now s w of
                 (Inl p, w1) \<Rightarrow> (Inl p, w1)
               | (Inr ks, w1) \<Rightarrow> (Inr (finish (json_strings ks) rw), w1)))"

definition uri_key_matches :: "invalidation_type \<Rightarrow> string \<Rightarrow> string \<Rightarrow> bool" where
  "uri_key_matches t allKey bk \<longleftrightarrow>
     (if t = UriInvalidation then sublist bk allKey \<and> sublist (bk @ ''-'') allKey \<and> suffix bk allKey
      else sublist bk allKey \<and> (sublist (bk @ ''-'') allKey \<or> sublist (bk @ ''?'') allKey
             \<or> sublist (bk @ ''/'') allKey \<or> suffix bk allKey))"

definition selector_hosts :: "api_env \<Rightarrow> string list \<Rightarrow> (string \<times> string) list" where
  "selector_hosts e selectors =
     List.map_filter (\<lambda>k. if sublist ''//'' k then None else ae_url_parts e k) selectors"

definition keys_to_invalidate ::
  "api_env \<Rightarrow> 'w souin_api \<Rightarrow> gtime \<Rightarrow> invalidation \<Rightarrow> 'w \<Rightarrow> string list go \<times> 'w" where
  "keys_to_invalidate e s now iv w =
     (case iv_Type iv of
        GroupInvalidation \<Rightarrow>
          (case sp_Purge now (ae_url_ok e) (sa_surrogateStorage s) [(''Surrogate-Key'', iv_Groups iv)] w of
             ((ks, sks, _), w1) \<Rightarrow> (Inr (ks @ sks), w1))
      | OtherInvalidation \<Rightarrow> (Inr [], w)
      | OriginInvalidation \<Rightarrow>
          (case GetAll now s w of
             (Inl p, w1) \<Rightarrow> (Inl p, w1)
           | (Inr listed, w1) \<Rightarrow>
               (let bodyKeys = map fst (selector_hosts e (iv_Selectors iv))
                in (Inr (filter (\<lambda>k. list_ex (\<lambda>bk. sublist bk k) bodyKeys) listed), w1)))
      | t \<Rightarrow>
          (case GetAll now s w of
             (Inl p, w1) \<Rightarrow> (Inl p, w1)
           | (Inr listed, w1) \<Rightarrow>
               (let bodyKeys = map (\<lambda>(host, path). host @ ''-'' @ path) (selector_hosts e (iv_Selectors iv))
                in (Inr (filter (\<lambda>k. list_ex (uri_key_matches t k) bodyKeys) listed), w1))))"

definition api_POST :: "api_env \<Rightarrow> 'w souin_api \<Rightarrow> 'w http_handler" where
  "api_POST e s now r rw w =
     (case ae_decode e (bytes_of (req_Body r)) of
        None \<Rightarrow> (Inr (rw_WriteHeader 400 rw), w)
      | Some iv \<Rightarrow>
          (case keys_to_invalidate e s now iv w of
             (Inl p, w1) \<Rightarrow> (Inl p, w1)
           | (Inr ks, w1) \<Rightarrow>
               (Inr (rw_Write [] (rw_WriteHeader 200 rw)),
                fold (\<lambda>k. BulkDelete (ae_re e) (ae_codec e) now s k (iv_Purge iv)) ks w1)))"

definition api_PURGE :: "api_env \<Rightarrow> 'w souin_api \<Rightarrow> 'w http_handler" where
  "api_PURGE e s now r rw w =
     (let re = ae_re e;
          uri = req_RequestURI r;
          compile = re_FindString re (sa_compiledBP s) uri \<noteq> [];
          rw1 = rw_Write [] (rw_WriteHeader 204 rw)
      in if compile then
           (if suffix (sa_basePath s @ ''/flush'') uri then
              (Inr rw1, snd (bs_Destruct now (sa_surrogateStorage s)
                 (fold (\<lambda>current. st_DeleteMany current now ''.+'') (sa_storers s) w)))
            else if suffix (sa_basePath s @ ''/mapping'') uri then (Inr rw1, purgeMapping (ae_codec e) now s w)
            else case extract_arg re s uri of
              Inl p \<Rightarrow> (Inl p, w)
            | Inr submatch \<Rightarrow> (Inr rw1, fold (\<lambda>current. st_DeleteMany current now submatch) (sa_storers s) w))
         else case sp_Purge now (ae_url_ok e) (sa_surrogateStorage s) (req_Header r) w of
           ((ck, sks, _), w1) \<Rightarrow>
             (Inr rw1,
              fold (\<lambda>k. BulkDelete re (ae_codec e) now s (''SURROGATE_'' @ k) True) sks
                (fold (\<lambda>k. BulkDelete re (ae_codec e) now s k True) ck w1)))"

definition api_HandleRequest :: "api_env \<Rightarrow> 'w souin_api \<Rightarrow> 'w http_handler" where
  "api_HandleRequest e s now r rw w =
     (if req_Method r = ''GET'' then api_GET e s now r rw w
      else if req_Method r = ''POST'' then api_POST e s now r rw w
      else if req_Method r = ''PURGE'' then api_PURGE e s now r rw w
      else (Inr (rw_Write [] rw), w))"

section \<open>The other endpoints and the handler map\<close>

definition debug_profiles :: "string list" where
  "debug_profiles = [''allocs'', ''cmdline'', ''profile'', ''symbol'', ''trace'', ''goroutine'', ''heap'',
     ''block'', ''heap'', ''mutex'', ''threadcreate'']"

text \<open>The last profile whose name occurs in the URI; the empty name stands for pprof's index.\<close>

definition debug_executor :: "string \<Rightarrow> string" where
  "debug_executor uri = fold (\<lambda>p executor. if sublist p uri then p else executor) debug_profiles []"

definition debug_HandleRequest :: "api_env \<Rightarrow> 'w http_handler" where
  "debug_HandleRequest e now r rw w = (Inr (ae_pprof e (debug_executor (req_RequestURI r)) r rw), w)"

definition prometheus_HandleRequest :: "api_env \<Rightarrow> 'w http_handler" where
  "prometheus_HandleRequest e now r rw w = (Inr (ae_promhttp e r rw), w)"

definition InitializeDebug :: "base_configuration \<Rightarrow> string \<times> bool" where
  "InitializeDebug c =
     (let p = api_Debug (bc_API c) in (if ep_BasePath p = [] then ''/debug/'' else ep_BasePath p, ep_Enable p))"

definition InitializePrometheus :: "base_configuration \<Rightarrow> string \<times> bool" where
  "InitializePrometheus c =
     (let p = api_Prometheus (bc_API c) in (if ep_BasePath p = [] then ''/metrics'' else ep_BasePath p, ep_Enable p))"

text \<open>An endpoint is its base path, whether it is enabled, and its handler.\<close>

type_synonym 'w endpoint = "string \<times> bool \<times> 'w http_handler"

definition api_Initialize ::
  "api_env \<Rightarrow> base_configuration \<Rightarrow> 'w storer list \<Rightarrow> 'w base_storage \<Rightarrow> 'w endpoint list go" where
  "api_Initialize e c storers surrogateStorage =
     go_bind (initializeSouin (ae_re e) c storers surrogateStorage) (\<lambda>s.
       Inr [(sa_basePath s, sa_enabled s, api_HandleRequest e s),
            (fst (InitializeDebug c), snd (InitializeDebug c), debug_HandleRequest e),
            (fst (InitializePrometheus c), snd (InitializePrometheus c), prometheus_HandleRequest e)])"

definition GenerateHandlerMap ::
  "api_env \<Rightarrow> base_configuration \<Rightarrow> 'w storer list \<Rightarrow> 'w base_storage \<Rightarrow> (string, 'w http_handler) amap option go" where
  "GenerateHandlerMap e c storers surrogateStorage =
     (let bp0 = api_BasePath (bc_API c);
          base = (if bp0 = [] then ''/souin-api'' else bp0)
      in go_bind (api_Initialize e c storers surrogateStorage) (\<lambda>eps.
           let enabled = filter (\<lambda>(_, on, _). on) eps
           in Inr (if enabled = [] then None
                   else Some (fold (\<lambda>(bp, _, h) hm. amap_put (base @ bp) h hm) enabled []))))"

section \<open>The endpoint over the in-memory storer\<close>

lemma default_storer_sel [simp]:
  "st_Get (default_storer re cd) = ds_Get" "st_Set (default_storer re cd) = ds_Set"
  "st_Delete (default_storer re cd) = ds_Delete" "st_DeleteMany (default_storer re cd) now = ds_DeleteMany re"
  "st_Reset (default_storer re cd) now = ds_Reset" "st_MapKeys (default_storer re cd) = ds_MapKeys"
  "st_ListKeys (default_storer re cd) = ds_ListKeys cd" "st_Name (default_storer re cd) = DefaultStorageName"
  "st_GetMultiLevel (default_storer re cd) = ds_GetMultiLevel cd"
  "st_SetMultiLevel (default_storer re cd) = ds_SetMultiLevel cd"
  by (simp_all add: default_storer_def)

text \<open>\<open>Get\<close> never returns a mapping of this storer.\<close>

lemma ds_Get_mapping: "ds_ok cd s \<Longrightarrow> \<not> user_key k \<Longrightarrow> ds_Get now k s = (None, s)"
  by (cases "map_of (ds_m s) k") (auto simp: ds_Get_def elim: ds_ok_cases)

text \<open>What \<open>BulkDelete\<close> removes from the only storer.\<close>

definition bulk_hits :: "regexp_engine \<Rightarrow> string \<Rightarrow> bool \<Rightarrow> string \<Rightarrow> bool" where
  "bulk_hits re key purge k \<longleftrightarrow> k = key \<or> (re_ok re key \<and> delete_many_hits re key k)
     \<or> (purge \<and> k = MappingKeyPrefix @ key)"

lemma BulkDelete_default:
  fixes key0 :: string
  assumes "ds_ok cd s" "sa_storers a = [default_storer re cd]"
  defines "key \<equiv> CutPrefix key0 MappingKeyPrefix"
  shows "ds_ok cd (BulkDelete re cd' now a key0 purge s) \<and>
    map_of (ds_m (BulkDelete re cd' now a key0 purge s)) k =
      (if bulk_hits re key purge k then None else map_of (ds_m s) k)"
proof -
  define s1 where "s1 = (if purge then ds_Delete (MappingKeyPrefix @ key) s else s)"
  define s2 where "s2 = ds_Delete key s1"
  have eq: "BulkDelete re cd' now a key0 purge s = (if re_ok re key then ds_DeleteMany re key s2 else ds_Delete key s2)"
    by (simp add: BulkDelete_def key_def[symmetric] assms(2) bulk_delete_storer_def ds_Get_mapping[OF assms(1)]
        bytes_of_def Let_def sa_Delete_def s1_def s2_def)
  have ok: "ds_ok cd s2" using assms(1) by (simp add: s1_def s2_def ds_Delete_def ds_ok_del)
  have lookup: "map_of (ds_m s2) k = (if k = key \<or> (purge \<and> k = MappingKeyPrefix @ key) then None else map_of (ds_m s) k)" for k
    by (simp add: s1_def s2_def ds_Delete_def)
  show ?thesis
    unfolding eq using ok
    by (simp add: lookup ds_Delete_def ds_DeleteMany_def bulk_hits_def ds_ok_del ds_ok_filter)
qed

lemma BulkDelete_default_val:
  assumes "ds_ok cd s" "sa_storers a = [default_storer re cd]"
  shows "ds_val t k (BulkDelete re cd' now a key purge s) =
    (if bulk_hits re (CutPrefix key MappingKeyPrefix) purge k then None else ds_val t k s)"
  using BulkDelete_default[OF assms] by (simp add: ds_val_def)

lemma fold_BulkDelete_default:
  assumes "ds_ok cd s" "sa_storers a = [default_storer re cd]"
  shows "ds_ok cd (fold (\<lambda>k. BulkDelete re cd' now a (f k) purge) ks s) \<and>
    ds_val t k (fold (\<lambda>k. BulkDelete re cd' now a (f k) purge) ks s) =
      (if \<exists>key\<in>set ks. bulk_hits re (CutPrefix (f key) MappingKeyPrefix) purge k then None else ds_val t k s)"
  using assms(1)
proof (induction ks arbitrary: s)
  case (Cons key ks)
  note one = BulkDelete_default[OF Cons.prems assms(2), of cd' now "f key" purge]
    BulkDelete_default_val[OF Cons.prems assms(2), of t k cd' now "f key" purge]
  show ?case using Cons.IH[of "BulkDelete re cd' now a (f key) purge s"] one by auto
qed simp

lemma CutPrefix_user: "user_key k \<Longrightarrow> CutPrefix k MappingKeyPrefix = k"
  by (simp add: CutPrefix_def user_key_def)

section \<open>Properties\<close>

text \<open>
  Eviction of dead mapping entries does nothing on the in-memory storer: its \<open>MapKeys\<close> does
  not show the encoded mappings, so they and their values stay for ever.
\<close>

theorem EvictMapping_default_noop:
  assumes "ds_ok cd s"
  shows "EvictMapping cd' now (default_storer re cd) s = s"
proof -
  have "map_of (fst (ds_MapKeys now MappingKeyPrefix s)) k = None" for k
    using ds_MapKeys_val(2)[OF assms, of now MappingKeyPrefix k] assms by simp
  then have "fst (ds_MapKeys now MappingKeyPrefix s) = []"
    by (metis map_of_eq_empty_iff ext)
  then show ?thesis
    using ds_MapKeys_val(1)[OF assms, of now MappingKeyPrefix]
    by (cases "ds_MapKeys now MappingKeyPrefix s") (simp add: EvictMapping_def)
qed

theorem EvictMapping_default_noop_witness:
  "EvictMapping sample_codec 1000 (default_storer no_regexp sample_codec) sample_filled = sample_filled"
  using EvictMapping_default_noop[of sample_codec sample_filled] sample_filled_wf by (simp add: ds_wf_def)

text \<open>
  An invalidation of type \<open>uri\<close> never selects the key of the very URL it names: it asks for a
  key that ends in host and path and also continues after them.
\<close>

theorem uri_invalidation_misses:
  assumes "CHR ''/'' \<notin> set p" "CHR ''/'' \<notin> set host"
  shows "\<not> uri_key_matches UriInvalidation (p @ host @ ''-'' @ CHR ''/'' # path) (host @ ''-'' @ CHR ''/'' # path)"
proof
  assume "uri_key_matches UriInvalidation (p @ host @ ''-'' @ CHR ''/'' # path) (host @ ''-'' @ CHR ''/'' # path)"
  then have "sublist ((host @ ''-'' @ CHR ''/'' # path) @ ''-'') (p @ host @ ''-'' @ CHR ''/'' # path)"
    by (simp add: uri_key_matches_def)
  then obtain x y where "p @ host @ ''-'' @ CHR ''/'' # path = x @ ((host @ ''-'' @ CHR ''/'' # path) @ ''-'') @ y"
    by (auto simp only: sublist_def)
  then have e: "(p @ host @ ''-'') @ CHR ''/'' # path = x @ host @ ''-'' @ CHR ''/'' # (path @ ''-'' @ y)"
    by simp
  have c: "CHR ''/'' \<notin> set (p @ host @ ''-'')" using assms by simp
  obtain u v where "x @ host @ ''-'' @ CHR ''/'' # (path @ ''-'' @ y) = u @ CHR ''/'' # v" "CHR ''/'' \<notin> set u"
    "length path < length v"
  proof (cases "CHR ''/'' \<in> set x")
    case True
    then obtain x1 x2 where "x = x1 @ CHR ''/'' # x2" "CHR ''/'' \<notin> set x1" by (metis split_list_first)
    then show ?thesis by (intro that[of x1 "x2 @ host @ ''-'' @ CHR ''/'' # (path @ ''-'' @ y)"]) simp_all
  next
    case False
    then show ?thesis using assms by (intro that[of "x @ host @ ''-''" "path @ ''-'' @ y"]) simp_all
  qed
  with append_cut[OF c, of u path v] e show False by simp
qed

theorem uri_invalidation_misses_witness:
  "\<not> uri_key_matches UriInvalidation (''GET-http-'' @ ''h'' @ ''-'' @ ''/a'') (''h'' @ ''-'' @ ''/a'')"
  using uri_invalidation_misses[of "''GET-http-''" "''h''" "''a''"] by simp

text \<open>
  \<open>BulkDelete\<close> on the in-memory storer removes the key, on a purge also its mapping, and, when
  the key compiles as a pattern, every stored key that the pattern matches anywhere or that the
  key is a prefix of, mappings included and whatever the purge flag; nothing else changes.
\<close>

theorem BulkDelete_default_exact:
  assumes "ds_ok cd s" "sa_storers a = [default_storer re cd]" "user_key key"
  shows "map_of (ds_m (BulkDelete re cd' now a key purge s)) k =
    (if k = key \<or> (purge \<and> k = MappingKeyPrefix @ key)
       \<or> (re_ok re key \<and> (re_MatchString re key k \<or> prefix key k))
     then None else map_of (ds_m s) k)"
  using BulkDelete_default[OF assms(1,2), of cd' now key purge k] CutPrefix_user[OF assms(3)]
  by (auto simp: bulk_hits_def delete_many_hits_def)

definition sample_api :: "default_provider souin_api" where
  "sample_api = \<lparr>sa_basePath = ''/souin'', sa_enabled = True, sa_storers = [default_storer no_regexp sample_codec],
     sa_surrogateStorage = sample_surrogate SouinLayer True, sa_allowedMethods = [''GET'', ''HEAD''],
     sa_compiledBP = ''/souin/.+'', sa_extractArgsBP = ''/souin/(.+)''\<rparr>"

lemma sample_filled_ok: "ds_ok sample_codec sample_filled"
  using sample_filled_wf by (simp add: ds_wf_def)

theorem BulkDelete_default_exact_witness:
  "map_of (ds_m (BulkDelete no_regexp sample_codec 3 sample_api sample_key True sample_filled)) sample_key = None"
  using BulkDelete_default_exact[OF sample_filled_ok, of sample_api no_regexp sample_key sample_codec 3 True sample_key]
    sample_key_user
  by (simp add: sample_api_def)


definition sample_api_env :: api_env where
  "sample_api_env = \<lparr>ae_re = no_regexp, ae_codec = sample_codec, ae_decode = (\<lambda>b. None), ae_url_parts = (\<lambda>k. None),
     ae_url_ok = (\<lambda>u. True), ae_pprof = (\<lambda>p r rw. rw), ae_promhttp = (\<lambda>r rw. rw)\<rparr>"

lemma no_regexp_FindString: "re_FindString no_regexp p s = []"
  by (simp add: no_regexp_def)


end
