(* ===== verification/GoServeContent.thy ===== *)
theory GoServeContent
  imports Writer
begin

text \<open>
  \<open>http.ServeContent\<close> (net/http, fs.go) as \<open>CustomWriter.Send\<close> calls it: an in-memory content, an
  empty name, and a request with at most the headers Range and If-Range.  Parameters: the
  content sniffer \<open>http.DetectContentType\<close> and the random boundary of a multipart body.
\<close>

section \<open>If-Range\<close>

definition etag_char :: "char \<Rightarrow> bool" where
  "etag_char c \<longleftrightarrow> char_nat c = 33 \<or> (35 \<le> char_nat c \<and> char_nat c \<le> 126) \<or> 128 \<le> char_nat c"

definition scanETag :: "string \<Rightarrow> string" where
  "scanETag s0 =
     (let s = TrimString s0;
          start = (if prefix ''W/'' s then 2 else 0);
          rest = drop start s
      in if length rest < 2 \<or> hd rest \<noteq> CHR 0x22 then []
         else let inner = takeWhile etag_char (tl rest)
              in if length inner < length (tl rest) \<and> tl rest ! length inner = CHR 0x22
                 then take start s @ [CHR 0x22] @ inner @ [CHR 0x22] else [])"

definition etagStrongMatch :: "string \<Rightarrow> string \<Rightarrow> bool" where
  "etagStrongMatch a b \<longleftrightarrow> a = b \<and> a \<noteq> [] \<and> hd a = CHR 0x22"

text \<open>\<open>checkIfRange\<close> reports false: the range is dropped.\<close>

definition if_range_fails :: "string \<Rightarrow> string \<Rightarrow> string \<Rightarrow> gtime \<Rightarrow> bool" where
  "if_range_fails meth ir etag_header modtime \<longleftrightarrow>
     (meth = ''GET'' \<or> meth = ''HEAD'') \<and> ir \<noteq> [] \<and>
     (let etag = scanETag ir
      in if etag \<noteq> [] then \<not> etagStrongMatch etag etag_header
         else if modtime = zero_time then True
         else case http_ParseTime ir of None \<Rightarrow> True | Some t \<Rightarrow> t div Second \<noteq> modtime div Second)"

section \<open>Ranges\<close>

record http_range =
  hr_start :: int
  hr_length :: int

datatype range_error = InvalidRange | NoOverlap

definition contentRange :: "http_range \<Rightarrow> int \<Rightarrow> string" where
  "contentRange r sz =
     ''bytes '' @ Itoa (hr_start r) @ ''-'' @ Itoa (hr_start r + hr_length r - 1) @ ''/'' @ Itoa sz"

text \<open>One range specification: \<open>Inr None\<close> is one that starts behind the end.\<close>

definition parse_range_spec :: "int \<Rightarrow> string \<Rightarrow> range_error + http_range option" where
  "parse_range_spec sz ra =
     (if CHR ''-'' \<notin> set ra then Inl InvalidRange
      else let start = TrimString (takeWhile (\<lambda>c. c \<noteq> CHR ''-'') ra);
               end = TrimString (drop 1 (dropWhile (\<lambda>c. c \<noteq> CHR ''-'') ra))
           in if start = [] then
                (if end = [] \<or> hd end = CHR ''-'' then Inl InvalidRange
                 else case Atoi end of (i, ok) \<Rightarrow>
                   if i < 0 \<or> \<not> ok then Inl InvalidRange
                   else let n = min i sz in Inr (Some \<lparr>hr_start = sz - n, hr_length = n\<rparr>))
              else case Atoi start of (i, ok) \<Rightarrow>
                if \<not> ok \<or> i < 0 then Inl InvalidRange
                else if sz \<le> i then Inr None
                else if end = [] then Inr (Some \<lparr>hr_start = i, hr_length = sz - i\<rparr>)
                else case Atoi end of (j, ok') \<Rightarrow>
                  if \<not> ok' \<or> j < i then Inl InvalidRange
                  else Inr (Some \<lparr>hr_start = i, hr_length = min j (sz - 1) - i + 1\<rparr>))"

fun parse_range_specs :: "int \<Rightarrow> string list \<Rightarrow> http_range list \<Rightarrow> bool \<Rightarrow> range_error + http_range list" where
  "parse_range_specs sz [] ranges noOverlap =
     (if noOverlap \<and> ranges = [] then Inl NoOverlap else Inr ranges)"
| "parse_range_specs sz (ra # ras) ranges noOverlap =
     (let t = TrimString ra
      in if t = [] then parse_range_specs sz ras ranges noOverlap
         else case parse_range_spec sz t of
           Inl e \<Rightarrow> Inl e
         | Inr None \<Rightarrow> parse_range_specs sz ras ranges True
         | Inr (Some r) \<Rightarrow> parse_range_specs sz ras (ranges @ [r]) noOverlap)"

definition parseRange :: "string \<Rightarrow> int \<Rightarrow> range_error + http_range list" where
  "parseRange s sz =
     (if s = [] then Inr []
      else if \<not> prefix ''bytes='' s then Inl InvalidRange
      else parse_range_specs sz (Split (drop 6 s) '','') [] False)"

definition range_slice :: "string \<Rightarrow> http_range \<Rightarrow> string" where
  "range_slice content r = take (nat (hr_length r)) (drop (nat (hr_start r)) content)"

section \<open>The reply\<close>

definition http_Error :: "string \<Rightarrow> int \<Rightarrow> response_writer \<Rightarrow> response_writer" where
  "http_Error text code rw =
     (let h = header_set ''X-Content-Type-Options'' ''nosniff''
            (header_set ''Content-Type'' ''text/plain; charset=utf-8'' (header_del ''Content-Length'' (rw_Header rw)))
      in rw_Write (text @ [CHR 0x0A]) (rw_WriteHeader code (rw\<lparr>rw_Header := h\<rparr>)))"

definition serveError :: "string \<Rightarrow> int \<Rightarrow> response_writer \<Rightarrow> response_writer" where
  "serveError text code rw =
     http_Error text code (rw\<lparr>rw_Header :=
       fold header_del [''Cache-Control'', ''Content-Encoding'', ''Etag'', ''Last-Modified''] (rw_Header rw)\<rparr>)"

definition range_error_text :: "range_error \<Rightarrow> string" where
  "range_error_text e = (case e of InvalidRange \<Rightarrow> ''invalid range'' | NoOverlap \<Rightarrow> ''invalid range: failed to overlap'')"

definition multipart_body :: "string \<Rightarrow> string \<Rightarrow> string \<Rightarrow> http_range list \<Rightarrow> string" where
  "multipart_body boundary ctype content ranges =
     Join (map (\<lambda>r. ''--'' @ boundary @ crlf @ ''Content-Range: '' @ contentRange r (int (length content)) @ crlf
          @ ''Content-Type: '' @ ctype @ crlf @ crlf @ range_slice content r) ranges) crlf
     @ crlf @ ''--'' @ boundary @ ''--'' @ crlf"

text \<open>What is sent for the ranges that were asked for: status, header changes and body.\<close>

definition range_reply ::
  "string \<Rightarrow> string \<Rightarrow> string \<Rightarrow> http_range list \<Rightarrow> header \<Rightarrow> int \<times> header \<times> string" where
  "range_reply boundary ctype content ranges h =
     (case ranges of
        [] \<Rightarrow> (200, h, content)
      | [r] \<Rightarrow> (206, header_set ''Content-Range'' (contentRange r (int (length content))) h, range_slice content r)
      | _ \<Rightarrow> (206, header_set ''Content-Type'' (''multipart/byteranges; boundary='' @ boundary) h,
              multipart_body boundary ctype content ranges))"

definition ServeContent :: "(string \<Rightarrow> string) \<Rightarrow> string \<Rightarrow> serve_content" where
  "ServeContent detect boundary meth reqh modtime content rw0 =
     (let h0 = (if modtime = zero_time then rw_Header rw0
                else header_set ''Last-Modified'' (Format TimeFormat modtime) (rw_Header rw0));
          rangeReq = (if if_range_fails meth (header_get reqh ''If-Range'') (header_get h0 ''Etag'') modtime
                      then [] else header_get reqh ''Range'');
          ctype = (if map_of h0 ''Content-Type'' = None then detect (take 512 content)
                   else header_get h0 ''Content-Type'');
          h1 = (if map_of h0 ''Content-Type'' = None then header_set ''Content-Type'' ctype h0 else h0);
          sz = int (length content)
      in case (case parseRange rangeReq sz of
                 Inl NoOverlap \<Rightarrow> if sz = 0 then Inr [] else Inl NoOverlap | x \<Rightarrow> x) of
           Inl NoOverlap \<Rightarrow>
             serveError (range_error_text NoOverlap) 416
               (rw0\<lparr>rw_Header := header_set ''Content-Range'' (''bytes */'' @ Itoa sz) h1\<rparr>)
         | Inl e \<Rightarrow> serveError (range_error_text e) 416 (rw0\<lparr>rw_Header := h1\<rparr>)
         | Inr ranges0 \<Rightarrow>
             (let ranges = (if sz < sum_list (map hr_length ranges0) then [] else ranges0)
              in case range_reply boundary ctype content ranges h1 of (code, h2, body) \<Rightarrow>
                let h3 = header_set ''Accept-Ranges'' ''bytes'' h2;
                    h4 = (if ranges \<noteq> [] \<or> header_get h3 ''Content-Encoding'' = []
                          then header_set ''Content-Length'' (Itoa (int (length body))) h3 else h3);
                    rw1 = rw_WriteHeader code (rw0\<lparr>rw_Header := h4\<rparr>)
                in if meth = ''HEAD'' then rw1 else rw_Write body rw1))"

section \<open>A single range is the slice it names\<close>

lemma parse_range_spec_bounds:
  assumes "parse_range_spec sz ra = Inr (Some r)" "0 \<le> sz"
  shows "0 \<le> hr_start r \<and> 0 \<le> hr_length r \<and> hr_start r + hr_length r \<le> sz"
  using assms by (auto simp: parse_range_spec_def Let_def split: if_splits prod.splits)

lemma parse_range_specs_bounds:
  assumes "parse_range_specs sz ras rs no = Inr out" "0 \<le> sz"
    and "\<forall>r\<in>set rs. 0 \<le> hr_start r \<and> 0 \<le> hr_length r \<and> hr_start r + hr_length r \<le> sz"
  shows "\<forall>r\<in>set out. 0 \<le> hr_start r \<and> 0 \<le> hr_length r \<and> hr_start r + hr_length r \<le> sz"
  using assms
proof (induction sz ras rs no rule: parse_range_specs.induct)
  case (2 sz ra ras ranges no)
  show ?case
  proof (cases "parse_range_spec sz (TrimString ra)")
    case (Inl e)
    with 2 show ?thesis by (auto simp: Let_def split: if_splits)
  next
    case (Inr o')
    with 2 parse_range_spec_bounds[of sz "TrimString ra"] show ?thesis
      by (cases o') (fastforce simp: Let_def split: if_splits)+
  qed
qed (auto split: if_splits)

text \<open>Every range that \<open>ServeContent\<close> accepts lies within the content.\<close>

theorem parseRange_within:
  assumes "parseRange s (int (length content)) = Inr ranges" "r \<in> set ranges"
  shows "0 \<le> hr_start r \<and> hr_start r + hr_length r \<le> int (length content)
    \<and> int (length (range_slice content r)) = hr_length r"
proof -
  have "0 \<le> hr_start r \<and> 0 \<le> hr_length r \<and> hr_start r + hr_length r \<le> int (length content)"
    using assms parse_range_specs_bounds[of "int (length content)" "Split (drop 6 s) '',''" "[]" False ranges]
    by (auto simp: parseRange_def split: if_splits)
  then show ?thesis by (auto simp: range_slice_def)
qed

theorem parseRange_within_witness:
  "int (length (range_slice ''abcdef'' \<lparr>hr_start = 4, hr_length = 2\<rparr>)) = 2"
proof -
  have "parseRange ''bytes=-2'' (int (length ''abcdef'')) = Inr [\<lparr>hr_start = 4, hr_length = 2\<rparr>]" by code_simp
  from parseRange_within[OF this, of "\<lparr>hr_start = 4, hr_length = 2\<rparr>"] show ?thesis by simp
qed

end
