(* ===== verification/Handler.thy ===== *)
theory Handler
  imports Api GoServeContent
begin

text \<open>
  The parts of pkg/middleware/middleware.go around the request path: the handler's state, its
  construction, the order of the storers, the eviction lock, the codes that may be cached and the
  dump of a response.  The handler's state besides its configuration is the storers' common state
  and a log of what happened outside it: counters, calls of the upstream handler and the goroutines
  that were started, whose bodies are definitions of their own.
\<close>

section \<open>State\<close>

datatype up_error =
    Upstream50xError
  | DeadlineExceeded
  | Canceled
  | EmptyError
  | NextError string

datatype event =
    EvCount string
  | EvNext request
  | EvBackfill nat string request response
  | EvSurrogateStore header string string
  | EvRevalidate revalidator custom_writer request "request_directives option" string string
  | EvUpstream custom_writer request "request_directives option" string string

record 'w sys =
  sy_store :: 'w
  sy_log :: "event list"

definition sys_log :: "event \<Rightarrow> 'w sys \<Rightarrow> 'w sys" where
  "sys_log ev s = s\<lparr>sy_log := sy_log s @ [ev]\<rparr>"

definition sys_store :: "('w \<Rightarrow> 'w) \<Rightarrow> 'w sys \<Rightarrow> 'w sys" where
  "sys_store f s = s\<lparr>sy_store := f (sy_store s)\<rparr>"

text \<open>
  One call of the upstream handler: what it does to the writer, how it ends, whether the request's
  context has ended by then, and the clock at that moment.  The handler may depend on all that
  happened before.  It does not modify the request.
\<close>

datatype upstream_end = NextOk | NextErr string | NextAbort | NextPanic

record upstream_reply =
  up_calls :: "writer_call list"
  up_end :: upstream_end
  up_done :: bool
  up_time :: gtime

type_synonym next_handler = "event list \<Rightarrow> request \<Rightarrow> upstream_reply"

record mw_env =
  me_re :: regexp_engine
  me_replace_all :: "request \<Rightarrow> string \<Rightarrow> string"
  me_sha256_hex :: "string \<Rightarrow> string"
  me_xxhash :: "string \<Rightarrow> int"
  me_serve :: serve_content
  me_next :: next_handler

record 'w handler =
  sh_Configuration :: base_configuration
  sh_Storers :: "'w storer list"
  sh_InternalEndpointHandlers :: "(string, 'w http_handler) amap option"
  sh_ExcludeRegex :: "string option"
  sh_RegexpUrls :: string
  sh_SurrogateKeyStorer :: "'w base_storage"
  sh_DefaultMatchedUrl :: url_config
  sh_context :: http_context
  sh_storersLen :: nat

section \<open>Storers\<close>

definition reorderStorers :: "'w storer list \<Rightarrow> string list \<Rightarrow> 'w storer list" where
  "reorderStorers storers expectedStorers =
     (if expectedStorers = [] then storers
      else concat (map (\<lambda>expected. filter (\<lambda>s. st_Name s = ToUpper expected) storers) expectedStorers))"

section \<open>The eviction lock\<close>

definition evictionLockKey :: string where
  "evictionLockKey = ''eviction-lock''"

definition evictionLockTTL :: duration where
  "evictionLockTTL = 2 * Minute"

definition lock_value :: "string \<Rightarrow> gtime \<Rightarrow> string" where
  "lock_value holder expiry = holder @ ''|'' @ format_rfc3339 expiry"

text \<open>The holder and the expiry of a lock value that parses.\<close>

definition parse_lock :: "string \<Rightarrow> (string \<times> gtime) option" where
  "parse_lock v = (case SplitN2 v ''|'' of
       [h, t] \<Rightarrow> map_option (\<lambda>t'. (h, t')) (parse_rfc3339 t)
     | _ \<Rightarrow> None)"

text \<open>
  \<open>tryAcquireEvictionLock\<close>; \<open>other1\<close> and \<open>other2\<close> are what other instances do between the check
  and the claim, and during the pause before the verification at time \<open>later\<close>.
\<close>

definition claim_lock :: "('w \<Rightarrow> 'w) \<Rightarrow> gtime \<Rightarrow> gtime \<Rightarrow> string \<Rightarrow> 'w storer \<Rightarrow> 'w \<Rightarrow> bool \<times> 'w" where
  "claim_lock other2 now later holder storer w =
     (let lockValue = lock_value holder (now + evictionLockTTL)
      in case st_Set storer now evictionLockKey lockValue evictionLockTTL w of
           (err, w1) \<Rightarrow>
             if err then (False, w1)
             else case st_Get storer later evictionLockKey (other2 w1) of
               (r, w2) \<Rightarrow> (bytes_of r = lockValue, w2))"

definition tryAcquireEvictionLock ::
  "('w \<Rightarrow> 'w) \<Rightarrow> ('w \<Rightarrow> 'w) \<Rightarrow> gtime \<Rightarrow> gtime \<Rightarrow> string \<Rightarrow> 'w storer \<Rightarrow> 'w \<Rightarrow> bool \<times> 'w" where
  "tryAcquireEvictionLock other1 other2 now later holder storer w =
     (case st_Get storer now evictionLockKey w of
        (r, w1) \<Rightarrow>
          (case (if bytes_of r \<noteq> [] then parse_lock (bytes_of r) else None) of
             Some (holderID, lockedUntil) \<Rightarrow>
               if now < lockedUntil then (holderID = holder, w1)
               else claim_lock other2 now later holder storer (other1 w1)
           | None \<Rightarrow> claim_lock other2 now later holder storer (other1 w1)))"

text \<open>One tick of the goroutine that \<open>registerMappingKeysEviction\<close> starts for a storer.\<close>

definition eviction_tick ::
  "codec \<Rightarrow> ('w \<Rightarrow> 'w) \<Rightarrow> ('w \<Rightarrow> 'w) \<Rightarrow> gtime \<Rightarrow> gtime \<Rightarrow> string \<Rightarrow> 'w storer \<Rightarrow> 'w \<Rightarrow> 'w" where
  "eviction_tick cd other1 other2 now later holder current w =
     (case tryAcquireEvictionLock other1 other2 now later holder current w of
        (acquired, w1) \<Rightarrow> if acquired then EvictMapping cd later current w1 else w1)"

section \<open>Construction\<close>

text \<open>\<open>helpers.InitializeRegexp\<close>: one alternative per configured URL pattern.\<close>

definition urls_pattern :: "(string, url_config) amap \<Rightarrow> string" where
  "urls_pattern urls = Join (map (\<lambda>k. ''('' @ k @ '')'') (amap_keys urls)) ''|''"

definition InitializeRegexp :: "regexp_engine \<Rightarrow> base_configuration \<Rightarrow> string go" where
  "InitializeRegexp re c =
     (let u = urls_pattern (bc_URLs c) in if re_ok re u then Inr u else Inl MustCompile)"

definition configured_uuids :: "default_cache \<Rightarrow> string list" where
  "configured_uuids dc = map cp_Uuid [dc_Badger dc, dc_Etcd dc, dc_Nats dc, dc_Nuts dc, dc_Olric dc,
     dc_Otter dc, dc_Redis dc, dc_SimpleFS dc]"

text \<open>
  The storers in use: the configured ones that are registered, in the configured order, or the
  in-memory storer, which is registered when it is not yet.
\<close>

definition choose_storers ::
  "'w storer \<Rightarrow> (string, 'w storer) amap \<Rightarrow> default_cache \<Rightarrow> 'w storer list \<times> (string, 'w storer) amap" where
  "choose_storers memory registry dc =
     (let found = (if registry = [] then []
            else reorderStorers (List.map_filter (\<lambda>s. if s \<noteq> [] then map_of registry s else None) (configured_uuids dc))
                   (dc_Storers dc))
      in if found \<noteq> [] then (found, registry)
         else case map_of registry (DefaultStorageName @ ''-'') of
           Some st \<Rightarrow> ([st], registry)
         | None \<Rightarrow> ([memory], amap_put (st_Name memory @ ''-'' @ st_Uuid memory) memory registry))"

definition default_matched_url :: "default_cache \<Rightarrow> url_config" where
  "default_matched_url dc = \<lparr>url_TTL = dc_TTL dc, url_Headers = dc_Headers dc,
     url_DefaultCacheControl = dc_DefaultCacheControl dc\<rparr>"

definition NewHTTPCacheHandler ::
  "regexp_engine \<Rightarrow> api_env \<Rightarrow> 'w storer \<Rightarrow> (string, 'w storer) amap \<Rightarrow> base_configuration \<Rightarrow> 'w handler go" where
  "NewHTTPCacheHandler re ae memory registry0 c =
     (let dc = bc_DefaultCache c;
          (storers, registry) = choose_storers memory registry0 dc;
          ex = dc_RegexExclude dc
      in go_bind (InitializeRegexp re c) (\<lambda>regexpUrls.
         go_bind (InitializeSurrogate re (map_of registry) c
            (st_Name (hd storers) @ ''-'' @ st_Uuid (hd storers))) (\<lambda>surrogateStorage.
         if ex \<noteq> [] \<and> \<not> re_ok re ex then Inl MustCompile
         else go_bind (GenerateHandlerMap ae c storers surrogateStorage) (\<lambda>handlers.
           Inr \<lparr>sh_Configuration = c, sh_Storers = storers, sh_InternalEndpointHandlers = handlers,
             sh_ExcludeRegex = (if ex \<noteq> [] then Some ex else None), sh_RegexpUrls = regexpUrls,
             sh_SurrogateKeyStorer = surrogateStorage, sh_DefaultMatchedUrl = default_matched_url dc,
             sh_context = Context_Init c, sh_storersLen = length storers\<rparr>))))"

section \<open>What may be cached\<close>

definition isCacheableCode :: "int \<Rightarrow> bool" where
  "isCacheableCode code \<longleftrightarrow> code \<in> {200, 203, 204, 206, 300, 301, 404, 405, 410, 414, 501}"

definition canStatusCodeEmptyContent :: "int \<Rightarrow> bool" where
  "canStatusCodeEmptyContent code \<longleftrightarrow> code \<in> {204, 301, 405}"

definition canBypassAuthorizationRestriction :: "header \<Rightarrow> string list \<Rightarrow> bool" where
  "canBypassAuthorizationRestriction headers bypassed \<longleftrightarrow>
     list_ex (\<lambda>h. ToLower h = ''authorization'') bypassed
     \<or> sublist ''authorization'' (ToLower (header_get headers ''Vary''))"

definition hasAllowedAdditionalStatusCodesToCache :: "'w handler \<Rightarrow> int \<Rightarrow> bool" where
  "hasAllowedAdditionalStatusCodesToCache h code \<longleftrightarrow>
     list_ex (\<lambda>sc. sc = code) (dc_AllowedAdditionalStatusCodes (bc_DefaultCache (sh_Configuration h)))"

definition cacheable_status :: "'w handler \<Rightarrow> int \<Rightarrow> bool" where
  "cacheable_status h code \<longleftrightarrow> isCacheableCode code \<or> hasAllowedAdditionalStatusCodesToCache h code"

definition dumpResponse :: "int \<Rightarrow> header \<Rightarrow> string \<Rightarrow> string" where
  "dumpResponse statusCode headers body =
     ''HTTP/1.1 '' @ Itoa statusCode @ '' '' @ StatusText statusCode @ crlf @ header_write headers @ crlf @ body"

text \<open>The decimal xxhash of a key, for hashed keys.\<close>

definition hash_key :: "mw_env \<Rightarrow> bool \<Rightarrow> string \<Rightarrow> string" where
  "hash_key e hashed k = (if hashed then Itoa (me_xxhash e k) else k)"

text \<open>The varied request headers of an entry, from names that may carry a value after a colon.\<close>

definition varied_request_headers :: "request \<Rightarrow> string list \<Rightarrow> header" where
  "varied_request_headers rq names =
     fold (\<lambda>hname h. let hn = hd (Split hname '':'') in header_set hn (header_get (req_Header rq) hn) h) names []"

end
