(* ===== verification/StoreResponse.thy ===== *)
theory StoreResponse
  imports Handler
begin

text \<open>
  \<open>SouinBaseHandler.Store\<close> and \<open>backfillStorers\<close> (pkg/middleware/middleware.go).  \<open>Store\<close> is cut
  where the code has its early returns: the admission of the response, its time to live, the
  response as it is stored, and the writes to the storers.  The storers are written one after the
  other, in their order, where the code starts one goroutine each and waits for all of them.
\<close>

section \<open>Admission\<close>

definition cache_status_miss :: "request \<Rightarrow> string \<Rightarrow> custom_writer \<Rightarrow> custom_writer" where
  "cache_status_miss rq detail cw =
     cw_Set ''Cache-Status'' (cx_CacheName (req_ctx rq) @ ''; fwd=uri-miss; key='' @ GetCacheKeyFromCtx (req_ctx rq)
       @ ''; detail='' @ detail) cw"

definition is_upstream_error :: "int \<Rightarrow> bool" where
  "is_upstream_error code \<longleftrightarrow> code \<in> {500, 502, 503, 504}"

text \<open>The end of \<open>Store\<close> is \<open>Inl\<close> with the error it returns; \<open>Inr\<close> goes on with the parsed directives.\<close>

definition store_admission ::
  "'w handler \<Rightarrow> request \<Rightarrow> custom_writer \<Rightarrow> (up_error option \<times> custom_writer) + (custom_writer \<times> response_directives)" where
  "store_admission h rq cw =
     (let code = cw_statusCode cw
      in if \<not> cacheable_status h code then
           Inl (if is_upstream_error code then Some Upstream50xError else None,
                cache_status_miss rq ''UNCACHEABLE-STATUS-CODE'' cw)
         else
           let (headerName, cacheControl) = GetSurrogateControl (sh_SurrogateKeyStorer h) (cw_Header cw);
               cw1 = (if cacheControl = [] then cw_Set headerName (url_DefaultCacheControl (sh_DefaultMatchedUrl h)) cw
                      else cw)
           in case ParseResponseCacheControl (HeaderAllCommaSepValuesString (cw_Header cw1) headerName) of
                None \<Rightarrow> Inl (None, cache_status_miss rq ''INVALID-RESPONSE-CACHE-CONTROL'' cw1)
              | Some rc \<Rightarrow>
                  if \<not> Bypass_request (cx_Mode (req_ctx rq))
                     \<and> (rs_PrivatePresent rc \<or> header_get (req_Header rq) ''Authorization'' \<noteq> [])
                     \<and> \<not> canBypassAuthorizationRestriction (cw_Header cw1) (cx_IgnoredHeaders (req_ctx rq))
                  then Inl (None, cache_status_miss rq ''PRIVATE-OR-AUTHENTICATED-RESPONSE'' cw1)
                  else Inr (cw1, rc))"

section \<open>Time to live\<close>

text \<open>
  The settings of the matched URL: the text that the pattern of all URLs matches is looked up as
  if it were one of the configured patterns.
\<close>

definition currentMatchedURL :: "mw_env \<Rightarrow> 'w handler \<Rightarrow> request \<Rightarrow> url_config" where
  "currentMatchedURL e h rq =
     (let d = sh_DefaultMatchedUrl h;
          regexpURL = re_FindString (me_re e) (sh_RegexpUrls h) (req_Host rq @ req_Path rq)
      in if regexpURL = [] then d
         else case map_of (bc_URLs (sh_Configuration h)) regexpURL of
           None \<Rightarrow> d
         | Some u \<Rightarrow>
             d\<lparr>url_TTL := (if url_TTL u \<noteq> 0 then url_TTL u else url_TTL d),
               url_Headers := (if url_Headers u \<noteq> [] then url_Headers u else url_Headers d)\<rparr>)"

text \<open>The time to live and whether it comes from \<open>Expires\<close>; \<open>None\<close> where the code gives up storing.\<close>

definition store_ttl ::
  "gtime \<Rightarrow> mode_context \<Rightarrow> response_directives \<Rightarrow> header \<Rightarrow> duration \<Rightarrow> (duration \<times> bool) option" where
  "store_ttl now mode rc h ttl =
     (if Bypass_response mode then Some (ttl, False)
      else if 0 \<le> rs_SMaxAge rc then Some (rs_SMaxAge rc * Second, False)
      else if 0 \<le> rs_MaxAge rc then Some (rs_MaxAge rc * Second, False)
      else if header_get h ''Expires'' \<noteq> [] then
        (case Parse RFC1123 (header_get h ''Expires'') of
           None \<Rightarrow> None
         | Some expires \<Rightarrow>
             let d = expires - now;
                 date = parsed_or_zero (Parse RFC1123 (header_get h ''Date''))
             in if d \<le> 0 \<or> 10 * OneYearDuration < d then None
                else if 0 < date - expires then None
                else Some (d, True))
      else Some (ttl, False))"

text \<open>The request's date, cut to whole seconds as the time format of HTTP does.\<close>

definition request_date :: "request \<Rightarrow> gtime" where
  "request_date rq = parsed_or_zero (http_ParseTime (Format TimeFormat (cx_Now (req_ctx rq))))"

definition store_duration :: "gtime \<Rightarrow> request \<Rightarrow> duration \<Rightarrow> duration" where
  "store_duration now rq ma = ma - (now - request_date rq)"

section \<open>The stored response\<close>

definition store_allowed :: "mode_context \<Rightarrow> request_directives option \<Rightarrow> response_directives \<Rightarrow> bool \<Rightarrow> bool go" where
  "store_allowed mode requestCc rc hasFreshness =
     go_bind (if Bypass_request mode then Inr True
              else case requestCc of None \<Rightarrow> Inl NilDeref | Some co \<Rightarrow> Inr (\<not> rq_NoStore co))
       (\<lambda>ok. Inr (ok \<and> (Bypass_response mode \<or> \<not> rs_NoStore rc \<or> hasFreshness)))"

definition stored_headers :: "request \<Rightarrow> response_directives \<Rightarrow> nat \<Rightarrow> header \<Rightarrow> header" where
  "stored_headers rq rc bLen h =
     (let h1 = fold (\<lambda>(hname, shouldDelete) h. if shouldDelete then header_del hname h else h) (rs_NoCache rc) h;
          h2 = (if header_get h1 ''Date'' = []
                then header_set ''Date'' (Format TimeFormat (cx_Now (req_ctx rq))) h1 else h1)
      in if header_get h2 ''Content-Length'' = [] then header_set ''Content-Length'' (Itoa (int bLen)) h2 else h2)"

definition body_too_large :: "'w handler \<Rightarrow> nat \<Rightarrow> bool" where
  "body_too_large h bLen \<longleftrightarrow>
     (let mx = dc_MaxBodyBytes (bc_DefaultCache (sh_Configuration h)) in 0 < mx \<and> mx < int bLen)"

definition body_storable :: "'w handler \<Rightarrow> request \<Rightarrow> int \<Rightarrow> nat \<Rightarrow> bool" where
  "body_storable h rq code bLen \<longleftrightarrow>
     0 < bLen \<or> req_Method rq = ''HEAD'' \<or> canStatusCodeEmptyContent code \<or> hasAllowedAdditionalStatusCodesToCache h code"

section \<open>Writing to the storers\<close>

text \<open>What goes to every storer: base key, varied key, dumped response, varied headers, etag, duration.\<close>

record stored_response =
  so_baseKey :: string
  so_variedKey :: string
  so_value :: string
  so_variedHeaders :: header
  so_etag :: string
  so_duration :: duration

definition set_multi :: "gtime \<Rightarrow> 'w storer \<Rightarrow> stored_response \<Rightarrow> 'w \<Rightarrow> bool go \<times> 'w" where
  "set_multi now st r w =
     st_SetMultiLevel st now (so_baseKey r) (so_variedKey r) (so_value r) (so_variedHeaders r) (so_etag r)
       (so_duration r) (so_variedKey r) w"

definition insertion_error :: "'w storer \<Rightarrow> string" where
  "insertion_error st = ''; detail='' @ st_Name st @ ''-INSERTION-ERROR''"

fun store_all :: "gtime \<Rightarrow> 'w storer list \<Rightarrow> stored_response \<Rightarrow> 'w \<Rightarrow> string list go \<times> 'w" where
  "store_all now [] r w = (Inr [], w)"
| "store_all now (st # sts) r w =
     (case set_multi now st r w of
        (Inl p, w1) \<Rightarrow> (Inl p, w1)
      | (Inr err, w1) \<Rightarrow>
          (case store_all now sts r w1 of
             (Inl p, w2) \<Rightarrow> (Inl p, w2)
           | (Inr fails, w2) \<Rightarrow> (Inr ((if err then [insertion_error st] else []) @ fails), w2)))"

text \<open>The storer named by the upstream: the last one whose name contains the given text; none is a nil interface.\<close>

definition store_one :: "gtime \<Rightarrow> 'w storer list \<Rightarrow> string \<Rightarrow> stored_response \<Rightarrow> 'w \<Rightarrow> string list go \<times> 'w" where
  "store_one now sts target r w =
     (case filter (\<lambda>st. sublist (ToLower target) (ToLower (st_Name st))) sts of
        [] \<Rightarrow> (Inl NilDeref, w)
      | hits \<Rightarrow> (case set_multi now (last hits) r w of
           (Inl p, w1) \<Rightarrow> (Inl p, w1)
         | (Inr err, w1) \<Rightarrow> (Inr (if err then [insertion_error (last hits)] else []), w1)))"

text \<open>
  The part under \<open>default:\<close> of the select: the writes, then the surrogate keys in a goroutine when
  not every storer failed, and the status text.
\<close>

definition store_write ::
  "'w handler \<Rightarrow> gtime \<Rightarrow> string \<Rightarrow> stored_response \<Rightarrow> header \<Rightarrow> string \<Rightarrow> 'w sys \<Rightarrow> string go \<times> 'w sys" where
  "store_write h now uri r resH status s =
     (let target = header_get resH ''X-Souin-Storer'';
          resH1 = (if target \<noteq> [] then header_del ''X-Souin-Storer'' resH else resH)
      in case (if target \<noteq> [] then store_one now (sh_Storers h) target r (sy_store s)
               else store_all now (sh_Storers h) r (sy_store s)) of
           (Inl p, w1) \<Rightarrow> (Inl p, s\<lparr>sy_store := w1\<rparr>)
         | (Inr fails, w1) \<Rightarrow>
             let s1 = s\<lparr>sy_store := w1\<rparr>;
                 ok = length fails < sh_storersLen h;
                 s2 = (if ok \<and> \<not> bc_SurrogateKeyDisabled (sh_Configuration h)
                       then sys_log (EvSurrogateStore resH1 (so_variedKey r) uri) s1 else s1)
             in (Inr (status @ (if ok then ''; stored'' else []) @ concat fails), s2))"

definition store_entry ::
  "mw_env \<Rightarrow> 'w handler \<Rightarrow> gtime \<Rightarrow> request \<Rightarrow> string \<Rightarrow> string \<Rightarrow> int \<Rightarrow> string \<Rightarrow> header \<Rightarrow> duration \<Rightarrow> bool \<Rightarrow> string
     \<Rightarrow> 'w sys \<Rightarrow> string go \<times> 'w sys" where
  "store_entry e h now rq cachedKey uri code b resH ma ended status s =
     (let (variedHeaders, isVaryStar) = VariedHeaderAllCommaSepValues resH
      in if isVaryStar then (Inr (status @ ''; detail=UPSTREAM-VARY-STAR''), s)
         else
           let (suffix', names) = GetVariedCacheKey rq variedHeaders;
               hashed = cx_Hashed (req_ctx rq);
               r = \<lparr>so_baseKey = hash_key e hashed cachedKey, so_variedKey = hash_key e hashed (cachedKey @ suffix'),
                    so_value = dumpResponse code resH b, so_variedHeaders = varied_request_headers rq names,
                    so_etag = header_get resH ''Etag'', so_duration = ma\<rparr>
           in if ended then (Inr (status @ ''; detail=REQUEST-CANCELED-OR-UPSTREAM-BROKEN-PIPE''), s)
              else store_write h now uri r resH status s)"

section \<open>Store\<close>

definition Store ::
  "mw_env \<Rightarrow> 'w handler \<Rightarrow> gtime \<Rightarrow> request \<Rightarrow> request_directives option \<Rightarrow> string \<Rightarrow> string
     \<Rightarrow> custom_writer \<Rightarrow> 'w sys \<Rightarrow> up_error option go \<times> custom_writer \<times> 'w sys" where
  "Store e h now rq requestCc cachedKey uri cw s =
     (case store_admission h rq cw of
        Inl (err, cw1) \<Rightarrow> (Inr err, cw1, s)
      | Inr (cw1, rc) \<Rightarrow>
          let mode = cx_Mode (req_ctx rq);
              code = cw_statusCode cw1;
              key = GetCacheKeyFromCtx (req_ctx rq)
          in case store_ttl now mode rc (cw_Header cw1) (url_TTL (currentMatchedURL e h rq)) of
               None \<Rightarrow> (Inr None, cw1, s)
             | Some (ma0, hasFreshness) \<Rightarrow>
                 let cw2 = cw_Set StoredTTLHeader (Duration_String ma0) cw1;
                     ma = store_duration now rq ma0;
                     status = cx_CacheName (req_ctx rq) @ ''; fwd=uri-miss'';
                     finish = (\<lambda>st. cw_Set ''Cache-Status'' (st @ ''; key='' @ key) cw2)
                 in case store_allowed mode requestCc rc hasFreshness of
                      Inl p \<Rightarrow> (Inl p, cw2, s)
                    | Inr False \<Rightarrow> (Inr None, finish (status @ ''; detail=NO-STORE-DIRECTIVE''), s)
                    | Inr True \<Rightarrow>
                        let b = cw_Buf cw2;
                            h1 = stored_headers rq rc (length b) (cw_Header cw2)
                        in if body_too_large h (length b) then
                             (Inr None, cw_Set ''Cache-Status''
                                (status @ ''; detail=UPSTREAM-RESPONSE-TOO-LARGE; key='' @ key) cw2, s)
                           else
                             let resH = header_set StoredLengthHeader (header_get h1 ''Content-Length'') h1
                             in if \<not> body_storable h rq code (length b) then
                                  (Inr None, finish (status @ ''; detail=UPSTREAM-ERROR-OR-EMPTY-RESPONSE''), s)
                                else case store_entry e h now rq cachedKey uri code b resH ma (cw_Done cw2) status s of
                                  (Inl p, s1) \<Rightarrow> (Inl p, cw2, s1)
                                | (Inr st, s1) \<Rightarrow> (Inr None, finish st, s1))"

section \<open>Backfilling\<close>

text \<open>
  The goroutine of \<open>backfillStorers\<close>: the response found in the storer number \<open>idx\<close> is written to
  those before it.  It shares the body's reader with the goroutine that answers the client;
  \<open>left\<close> is what is still unread when it gets to it.
\<close>

fun backfill_all :: "gtime \<Rightarrow> 'w storer list \<Rightarrow> stored_response \<Rightarrow> 'w \<Rightarrow> unit go \<times> 'w" where
  "backfill_all now [] r w = (Inr (), w)"
| "backfill_all now (st # sts) r w =
     (case set_multi now st r w of
        (Inl p, w1) \<Rightarrow> (Inl p, w1)
      | (Inr _, w1) \<Rightarrow> backfill_all now sts r w1)"

definition backfillStorers ::
  "mw_env \<Rightarrow> 'w handler \<Rightarrow> gtime \<Rightarrow> nat \<Rightarrow> string \<Rightarrow> request \<Rightarrow> response \<Rightarrow> string \<Rightarrow> 'w \<Rightarrow> unit go \<times> 'w" where
  "backfillStorers e h now idx cachedKey rq resp left w =
     (if idx = 0 then (Inr (), w)
      else case ParseDuration (header_get (resp_Header resp) StoredTTLHeader) of
        None \<Rightarrow> (Inr (), w)
      | Some storedDuration \<Rightarrow>
          (case http_ParseTime (header_get (resp_Header resp) ''Date'') of
             None \<Rightarrow> (Inr (), w)
           | Some dateHeader \<Rightarrow>
               let ma = storedDuration - (now - dateHeader);
                   (suffix', names) = GetVariedCacheKey rq (fst (VariedHeaderAllCommaSepValues (resp_Header resp)));
                   hashed = cx_Hashed (req_ctx rq);
                   r = \<lparr>so_baseKey = hash_key e hashed cachedKey,
                        so_variedKey = hash_key e hashed (cachedKey @ suffix'),
                        so_value = dumpResponse (resp_StatusCode resp) (resp_Header resp) left,
                        so_variedHeaders = varied_request_headers rq names,
                        so_etag = header_get (resp_Header resp) ''Etag'', so_duration = ma\<rparr>
               in backfill_all now (take idx (sh_Storers h)) r w))"

end
