(* ===== verification/StoreLaws.thy ===== *)
theory StoreLaws
  imports StoreResponse
begin

text \<open>
  What \<open>Store\<close> does: it only changes the writer's header map, and it writes one entry to the
  storers, under the conditions of \<open>stored_entry_conditions\<close>, with a duration that depends on the
  request's date.
\<close>

section \<open>The writer during Store\<close>

definition only_header_changed :: "custom_writer \<Rightarrow> custom_writer \<Rightarrow> bool" where
  "only_header_changed cw cw' \<longleftrightarrow> (\<exists>hdr. cw' = cw\<lparr>cw_Rw := (cw_Rw cw)\<lparr>rw_Header := hdr\<rparr>\<rparr>)"

lemma only_header_changed_refl [simp, intro]: "only_header_changed cw cw"
  by (auto simp: only_header_changed_def intro: exI[of _ "rw_Header (cw_Rw cw)"])

lemma only_header_changed_update [intro]:
  "only_header_changed cw cw' \<Longrightarrow> only_header_changed cw (cw_update_Header f cw')"
  by (auto simp: only_header_changed_def cw_update_Header_def)

lemma only_header_changed_Set [intro]:
  "only_header_changed cw cw' \<Longrightarrow> only_header_changed cw (cw_Set k v cw')"
  by (auto simp: cw_Set_def)

lemma only_header_changed_miss [intro]:
  "only_header_changed cw cw' \<Longrightarrow> only_header_changed cw (cache_status_miss rq d cw')"
  by (auto simp: cache_status_miss_def)

lemma only_header_changed_fields:
  "only_header_changed cw cw' \<Longrightarrow>
     cw_Buf cw' = cw_Buf cw \<and> cw_statusCode cw' = cw_statusCode cw \<and> cw_Req cw' = cw_Req cw \<and>
     cw_Headers cw' = cw_Headers cw \<and> cw_headersSent cw' = cw_headersSent cw \<and> cw_Done cw' = cw_Done cw \<and>
     rw_Sent (cw_Rw cw') = rw_Sent (cw_Rw cw) \<and> rw_Body (cw_Rw cw') = rw_Body (cw_Rw cw)"
  by (auto simp: only_header_changed_def)

lemma store_admission_writer:
  "store_admission h rq cw = Inl (err, cw') \<Longrightarrow> only_header_changed cw cw'"
  "store_admission h rq cw = Inr (cw', rc) \<Longrightarrow> only_header_changed cw cw'"
  by (auto simp: store_admission_def Let_def split: if_splits option.splits prod.splits)

lemma Store_writer:
  "Store e h now rq co key uri cw s = (r, cw', s') \<Longrightarrow> only_header_changed cw cw'"
  by (auto simp: Store_def Let_def dest!: store_admission_writer
      split: sum.splits prod.splits option.splits if_splits bool.splits)

lemma store_admission_conditions:
  assumes "store_admission h rq cw = Inr (cw1, rc)"
  shows "cacheable_status h (cw_statusCode cw)"
    and "Bypass_request (cx_Mode (req_ctx rq))
         \<or> (\<not> rs_PrivatePresent rc \<and> header_get (req_Header rq) ''Authorization'' = [])
         \<or> canBypassAuthorizationRestriction (cw_Header cw1) (cx_IgnoredHeaders (req_ctx rq))"
  using assms by (auto simp: store_admission_def Let_def split: if_splits option.splits prod.splits)

section \<open>What Store writes\<close>

text \<open>
  The entry that a response gives rise to, with the headers of the stored response: what is left of
  \<open>Store\<close> without its Cache-Status texts.  \<open>None\<close> means that nothing is to be stored.
\<close>

definition stored_entry ::
  "mw_env \<Rightarrow> 'w handler \<Rightarrow> gtime \<Rightarrow> request \<Rightarrow> request_directives option \<Rightarrow> string \<Rightarrow> custom_writer
     \<Rightarrow> (stored_response \<times> header) option" where
  "stored_entry e h now rq co cachedKey cw =
     (case store_admission h rq cw of
        Inl _ \<Rightarrow> None
      | Inr (cw1, rc) \<Rightarrow>
          (case store_ttl now (cx_Mode (req_ctx rq)) rc (cw_Header cw1) (url_TTL (currentMatchedURL e h rq)) of
             None \<Rightarrow> None
           | Some (ma, fr) \<Rightarrow>
               let n = length (cw_Buf cw);
                   code = cw_statusCode cw;
                   h1 = stored_headers rq rc n (cw_Header (cw_Set StoredTTLHeader (Duration_String ma) cw1));
                   resH = header_set StoredLengthHeader (header_get h1 ''Content-Length'') h1;
                   (names, star) = VariedHeaderAllCommaSepValues resH;
                   (suffix', names') = GetVariedCacheKey rq names;
                   hashed = cx_Hashed (req_ctx rq)
               in if store_allowed (cx_Mode (req_ctx rq)) co rc fr = Inr True \<and> \<not> body_too_large h n
                     \<and> body_storable h rq code n \<and> \<not> star \<and> \<not> cw_Done cw
                  then Some (\<lparr>so_baseKey = hash_key e hashed cachedKey,
                          so_variedKey = hash_key e hashed (cachedKey @ suffix'),
                          so_value = dumpResponse code resH (cw_Buf cw),
                          so_variedHeaders = varied_request_headers rq names',
                          so_etag = header_get resH ''Etag'', so_duration = store_duration now rq ma\<rparr>, resH)
                  else None))"

definition write_entry :: "'w handler \<Rightarrow> gtime \<Rightarrow> stored_response \<times> header \<Rightarrow> 'w \<Rightarrow> 'w" where
  "write_entry h now p w =
     (case p of (r, resH) \<Rightarrow>
        let target = header_get resH ''X-Souin-Storer''
        in snd (if target \<noteq> [] then store_one now (sh_Storers h) target r w
                else store_all now (sh_Storers h) r w))"

lemma store_write_store:
  "sy_store (snd (store_write h now uri r resH status s)) = write_entry h now (r, resH) (sy_store s)"
  by (auto simp: store_write_def write_entry_def Let_def sys_log_def split: prod.splits sum.splits)

lemma cw_Set_fields [simp]:
  "cw_Buf (cw_Set k v cw) = cw_Buf cw" "cw_Done (cw_Set k v cw) = cw_Done cw"
  "cw_statusCode (cw_Set k v cw) = cw_statusCode cw" "cw_headersSent (cw_Set k v cw) = cw_headersSent cw"
  by (simp_all add: cw_Set_def cw_update_Header_def)

lemma store_finish_store:
  "sy_store (snd (snd (case x of (Inl p, s1) \<Rightarrow> (Inl p, cw2, s1) | (Inr st, s1) \<Rightarrow> (Inr None, F st, s1)))) = sy_store (snd x)"
  by (auto split: prod.split sum.split)

lemma store_entry_store:
  "sy_store (snd (store_entry e h now rq key uri code b resH ma ended status s)) =
     (let (names, star) = VariedHeaderAllCommaSepValues resH;
          (sf, names') = GetVariedCacheKey rq names;
          hashed = cx_Hashed (req_ctx rq)
      in if star \<or> ended then sy_store s
         else write_entry h now (\<lparr>so_baseKey = hash_key e hashed key, so_variedKey = hash_key e hashed (key @ sf),
           so_value = dumpResponse code resH b, so_variedHeaders = varied_request_headers rq names',
           so_etag = header_get resH ''Etag'', so_duration = ma\<rparr>, resH) (sy_store s))"
  by (cases "VariedHeaderAllCommaSepValues resH"; cases "GetVariedCacheKey rq (fst (VariedHeaderAllCommaSepValues resH))")
    (simp add: store_entry_def store_write_store Let_def)

lemma Store_store:
  "sy_store (snd (snd (Store e h now rq co key uri cw s))) =
     (case stored_entry e h now rq co key cw of
        None \<Rightarrow> sy_store s
      | Some p \<Rightarrow> write_entry h now p (sy_store s))"
proof (cases "store_admission h rq cw")
  case (Inl a)
  then show ?thesis by (cases a) (simp add: Store_def stored_entry_def)
next
  case (Inr p)
  obtain cw1 rc where p: "p = (cw1, rc)" by fastforce
  note adm = Inr[unfolded p]
  have f: "cw_Buf cw1 = cw_Buf cw" "cw_Done cw1 = cw_Done cw" "cw_statusCode cw1 = cw_statusCode cw"
    using only_header_changed_fields[OF store_admission_writer(2)[OF adm]] by simp_all
  let ?ttl = "store_ttl now (cx_Mode (req_ctx rq)) rc (cw_Header cw1) (url_TTL (currentMatchedURL e h rq))"
  show ?thesis
  proof (cases ?ttl)
    case None
    then show ?thesis by (simp add: Store_def stored_entry_def adm Let_def)
  next
    case (Some q)
    obtain ma fr where q: "q = (ma, fr)" by fastforce
    let ?resH = "let h1 = stored_headers rq rc (length (cw_Buf cw))
        (cw_Header (cw_Set StoredTTLHeader (Duration_String ma) cw1))
      in header_set StoredLengthHeader (header_get h1 ''Content-Length'') h1"
    obtain names star where v: "VariedHeaderAllCommaSepValues ?resH = (names, star)" by fastforce
    obtain sf names' where g: "GetVariedCacheKey rq names = (sf, names')" by fastforce
    note facts = adm Some[unfolded q] f v[unfolded Let_def] g
    show ?thesis
      by (cases "store_allowed (cx_Mode (req_ctx rq)) co rc fr")
        (auto simp: Store_def stored_entry_def facts Let_def store_entry_store store_finish_store
          simp del: header_get_set split: bool.splits)
  qed
qed


text \<open>
  C3. A response is stored only if its status may be cached, it is complete and within the size
  limit, its \<open>Vary\<close> is no star, the request does not forbid storing, and it is neither private
  nor the answer to an authenticated request unless the configuration or its \<open>Vary\<close> lifts that.
  The stored duration is the time to live less the time since the request's date.
\<close>

theorem stored_entry_conditions:
  assumes "stored_entry e h now rq co key cw = Some (r, resH)"
  defines "mode \<equiv> cx_Mode (req_ctx rq)"
  shows "cacheable_status h (cw_statusCode cw) \<and> \<not> cw_Done cw
    \<and> body_storable h rq (cw_statusCode cw) (length (cw_Buf cw)) \<and> \<not> body_too_large h (length (cw_Buf cw))
    \<and> ''*'' \<notin> set (HeaderAllCommaSepValues resH ''Vary'')
    \<and> (Bypass_request mode \<or> (\<exists>c. co = Some c \<and> \<not> rq_NoStore c))
    \<and> (\<exists>cw1 rc ma fr. store_admission h rq cw = Inr (cw1, rc)
        \<and> (Bypass_request mode \<or> (\<not> rs_PrivatePresent rc \<and> header_get (req_Header rq) ''Authorization'' = [])
            \<or> canBypassAuthorizationRestriction (cw_Header cw1) (cx_IgnoredHeaders (req_ctx rq)))
        \<and> (Bypass_response mode \<or> \<not> rs_NoStore rc \<or> fr)
        \<and> store_ttl now mode rc (cw_Header cw1) (url_TTL (currentMatchedURL e h rq)) = Some (ma, fr)
        \<and> so_duration r = ma - (now - request_date rq))"
proof -
  obtain cw1 rc where adm: "store_admission h rq cw = Inr (cw1, rc)"
    using assms(1) by (cases "store_admission h rq cw") (auto simp: stored_entry_def)
  obtain ma fr where ttl: "store_ttl now mode rc (cw_Header cw1) (url_TTL (currentMatchedURL e h rq)) = Some (ma, fr)"
    using assms by (cases "store_ttl now mode rc (cw_Header cw1) (url_TTL (currentMatchedURL e h rq))")
      (auto simp: stored_entry_def adm)
  have a: "store_allowed mode co rc fr = Inr True" "body_storable h rq (cw_statusCode cw) (length (cw_Buf cw))"
    "\<not> body_too_large h (length (cw_Buf cw))" "\<not> cw_Done cw" "so_duration r = ma - (now - request_date rq)"
    "\<not> snd (VariedHeaderAllCommaSepValues resH)"
    using assms ttl
    by (auto simp: stored_entry_def adm Let_def store_duration_def simp del: header_get_set split: prod.splits if_splits)
  have "Bypass_request mode \<or> (\<exists>c. co = Some c \<and> \<not> rq_NoStore c)"
    "Bypass_response mode \<or> \<not> rs_NoStore rc \<or> fr"
    using a(1) by (auto simp: store_allowed_def split: if_splits option.splits)
  moreover have "''*'' \<notin> set (HeaderAllCommaSepValues resH ''Vary'')"
    using a(6) by (auto simp: VariedHeaderAllCommaSepValues_def split: if_splits)
  ultimately show ?thesis
    using a adm ttl store_admission_conditions[OF adm] by (auto simp: mode_def)
qed

text \<open>
  A response with \<open>no-store\<close> is stored all the same when its freshness comes from a future
  \<open>Expires\<close> date.
\<close>

theorem no_store_with_Expires_allowed:
  assumes "rs_NoStore rc" "\<not> Bypass_response mode" "rs_SMaxAge rc < 0" "rs_MaxAge rc < 0"
    and "header_get hdr ''Expires'' \<noteq> []" "Parse RFC1123 (header_get hdr ''Expires'') = Some ex"
    and "now < ex" "ex - now \<le> 10 * OneYearDuration"
    and "parsed_or_zero (Parse RFC1123 (header_get hdr ''Date'')) \<le> ex" "\<not> rq_NoStore c"
  shows "store_ttl now mode rc hdr ttl = Some (ex - now, True) \<and> store_allowed mode (Some c) rc True = Inr True"
  using assms by (simp add: store_ttl_def store_allowed_def Let_def)

text \<open>
  The client chooses how long a response is stored: a date in its request moves the stored
  duration by the difference to the clock.
\<close>

theorem client_date_shifts_duration:
  assumes "Parse RFC1123 (header_get (req_Header req) ''Date'') = Some d"
  shows "store_duration now (SetBaseContext clock c req) ma =
    ma + (parsed_or_zero (http_ParseTime (Format TimeFormat d)) - now)"
  using assms
  by (simp add: store_duration_def request_date_def SetBaseContext_def now_SetContext_def cache_SetContext_def
      method_SetContext_def timeout_SetContext_def mode_SetContext_def Let_def)

text \<open>
  The settings of a URL apply only when the text that matched is itself one of the configured
  patterns, not when it merely matches one.
\<close>

theorem url_settings_by_matched_text:
  assumes "re_FindString (me_re e) (sh_RegexpUrls h) (req_Host rq @ req_Path rq) \<notin> set (amap_keys (bc_URLs (sh_Configuration h)))"
  shows "currentMatchedURL e h rq = sh_DefaultMatchedUrl h"
proof -
  have "map_of (bc_URLs (sh_Configuration h)) (re_FindString (me_re e) (sh_RegexpUrls h) (req_Host rq @ req_Path rq)) = None"
    using assms by (simp add: map_of_eq_None_iff)
  then show ?thesis by (simp add: currentMatchedURL_def Let_def)
qed

section \<open>Sample data\<close>

definition sample_handler :: "default_provider storer list \<Rightarrow> default_provider handler" where
  "sample_handler sts = \<lparr>sh_Configuration = base_configuration0\<lparr>bc_SurrogateKeyDisabled := True\<rparr>, sh_Storers = sts,
     sh_InternalEndpointHandlers = None, sh_ExcludeRegex = None, sh_RegexpUrls = [],
     sh_SurrogateKeyStorer = sample_surrogate SouinLayer True,
     sh_DefaultMatchedUrl = default_matched_url default_cache0, sh_context = Context_Init base_configuration0,
     sh_storersLen = length sts\<rparr>"

definition sample_env :: "upstream_reply \<Rightarrow> mw_env" where
  "sample_env reply = \<lparr>me_re = no_regexp, me_replace_all = (\<lambda>r t. t), me_sha256_hex = (\<lambda>b. []), me_xxhash = (\<lambda>k. 0),
     me_serve = (\<lambda>m h t c rw. rw), me_next = (\<lambda>l r. reply)\<rparr>"

definition sample_reply :: upstream_reply where
  "sample_reply = \<lparr>up_calls = [SetHeader ''Cache-Control'' ''max-age=10'', CallWrite ''hi''], up_end = NextOk,
     up_done = False, up_time = 0\<rparr>"

definition sample_sys :: "default_provider \<Rightarrow> default_provider sys" where
  "sample_sys w = \<lparr>sy_store = w, sy_log = []\<rparr>"

definition sample_writer :: custom_writer where
  "sample_writer = (NewCustomWriter sample_request
     (response_writer0\<lparr>rw_Header := [(''Cache-Control'', [''max-age=10''])]\<rparr>))\<lparr>cw_Buf := ''hi''\<rparr>"

text \<open>What the sample response is stored as.\<close>

lemma sample_stored_entry:
  "map_option (\<lambda>(r, hdr). (so_baseKey r, so_variedKey r, so_variedHeaders r, so_etag r, so_duration r,
       header_get hdr ''X-Souin-Storer''))
     (stored_entry (sample_env sample_reply) (sample_handler []) 0 sample_request (Some request_directives0) ''k''
       sample_writer) = Some (''k'', ''k'', [], [], 10 * Second, [])"
  by code_simp

theorem stored_entry_conditions_witness:
  "\<exists>r hdr. stored_entry (sample_env sample_reply) (sample_handler []) 0 sample_request (Some request_directives0) ''k''
       sample_writer = Some (r, hdr) \<and> ''*'' \<notin> set (HeaderAllCommaSepValues hdr ''Vary'')"
proof -
  obtain r hdr where "stored_entry (sample_env sample_reply) (sample_handler []) 0 sample_request
      (Some request_directives0) ''k'' sample_writer = Some (r, hdr)"
    using sample_stored_entry by (auto split: prod.splits)
  then show ?thesis using stored_entry_conditions by blast
qed

theorem no_store_with_Expires_allowed_witness:
  "store_allowed \<lparr>Strict = True, Bypass_request = False, Bypass_response = False\<rparr> (Some request_directives0)
     (response_directives0\<lparr>rs_NoStore := True\<rparr>) True = Inr True"
proof -
  let ?h = "[(''Expires'', [''Thu, 01 Jan 1970 00:10:00 GMT'']), (''Date'', [''Thu, 01 Jan 1970 00:00:00 GMT''])]"
  have "Parse RFC1123 (header_get ?h ''Expires'') = Some (10 * Minute)"
    "Parse RFC1123 (header_get ?h ''Date'') = Some 0" "header_get ?h ''Expires'' \<noteq> []" by code_simp+
  then show ?thesis
    using no_store_with_Expires_allowed[of "response_directives0\<lparr>rs_NoStore := True\<rparr>"
        "\<lparr>Strict = True, Bypass_request = False, Bypass_response = False\<rparr>" ?h "10 * Minute" 0 request_directives0]
    by (simp add: response_directives0_def request_directives0_def parsed_or_zero_def Minute_def Second_def
        OneYearDuration_def Hour_def)
qed

theorem client_date_shifts_duration_witness:
  "store_duration 0 (SetBaseContext 0 (Context_Init base_configuration0)
     (sample_request\<lparr>req_Header := [(''Date'', [''Fri, 02 Jan 1970 00:00:00 GMT''])]\<rparr>)) (10 * Second)
   = 10 * Second + 24 * Hour"
proof -
  have "Parse RFC1123 (header_get (req_Header (sample_request\<lparr>req_Header := [(''Date'', [''Fri, 02 Jan 1970 00:00:00 GMT''])]\<rparr>)) ''Date'')
      = Some (24 * Hour)" by code_simp
  moreover have "parsed_or_zero (http_ParseTime (Format TimeFormat (24 * Hour))) = 24 * Hour" by code_simp
  ultimately show ?thesis using client_date_shifts_duration[of _ "24 * Hour" 0] by simp
qed

theorem url_settings_by_matched_text_witness:
  "currentMatchedURL (sample_env sample_reply) (sample_handler []) sample_request = default_matched_url default_cache0"
  using url_settings_by_matched_text[of "sample_env sample_reply" "sample_handler []" sample_request]
  by (simp add: sample_handler_def base_configuration0_def)

end
