(* ===== verification/Upstream.thy ===== *)
theory Upstream
  imports StoreResponse
begin

text \<open>
  \<open>SouinBaseHandler.Upstream\<close> and \<open>Revalidate\<close> (pkg/middleware/middleware.go) and the coalescing of
  concurrent requests by \<open>singleflight\<close>.  In one call of \<open>singleflight.Do\<close> a request either
  executes the function itself (\<open>Lead\<close>, with whether others shared the result) or waits for
  another request with the same key (\<open>Follow\<close> its result, or the panic it ended in).  The roles
  are what the other requests make of them, so they are an argument; a request whose key carries
  a fresh uuid always leads alone.
\<close>

record sf_value =
  sf_body :: string
  sf_headers :: header
  sf_requestHeaders :: header
  sf_code :: int
  sf_disableCoalescing :: bool

datatype flight =
    Lead bool
  | Follow "sf_value option" "up_error option"
  | FollowAbort
  | FollowPanic

text \<open>How the function given to \<open>Do\<close> ends: with a value and an error, or in a panic.\<close>

datatype flight_end =
    Landed "sf_value option" "up_error option"
  | Aborted
  | Panicked go_panic

section \<open>Calling the upstream handler\<close>

definition RequestCounter :: string where "RequestCounter = ''souin_request_upstream_counter''"
definition RequestRevalidationCounter :: string where "RequestRevalidationCounter = ''souin_request_revalidation_counter''"
definition NoCachedResponseCounter :: string where "NoCachedResponseCounter = ''souin_no_cached_response_counter''"
definition CachedResponseCounter :: string where "CachedResponseCounter = ''souin_cached_response_counter''"
definition AvgResponseTime :: string where "AvgResponseTime = ''souin_avg_response_time''"

definition call_next :: "mw_env \<Rightarrow> request \<Rightarrow> custom_writer \<Rightarrow> 'w sys \<Rightarrow> upstream_reply \<times> custom_writer \<times> 'w sys" where
  "call_next e rq cw s =
     (let reply = me_next e (sy_log s) rq
      in (reply, (cw_calls (up_calls reply) cw)\<lparr>cw_Done := up_done reply\<rparr>, sys_log (EvNext rq) s))"

definition invalidate_groups :: "'w handler \<Rightarrow> gtime \<Rightarrow> string \<Rightarrow> header \<Rightarrow> 'w sys \<Rightarrow> 'w sys" where
  "invalidate_groups h now meth headers s =
     (if bc_SurrogateKeyDisabled (sh_Configuration h) then s
      else sys_store (bs_Invalidate now (sh_SurrogateKeyStorer h) meth headers) s)"

definition reset_buffer :: "custom_writer \<Rightarrow> custom_writer" where
  "reset_buffer cw = cw\<lparr>cw_Buf := []\<rparr>"

text \<open>What both \<open>Upstream\<close> and \<open>Revalidate\<close> do with a value: body, headers and code replace the writer's.\<close>

definition load_value :: "sf_value \<Rightarrow> custom_writer \<Rightarrow> custom_writer" where
  "load_value v cw =
     cw_WriteHeader (sf_code v)
       (cw_update_Header (\<lambda>h. header_copy h (sf_headers v)) (cw_Write (sf_body v) (reset_buffer cw)))"

section \<open>Upstream\<close>

definition upstream_landed ::
  "mw_env \<Rightarrow> 'w handler \<Rightarrow> gtime \<Rightarrow> request \<Rightarrow> request_directives option \<Rightarrow> string \<Rightarrow> string
     \<Rightarrow> custom_writer \<Rightarrow> 'w sys \<Rightarrow> flight_end \<times> custom_writer \<times> 'w sys" where
  "upstream_landed e h now rq requestCc cachedKey uri cw s =
     (let code = cw_statusCode cw;
          cw1 = (if cacheable_status h code then cw else cache_status_miss rq ''UNCACHEABLE-STATUS-CODE'' cw)
      in if \<not> cacheable_status h code \<and> is_upstream_error code then (Landed None (Some Upstream50xError), cw1, s)
         else
           let (headerName, cacheControl) = GetSurrogateControl (sh_SurrogateKeyStorer h) (cw_Header cw1);
               cw2 = (if cacheControl = [] then cw_Set headerName (url_DefaultCacheControl (sh_DefaultMatchedUrl h)) cw1
                      else cw1)
           in case Store e h now rq requestCc cachedKey uri cw2 s of
                (Inl p, cw3, s1) \<Rightarrow> (Panicked p, cw3, s1)
              | (Inr err, cw3, s1) \<Rightarrow>
                  (Landed (Some \<lparr>sf_body = cw_Buf cw3, sf_headers = cw_Header cw3, sf_requestHeaders = req_Header rq,
                     sf_code = code,
                     sf_disableCoalescing = (sublist ''private'' cacheControl
                        \<or> header_get (cw_Header cw3) ''Set-Cookie'' \<noteq> [])\<rparr>) err,
                   reset_buffer cw3, s1))"

definition upstream_leader ::
  "mw_env \<Rightarrow> 'w handler \<Rightarrow> request \<Rightarrow> request_directives option \<Rightarrow> string \<Rightarrow> string
     \<Rightarrow> custom_writer \<Rightarrow> 'w sys \<Rightarrow> flight_end \<times> custom_writer \<times> 'w sys" where
  "upstream_leader e h rq requestCc cachedKey uri cw s =
     (case call_next e rq cw s of
        (reply, cw1, s1) \<Rightarrow>
          (case up_end reply of
             NextAbort \<Rightarrow> (Aborted, cw1, s1)
           | NextPanic \<Rightarrow> (Panicked HandlerPanic, cw1, s1)
           | NextErr t \<Rightarrow> (Landed None (Some (NextError t)), cache_status_miss rq ''SERVE-HTTP-ERROR'' cw1, s1)
           | NextOk \<Rightarrow>
               upstream_landed e h (up_time reply) rq requestCc cachedKey uri cw1
                 (invalidate_groups h (up_time reply) (req_Method rq) (cw_Header cw1) s1)))"

text \<open>
  What \<open>Upstream\<close> makes of the flight's end: an error of its own, another round (with or without
  coalescing), or the value in the writer.  An aborted handler ends \<open>Upstream\<close> without an error:
  its deferred function recovers the panic and the check of \<open>recoveredFromErr\<close> is never reached.
\<close>

datatype round_end = Done "up_error option go" | Retry bool

definition vary_differs :: "request \<Rightarrow> sf_value \<Rightarrow> bool" where
  "vary_differs rq v \<longleftrightarrow>
     header_get (sf_headers v) ''Vary'' \<noteq> [] \<and>
     (case VariedHeaderAllCommaSepValues (sf_headers v) of (names, isVaryStar) \<Rightarrow>
        \<not> isVaryStar \<and>
        list_ex (\<lambda>vh. header_get (req_Header rq) vh \<noteq> header_get (sf_requestHeaders v) vh) names)"

definition upstream_settle :: "request \<Rightarrow> bool \<Rightarrow> flight_end \<Rightarrow> custom_writer \<Rightarrow> round_end \<times> custom_writer" where
  "upstream_settle rq shared fl cw =
     (case fl of
        Aborted \<Rightarrow> (Done (Inr None), cw)
      | Panicked p \<Rightarrow> (Done (Inl p), cw)
      | Landed _ (Some err) \<Rightarrow> (Done (Inr (Some err)), cw)
      | Landed None None \<Rightarrow> (Done (Inr None), cw)
      | Landed (Some v) None \<Rightarrow>
          if shared \<and> sf_disableCoalescing v then (Retry True, cw)
          else if vary_differs rq v then (Retry False, cw)
          else (Done (Inr None), load_value v cw))"

definition upstream_round ::
  "mw_env \<Rightarrow> 'w handler \<Rightarrow> flight \<Rightarrow> request \<Rightarrow> request_directives option \<Rightarrow> string \<Rightarrow> string
     \<Rightarrow> custom_writer \<Rightarrow> 'w sys \<Rightarrow> round_end \<times> custom_writer \<times> 'w sys" where
  "upstream_round e h role rq requestCc cachedKey uri cw s =
     (let s0 = sys_log (EvCount RequestCounter) s
      in case role of
           Lead shared \<Rightarrow>
             (case upstream_leader e h rq requestCc cachedKey uri cw s0 of
                (fl, cw1, s1) \<Rightarrow> (case upstream_settle rq shared fl cw1 of (r, cw2) \<Rightarrow> (r, cw2, s1)))
         | Follow v err \<Rightarrow>
             (case upstream_settle rq True (Landed v err) cw of (r, cw2) \<Rightarrow> (r, cw2, s0))
         | FollowAbort \<Rightarrow> (case upstream_settle rq True Aborted cw of (r, cw2) \<Rightarrow> (r, cw2, s0))
         | FollowPanic \<Rightarrow> (case upstream_settle rq True (Panicked HandlerPanic) cw of (r, cw2) \<Rightarrow> (r, cw2, s0)))"

definition alone :: "'w handler \<Rightarrow> bool \<Rightarrow> bool" where
  "alone h disableCoalescing \<longleftrightarrow> dc_DisableCoalescing (bc_DefaultCache (sh_Configuration h)) \<or> disableCoalescing"

text \<open>A round in which the request leads alone; it never asks for another one (\<open>lead_alone_settles\<close>).\<close>

definition upstream_alone ::
  "mw_env \<Rightarrow> 'w handler \<Rightarrow> request \<Rightarrow> request_directives option \<Rightarrow> string \<Rightarrow> string
     \<Rightarrow> custom_writer \<Rightarrow> 'w sys \<Rightarrow> up_error option go \<times> custom_writer \<times> 'w sys" where
  "upstream_alone e h rq requestCc cachedKey uri cw s =
     (case upstream_round e h (Lead False) rq requestCc cachedKey uri cw s of
        (Done r, cw1, s1) \<Rightarrow> (r, cw1, s1)
      | (Retry _, cw1, s1) \<Rightarrow> (Inr None, cw1, s1))"

fun Upstream_rounds ::
  "mw_env \<Rightarrow> 'w handler \<Rightarrow> flight list \<Rightarrow> request \<Rightarrow> request_directives option \<Rightarrow> string \<Rightarrow> string
     \<Rightarrow> custom_writer \<Rightarrow> 'w sys \<Rightarrow> up_error option go \<times> custom_writer \<times> 'w sys" where
  "Upstream_rounds e h [] rq requestCc cachedKey uri cw s = upstream_alone e h rq requestCc cachedKey uri cw s"
| "Upstream_rounds e h (role # roles) rq requestCc cachedKey uri cw s =
     (case upstream_round e h role rq requestCc cachedKey uri cw s of
        (Done r, cw1, s1) \<Rightarrow> (r, cw1, s1)
      | (Retry True, cw1, s1) \<Rightarrow> upstream_alone e h rq requestCc cachedKey uri cw1 s1
      | (Retry False, cw1, s1) \<Rightarrow> Upstream_rounds e h roles rq requestCc cachedKey uri cw1 s1)"

definition Upstream ::
  "mw_env \<Rightarrow> 'w handler \<Rightarrow> flight list \<Rightarrow> request \<Rightarrow> request_directives option \<Rightarrow> string \<Rightarrow> string \<Rightarrow> bool
     \<Rightarrow> custom_writer \<Rightarrow> 'w sys \<Rightarrow> up_error option go \<times> custom_writer \<times> 'w sys" where
  "Upstream e h roles rq requestCc cachedKey uri disableCoalescing cw s =
     (if alone h disableCoalescing then upstream_alone e h rq requestCc cachedKey uri cw s
      else Upstream_rounds e h roles rq requestCc cachedKey uri cw s)"

section \<open>Revalidate\<close>

definition revalidation_status :: "request \<Rightarrow> int \<Rightarrow> custom_writer \<Rightarrow> custom_writer" where
  "revalidation_status rq code cw =
     cw_Set ''Cache-Status'' (cx_CacheName (req_ctx rq) @ ''; fwd=request; fwd-status='' @ Itoa code @ ''; key=''
       @ GetCacheKeyFromCtx (req_ctx rq) @ ''; detail=REQUEST-REVALIDATION'') cw"

text \<open>An early answer of the revalidation: straight to the server's writer, and an error without text.\<close>

definition early_answer :: "int \<Rightarrow> custom_writer \<Rightarrow> flight_end \<times> custom_writer" where
  "early_answer code cw =
     (let cw1 = reset_buffer cw
      in (Landed None (Some EmptyError), cw1\<lparr>cw_Rw := rw_WriteHeader code (cw_Rw cw1)\<rparr>))"

definition not_modified_since :: "revalidator \<Rightarrow> header \<Rightarrow> bool" where
  "not_modified_since v h \<longleftrightarrow>
     rv_IfModifiedSincePresent v \<and>
     (case Parse RFC1123 (header_get h ''Last-Modified'') of
        None \<Rightarrow> False | Some lastModified \<Rightarrow> 0 < rv_IfModifiedSince v - lastModified)"

definition revalidate_landed ::
  "mw_env \<Rightarrow> 'w handler \<Rightarrow> revalidator \<Rightarrow> gtime \<Rightarrow> up_error option \<Rightarrow> request \<Rightarrow> request_directives option \<Rightarrow> string \<Rightarrow> string
     \<Rightarrow> custom_writer \<Rightarrow> 'w sys \<Rightarrow> flight_end \<times> custom_writer \<times> 'w sys" where
  "revalidate_landed e h v now err rq requestCc cachedKey uri cw s =
     (let code = cw_statusCode cw;
          finish = (\<lambda>err cw s.
            let cw1 = revalidation_status rq code cw
            in (Landed (Some \<lparr>sf_body = cw_Buf cw1, sf_headers = cw_Header cw1, sf_requestHeaders = [],
                  sf_code = code, sf_disableCoalescing = False\<rparr>) err, reset_buffer cw1, s))
      in if err \<noteq> None then finish err cw s
         else if rv_IfUnmodifiedSincePresent v \<and> code \<noteq> 304 then
           (case early_answer 412 cw of (fl, cw1) \<Rightarrow> (fl, cw1, s))
         else if not_modified_since v (cw_Header cw) then
           (case early_answer 304 cw of (fl, cw1) \<Rightarrow> (fl, cw1, s))
         else if code \<noteq> 304 then
           (case Store e h now rq requestCc cachedKey uri cw s of
              (Inl p, cw1, s1) \<Rightarrow> (Panicked p, cw1, s1)
            | (Inr err', cw1, s1) \<Rightarrow> finish err' cw1 s1)
         else finish None cw s)"

definition revalidate_leader ::
  "mw_env \<Rightarrow> 'w handler \<Rightarrow> revalidator \<Rightarrow> request \<Rightarrow> request_directives option \<Rightarrow> string \<Rightarrow> string
     \<Rightarrow> custom_writer \<Rightarrow> 'w sys \<Rightarrow> flight_end \<times> custom_writer \<times> 'w sys" where
  "revalidate_leader e h v rq requestCc cachedKey uri cw s =
     (case call_next e rq cw s of
        (reply, cw1, s1) \<Rightarrow>
          let now = up_time reply;
              landed = (\<lambda>err. revalidate_landed e h v now err rq requestCc cachedKey uri cw1
                          (invalidate_groups h now (req_Method rq) (cw_Header cw1) s1))
          in case up_end reply of
               NextAbort \<Rightarrow> (Aborted, cw1, s1)
             | NextPanic \<Rightarrow> (Panicked HandlerPanic, cw1, s1)
             | NextErr t \<Rightarrow> landed (Some (NextError t))
             | NextOk \<Rightarrow> landed None)"

definition first_role :: "'w handler \<Rightarrow> flight list \<Rightarrow> flight" where
  "first_role h roles = (if alone h False then Lead False else case roles of [] \<Rightarrow> Lead False | r # _ \<Rightarrow> r)"

definition Revalidate ::
  "mw_env \<Rightarrow> 'w handler \<Rightarrow> flight list \<Rightarrow> revalidator \<Rightarrow> request \<Rightarrow> request_directives option \<Rightarrow> string \<Rightarrow> string
     \<Rightarrow> custom_writer \<Rightarrow> 'w sys \<Rightarrow> up_error option go \<times> custom_writer \<times> 'w sys" where
  "Revalidate e h roles v rq requestCc cachedKey uri cw s =
     (let s0 = sys_log (EvCount RequestRevalidationCounter) s
      in case (case first_role h roles of
                 Lead _ \<Rightarrow> revalidate_leader e h v rq requestCc cachedKey uri cw s0
               | Follow val err \<Rightarrow> (Landed val err, cw, s0)
               | FollowAbort \<Rightarrow> (Aborted, cw, s0)
               | FollowPanic \<Rightarrow> (Panicked HandlerPanic, cw, s0)) of
           (Landed val err, cw1, s1) \<Rightarrow> (Inr err, (case val of None \<Rightarrow> cw1 | Some x \<Rightarrow> load_value x cw1), s1)
         | (Aborted, cw1, s1) \<Rightarrow> (Inl HandlerPanic, cw1, s1)
         | (Panicked p, cw1, s1) \<Rightarrow> (Inl p, cw1, s1))"

end
