(* ===== verification/UpstreamLaws.thy ===== *)
theory UpstreamLaws
  imports Upstream StoreLaws
begin

text \<open>
  What coalescing makes of a request: how often the upstream handler is called, what a request
  gets that shares the flight of another one, and what an upstream that fails or aborts leads to.
\<close>

section \<open>Calls of the upstream handler\<close>

definition next_calls :: "'w sys \<Rightarrow> nat" where
  "next_calls s = length (filter (\<lambda>ev. case ev of EvNext _ \<Rightarrow> True | _ \<Rightarrow> False) (sy_log s))"

lemma next_calls_simps [simp]:
  "next_calls (sys_log (EvNext rq) s) = Suc (next_calls s)"
  "next_calls (sys_log (EvCount c) s) = next_calls s"
  "next_calls (sys_log (EvSurrogateStore hdr key uri) s) = next_calls s"
  "next_calls (sys_log (EvBackfill i key rq resp) s) = next_calls s"
  "next_calls (sys_log (EvUpstream cw rq co key uri) s) = next_calls s"
  "next_calls (sys_log (EvRevalidate v cw rq co key uri) s) = next_calls s"
  "next_calls (s\<lparr>sy_store := w\<rparr>) = next_calls s"
  "next_calls (invalidate_groups h now meth hdr s) = next_calls s"
  by (simp_all add: next_calls_def sys_log_def invalidate_groups_def sys_store_def)

lemma store_entry_next_calls:
  "store_entry e h now rq key uri code b resH ma ended status s = (r, s') \<Longrightarrow> next_calls s' = next_calls s"
  by (auto simp: store_entry_def store_write_def Let_def split: prod.splits sum.splits if_splits)

lemma Store_next_calls:
  "Store e h now rq co key uri cw s = (r, cw', s') \<Longrightarrow> next_calls s' = next_calls s"
  by (auto simp: Store_def Let_def dest!: store_entry_next_calls
      split: sum.splits prod.splits option.splits if_splits bool.splits)

lemma upstream_landed_next_calls:
  "upstream_landed e h now rq co key uri cw s = (fl, cw', s') \<Longrightarrow> next_calls s' = next_calls s"
  by (auto simp: upstream_landed_def Let_def dest!: Store_next_calls split: prod.splits sum.splits if_splits)

lemma upstream_leader_next_calls:
  "upstream_leader e h rq co key uri cw s = (fl, cw', s') \<Longrightarrow> next_calls s' = Suc (next_calls s)"
  by (auto simp: upstream_leader_def call_next_def Let_def dest!: upstream_landed_next_calls
      split: upstream_end.splits prod.splits)

text \<open>The request headers in a flight's value are those of the request that led it.\<close>

lemma upstream_landed_requestHeaders:
  "upstream_landed e h now rq co key uri cw s = (Landed (Some v) err, cw', s') \<Longrightarrow> sf_requestHeaders v = req_Header rq"
  by (auto simp: upstream_landed_def Let_def split: prod.splits sum.splits if_splits)

lemma upstream_leader_requestHeaders:
  "upstream_leader e h rq co key uri cw s = (Landed (Some v) err, cw', s') \<Longrightarrow> sf_requestHeaders v = req_Header rq"
  by (auto simp: upstream_leader_def call_next_def Let_def dest!: upstream_landed_requestHeaders
      split: upstream_end.splits prod.splits)

lemma not_vary_differs_own: "sf_requestHeaders v = req_Header rq \<Longrightarrow> \<not> vary_differs rq v"
  by (auto simp: vary_differs_def list_ex_iff split: prod.splits)

lemma settle_not_alone:
  "fst (upstream_settle rq shared (Landed (Some v) err) cw) = Retry False \<Longrightarrow> vary_differs rq v"
  "fst (upstream_settle rq False (Landed (Some v) err) cw) \<noteq> Retry True"
  by (auto simp: upstream_settle_def split: option.splits if_splits)

lemma settle_retry_landed: "fst (upstream_settle rq shared fl cw) = Retry b \<Longrightarrow> \<exists>v. fl = Landed (Some v) None"
  by (auto simp: upstream_settle_def split: flight_end.splits option.splits if_splits)

text \<open>A request that leads never goes round again for its \<open>Vary\<close>, and not at all when it leads alone.\<close>

lemma leader_round:
  assumes "upstream_round e h (Lead shared) rq co key uri cw s = (r, cw', s')"
  shows "next_calls s' = Suc (next_calls s)" and "r \<noteq> Retry False" and "\<not> shared \<Longrightarrow> r \<noteq> Retry b"
proof -
  obtain fl cw1 s1 where l: "upstream_leader e h rq co key uri cw (sys_log (EvCount RequestCounter) s) = (fl, cw1, s1)"
    by (cases "upstream_leader e h rq co key uri cw (sys_log (EvCount RequestCounter) s)")
  then have r: "s' = s1" "r = fst (upstream_settle rq shared fl cw1)"
    using assms by (auto simp: upstream_round_def split: prod.splits)
  show "next_calls s' = Suc (next_calls s)"
    using upstream_leader_next_calls[OF l] r by simp
  show rf: "r \<noteq> Retry False"
    using l r settle_retry_landed settle_not_alone(1) upstream_leader_requestHeaders not_vary_differs_own by metis
  show "\<not> shared \<Longrightarrow> r \<noteq> Retry b"
    using r rf settle_retry_landed settle_not_alone(2) by (metis (full_types))
qed

lemma other_round:
  assumes "upstream_round e h role rq co key uri cw s = (r, cw', s')" and "\<forall>b. role \<noteq> Lead b"
  shows "next_calls s' = next_calls s"
  using assms by (cases role) (auto simp: upstream_round_def split: prod.splits)

lemma upstream_alone_calls:
  assumes "upstream_alone e h rq co key uri cw s = (r, cw', s')"
  shows "next_calls s' = Suc (next_calls s)"
proof -
  obtain re cw1 s1 where l: "upstream_round e h (Lead False) rq co key uri cw s = (re, cw1, s1)"
    by (cases "upstream_round e h (Lead False) rq co key uri cw s")
  then have "s' = s1" using assms by (auto simp: upstream_alone_def split: round_end.splits)
  then show ?thesis using leader_round(1)[OF l] by simp
qed

lemma Upstream_rounds_calls:
  "Upstream_rounds e h roles rq co key uri cw s = (r, cw', s') \<Longrightarrow>
     next_calls s \<le> next_calls s' \<and> next_calls s' \<le> next_calls s + 2"
proof (induction roles arbitrary: cw s)
  case Nil
  then show ?case using upstream_alone_calls by fastforce
next
  case (Cons role roles)
  obtain re cw1 s1 where l: "upstream_round e h role rq co key uri cw s = (re, cw1, s1)"
    by (cases "upstream_round e h role rq co key uri cw s")
  show ?case
  proof (cases "\<exists>b. role = Lead b")
    case True
    then obtain b where "role = Lead b" by blast
    note lead = leader_round[OF l[unfolded this]]
    show ?thesis
    proof (cases re)
      case (Done x)
      then show ?thesis using Cons.prems l lead(1) by simp
    next
      case (Retry c)
      then have c using lead(2) by (cases c) auto
      then have "upstream_alone e h rq co key uri cw1 s1 = (r, cw', s')" using Cons.prems l Retry by simp
      then show ?thesis using upstream_alone_calls lead(1) by fastforce
    qed
  next
    case False
    then have s1: "next_calls s1 = next_calls s" using other_round[OF l] by blast
    show ?thesis
    proof (cases re)
      case (Done x)
      then show ?thesis using Cons.prems l s1 by simp
    next
      case (Retry c)
      then show ?thesis
        using Cons.prems l s1 upstream_alone_calls[of e h rq co key uri cw1 s1 r cw' s'] Cons.IH[of cw1 s1]
        by (cases c) auto
    qed
  qed
qed


section \<open>Sharing a flight\<close>

lemma load_value_fields:
  "cw_Buf (load_value v cw) = sf_body v" "cw_Rw (load_value v cw) = (cw_Rw cw)\<lparr>rw_Header :=
     (if cw_detached cw then rw_Header (cw_Rw cw) else header_copy (rw_Header (cw_Rw cw)) (sf_headers v))\<rparr>"
  by (auto simp: load_value_def cw_WriteHeader_def cw_update_Header_def cw_Write_def reset_buffer_def cw_detached_def)

text \<open>
  C15. A request that waited for the flight of another one is answered from it without a call of
  the upstream, unless the response is private, sets a cookie, or varies on a header in which the
  two requests differ; then it asks the upstream itself, once.
\<close>

theorem flight_shared_unless:
  assumes "Upstream e h [Follow (Some v) None] rq co key uri off cw s = (r, cw', s')" "\<not> alone h off"
  shows "if sf_disableCoalescing v \<or> vary_differs rq v then next_calls s' = next_calls s + 1
    else next_calls s' = next_calls s \<and> sy_store s' = sy_store s \<and> r = Inr None \<and> cw_Buf cw' = sf_body v"
proof (cases "sf_disableCoalescing v \<or> vary_differs rq v")
  case True
  then have "upstream_alone e h rq co key uri cw (sys_log (EvCount RequestCounter) s) = (r, cw', s')"
    using assms by (cases "sf_disableCoalescing v") (auto simp: Upstream_def upstream_round_def upstream_settle_def)
  then show ?thesis using True upstream_alone_calls by fastforce
next
  case False
  then show ?thesis
    using assms by (auto simp: Upstream_def upstream_round_def upstream_settle_def sys_log_def next_calls_def load_value_fields)
qed

section \<open>Witnesses\<close>

definition sample_flight :: sf_value where
  "sample_flight = \<lparr>sf_body = ''hi'', sf_headers = [(''Vary'', [''Accept''])], sf_requestHeaders = [],
     sf_code = 200, sf_disableCoalescing = False\<rparr>"

lemma sample_handler_coalesces [simp]: "\<not> alone (sample_handler sts) False"
  by (simp add: alone_def sample_handler_def base_configuration0_def default_cache0_def)


theorem flight_shared_unless_witness:
  "next_calls (snd (snd (Upstream (sample_env sample_reply) (sample_handler []) [Follow (Some sample_flight) None]
     sample_request (Some request_directives0) ''k'' ''/a'' False sample_writer (sample_sys (default_provider_Factory 0))))) = 1"
proof -
  let ?U = "Upstream (sample_env sample_reply) (sample_handler []) [Follow (Some sample_flight) None]
     sample_request (Some request_directives0) ''k'' ''/a'' False sample_writer (sample_sys (default_provider_Factory 0))"
  have "vary_differs sample_request sample_flight" by code_simp
  moreover have "next_calls (sample_sys (default_provider_Factory 0)) = 0" by (simp add: next_calls_def sample_sys_def)
  moreover have "?U = (fst ?U, fst (snd ?U), snd (snd ?U))" by simp
  ultimately show ?thesis
    using flight_shared_unless[of "sample_env sample_reply" "sample_handler []" sample_flight]
    by (metis add_0 sample_handler_coalesces)
qed

end
