(* ===== verification/HandlerLaws.thy ===== *)
theory HandlerLaws
  imports Handler
begin

text \<open>
  The eviction lock over the in-memory storer, and the storers a handler is built with.
\<close>

section \<open>The eviction lock\<close>

lemma user_key_lock: "user_key evictionLockKey"
  by code_simp

lemma claim_lock_wins:
  assumes "ds_ok cd w" "now \<le> later" "later < now + evictionLockTTL"
  shows "fst (claim_lock id now later a (default_storer re cd) w)"
    and "ds_ok cd (snd (claim_lock id now later a (default_storer re cd) w))"
proof -
  let ?st = "default_storer re cd" and ?v = "lock_value a (now + evictionLockTTL)"
  obtain err w1 where w1: "st_Set ?st now evictionLockKey ?v evictionLockTTL w = (err, w1)" by fastforce
  have ok: "ds_ok cd w1" "\<not> err" "ds_val later evictionLockKey w1 = Some ?v"
    using ds.set_wf[OF assms(1) user_key_lock, of re now ?v evictionLockTTL] ds.set_no_error[of re cd now evictionLockKey ?v evictionLockTTL w]
      ds.set_val[OF assms(1) user_key_lock, of later evictionLockKey re now ?v evictionLockTTL] w1 assms(3)
    by simp_all
  obtain r w2 where w2: "st_Get ?st later evictionLockKey w1 = (r, w2)" by fastforce
  have "r = Some ?v" "ds_ok cd w2"
    using ds.get_val[OF ok(1), of re later evictionLockKey] ds.get_wf[OF ok(1), of re later evictionLockKey] w2 ok(3)
    by simp_all
  then show "fst (claim_lock id now later a ?st w)" "ds_ok cd (snd (claim_lock id now later a ?st w))"
    using ok(2) w1 w2 by (simp_all add: claim_lock_def Let_def bytes_of_def)
qed

text \<open>A lock that another instance holds is respected.\<close>

lemma eviction_lock_respected:
  assumes "ds_ok cd w" "ds_val now evictionLockKey w = Some lock" "lock \<noteq> []"
    and "parse_lock lock = Some (other, until)" "now < until" "other \<noteq> holder"
  shows "\<not> fst (tryAcquireEvictionLock o1 o2 now later holder (default_storer re cd) w)"
  using assms ds.get_val[OF assms(1), of re now evictionLockKey]
  by (auto simp: tryAcquireEvictionLock_def bytes_of_def split: prod.splits)

text \<open>
  C36. The eviction lock does not exclude: two instances that both look before either writes can
  both acquire it, the second one after the first has verified its own claim.
\<close>

theorem eviction_lock_not_exclusive:
  assumes "ds_ok cd w" "ds_val now evictionLockKey w = None" "ds_val now' evictionLockKey w = None"
    and "now \<le> later" "later < now + evictionLockTTL" "now' \<le> later'" "later' < now' + evictionLockTTL"
  shows "fst (tryAcquireEvictionLock id id now later a (default_storer re cd) w)
    \<and> fst (tryAcquireEvictionLock (\<lambda>w. snd (claim_lock id now later a (default_storer re cd) w)) id now' later' b
        (default_storer re cd) w)"
proof -
  have none: "tryAcquireEvictionLock o1 id n l c (default_storer re cd) w =
      claim_lock id n l c (default_storer re cd) (o1 (snd (st_Get (default_storer re cd) n evictionLockKey w)))"
    if "ds_val n evictionLockKey w = None" for o1 n l c
    using ds.get_val[OF assms(1), of re n evictionLockKey] that
    by (cases "st_Get (default_storer re cd) n evictionLockKey w") (simp add: tryAcquireEvictionLock_def bytes_of_def)
  have ok: "ds_ok cd (snd (st_Get (default_storer re cd) n evictionLockKey w))" for n
    using ds.get_wf[OF assms(1)] by blast
  show ?thesis
    using claim_lock_wins(1)[OF ok assms(4,5)] claim_lock_wins(1)[OF claim_lock_wins(2)[OF ok assms(4,5)] assms(6,7)]
    by (simp add: none[OF assms(2)] none[OF assms(3)])
qed

theorem eviction_lock_not_exclusive_witness:
  "fst (tryAcquireEvictionLock id id 0 1 ''a'' (default_storer no_regexp sample_codec) (default_provider_Factory 0))
    \<and> fst (tryAcquireEvictionLock (\<lambda>w. snd (claim_lock id 0 1 ''a'' (default_storer no_regexp sample_codec) w)) id 2 3 ''b''
          (default_storer no_regexp sample_codec) (default_provider_Factory 0))"
  by (rule eviction_lock_not_exclusive[OF ds_ok_Factory])
    (simp_all add: ds_val_def default_provider_Factory_def evictionLockTTL_def Minute_def Second_def)

section \<open>The storers of a handler\<close>

text \<open>A handler never runs without a storer.\<close>

lemma choose_storers_not_empty: "fst (choose_storers memory registry dc) \<noteq> []"
  by (auto simp: choose_storers_def Let_def split: option.splits if_splits)

end
