(* ===== verification/Serve.thy ===== *)
theory Serve
  imports Upstream
begin

text \<open>
  \<open>SouinBaseHandler.ServeHTTP\<close> (pkg/middleware/middleware.go), cut at its stages: internal
  endpoints, bypasses, the look-up in the storers, the answer from a fresh response, the three
  ways to deal with a stale one, and the upstream request raced against the request's deadline.
  A stage either returns to the server (\<open>Ret\<close>) or goes on with the next one (\<open>Cont\<close>).
  \<open>now\<close> is the clock when the request comes in, \<open>later\<close> when a revalidation has returned.
  Goroutines are logged with what they capture; the response-time histogram is left out.  The error that \<open>Send\<close> returns is the one of the
  server's writer, taken to be nil.
\<close>

datatype 'w outcome =
    Ret "up_error option go" custom_writer "'w sys"
  | Cont custom_writer "'w sys"

text \<open>Everything a request carries through the stages after its contexts are set.\<close>

record flow =
  fl_now :: gtime
  fl_later :: gtime
  fl_req :: request
  fl_requestCc :: "request_directives option"
  fl_cachedKey :: string
  fl_uri :: string
  fl_roles :: "flight list"

definition fl_mode :: "flow \<Rightarrow> mode_context" where
  "fl_mode f = cx_Mode (req_ctx (fl_req f))"

definition copy_headers :: "header \<Rightarrow> custom_writer \<Rightarrow> custom_writer" where
  "copy_headers h cw = cw_update_Header (\<lambda>dst. header_copy dst h) cw"

definition revalidate_send ::
  "mw_env \<Rightarrow> 'w handler \<Rightarrow> flow \<Rightarrow> revalidator \<Rightarrow> custom_writer \<Rightarrow> 'w sys \<Rightarrow> 'w outcome" where
  "revalidate_send e h f v cw s =
     (case Revalidate e h (fl_roles f) v (fl_req f) (fl_requestCc f) (fl_cachedKey f) (fl_uri f) cw s of
        (Inl p, cw1, s1) \<Rightarrow> Ret (Inl p) cw1 s1
      | (Inr err, cw1, s1) \<Rightarrow> Ret (Inr err) (Send (me_serve e) cw1) s1)"

section \<open>Look-up\<close>

fun lookup_storers ::
  "gtime \<Rightarrow> 'w storer list \<Rightarrow> string \<Rightarrow> request \<Rightarrow> revalidator \<Rightarrow> nat \<Rightarrow> 'w
     \<Rightarrow> (response option \<times> response option \<times> revalidator \<times> string \<times> nat) go \<times> 'w" where
  "lookup_storers now [] key req v idx w = (Inr (None, None, v, [], idx), w)"
| "lookup_storers now (st # sts) key req v idx w =
     (case st_GetMultiLevel st now key req v w of
        (Inl p, w1) \<Rightarrow> (Inl p, w1)
      | (Inr (fresh, stale, v1), w1) \<Rightarrow>
          if fresh \<noteq> None \<or> stale \<noteq> None then (Inr (fresh, stale, v1, st_Name st, idx), w1)
          else lookup_storers now sts key req v1 (Suc idx) w1)"

section \<open>Fresh responses\<close>

text \<open>The response is sent as it is, or as 304 when the client's entity tag still fits.\<close>

definition serve_etag_match ::
  "mw_env \<Rightarrow> flow \<Rightarrow> revalidator \<Rightarrow> response \<Rightarrow> string \<Rightarrow> custom_writer \<Rightarrow> 'w sys \<Rightarrow> 'w outcome" where
  "serve_etag_match e f v fresh storerName cw s =
     (let resp = SetCacheStatusHeader (fl_now f) fresh storerName;
          cw1 = copy_headers (resp_Header resp) cw
      in if rv_NotModified v then
           Ret (Inr None) (Send (me_serve e) (reset_buffer (cw_WriteHeader 304 cw1))) s
         else Ret (Inr None)
           (Send (me_serve e) (cw_Write (resp_Body resp) (cw_WriteHeader (resp_StatusCode resp) cw1))) s)"

definition serve_fresh_hit ::
  "mw_env \<Rightarrow> flow \<Rightarrow> response \<Rightarrow> custom_writer \<Rightarrow> 'w sys \<Rightarrow> 'w outcome" where
  "serve_fresh_hit e f resp cw s =
     Ret (Inr None)
       (Send (me_serve e) (cw_Write (resp_Body resp) (cw_WriteHeader (resp_StatusCode resp)
          (copy_headers (resp_Header resp) cw))))
       (sys_log (EvCount CachedResponseCounter) s)"

definition fresh_max_age_ok :: "flow \<Rightarrow> response \<Rightarrow> bool go" where
  "fresh_max_age_ok f resp =
     (if \<not> Strict (fl_mode f) then Inr True
      else case fl_requestCc f of
        None \<Rightarrow> Inl NilDeref
      | Some co \<Rightarrow> go_bind (ValidateMaxAgeCachedResponse co resp) (\<lambda>r. Inr (r \<noteq> None)))"

definition serve_fresh ::
  "mw_env \<Rightarrow> 'w handler \<Rightarrow> flow \<Rightarrow> string \<Rightarrow> revalidator \<Rightarrow> response \<Rightarrow> string \<Rightarrow> nat \<Rightarrow> custom_writer \<Rightarrow> 'w sys \<Rightarrow> 'w outcome" where
  "serve_fresh e h f headerName v fresh storerName idx cw s =
     (let s0 = sys_log (EvBackfill idx (fl_cachedKey f) (fl_req f) fresh) s;
          mode = fl_mode f
      in if rv_ResponseETag v \<noteq> [] \<and> rv_Matched v then serve_etag_match e f v fresh storerName cw s0
         else if \<not> Bypass_request mode \<and> rv_NeedRevalidation v then revalidate_send e h f v cw s0
         else
           let resCc = ParseResponseCacheControl (HeaderAllCommaSepValuesString (resp_Header fresh) headerName);
               serve = (let resp = SetCacheStatusHeader (fl_now f) fresh storerName
                        in case fresh_max_age_ok f resp of
                             Inl p \<Rightarrow> Ret (Inl p) cw s0
                           | Inr True \<Rightarrow> serve_fresh_hit e f resp cw s0
                           | Inr False \<Rightarrow> Cont cw s0)
           in if Bypass_response mode then serve
              else case resCc of
                None \<Rightarrow> Ret (Inl NilDeref) cw s0
              | Some rc \<Rightarrow>
                  if rs_NoCachePresent rc then revalidate_send e h f v cw (sys_log (EvCount NoCachedResponseCounter) s0)
                  else serve)"

section \<open>Stale responses\<close>

definition hit_stale :: "response \<Rightarrow> response" where
  "hit_stale resp = resp\<lparr>resp_Header := HitStaleCache (resp_Header resp)\<rparr>"

definition stored_ttl_seconds :: "response \<Rightarrow> int" where
  "stored_ttl_seconds resp =
     Seconds_trunc (duration_or_zero (ParseDuration (header_get (resp_Header resp) StoredTTLHeader)))"

text \<open>Status code, \<open>; fwd=stale\<close>, headers and body, in the order of the code.\<close>

definition serve_stale_hit :: "mw_env \<Rightarrow> response \<Rightarrow> custom_writer \<Rightarrow> 'w sys \<Rightarrow> 'w outcome" where
  "serve_stale_hit e resp cw s =
     (let resp1 = hit_stale resp
      in Ret (Inr None)
           (Send (me_serve e) (cw_Write (resp_Body resp1) (copy_headers (resp_Header resp1)
              (cw_WriteHeader (resp_StatusCode resp) cw)))) s)"

text \<open>The upstream failed: the stale response with the upstream's status in Cache-Status.\<close>

definition serve_stale_on_error :: "mw_env \<Rightarrow> response \<Rightarrow> int \<Rightarrow> custom_writer \<Rightarrow> 'w sys \<Rightarrow> 'w outcome" where
  "serve_stale_on_error e resp code cw s =
     (let h1 = HitStaleCache (resp_Header resp);
          h2 = header_set ''Cache-Status'' (header_get h1 ''Cache-Status'' @ ''; fwd-status='' @ Itoa code) h1
      in Ret (Inr None)
           (Send (me_serve e) (cw_Write (resp_Body resp) (reset_buffer
              (cw_WriteHeader (resp_StatusCode resp) (copy_headers h2 cw))))) s)"

text \<open>
  Stale-while-revalidate: the headers are copied before \<open>; fwd=stale\<close> is added, the response is
  sent, and the revalidation goes on in a goroutine with a writer of its own on the same server
  writer.
\<close>

definition serve_while_revalidate ::
  "mw_env \<Rightarrow> flow \<Rightarrow> revalidator \<Rightarrow> response \<Rightarrow> custom_writer \<Rightarrow> 'w sys \<Rightarrow> 'w outcome" where
  "serve_while_revalidate e f v resp cw s =
     (let cw1 = Send (me_serve e) (cw_Write (resp_Body resp)
            (cw_WriteHeader (resp_StatusCode resp) (copy_headers (resp_Header resp) cw)));
          bg = (NewCustomWriter (fl_req f) (cw_Rw cw1))\<lparr>cw_Done := cw_Done cw1\<rparr>
      in Ret (Inr None) cw1
           (sys_log (EvRevalidate v bg (fl_req f) (fl_requestCc f) (fl_cachedKey f) (fl_uri f)) s))"

definition add_if_none_match :: "string \<Rightarrow> request \<Rightarrow> request" where
  "add_if_none_match etag req =
     req\<lparr>req_Header := amap_put ''If-None-Match'' (header_index (req_Header req) ''If-None-Match'' @ [etag]) (req_Header req)\<rparr>"

definition client_conditional :: "revalidator \<Rightarrow> bool" where
  "client_conditional v \<longleftrightarrow> rv_IfNoneMatchPresent v \<or> rv_IfModifiedSincePresent v"

text \<open>What happens after the revalidation of a stale response returned without an error.\<close>

definition settle_stale_revalidation ::
  "mw_env \<Rightarrow> flow \<Rightarrow> revalidator \<Rightarrow> response \<Rightarrow> string \<Rightarrow> int \<Rightarrow> custom_writer \<Rightarrow> 'w sys \<Rightarrow> 'w outcome" where
  "settle_stale_revalidation e f v resp storerName code cw s =
     (if code = 304 \<and> (\<not> rv_Matched v \<or> \<not> client_conditional v) then
        (let resp1 = SetCacheStatusHeader (fl_later f) resp storerName
         in Ret (Inr None)
              (Send (me_serve e) (cw_Write (resp_Body resp1) (copy_headers (resp_Header resp1)
                 (cw_WriteHeader (resp_StatusCode resp1) cw)))) s)
      else if code \<noteq> 304 \<and> rv_Matched v \<and> client_conditional v then
        Ret (Inr None) (Send (me_serve e) (reset_buffer (cw_WriteHeader 304 cw))) s
      else Ret (Inr None) (Send (me_serve e) cw) s)"

definition serve_stale_revalidated ::
  "mw_env \<Rightarrow> 'w handler \<Rightarrow> flow \<Rightarrow> revalidator \<Rightarrow> response \<Rightarrow> string \<Rightarrow> response_directives \<Rightarrow> request_directives
     \<Rightarrow> custom_writer \<Rightarrow> 'w sys \<Rightarrow> 'w outcome" where
  "serve_stale_revalidated e h f v resp storerName rc co cw s =
     (let req1 = add_if_none_match (rv_ResponseETag v) (fl_req f);
          f1 = f\<lparr>fl_req := req1\<rparr>
      in case Revalidate e h (fl_roles f) v req1 (fl_requestCc f) (fl_cachedKey f) (fl_uri f)
             (cw\<lparr>cw_Req := req1\<rparr>) s of
           (Inl p, cw1, s1) \<Rightarrow> Ret (Inl p) cw1 s1
         | (Inr None, cw1, s1) \<Rightarrow> settle_stale_revalidation e f1 v resp storerName (cw_statusCode cw1) cw1 s1
         | (Inr (Some _), cw1, s1) \<Rightarrow>
             if -1 < rs_StaleIfError rc \<or> 0 < rq_StaleIfError co
             then serve_stale_on_error e resp (cw_statusCode cw1) cw1 s1
             else Ret (Inr None)
               (Send (me_serve e) (reset_buffer (cw1\<lparr>cw_Rw := rw_WriteHeader 504 (cw_Rw cw1)\<rparr>))) s1)"

text \<open>The branch of a request that accepts stale responses.\<close>

definition serve_max_stale ::
  "mw_env \<Rightarrow> 'w handler \<Rightarrow> flow \<Rightarrow> revalidator \<Rightarrow> response option \<Rightarrow> string \<Rightarrow> request_directives
     \<Rightarrow> custom_writer \<Rightarrow> 'w sys \<Rightarrow> 'w outcome" where
  "serve_max_stale e h f v stale storerName co cw s =
     (case stale of
        None \<Rightarrow> Cont cw s
      | Some resp0 \<Rightarrow>
          let (valid, resp1) = (if Strict (fl_mode f) then ValidateCacheControl (fl_now f) resp0 co else (True, resp0))
          in if \<not> valid then Cont cw s
             else
               let addTime = stored_ttl_seconds resp1;
                   resp = SetCacheStatusHeader (fl_now f) resp1 storerName
               in case ParseResponseCacheControl (HeaderAllCommaSepValuesString (resp_Header resp) ''Cache-Control'') of
                    None \<Rightarrow> Ret (Inl NilDeref) cw s
                  | Some rc \<Rightarrow>
                      if 0 < rs_StaleWhileRevalidate rc then serve_while_revalidate e f v resp cw s
                      else if Bypass_response (fl_mode f) \<or> rs_MustRevalidate rc \<or> rs_NoCachePresent rc
                              \<or> rv_NeedRevalidation v
                      then serve_stale_revalidated e h f v resp storerName rc co cw s
                      else if \<not> Strict (fl_mode f)
                              \<or> ValidateMaxAgeCachedStaleResponse co (Some rc) resp addTime \<noteq> None
                      then serve_stale_hit e resp cw s
                      else Cont cw s)"

text \<open>
  The last branch: a stale response and a request that does not accept one.  Under
  stale-if-error the upstream is asked; when it answers, the stage goes on, and so does the
  request, to the upstream once more.
\<close>

definition serve_stale_if_error ::
  "mw_env \<Rightarrow> 'w handler \<Rightarrow> flow \<Rightarrow> revalidator \<Rightarrow> response \<Rightarrow> string \<Rightarrow> request_directives
     \<Rightarrow> custom_writer \<Rightarrow> 'w sys \<Rightarrow> 'w outcome" where
  "serve_stale_if_error e h f v resp0 storerName co cw s =
     (if \<not> Strict (fl_mode f) then serve_stale_hit e (SetCacheStatusHeader (fl_now f) resp0 storerName) cw s
      else
        let addTime = stored_ttl_seconds resp0;
            rc0 = ParseResponseCacheControl (HeaderAllCommaSepValuesString (resp_Header resp0) ''Cache-Control'')
        in if ValidateMaxAgeCachedStaleResponse co rc0 resp0 addTime = None then Cont cw s
           else
             let resp = SetCacheStatusHeader (fl_now f) resp0 storerName
             in case ParseResponseCacheControl (HeaderAllCommaSepValuesString (resp_Header resp) ''Cache-Control'') of
                  None \<Rightarrow> Ret (Inl NilDeref) cw s
                | Some rc \<Rightarrow>
                    if \<not> (-1 < rs_StaleIfError rc \<or> 0 < rq_StaleIfError co) then Cont cw s
                    else case Revalidate e h (fl_roles f) v (fl_req f) (fl_requestCc f) (fl_cachedKey f) (fl_uri f) cw s of
                      (Inl p, cw1, s1) \<Rightarrow> Ret (Inl p) cw1 s1
                    | (Inr None, cw1, s1) \<Rightarrow> Cont cw1 s1
                    | (Inr (Some _), cw1, s1) \<Rightarrow> serve_stale_on_error e resp (cw_statusCode cw1) cw1 s1)"

section \<open>From the cache\<close>

definition fresh_acceptable :: "flow \<Rightarrow> response option \<Rightarrow> (response option) go" where
  "fresh_acceptable f fresh =
     (case fresh of
        None \<Rightarrow> Inr None
      | Some r \<Rightarrow>
          if \<not> Strict (fl_mode f) then Inr (Some r)
          else case fl_requestCc f of
            None \<Rightarrow> Inl NilDeref
          | Some co \<Rightarrow> (case ValidateCacheControl (fl_now f) r co of (ok, r') \<Rightarrow> Inr (if ok then Some r' else None)))"

definition serve_from_cache ::
  "mw_env \<Rightarrow> 'w handler \<Rightarrow> flow \<Rightarrow> revalidator \<Rightarrow> response option \<Rightarrow> response option \<Rightarrow> string \<Rightarrow> nat
     \<Rightarrow> custom_writer \<Rightarrow> 'w sys \<Rightarrow> 'w outcome" where
  "serve_from_cache e h f v fresh stale storerName idx cw s =
     (let headerName = fst (GetSurrogateControl (sh_SurrogateKeyStorer h) (cw_Header cw))
      in case fresh_acceptable f fresh of
           Inl p \<Rightarrow> Ret (Inl p) cw s
         | Inr (Some r) \<Rightarrow> serve_fresh e h f headerName v r storerName idx cw s
         | Inr None \<Rightarrow>
             (case fl_requestCc f of
                None \<Rightarrow> Ret (Inl NilDeref) cw s
              | Some co \<Rightarrow>
                  if \<not> rq_OnlyIfCached co \<and> (rq_MaxStaleSet co \<or> -1 < rq_MaxStale co)
                  then serve_max_stale e h f v stale storerName co cw s
                  else case stale of
                    None \<Rightarrow> Cont cw s
                  | Some resp \<Rightarrow> serve_stale_if_error e h f v resp storerName co cw s))"

definition cache_stage :: "mw_env \<Rightarrow> 'w handler \<Rightarrow> flow \<Rightarrow> custom_writer \<Rightarrow> 'w sys \<Rightarrow> 'w outcome" where
  "cache_stage e h f cw s =
     (let req = fl_req f;
          skip = (if Bypass_request (fl_mode f) then Inr False
                  else case fl_requestCc f of None \<Rightarrow> Inl NilDeref | Some co \<Rightarrow> Inr (rq_NoCache co))
      in case skip of
           Inl p \<Rightarrow> Ret (Inl p) cw s
         | Inr True \<Rightarrow> Cont cw s
         | Inr False \<Rightarrow>
             (case lookup_storers (fl_now f) (sh_Storers h) (hash_key e (cx_Hashed (req_ctx req)) (fl_cachedKey f))
                     req (ParseRequest req) 0 (sy_store s) of
                (Inl p, w1) \<Rightarrow> Ret (Inl p) cw (s\<lparr>sy_store := w1\<rparr>)
              | (Inr (fresh, stale, v, storerName, idx), w1) \<Rightarrow>
                  serve_from_cache e h f v fresh stale storerName idx cw (s\<lparr>sy_store := w1\<rparr>)))"

section \<open>From the upstream\<close>

text \<open>
  The upstream runs in a goroutine; \<open>race\<close> is the context's error when the context ends first.
  The goroutine then goes on with the writer as it is.
\<close>

definition deadline_answer :: "request \<Rightarrow> custom_writer \<Rightarrow> custom_writer" where
  "deadline_answer req cw =
     (let rw1 = rw_set_header ''Cache-Status''
            (cx_CacheName (req_ctx req) @ ''; fwd=bypass; detail=DEADLINE-EXCEEDED'') (cw_Rw cw)
      in cw\<lparr>cw_Rw := rw_Write ''Internal server error'' (rw_WriteHeader 504 rw1), cw_Done := True\<rparr>)"

definition upstream_stage ::
  "mw_env \<Rightarrow> 'w handler \<Rightarrow> flow \<Rightarrow> up_error option \<Rightarrow> custom_writer \<Rightarrow> 'w sys \<Rightarrow> up_error option go \<times> custom_writer \<times> 'w sys" where
  "upstream_stage e h f race cw s =
     (let s0 = sys_log (EvCount NoCachedResponseCounter) s;
          spawned = sys_log (EvUpstream cw (fl_req f) (fl_requestCc f) (fl_cachedKey f) (fl_uri f)) s0
      in case race of
           Some DeadlineExceeded \<Rightarrow> (Inr (Some DeadlineExceeded), deadline_answer (fl_req f) cw, spawned)
         | Some Canceled \<Rightarrow> (Inr (Some Canceled), cw\<lparr>cw_Done := True\<rparr>, spawned)
         | Some _ \<Rightarrow> (Inr None, cw\<lparr>cw_Done := True\<rparr>, spawned)
         | None \<Rightarrow>
             (case Upstream e h (fl_roles f) (fl_req f) (fl_requestCc f) (fl_cachedKey f) (fl_uri f) False cw s0 of
                (Inl p, cw1, s1) \<Rightarrow> (Inl p, cw1, s1)
              | (Inr None, cw1, s1) \<Rightarrow> (Inr None, Send (me_serve e) cw1, s1)
              | (Inr (Some Upstream50xError), cw1, s1) \<Rightarrow> (Inr None, Send (me_serve e) cw1, s1)
              | (Inr (Some err), cw1, s1) \<Rightarrow> (Inr (Some err), cw1, s1)))"

section \<open>Bypasses\<close>

type_synonym 'w served = "up_error option go \<times> response_writer \<times> 'w sys"

text \<open>A call of the upstream handler straight on the server's writer.\<close>

definition next_result :: "upstream_end \<Rightarrow> up_error option go" where
  "next_result ue = (case ue of NextOk \<Rightarrow> Inr None | NextErr t \<Rightarrow> Inr (Some (NextError t)) | _ \<Rightarrow> Inl HandlerPanic)"

definition call_direct :: "mw_env \<Rightarrow> request \<Rightarrow> response_writer \<Rightarrow> 'w sys \<Rightarrow> upstream_reply \<times> response_writer \<times> 'w sys" where
  "call_direct e rq rw s =
     (let reply = me_next e (sy_log s) rq
      in (reply, rw_calls (up_calls reply) rw, sys_log (EvNext rq) s))"

definition bypass_status :: "request \<Rightarrow> string \<Rightarrow> response_writer \<Rightarrow> response_writer" where
  "bypass_status req detail rw =
     rw_set_header ''Cache-Status'' (cx_CacheName (req_ctx req) @ ''; fwd=bypass; detail='' @ detail) rw"

definition excluded :: "mw_env \<Rightarrow> 'w handler \<Rightarrow> request \<Rightarrow> bool" where
  "excluded e h rq \<longleftrightarrow>
     header_get (req_Header rq) ''Upgrade'' = ''websocket''
     \<or> header_get (req_Header rq) ''Accept'' = ''text/event-stream''
     \<or> (case sh_ExcludeRegex h of None \<Rightarrow> False | Some p \<Rightarrow> re_MatchString (me_re e) p (req_RequestURI rq))"

definition serve_excluded :: "mw_env \<Rightarrow> request \<Rightarrow> response_writer \<Rightarrow> 'w sys \<Rightarrow> 'w served" where
  "serve_excluded e req rw s =
     (case call_direct e req (bypass_status req ''EXCLUDED-REQUEST-URI'' rw) s of
        (reply, rw1, s1) \<Rightarrow> (next_result (up_end reply), rw1, s1))"

text \<open>A bypass that also invalidates the groups the upstream's answer names.\<close>

definition serve_bypass ::
  "mw_env \<Rightarrow> 'w handler \<Rightarrow> request \<Rightarrow> string \<Rightarrow> response_writer \<Rightarrow> 'w sys \<Rightarrow> 'w served" where
  "serve_bypass e h req detail rw s =
     (case call_direct e req (bypass_status req detail rw) s of
        (reply, rw1, s1) \<Rightarrow>
          (case next_result (up_end reply) of
             Inl p \<Rightarrow> (Inl p, rw1, s1)
           | Inr err \<Rightarrow> (Inr err, rw1, invalidate_groups h (up_time reply) (req_Method req) (rw_Header rw1) s1)))"

definition set_contexts :: "mw_env \<Rightarrow> 'w handler \<Rightarrow> request \<Rightarrow> request \<Rightarrow> request" where
  "set_contexts e h req rq = fst (SetContext (me_re e) (me_replace_all e) (me_sha256_hex e) (sh_context h) req rq)"

definition key_of :: "request \<Rightarrow> string" where
  "key_of req = (case cx_Key (req_ctx req) of Some k \<Rightarrow> k | None \<Rightarrow> [])"

text \<open>A successful request with an unsupported method drops the mapping of the GET key.\<close>

definition serve_unsupported_method ::
  "mw_env \<Rightarrow> 'w handler \<Rightarrow> request \<Rightarrow> request \<Rightarrow> response_writer \<Rightarrow> 'w sys \<Rightarrow> 'w served" where
  "serve_unsupported_method e h req rq rw s =
     (case call_direct e req (bypass_status req ''UNSUPPORTED-METHOD'' rw) s of
        (reply, rw1, s1) \<Rightarrow>
          (case next_result (up_end reply) of
             Inl p \<Rightarrow> (Inl p, rw1, s1)
           | Inr err \<Rightarrow>
               let s2 = invalidate_groups h (up_time reply) (req_Method req) (rw_Header rw1) s1;
                   keyname = key_of (set_contexts e h (req\<lparr>req_Method := ''GET''\<rparr>) rq)
               in (Inr err, rw1,
                   if err = None \<and> req_Method req \<noteq> ''GET'' \<and> logged_status 0 (up_calls reply) < 400
                   then sys_store (\<lambda>w. fold (\<lambda>st. st_Delete st (MappingKeyPrefix @ keyname)) (sh_Storers h) w) s2
                   else s2)))"

section \<open>ServeHTTP\<close>

definition HandleInternally :: "'w handler \<Rightarrow> request \<Rightarrow> 'w http_handler option" where
  "HandleInternally h r =
     (case sh_InternalEndpointHandlers h of
        None \<Rightarrow> None
      | Some hs \<Rightarrow> map_option snd (find (\<lambda>(k, _). sublist k (req_RequestURI r)) hs))"

text \<open>The writer of the cached path: the Range header moves from the request to the writer.\<close>

definition cached_writer :: "request \<Rightarrow> response_writer \<Rightarrow> request \<times> custom_writer" where
  "cached_writer req rw =
     (let req1 = req\<lparr>req_Header := header_del ''Range'' (req_Header req)\<rparr>
      in (req1, (NewCustomWriter req1 rw)\<lparr>cw_Headers := header_add ''Range'' (header_get (req_Header req) ''Range'') []\<rparr>))"

definition serve_cached ::
  "mw_env \<Rightarrow> 'w handler \<Rightarrow> gtime \<Rightarrow> gtime \<Rightarrow> flight list \<Rightarrow> up_error option \<Rightarrow> request \<Rightarrow> request_directives option
     \<Rightarrow> response_writer \<Rightarrow> 'w sys \<Rightarrow> 'w served" where
  "serve_cached e h now later roles race req requestCc rw s =
     (let (req1, cw) = cached_writer req rw;
          f = \<lparr>fl_now = now, fl_later = later, fl_req = req1, fl_requestCc = requestCc, fl_cachedKey = key_of req,
               fl_uri = req_Path req, fl_roles = roles\<rparr>
      in case cache_stage e h f cw s of
           Ret r cw1 s1 \<Rightarrow> (r, cw_Rw cw1, s1)
         | Cont cw1 s1 \<Rightarrow> (case upstream_stage e h f race cw1 s1 of (r, cw2, s2) \<Rightarrow> (r, cw_Rw cw2, s2)))"

definition ServeHTTP ::
  "mw_env \<Rightarrow> 'w handler \<Rightarrow> gtime \<Rightarrow> gtime \<Rightarrow> flight list \<Rightarrow> up_error option \<Rightarrow> response_writer \<Rightarrow> request \<Rightarrow> 'w sys \<Rightarrow> 'w served" where
  "ServeHTTP e h now later roles race rw rq s =
     (case HandleInternally h rq of
        Some internal \<Rightarrow>
          (case internal now rq rw (sy_store s) of
             (Inl p, w1) \<Rightarrow> (Inl p, rw, s\<lparr>sy_store := w1\<rparr>)
           | (Inr rw1, w1) \<Rightarrow> (Inr None, rw1, s\<lparr>sy_store := w1\<rparr>))
      | None \<Rightarrow>
          let req = SetBaseContext now (sh_context h) rq
          in if excluded e h req then serve_excluded e req rw s
             else if \<not> cx_SupportedMethod (req_ctx req) then serve_unsupported_method e h req rq rw s
             else
               let requestCc = ParseRequestCacheControl (HeaderAllCommaSepValuesString (req_Header req) ''Cache-Control'')
               in if \<not> Bypass_request (cx_Mode (req_ctx req)) \<and> requestCc = None
                  then serve_bypass e h req ''CACHE-CONTROL-EXTRACTION-ERROR'' rw s
                  else
                    let req1 = set_contexts e h req rq
                    in if cx_IsMutationRequest (req_ctx req1)
                       then serve_bypass e h req1 ''IS-MUTATION-REQUEST'' rw s
                       else serve_cached e h now later roles race req1 requestCc rw s)"

section \<open>The goroutines\<close>

text \<open>What a logged goroutine does when it runs, at time \<open>now\<close>, in some later state of the storers.\<close>

definition run_event :: "mw_env \<Rightarrow> 'w handler \<Rightarrow> gtime \<Rightarrow> flight list \<Rightarrow> string \<Rightarrow> event \<Rightarrow> 'w sys \<Rightarrow> 'w sys" where
  "run_event e h now roles left ev s =
     (case ev of
        EvBackfill idx key req resp \<Rightarrow> s\<lparr>sy_store := snd (backfillStorers e h now idx key req resp left (sy_store s))\<rparr>
      | EvSurrogateStore hdr key uri \<Rightarrow>
          s\<lparr>sy_store := snd (sp_Store now (sh_SurrogateKeyStorer h) hdr key uri (sy_store s))\<rparr>
      | EvRevalidate v cw req co key uri \<Rightarrow> (case Revalidate e h roles v req co key uri cw s of (_, _, s1) \<Rightarrow> s1)
      | EvUpstream cw req co key uri \<Rightarrow> (case Upstream e h roles req co key uri False cw s of (_, _, s1) \<Rightarrow> s1)
      | _ \<Rightarrow> s)"

end
