(* ===== verification/ServeLaws.thy ===== *)
theory ServeLaws
  imports Serve UpstreamLaws
begin

text \<open>
  What a client gets from \<open>ServeHTTP\<close>: answers from the cache, from the upstream, when the
  deadline passes, when the upstream fails or aborts, and how the storers change with them.
\<close>

section \<open>Writers before and after Send\<close>

text \<open>A writer on which nothing was sent yet, for a request without a range.\<close>

definition pristine :: "custom_writer \<Rightarrow> bool" where
  "pristine cw \<longleftrightarrow> \<not> cw_headersSent cw \<and> rw_Sent (cw_Rw cw) = None \<and> rw_Body (cw_Rw cw) = []
     \<and> header_get (cw_Headers cw) ''Range'' = []"

lemma pristine_ops [simp]:
  "pristine (cw_Write b cw) = pristine cw" "pristine (cw_WriteHeader code cw) = pristine cw"
  "pristine (cw_update_Header f cw) = pristine cw" "pristine (reset_buffer cw) = pristine cw"
  "pristine (copy_headers h cw) = pristine cw" "pristine (cw_Set k v cw) = pristine cw"
  "pristine (cw\<lparr>cw_Req := rq\<rparr>) = pristine cw" "pristine (cw\<lparr>cw_Done := d\<rparr>) = pristine cw" "pristine (load_value val cw) = pristine cw"
  by (auto simp: pristine_def cw_Write_def cw_WriteHeader_def cw_update_Header_def reset_buffer_def copy_headers_def
      cw_Set_def load_value_def)

lemma buffer_ops [simp]:
  "cw_Buf (cw_Write b cw) = cw_Buf cw @ b" "cw_Buf (cw_WriteHeader code cw) = cw_Buf cw"
  "cw_Buf (cw_update_Header f cw) = cw_Buf cw" "cw_Buf (reset_buffer cw) = []"
  "cw_Buf (copy_headers h cw) = cw_Buf cw"
  by (auto simp: cw_Write_def cw_WriteHeader_def cw_update_Header_def reset_buffer_def copy_headers_def)

lemma status_ops [simp]:
  "cw_statusCode (cw_Write b cw) = cw_statusCode cw" "cw_statusCode (cw_update_Header f cw) = cw_statusCode cw"
  "cw_statusCode (reset_buffer cw) = cw_statusCode cw" "cw_statusCode (copy_headers h cw) = cw_statusCode cw"
  "pristine cw \<Longrightarrow> cw_statusCode (cw_WriteHeader code cw) = code"
  by (auto simp: pristine_def cw_Write_def cw_WriteHeader_def cw_update_Header_def reset_buffer_def copy_headers_def)

lemma Send_answers:
  assumes "pristine cw"
  shows "rw_status (cw_Rw (Send serve cw)) = Some (cw_statusCode cw)"
    and "rw_Body (cw_Rw (Send serve cw)) = cw_Buf cw"
  using assms
  by (auto simp: pristine_def rw_status_def Send_def send_plain_def Let_def cw_update_Header_def cw_Set_def
      cw_detached_def rw_WriteHeader_def rw_Write_def)

lemma pristine_cached_writer:
  assumes "header_get (req_Header req) ''Range'' = []" "rw_Sent rw = None" "rw_Body rw = []"
  shows "pristine (snd (cached_writer req rw))" "cw_Buf (snd (cached_writer req rw)) = []"
    "cw_statusCode (snd (cached_writer req rw)) = 200"
proof -
  have "CanonicalHeaderKey ''Range'' = ''Range''" by code_simp
  then show "pristine (snd (cached_writer req rw))" "cw_Buf (snd (cached_writer req rw)) = []"
    "cw_statusCode (snd (cached_writer req rw)) = 200"
    using assms
    by (simp_all add: pristine_def cached_writer_def Let_def NewCustomWriter_def header_add_def header_get_def
        header_values_def)
qed

text \<open>What an upstream handler writes to the body.\<close>

fun written :: "writer_call list \<Rightarrow> string" where
  "written [] = []"
| "written (CallWrite b # cs) = b @ written cs"
| "written (_ # cs) = written cs"

lemma cw_calls_simps [simp]: "cw_calls [] cw = cw" "cw_calls (c # cs) cw = cw_calls cs (cw_call c cw)"
  by (simp_all add: cw_calls_def)

lemma cw_calls_buffer [simp]: "cw_Buf (cw_calls cs cw) = cw_Buf cw @ written cs"
proof (induction cs arbitrary: cw)
  case (Cons c cs)
  then show ?case by (cases c) auto
qed simp

lemma cw_calls_pristine [simp]: "pristine (cw_calls cs cw) = pristine cw"
proof (induction cs arbitrary: cw)
  case (Cons c cs)
  then show ?case by (cases c) auto
qed simp

section \<open>Answers without the upstream\<close>

lemma SetCacheStatusHeader_same [simp]:
  "resp_Body (SetCacheStatusHeader now r name) = resp_Body r"
  "resp_StatusCode (SetCacheStatusHeader now r name) = resp_StatusCode r"
  by (simp_all add: SetCacheStatusHeader_def Let_def)

lemma hit_stale_same [simp]: "resp_Body (hit_stale r) = resp_Body r" "resp_StatusCode (hit_stale r) = resp_StatusCode r"
  by (simp_all add: hit_stale_def)

lemma ValidateCacheControl_same:
  "ValidateCacheControl now r co = (ok, r') \<Longrightarrow> resp_Body r' = resp_Body r \<and> resp_StatusCode r' = resp_StatusCode r"
  by (auto simp: ValidateCacheControl_def split: if_splits option.splits)

lemma fresh_acceptable_same:
  "fresh_acceptable f fresh = Inr (Some r) \<Longrightarrow>
     \<exists>r0. fresh = Some r0 \<and> resp_Body r = resp_Body r0 \<and> resp_StatusCode r = resp_StatusCode r0"
  by (auto simp: fresh_acceptable_def dest!: ValidateCacheControl_same split: option.splits if_splits prod.splits)

text \<open>An answer that is the stored response itself, or tells the client that its copy is current.\<close>

definition answers :: "response \<Rightarrow> custom_writer \<Rightarrow> bool" where
  "answers r cw \<longleftrightarrow>
     (rw_status (cw_Rw cw) = Some (resp_StatusCode r) \<and> rw_Body (cw_Rw cw) = resp_Body r)
     \<or> (rw_status (cw_Rw cw) = Some 304 \<and> rw_Body (cw_Rw cw) = [])"

text \<open>A stage that does not call the upstream returns nothing but an answer from \<open>r\<close>.\<close>

definition answers_only :: "response \<Rightarrow> 'w sys \<Rightarrow> 'w outcome \<Rightarrow> bool" where
  "answers_only r s o' \<longleftrightarrow>
     (\<forall>cw' s'. o' = Ret (Inr None) cw' s' \<longrightarrow> next_calls s' \<le> next_calls s \<longrightarrow> answers r cw')"

lemma answers_only_same:
  "resp_Body r = resp_Body r0 \<Longrightarrow> resp_StatusCode r = resp_StatusCode r0 \<Longrightarrow> answers_only r s out = answers_only r0 s out"
  by (simp add: answers_only_def answers_def)

lemma revalidate_landed_calls:
  "revalidate_landed e h v now err rq co key uri cw s = (fl, cw', s') \<Longrightarrow> next_calls s' = next_calls s"
  by (auto simp: revalidate_landed_def early_answer_def Let_def dest!: Store_next_calls
      split: if_splits prod.splits sum.splits)

lemma revalidate_leader_calls:
  "revalidate_leader e h v rq co key uri cw s = (fl, cw', s') \<Longrightarrow> next_calls s' = Suc (next_calls s)"
  by (auto simp: revalidate_leader_def call_next_def Let_def dest!: revalidate_landed_calls
      split: upstream_end.splits prod.splits)

lemma Revalidate_calls:
  assumes "first_role h roles = Lead b" "Revalidate e h roles v rq co key uri cw s = (r, cw', s')"
  shows "next_calls s' = Suc (next_calls s)"
  using assms
  by (auto simp: Revalidate_def dest!: revalidate_leader_calls split: prod.splits flight_end.splits)

lemma revalidate_send_calls:
  "first_role h (fl_roles f) = Lead b \<Longrightarrow> answers_only r s (revalidate_send e h f v cw s)"
  by (auto simp: answers_only_def revalidate_send_def dest!: Revalidate_calls split: prod.splits sum.splits)

lemma serve_fresh_answers:
  assumes "pristine cw" "cw_Buf cw = []" "first_role h (fl_roles f) = Lead b"
  shows "answers_only fresh s (serve_fresh e h f hn v fresh name idx cw s)"
proof -
  have rs: "answers_only fresh s (revalidate_send e h f v cw s1)" if "next_calls s1 = next_calls s" for s1
    using revalidate_send_calls[OF assms(3), of fresh s1 e v cw] that by (simp add: answers_only_def)
  have etag: "answers_only fresh s (serve_etag_match e f v fresh name cw s1)" for s1
    using assms by (auto simp: answers_only_def serve_etag_match_def answers_def Let_def Send_answers)
  have hit: "answers_only fresh s (serve_fresh_hit e f (SetCacheStatusHeader (fl_now f) fresh name) cw s1)" for s1
    using assms by (auto simp: answers_only_def serve_fresh_hit_def answers_def Send_answers)
  have other: "answers_only fresh s (Ret (Inl p) cw s1)" "answers_only fresh s (Cont cw s1)" for p s1
    by (simp_all add: answers_only_def)
  show ?thesis
    by (auto simp: serve_fresh_def Let_def intro!: rs etag hit other split: sum.split bool.split option.split)
qed

lemma serve_stale_hit_answers:
  "pristine cw \<Longrightarrow> cw_Buf cw = [] \<Longrightarrow> answers_only r s (serve_stale_hit e (SetCacheStatusHeader now r name) cw s1)"
  by (auto simp: answers_only_def serve_stale_hit_def answers_def Let_def Send_answers)

lemma while_revalidate_answers:
  "pristine cw \<Longrightarrow> cw_Buf cw = [] \<Longrightarrow> answers_only r s (serve_while_revalidate e f v (SetCacheStatusHeader now r name) cw s1)"
  by (auto simp: answers_only_def serve_while_revalidate_def answers_def Let_def Send_answers)

lemma answers_only_more [simp]:
  "next_calls s < next_calls s1 \<Longrightarrow> answers_only r s (Ret x cw1 s1)"
  "answers_only r s (Ret (Inl p) cw1 s1)" "answers_only r s (Cont cw1 s1)"
  by (simp_all add: answers_only_def)

lemma settle_answers_more [simp]:
  "next_calls s < next_calls s1 \<Longrightarrow> answers_only r s (settle_stale_revalidation e f v resp name code cw1 s1)"
  "next_calls s < next_calls s1 \<Longrightarrow> answers_only r s (serve_stale_on_error e resp code cw1 s1)"
  by (simp_all add: settle_stale_revalidation_def serve_stale_on_error_def Let_def)

lemma stale_revalidated_calls:
  assumes "first_role h (fl_roles f) = Lead b"
  shows "answers_only r s (serve_stale_revalidated e h f v resp name rc co cw s)"
proof -
  obtain res cw1 s1 where R: "Revalidate e h (fl_roles f) v (add_if_none_match (rv_ResponseETag v) (fl_req f))
      (fl_requestCc f) (fl_cachedKey f) (fl_uri f) (cw\<lparr>cw_Req := add_if_none_match (rv_ResponseETag v) (fl_req f)\<rparr>) s
    = (res, cw1, s1)" by (metis prod_cases3)
  note [simp] = Revalidate_calls[OF assms R]
  show ?thesis
    by (cases res) (simp_all add: serve_stale_revalidated_def Let_def R split: option.split)
qed

lemma serve_max_stale_answers:
  assumes "pristine cw" "cw_Buf cw = []" "first_role h (fl_roles f) = Lead b"
  shows "answers_only resp0 s (serve_max_stale e h f v (Some resp0) name co cw s)"
proof -
  obtain ok resp1 where v: "(if Strict (fl_mode f) then ValidateCacheControl (fl_now f) resp0 co else (True, resp0)) = (ok, resp1)"
    by fastforce
  have same: "answers_only resp0 s out = answers_only resp1 s out" for out :: "'a outcome"
    using v by (intro answers_only_same) (auto dest!: ValidateCacheControl_same split: if_splits)
  show ?thesis
    unfolding same
    by (auto simp: serve_max_stale_def v Let_def assms intro!: serve_stale_hit_answers while_revalidate_answers
        stale_revalidated_calls[OF assms(3)] split: option.split)
qed

lemma serve_stale_if_error_answers:
  assumes "pristine cw" "cw_Buf cw = []" "first_role h (fl_roles f) = Lead b"
  shows "answers_only resp0 s (serve_stale_if_error e h f v resp0 name co cw s)"
proof -
  obtain res cw1 s1 where R: "Revalidate e h (fl_roles f) v (fl_req f) (fl_requestCc f) (fl_cachedKey f) (fl_uri f) cw s
    = (res, cw1, s1)" by (metis prod_cases3)
  note [simp] = Revalidate_calls[OF assms(3) R]
  show ?thesis
    by (cases res)
      (auto simp: serve_stale_if_error_def Let_def R assms intro!: serve_stale_hit_answers split: option.split)
qed

lemma serve_from_cache_answers:
  assumes "pristine cw" "cw_Buf cw = []" "first_role h (fl_roles f) = Lead b"
    and "serve_from_cache e h f v fresh stale name idx cw s = Ret (Inr None) cw' s'" "next_calls s' \<le> next_calls s"
  shows "\<exists>r. (fresh = Some r \<or> stale = Some r) \<and> answers r cw'"
proof (cases "fresh_acceptable f fresh")
  case (Inl p)
  then show ?thesis using assms by (simp add: serve_from_cache_def Let_def)
next
  case (Inr x)
  show ?thesis
  proof (cases x)
    case (Some r)
    obtain r0 where r0: "fresh = Some r0" "resp_Body r = resp_Body r0" "resp_StatusCode r = resp_StatusCode r0"
      using fresh_acceptable_same Inr Some by blast
    have "answers_only r s (serve_from_cache e h f v fresh stale name idx cw s)"
      using serve_fresh_answers[OF assms(1-3)] Inr Some by (simp add: serve_from_cache_def Let_def)
    then have "answers r cw'" using assms by (simp add: answers_only_def)
    then show ?thesis using r0 by (auto simp: answers_def)
  next
    case None
    then show ?thesis
      using assms Inr serve_max_stale_answers[OF assms(1-3), of _ s e v name]
        serve_stale_if_error_answers[OF assms(1-3), of _ s e v name]
      by (cases stale; cases "fl_requestCc f")
        (auto simp: serve_from_cache_def Let_def answers_only_def serve_max_stale_def split: if_splits)
  qed
qed


text \<open>
  What the strict mode asks of a fresh response: the request sets no \<open>min-fresh\<close>, the Cache-Control of
  the response is well formed, and its age is within the limits of both.
\<close>

definition strict_accepts :: "gtime \<Rightarrow> request_directives \<Rightarrow> response \<Rightarrow> string \<Rightarrow> bool" where
  "strict_accepts now co resp name \<longleftrightarrow>
     rq_MinFresh co < 0
     \<and> ParseResponseCacheControl (HeaderAllCommaSepValuesString (resp_Header resp) ''Cache-Control'') \<noteq> None
     \<and> (case ValidateMaxAgeCachedResponse co (SetCacheStatusHeader now resp name) of Inr (Some _) \<Rightarrow> True | _ \<Rightarrow> False)"

lemma strict_accepts_fresh:
  assumes "fl_requestCc f = Some co" "Strict (fl_mode f) \<longrightarrow> strict_accepts (fl_now f) co resp name"
  shows "fresh_acceptable f (Some resp) = Inr (Some resp)"
    and "fresh_max_age_ok f (SetCacheStatusHeader (fl_now f) resp name) = Inr True"
  using assms
  by (auto simp: strict_accepts_def fresh_acceptable_def ValidateCacheControl_def fresh_max_age_ok_def
      split: sum.splits option.splits)

lemma fresh_hit_stage:
  assumes "fl_requestCc f = Some co" "\<not> rq_NoCache co" "Strict (fl_mode f) \<longrightarrow> strict_accepts (fl_now f) co fresh name"
    and "lookup_storers (fl_now f) (sh_Storers h) (hash_key e (cx_Hashed (req_ctx (fl_req f))) (fl_cachedKey f)) (fl_req f)
      (ParseRequest (fl_req f)) 0 (sy_store s) = (Inr (Some fresh, stale, v, name, idx), w1)"
    and "rv_ResponseETag v = [] \<or> \<not> rv_Matched v" "\<not> rv_NeedRevalidation v"
    and "ParseResponseCacheControl (HeaderAllCommaSepValuesString (resp_Header fresh)
      (fst (GetSurrogateControl (sh_SurrogateKeyStorer h) (cw_Header cw)))) = Some rc" "\<not> rs_NoCachePresent rc"
  shows "cache_stage e h f cw s = serve_fresh_hit e f (SetCacheStatusHeader (fl_now f) fresh name) cw
    (sys_log (EvBackfill idx (fl_cachedKey f) (fl_req f) fresh) (s\<lparr>sy_store := w1\<rparr>))"
proof -
  have e: "rv_Matched v \<longrightarrow> rv_ResponseETag v = []" using assms(5) by blast
  show ?thesis
    using assms(1,2,4,6-) e strict_accepts_fresh[OF assms(1,3)]
    by (auto simp: cache_stage_def serve_from_cache_def serve_fresh_def Let_def)
qed

text \<open>
  A request that does not forbid it and finds a fresh response needing no revalidation is
  answered with the stored status and body, without a call of the upstream handler.
\<close>

theorem fresh_hit_served:
  assumes "pristine cw" "cw_Buf cw = []" "fl_requestCc f = Some co" "\<not> rq_NoCache co"
    and "Strict (fl_mode f) \<longrightarrow> strict_accepts (fl_now f) co fresh name"
    and "lookup_storers (fl_now f) (sh_Storers h) (hash_key e (cx_Hashed (req_ctx (fl_req f))) (fl_cachedKey f)) (fl_req f)
      (ParseRequest (fl_req f)) 0 (sy_store s) = (Inr (Some fresh, stale, v, name, idx), w1)"
    and "rv_ResponseETag v = [] \<or> \<not> rv_Matched v" "\<not> rv_NeedRevalidation v"
    and "ParseResponseCacheControl (HeaderAllCommaSepValuesString (resp_Header fresh)
      (fst (GetSurrogateControl (sh_SurrogateKeyStorer h) (cw_Header cw)))) = Some rc" "\<not> rs_NoCachePresent rc"
  shows "\<exists>cw' s'. cache_stage e h f cw s = Ret (Inr None) cw' s' \<and> rw_status (cw_Rw cw') = Some (resp_StatusCode fresh)
    \<and> rw_Body (cw_Rw cw') = resp_Body fresh \<and> sy_store s' = w1 \<and> next_calls s' = next_calls s"
  using assms(1,2) fresh_hit_stage[OF assms(3-)]
  by (simp add: serve_fresh_hit_def Send_answers sys_log_def next_calls_def)

section \<open>Answers of the upstream\<close>

lemma upstream_stage_leader:
  assumes "fl_roles f = []"
  shows "upstream_stage e h f None cw s =
    (case upstream_alone e h (fl_req f) (fl_requestCc f) (fl_cachedKey f) (fl_uri f) cw
        (sys_log (EvCount NoCachedResponseCounter) s) of
       (Inl p, cw1, s1) \<Rightarrow> (Inl p, cw1, s1)
     | (Inr None, cw1, s1) \<Rightarrow> (Inr None, Send (me_serve e) cw1, s1)
     | (Inr (Some Upstream50xError), cw1, s1) \<Rightarrow> (Inr None, Send (me_serve e) cw1, s1)
     | (Inr (Some err), cw1, s1) \<Rightarrow> (Inr (Some err), cw1, s1))"
  using assms by (cases "alone h False") (simp_all add: upstream_stage_def Upstream_def Let_def)

text \<open>
  C33. An upstream handler that aborts is answered as a success: the status and the part of the
  body it had written are sent, and no error is returned; nothing is stored.
\<close>

theorem aborted_upstream_sent_as_success:
  assumes "pristine cw" "cw_Buf cw = []" "fl_roles f = []"
    and "me_next e (sy_log (sys_log (EvCount RequestCounter) (sys_log (EvCount NoCachedResponseCounter) s))) (fl_req f) = reply"
    and "up_end reply = NextAbort"
  shows "\<exists>cw' s'. upstream_stage e h f None cw s = (Inr None, cw', s')
    \<and> rw_status (cw_Rw cw') = Some (cw_statusCode (cw_calls (up_calls reply) cw))
    \<and> rw_Body (cw_Rw cw') = written (up_calls reply) \<and> sy_store s' = sy_store s"
proof -
  have p: "pristine ((cw_calls (up_calls reply) cw)\<lparr>cw_Done := up_done reply\<rparr>)" using assms(1) by simp
  show ?thesis
    using assms Send_answers[OF p, of "me_serve e"]
    by (simp add: upstream_stage_leader upstream_alone_def upstream_round_def upstream_leader_def call_next_def
        upstream_settle_def Let_def) (simp add: sys_log_def)
qed

text \<open>
  C34. A request that waited for a flight which failed with a 5xx status is answered with status 200
  and an empty body.
\<close>

theorem follower_of_failed_flight_gets_200:
  assumes "pristine cw" "cw_Buf cw = []" "cw_statusCode cw = 200" "\<not> alone h False"
    and "fl_roles f = Follow None (Some Upstream50xError) # roles"
  shows "\<exists>cw' s'. upstream_stage e h f None cw s = (Inr None, cw', s')
    \<and> rw_status (cw_Rw cw') = Some 200 \<and> rw_Body (cw_Rw cw') = []"
  using assms Send_answers[OF assms(1), of "me_serve e"]
  by (simp add: upstream_stage_def Upstream_def upstream_round_def upstream_settle_def)

text \<open>
  C18. When the deadline passes first, the client gets 504 with a fixed text and the caller the
  error; the storers have not changed and the upstream was left to a goroutine that can no longer
  reach the client's headers.
\<close>

theorem deadline_gives_504:
  assumes "pristine cw" "upstream_stage e h f (Some DeadlineExceeded) cw s = (r, cw', s')"
  shows "r = Inr (Some DeadlineExceeded) \<and> rw_status (cw_Rw cw') = Some 504
    \<and> rw_Body (cw_Rw cw') = ''Internal server error'' \<and> sy_store s' = sy_store s
    \<and> next_calls s' = next_calls s \<and> cw_detached cw'"
  using assms
  by (auto simp: upstream_stage_def deadline_answer_def Let_def pristine_def rw_status_def rw_set_header_def
      rw_WriteHeader_def rw_Write_def cw_detached_def next_calls_def sys_log_def)

section \<open>Stale if error\<close>

lemma pristine_only_header: "only_header_changed cw cw' \<Longrightarrow> pristine cw' = pristine cw"
  by (auto simp: only_header_changed_def pristine_def)

lemma Store_keeps:
  assumes "Store e h now rq co key uri cw s = (r, cw', s')"
  shows "pristine cw' = pristine cw" "cw_Buf cw' = cw_Buf cw"
  using Store_writer[OF assms] pristine_only_header only_header_changed_fields by blast+

lemma Store_error:
  assumes "Store e h now rq co key uri cw s = (Inr (Some err), cw', s')"
  shows "\<not> cacheable_status h (cw_statusCode cw)" "is_upstream_error (cw_statusCode cw)"
  using assms
  by (auto simp: Store_def store_admission_def Let_def split: if_splits option.splits prod.splits sum.splits bool.splits)

lemma cache_status_miss_keeps [simp]:
  "pristine (cache_status_miss rq d cw) = pristine cw" "cw_Buf (cache_status_miss rq d cw) = cw_Buf cw"
  by (simp_all add: cache_status_miss_def cw_Set_def)

lemma revalidation_status_keeps [simp]:
  "pristine (revalidation_status rq code cw) = pristine cw" "cw_Buf (revalidation_status rq code cw) = cw_Buf cw"
  by (simp_all add: revalidation_status_def cw_Set_def)

text \<open>A revalidation without an error hands on the body that the upstream wrote.\<close>

definition hands_on :: "custom_writer \<Rightarrow> string \<Rightarrow> flight_end \<Rightarrow> custom_writer \<Rightarrow> bool" where
  "hands_on cw b fl cw' \<longleftrightarrow>
     (\<forall>val. fl = Landed val None \<longrightarrow> (\<exists>x. val = Some x \<and> sf_body x = b \<and> pristine cw' = pristine cw))"

lemma revalidate_landed_body:
  assumes "revalidate_landed e h v now err rq co key uri cw s = (fl, cw', s')"
  shows "hands_on cw (cw_Buf cw) fl cw'"
proof (cases "Store e h now rq co key uri cw s")
  case (fields r cw1 s1)
  show ?thesis
    using assms Store_keeps[OF fields]
    by (cases r) (auto simp: revalidate_landed_def early_answer_def Let_def fields hands_on_def split: if_splits)
qed

lemma revalidate_leader_body:
  assumes "revalidate_leader e h v rq co key uri cw s = (fl, cw', s')"
  shows "hands_on cw (cw_Buf cw @ written (up_calls (me_next e (sy_log s) rq))) fl cw'"
proof -
  let ?reply = "me_next e (sy_log s) rq"
  have l: "hands_on cw (cw_Buf cw @ written (up_calls ?reply)) fl cw'"
    if "revalidate_landed e h v now err rq co key uri ((cw_calls (up_calls ?reply) cw)\<lparr>cw_Done := up_done ?reply\<rparr>) s1
      = (fl, cw', s')" for now err s1
    using revalidate_landed_body[OF that] by (simp add: hands_on_def)
  show ?thesis
    using assms l by (cases "up_end ?reply") (auto simp: revalidate_leader_def call_next_def Let_def hands_on_def)
qed

lemma Revalidate_body:
  assumes "Revalidate e h [] v rq co key uri cw s = (Inr None, cw', s')"
  shows "pristine cw' = pristine cw"
    and "cw_Buf cw' = cw_Buf cw @ written (up_calls (me_next e (sy_log (sys_log (EvCount RequestRevalidationCounter) s)) rq))"
proof -
  let ?s = "sys_log (EvCount RequestRevalidationCounter) s"
  obtain fl cw1 s1 where R: "revalidate_leader e h v rq co key uri cw ?s = (fl, cw1, s1)" by (metis prod_cases3)
  have "first_role h [] = Lead False" by (simp add: first_role_def)
  then obtain val where v: "fl = Landed val None" "cw' = (case val of None \<Rightarrow> cw1 | Some x \<Rightarrow> load_value x cw1)"
    using assms R by (cases fl) (auto simp: Revalidate_def Let_def)
  then obtain x where "val = Some x" "sf_body x = cw_Buf cw @ written (up_calls (me_next e (sy_log ?s) rq))"
    "pristine cw1 = pristine cw"
    using revalidate_leader_body[OF R] by (auto simp: hands_on_def)
  then show "pristine cw' = pristine cw"
    "cw_Buf cw' = cw_Buf cw @ written (up_calls (me_next e (sy_log ?s) rq))"
    using v by (simp_all add: load_value_fields)
qed

lemma upstream_landed_body:
  assumes "upstream_landed e h now rq co key uri cw s = (fl, cw', s')" and "fl \<in> {Landed val None, Landed val (Some Upstream50xError)}"
  shows "pristine cw' = pristine cw" and "(case val of None \<Rightarrow> cw_Buf cw' | Some x \<Rightarrow> sf_body x) = cw_Buf cw"
    and "fl = Landed (Some x) err \<Longrightarrow> err = None"
proof -
  let ?cw1 = "if cacheable_status h (cw_statusCode cw) then cw else cache_status_miss rq ''UNCACHEABLE-STATUS-CODE'' cw"
  obtain hn cc where g: "GetSurrogateControl (sh_SurrogateKeyStorer h) (cw_Header ?cw1) = (hn, cc)" by fastforce
  let ?cw2 = "if cc = [] then cw_Set hn (url_DefaultCacheControl (sh_DefaultMatchedUrl h)) ?cw1 else ?cw1"
  have k: "cw_statusCode ?cw2 = cw_statusCode cw" "cw_Buf ?cw2 = cw_Buf cw" "pristine ?cw2 = pristine cw"
    by (auto simp: cache_status_miss_def cw_Set_def)
  obtain r cw3 s3 where st: "Store e h now rq co key uri ?cw2 s = (r, cw3, s3)" by (metis prod_cases3)
  note keep = Store_keeps[OF st, unfolded k]
  have no_err: "r \<noteq> Inr (Some y)" if "cacheable_status h (cw_statusCode cw) \<or> \<not> is_upstream_error (cw_statusCode cw)" for y
    using Store_error[of e h now rq co key uri ?cw2 s y cw3 s3] st that unfolding k by blast
  show "pristine cw' = pristine cw" "(case val of None \<Rightarrow> cw_Buf cw' | Some x \<Rightarrow> sf_body x) = cw_Buf cw"
    "fl = Landed (Some x) err \<Longrightarrow> err = None"
    using assms st keep no_err
    by (auto simp: upstream_landed_def Let_def g split: if_splits sum.splits option.splits)
qed

lemma upstream_alone_body:
  assumes "upstream_alone e h rq co key uri cw s = (Inr x, cw', s')" "x \<in> {None, Some Upstream50xError}"
  shows "pristine cw' = pristine cw"
    and "cw_Buf cw' = cw_Buf cw @ written (up_calls (me_next e (sy_log (sys_log (EvCount RequestCounter) s)) rq))"
proof -
  let ?reply = "me_next e (sy_log (sys_log (EvCount RequestCounter) s)) rq"
  let ?cw = "(cw_calls (up_calls ?reply) cw)\<lparr>cw_Done := up_done ?reply\<rparr>"
  obtain fl cw1 s1 where L: "upstream_leader e h rq co key uri cw (sys_log (EvCount RequestCounter) s) = (fl, cw1, s1)"
    by (metis prod_cases3)
  have no_retry: "fst (upstream_settle rq False fl cw1) \<noteq> Retry b" for b
    using leader_round(3)[of e h False rq co key uri cw s "fst (upstream_settle rq False fl cw1)"
        "snd (upstream_settle rq False fl cw1)" s1 b] L
    by (simp add: upstream_round_def Let_def case_prod_beta)
  then obtain r where S: "upstream_settle rq False fl cw1 = (Done (Inr x), cw')" and s': "s' = s1"
    using assms(1) L by (auto simp: upstream_alone_def upstream_round_def Let_def split: prod.splits round_end.splits)
  have "pristine cw' = pristine cw \<and> cw_Buf cw' = cw_Buf cw @ written (up_calls ?reply)"
  proof (cases "up_end ?reply")
    case NextOk
    then obtain s2 where l: "upstream_landed e h (up_time ?reply) rq co key uri ?cw s2 = (fl, cw1, s1)"
      using L by (auto simp: upstream_leader_def call_next_def Let_def)
    show ?thesis
    proof (cases fl)
      case (Landed val err)
      then have "err = x" using S by (auto simp: upstream_settle_def split: option.splits if_splits)
      then show ?thesis
        using S upstream_landed_body[OF l, of val] assms(2) Landed
        by (cases val; cases x) (auto simp: upstream_settle_def load_value_fields split: if_splits)
    qed (use S l in \<open>auto simp: upstream_settle_def upstream_landed_def Let_def split: prod.splits sum.splits if_splits\<close>)
  qed (use S L assms(2) in \<open>auto simp: upstream_leader_def call_next_def Let_def upstream_settle_def\<close>)
  then show "pristine cw' = pristine cw" "cw_Buf cw' = cw_Buf cw @ written (up_calls ?reply)" by simp_all
qed

lemma stale_if_error_cont:
  assumes "serve_stale_if_error e h f v resp name co cw s = Cont cw1 s1" "next_calls s < next_calls s1"
  shows "Revalidate e h (fl_roles f) v (fl_req f) (fl_requestCc f) (fl_cachedKey f) (fl_uri f) cw s = (Inr None, cw1, s1)"
proof -
  obtain res cw2 s2 where R: "Revalidate e h (fl_roles f) v (fl_req f) (fl_requestCc f) (fl_cachedKey f) (fl_uri f) cw s
    = (res, cw2, s2)" by (metis prod_cases3)
  show ?thesis
    using assms by (auto simp: R serve_stale_if_error_def serve_stale_hit_def serve_stale_on_error_def Let_def
        split: if_splits option.splits sum.splits)
qed

text \<open>
  C32. Under stale-if-error a healthy upstream is asked twice for one request, and the client gets
  the two bodies one after the other.
\<close>

theorem stale_if_error_doubles_body:
  assumes "pristine cw" "cw_Buf cw = []" "fl_roles f = []"
    and "serve_stale_if_error e h f v resp name co cw s = Cont cw1 s1" "next_calls s < next_calls s1"
    and "upstream_stage e h f None cw1 s1 = (Inr None, cw2, s2)"
  defines "first \<equiv> me_next e (sy_log (sys_log (EvCount RequestRevalidationCounter) s)) (fl_req f)"
    and "second \<equiv> me_next e (sy_log (sys_log (EvCount RequestCounter) (sys_log (EvCount NoCachedResponseCounter) s1))) (fl_req f)"
  shows "next_calls s2 = next_calls s + 2 \<and> rw_Body (cw_Rw cw2) = written (up_calls first) @ written (up_calls second)"
proof -
  have R: "Revalidate e h [] v (fl_req f) (fl_requestCc f) (fl_cachedKey f) (fl_uri f) cw s = (Inr None, cw1, s1)"
    using stale_if_error_cont[OF assms(4,5)] assms(3) by simp
  have one: "next_calls s1 = Suc (next_calls s)" using Revalidate_calls[OF _ R, of False] by (simp add: first_role_def)
  let ?s = "sys_log (EvCount NoCachedResponseCounter) s1"
  obtain r cw3 where U: "upstream_alone e h (fl_req f) (fl_requestCc f) (fl_cachedKey f) (fl_uri f) cw1 ?s = (Inr r, cw3, s2)"
    "r \<in> {None, Some Upstream50xError}" "cw2 = Send (me_serve e) cw3"
    using assms(6) by (auto simp: upstream_stage_leader[OF assms(3)] split: prod.splits sum.splits option.splits up_error.splits)
  note body = upstream_alone_body[OF U(1,2)]
  have "pristine cw3" using body(1) Revalidate_body(1)[OF R] assms(1) by simp
  then show ?thesis
    using Send_answers(2)[of cw3 "me_serve e"] body(2) Revalidate_body(2)[OF R] assms(2) U(3) one
      upstream_alone_calls[OF U(1)]
    by (simp add: first_def second_def)
qed

section \<open>Error paths\<close>

text \<open>
  In the bypass_request mode a request with a malformed \<open>Cache-Control\<close> for which nothing fresh is
  stored makes the handler dereference a nil pointer.
\<close>

theorem malformed_request_panics:
  fixes now :: gtime and e :: mw_env and rw :: response_writer
  assumes "HandleInternally h rq = None"
  defines "base \<equiv> SetBaseContext now (sh_context h) rq"
  assumes "\<not> excluded e h base" "cx_SupportedMethod (req_ctx base)"
    and "ParseRequestCacheControl (HeaderAllCommaSepValuesString (req_Header base) ''Cache-Control'') = None"
    and "Bypass_request (cx_Mode (req_ctx base))"
  defines "req \<equiv> set_contexts e h base rq"
  defines "req1 \<equiv> fst (cached_writer req rw)"
  assumes "\<not> cx_IsMutationRequest (req_ctx req)" "Bypass_request (cx_Mode (req_ctx req))"
    and "lookup_storers now (sh_Storers h) (hash_key e (cx_Hashed (req_ctx req1)) (key_of req)) req1 (ParseRequest req1) 0
      (sy_store s) = (Inr (None, stale, v, name, idx), w1)"
  shows "fst (ServeHTTP e h now later roles race rw rq s) = Inl NilDeref"
proof -
  obtain cw where cw: "cached_writer req rw = (req1, cw)" by (metis req1_def eq_fst_iff)
  have "cx_Mode (req_ctx req1) = cx_Mode (req_ctx req)"
    by (simp add: req1_def cached_writer_def Let_def)
  then have "fst (serve_cached e h now later roles race req None rw s) = Inl NilDeref"
    using assms(10,11)
    by (simp add: serve_cached_def cw cache_stage_def fl_mode_def serve_from_cache_def fresh_acceptable_def Let_def)
  then show ?thesis
    using assms(1,3-6,9)
    by (simp add: ServeHTTP_def Let_def flip: base_def req_def)
qed

text \<open>
  A successful request with a method that is not cached drops the mapping of the GET key from the
  in-memory storer, and no other one: the mappings of hashed keys stay.
\<close>

theorem unsupported_method_drops_mapping:
  assumes "sh_Storers h = [default_storer re cd]" "bc_SurrogateKeyDisabled (sh_Configuration h)"
    and "me_next e (sy_log s) req = reply" "up_end reply = NextOk"
    and "req_Method req \<noteq> ''GET''" "logged_status 0 (up_calls reply) < 400"
    and "serve_unsupported_method e h req rq rw s = (r, rw', s')"
  shows "r = Inr None \<and> ds_mapping cd bk (sy_store s') =
    (if bk = key_of (set_contexts e h (req\<lparr>req_Method := ''GET''\<rparr>) rq) then None else ds_mapping cd bk (sy_store s))"
proof -
  have "sy_store s' = ds_Delete (MappingKeyPrefix @ key_of (set_contexts e h (req\<lparr>req_Method := ''GET''\<rparr>) rq)) (sy_store s)"
    "r = Inr None"
    using assms by (auto simp: serve_unsupported_method_def call_direct_def next_result_def Let_def
        invalidate_groups_def sys_store_def sys_log_def)
  then show ?thesis by (simp add: ds_mapping_def ds_Delete_def)
qed

section \<open>Storing and serving\<close>

text \<open>
  C4. What \<open>Store\<close> writes to the in-memory storer is what a later look-up finds: until its
  duration is over, every request that fits the entry gets the stored response as a fresh one.
\<close>

theorem stored_response_found:
  assumes "sh_Storers h = [default_storer re cd]" "stored_entry e h now rq co key cw = Some (r, hdr)"
    and "header_get hdr ''X-Souin-Storer'' = []" "ds_wf cd (sy_store s)" "user_key (so_variedKey r)"
    and "ds_mapping cd (so_baseKey r) (sy_store s) = None" "0 \<le> ds_stale (sy_store s)"
    and "fst (set_multi now (default_storer re cd) r (sy_store s)) = Inr False"
    and "entry_fits req v (new_entry now (so_duration r) (ds_stale (sy_store s)) (so_variedHeaders r) (so_etag r) (so_variedKey r))"
    and "cd_Read cd (cd_Compress cd (so_value r)) req = Some resp" "now \<le> t" "t < now + so_duration r"
  shows "\<exists>v' w'. lookup_storers t (sh_Storers h) (so_baseKey r) req v 0 (sy_store (snd (snd (Store e h now rq co key uri cw s))))
    = (Inr (Some resp, None, v', DefaultStorageName, 0), w')"
proof -
  let ?st = "default_storer re cd" and ?w = "sy_store s"
  let ?w' = "snd (set_multi now ?st r ?w)"
  have w': "sy_store (snd (snd (Store e h now rq co key uri cw s))) = ?w'"
    using assms(1-3,8) by (cases "set_multi now ?st r ?w") (simp add: Store_store write_entry_def)
  obtain v' where "fst (st_GetMultiLevel ?st t (so_baseKey r) req v ?w') = Inr (Some resp, None, v')"
    using dm.store_then_get[of cd ?w "so_variedKey r" "so_variedKey r" "so_baseKey r" re now "so_value r"
        "so_variedHeaders r" "so_etag r" "so_duration r" req v resp t] assms
    by (auto simp: set_multi_def)
  then show ?thesis
    unfolding w' assms(1)
    by (cases "st_GetMultiLevel ?st t (so_baseKey r) req v ?w'") simp
qed

section \<open>Witnesses\<close>

definition sample_flow :: "flight list \<Rightarrow> flow" where
  "sample_flow roles = \<lparr>fl_now = 3, fl_later = 3, fl_req = sample_request, fl_requestCc = Some request_directives0,
     fl_cachedKey = sample_key, fl_uri = ''/a'', fl_roles = roles\<rparr>"

definition client_writer :: custom_writer where
  "client_writer = snd (cached_writer sample_request response_writer0)"

abbreviation (input) sample_storers :: "default_provider storer list" where
  "sample_storers \<equiv> [default_storer no_regexp sample_codec]"

lemma client_writer_facts [simp]:
  "pristine client_writer" "cw_Buf client_writer = []" "cw_statusCode client_writer = 200"
proof -
  have "header_get (req_Header sample_request) ''Range'' = []" by code_simp
  then show "pristine client_writer" "cw_Buf client_writer = []" "cw_statusCode client_writer = 200"
    unfolding client_writer_def by (auto intro!: pristine_cached_writer simp: response_writer0_def)
qed

lemma sample_lookup:
  "\<exists>v w1. lookup_storers 3 sample_storers sample_key sample_request (ParseRequest sample_request) 0 sample_filled
     = (Inr (Some sample_response, None, v, DefaultStorageName, 0), w1) \<and> rv_ResponseETag v = [] \<and> \<not> rv_NeedRevalidation v"
proof -
  have "case lookup_storers 3 sample_storers sample_key sample_request (ParseRequest sample_request) 0 sample_filled of
      (Inr (f, st, v, n, i), w1) \<Rightarrow> f = Some sample_response \<and> st = None \<and> n = DefaultStorageName \<and> i = 0
        \<and> rv_ResponseETag v = [] \<and> \<not> rv_NeedRevalidation v | _ \<Rightarrow> False" by code_simp
  then show ?thesis by (auto split: prod.splits sum.splits)
qed

lemma sample_sys_fields: "sy_store (sample_sys w) = w"
  by (simp add: sample_sys_def)

lemma sample_flow_key:
  "hash_key e (cx_Hashed (req_ctx (fl_req (sample_flow roles)))) (fl_cachedKey (sample_flow roles)) = sample_key"
  by (simp add: hash_key_def sample_flow_def sample_request_def request_context0_def)

lemma sample_flow_fields:
  "fl_now (sample_flow roles) = 3" "fl_req (sample_flow roles) = sample_request" "fl_roles (sample_flow roles) = roles"
  "fl_requestCc (sample_flow roles) = Some request_directives0" "\<not> Strict (fl_mode (sample_flow roles))"
  by (simp_all add: sample_flow_def fl_mode_def sample_request_def request_context0_def)

lemma sample_handler_storers [simp]: "sh_Storers (sample_handler sts) = sts"
  by (simp add: sample_handler_def)

lemma sample_hit:
  obtains v w1 where "lookup_storers (fl_now (sample_flow [])) (sh_Storers (sample_handler sample_storers))
      (hash_key (sample_env sample_reply) (cx_Hashed (req_ctx (fl_req (sample_flow [])))) (fl_cachedKey (sample_flow [])))
      (fl_req (sample_flow [])) (ParseRequest (fl_req (sample_flow []))) 0 (sy_store (sample_sys sample_filled))
    = (Inr (Some sample_response, None, v, DefaultStorageName, 0), w1)" "rv_ResponseETag v = []" "\<not> rv_NeedRevalidation v"
  using sample_lookup unfolding sample_flow_key unfolding sample_flow_fields sample_handler_storers sample_sys_fields by blast

lemma sample_hit_directives:
  "fl_requestCc (sample_flow []) = Some request_directives0" "\<not> rq_NoCache request_directives0"
  "\<not> Strict (fl_mode (sample_flow []))" "\<not> rs_NoCachePresent response_directives0"
  "ParseResponseCacheControl (HeaderAllCommaSepValuesString (resp_Header sample_response) hn) = Some response_directives0"
  by (simp_all add: sample_flow_fields sample_response_def HeaderAllCommaSepValuesString_def HeaderAllCommaSepValues_def
      header_index_def ParseResponseCacheControl_def cc_parse.simps ok_or_nil_def request_directives0_def
      response_directives0_def)

theorem fresh_hit_served_witness:
  "\<exists>cw' s'. cache_stage (sample_env sample_reply) (sample_handler sample_storers) (sample_flow []) client_writer
      (sample_sys sample_filled) = Ret (Inr None) cw' s' \<and> rw_Body (cw_Rw cw') = resp_Body sample_response"
proof -
  obtain v w1 where l: "lookup_storers (fl_now (sample_flow [])) (sh_Storers (sample_handler sample_storers))
      (hash_key (sample_env sample_reply) (cx_Hashed (req_ctx (fl_req (sample_flow [])))) (fl_cachedKey (sample_flow [])))
      (fl_req (sample_flow [])) (ParseRequest (fl_req (sample_flow []))) 0 (sy_store (sample_sys sample_filled))
    = (Inr (Some sample_response, None, v, DefaultStorageName, 0), w1)" "rv_ResponseETag v = []" "\<not> rv_NeedRevalidation v"
    by (rule sample_hit)
  show ?thesis
    using fresh_hit_served[OF client_writer_facts(1,2) sample_hit_directives(1,2) _ l(1) _ l(3) sample_hit_directives(5,4)]
      l(2) sample_hit_directives(3) by blast
qed

lemma sample_stage:
  "\<exists>cw' s'. cache_stage (sample_env sample_reply) (sample_handler sample_storers) (sample_flow []) client_writer
      (sample_sys sample_filled) = Ret (Inr None) cw' s' \<and> next_calls s' = 0"
proof -
  obtain v w1 where l: "lookup_storers (fl_now (sample_flow [])) (sh_Storers (sample_handler sample_storers))
      (hash_key (sample_env sample_reply) (cx_Hashed (req_ctx (fl_req (sample_flow [])))) (fl_cachedKey (sample_flow [])))
      (fl_req (sample_flow [])) (ParseRequest (fl_req (sample_flow []))) 0 (sy_store (sample_sys sample_filled))
    = (Inr (Some sample_response, None, v, DefaultStorageName, 0), w1)" "rv_ResponseETag v = []" "\<not> rv_NeedRevalidation v"
    by (rule sample_hit)
  show ?thesis
    using fresh_hit_stage[OF sample_hit_directives(1,2) _ l(1) _ l(3) sample_hit_directives(5,4), of client_writer] l(2)
      sample_hit_directives(3)
    by (simp add: serve_fresh_hit_def sys_log_def next_calls_def sample_sys_def)
qed


text \<open>Upstream replies that abort after a part of the body, or answer with a status that is not cached.\<close>

definition aborted_reply :: upstream_reply where
  "aborted_reply = sample_reply\<lparr>up_end := NextAbort\<rparr>"

definition created_reply :: upstream_reply where
  "created_reply = sample_reply\<lparr>up_calls := [CallWriteHeader 201, CallWrite ''hi'']\<rparr>"

lemma sample_env_next [simp]: "me_next (sample_env reply) log rq = reply"
  by (simp add: sample_env_def)

theorem aborted_upstream_sent_as_success_witness:
  "\<exists>cw' s'. upstream_stage (sample_env aborted_reply) (sample_handler sample_storers) (sample_flow []) None client_writer
      (sample_sys sample_filled) = (Inr None, cw', s') \<and> rw_Body (cw_Rw cw') = ''hi''"
  using aborted_upstream_sent_as_success[OF client_writer_facts(1,2), of "sample_flow []" "sample_env aborted_reply"
      "sample_sys sample_filled" aborted_reply "sample_handler sample_storers"]
  by (auto simp: sample_flow_fields aborted_reply_def sample_reply_def)

theorem follower_of_failed_flight_gets_200_witness:
  "\<exists>cw' s'. upstream_stage (sample_env sample_reply) (sample_handler sample_storers)
      (sample_flow [Follow None (Some Upstream50xError)]) None client_writer (sample_sys sample_filled) = (Inr None, cw', s')
    \<and> rw_status (cw_Rw cw') = Some 200"
  using follower_of_failed_flight_gets_200[OF client_writer_facts sample_handler_coalesces,
      where f = "sample_flow [Follow None (Some Upstream50xError)]" and roles = "[]" and e = "sample_env sample_reply"
        and sts1 = sample_storers and s = "sample_sys sample_filled"]
  by (auto simp: sample_flow_fields)

theorem deadline_gives_504_witness:
  "rw_status (cw_Rw (fst (snd (upstream_stage (sample_env sample_reply) (sample_handler sample_storers) (sample_flow [])
     (Some DeadlineExceeded) client_writer (sample_sys sample_filled))))) = Some 504"
  using deadline_gives_504[OF client_writer_facts(1), of "sample_env sample_reply" "sample_handler sample_storers"
      "sample_flow []" "sample_sys sample_filled"]
  by (metis prod.collapse)

theorem unsupported_method_drops_mapping_witness:
  "\<exists>s' rw'. serve_unsupported_method (sample_env sample_reply) (sample_handler sample_storers)
      (sample_request\<lparr>req_Method := ''POST''\<rparr>) sample_request response_writer0 (sample_sys sample_filled) = (Inr None, rw', s')"
proof -
  obtain r rw' s' where u: "serve_unsupported_method (sample_env sample_reply) (sample_handler sample_storers)
      (sample_request\<lparr>req_Method := ''POST''\<rparr>) sample_request response_writer0 (sample_sys sample_filled) = (r, rw', s')"
    by (metis prod_cases3)
  have "r = Inr None"
    using unsupported_method_drops_mapping[OF _ _ _ _ _ _ u, of no_regexp sample_codec sample_reply]
    by (simp add: sample_handler_def sample_reply_def)
  then show ?thesis using u by blast
qed

definition strict_flow :: flow where
  "strict_flow = (sample_flow [])\<lparr>fl_req := sample_request\<lparr>req_ctx := request_context0\<lparr>cx_Mode :=
     \<lparr>Strict = True, Bypass_request = False, Bypass_response = False\<rparr>\<rparr>\<rparr>\<rparr>"

definition stale_response :: response where
  "stale_response = sample_response\<lparr>resp_Header := [(''Cache-Control'', [''stale-if-error=60''])]\<rparr>"

text \<open>With status 201 both ways to the upstream end without an error.\<close>

lemma created_code:
  "\<not> cacheable_status (sample_handler sts) 201" "\<not> is_upstream_error 201"
  by (simp_all add: cacheable_status_def isCacheableCode_def hasAllowedAdditionalStatusCodesToCache_def sample_handler_def
      base_configuration0_def default_cache0_def is_upstream_error_def)

lemma created_Store:
  "cw_statusCode cw = 201 \<Longrightarrow> Store e (sample_handler sts) now rq co key uri cw s
     = (Inr None, cache_status_miss rq ''UNCACHEABLE-STATUS-CODE'' cw, s)"
  by (simp add: Store_def store_admission_def created_code)

lemma created_status:
  "pristine cw \<Longrightarrow> cw_statusCode (cw_calls (up_calls created_reply) cw) = 201" "up_end created_reply = NextOk"
  by (simp_all add: created_reply_def sample_reply_def)

lemma miss_status:
  "cw_statusCode (cache_status_miss rq d cw) = cw_statusCode cw" "cw_statusCode (cw_Set k x cw) = cw_statusCode cw"
  by (simp_all add: cache_status_miss_def cw_Set_def)

lemma created_upstream:
  assumes "pristine cw"
  shows "\<exists>cw' s'. upstream_stage (sample_env created_reply) (sample_handler sts) strict_flow None cw s = (Inr None, cw', s')"
proof -
  let ?e = "sample_env created_reply" and ?h = "sample_handler sts" and ?rq = "fl_req strict_flow"
  have landed: "\<exists>v cw2 s2. upstream_landed ?e ?h now ?rq co key uri cw1 s1 = (Landed (Some v) None, cw2, s2)"
    if "cw_statusCode cw1 = 201" for now co key uri cw1 s1
    using that created_code by (auto simp: upstream_landed_def Let_def created_Store miss_status split: prod.split)
  obtain v cw2 s2 where L: "upstream_leader ?e ?h ?rq (fl_requestCc strict_flow) (fl_cachedKey strict_flow) (fl_uri strict_flow) cw
      (sys_log (EvCount RequestCounter) (sys_log (EvCount NoCachedResponseCounter) s)) = (Landed (Some v) None, cw2, s2)"
    using landed created_status assms by (fastforce simp: upstream_leader_def call_next_def Let_def)
  then have "\<not> vary_differs ?rq v" using upstream_leader_requestHeaders not_vary_differs_own by blast
  then show ?thesis
    using L by (simp add: upstream_stage_leader upstream_alone_def upstream_round_def upstream_settle_def Let_def strict_flow_def sample_flow_def)
qed

lemma created_revalidate:
  assumes "pristine cw" "\<not> rv_IfUnmodifiedSincePresent v" "\<not> rv_IfModifiedSincePresent v"
  shows "\<exists>cw' s'. Revalidate (sample_env created_reply) (sample_handler sts) [] v rq co key uri cw s = (Inr None, cw', s')"
  using assms created_status
  by (simp add: Revalidate_def first_role_def revalidate_leader_def call_next_def revalidate_landed_def not_modified_since_def
      created_Store Let_def)

lemma sample_stale_if_error:
  "\<exists>cw1 s1. serve_stale_if_error (sample_env created_reply) (sample_handler sample_storers) strict_flow
      (ParseRequest sample_request) stale_response DefaultStorageName request_directives0 client_writer (sample_sys sample_filled)
    = Cont cw1 s1 \<and> next_calls s1 = 1"
proof -
  let ?v = "ParseRequest sample_request"
  have unconditional: "\<not> rv_IfUnmodifiedSincePresent ?v" "\<not> rv_IfModifiedSincePresent ?v" by code_simp+
  have roles: "fl_roles strict_flow = []" by (simp add: strict_flow_def sample_flow_def)
  obtain cw1 s1 where R: "Revalidate (sample_env created_reply) (sample_handler sample_storers) [] ?v (fl_req strict_flow)
      (fl_requestCc strict_flow) (fl_cachedKey strict_flow) (fl_uri strict_flow) client_writer (sample_sys sample_filled)
    = (Inr None, cw1, s1)"
    using created_revalidate[OF client_writer_facts(1) unconditional] by metis
  have "next_calls s1 = 1"
    using Revalidate_calls[OF _ R, of False] by (simp add: first_role_def next_calls_def sample_sys_def)
  moreover have "ValidateMaxAgeCachedStaleResponse request_directives0 (ParseResponseCacheControl
      (HeaderAllCommaSepValuesString (resp_Header stale_response) ''Cache-Control'')) stale_response
      (stored_ttl_seconds stale_response) \<noteq> None" by code_simp
  moreover have "map_option rs_StaleIfError (ParseResponseCacheControl (HeaderAllCommaSepValuesString (resp_Header
      (SetCacheStatusHeader 3 stale_response DefaultStorageName)) ''Cache-Control'')) = Some 60" by code_simp
  moreover have "Strict (fl_mode strict_flow)" "fl_now strict_flow = 3"
    by (simp_all add: strict_flow_def fl_mode_def sample_flow_def)
  ultimately show ?thesis by (auto simp: serve_stale_if_error_def Let_def R roles)
qed

theorem stale_if_error_doubles_body_witness:
  "\<exists>cw1 s1 cw2 s2. upstream_stage (sample_env created_reply) (sample_handler sample_storers) strict_flow None cw1 s1
      = (Inr None, cw2, s2) \<and> rw_Body (cw_Rw cw2) = ''hihi'' \<and> next_calls s2 = 2"
proof -
  obtain cw1 s1 where x: "serve_stale_if_error (sample_env created_reply) (sample_handler sample_storers) strict_flow
      (ParseRequest sample_request) stale_response DefaultStorageName request_directives0 client_writer (sample_sys sample_filled)
    = Cont cw1 s1" "next_calls s1 = 1"
    using sample_stale_if_error by blast
  have roles: "fl_roles strict_flow = []" by (simp add: strict_flow_def sample_flow_def)
  have n: "next_calls (sample_sys sample_filled) = 0" by (simp add: next_calls_def sample_sys_def)
  then have "pristine cw1"
    using stale_if_error_cont[OF x(1)] x(2) Revalidate_body(1) client_writer_facts(1) by (metis roles less_one)
  then obtain cw2 s2 where u: "upstream_stage (sample_env created_reply) (sample_handler sample_storers) strict_flow None cw1 s1
      = (Inr None, cw2, s2)" using created_upstream by blast
  have "next_calls s2 = 2 \<and> rw_Body (cw_Rw cw2) = ''hihi''"
    using stale_if_error_doubles_body[OF client_writer_facts(1,2) roles x(1) _ u] x(2) n by (simp add: created_reply_def)
  then show ?thesis using u by blast
qed

definition bypass_handler :: "default_provider handler" where
  "bypass_handler = (sample_handler [])\<lparr>sh_context := Context_Init
     (base_configuration0\<lparr>bc_DefaultCache := default_cache0\<lparr>dc_Mode := ''bypass_request''\<rparr>\<rparr>)\<rparr>"

definition malformed_request :: request where
  "malformed_request = sample_request\<lparr>req_Header := [(''Cache-Control'', [''max-age''])]\<rparr>"

theorem malformed_request_panics_witness:
  "fst (ServeHTTP (sample_env sample_reply) bypass_handler 0 0 [] None response_writer0 malformed_request
     (sample_sys sample_filled)) = Inl NilDeref"
proof (rule malformed_request_panics)
  show "HandleInternally bypass_handler malformed_request = None"
    by (simp add: HandleInternally_def bypass_handler_def sample_handler_def)
  show "\<not> excluded (sample_env sample_reply) bypass_handler (SetBaseContext 0 (sh_context bypass_handler) malformed_request)"
    by code_simp
  show "cx_SupportedMethod (req_ctx (SetBaseContext 0 (sh_context bypass_handler) malformed_request))"
    "Bypass_request (cx_Mode (req_ctx (SetBaseContext 0 (sh_context bypass_handler) malformed_request)))"
    "ParseRequestCacheControl (HeaderAllCommaSepValuesString
      (req_Header (SetBaseContext 0 (sh_context bypass_handler) malformed_request)) ''Cache-Control'') = None"
    by code_simp+
  let ?req = "set_contexts (sample_env sample_reply) bypass_handler
      (SetBaseContext 0 (sh_context bypass_handler) malformed_request) malformed_request"
  show "\<not> cx_IsMutationRequest (req_ctx ?req)" "Bypass_request (cx_Mode (req_ctx ?req))" by code_simp+
  show "lookup_storers 0 (sh_Storers bypass_handler)
      (hash_key (sample_env sample_reply) (cx_Hashed (req_ctx (fst (cached_writer ?req response_writer0)))) (key_of ?req))
      (fst (cached_writer ?req response_writer0)) (ParseRequest (fst (cached_writer ?req response_writer0))) 0
      (sy_store (sample_sys sample_filled))
    = (Inr (None, None, ParseRequest (fst (cached_writer ?req response_writer0)), [], 0), sy_store (sample_sys sample_filled))"
    by (simp add: bypass_handler_def)
qed

text \<open>A codec that knows the mapping the sample response gives rise to.\<close>

definition stored_entry_index :: key_index where
  "stored_entry_index = new_entry 0 (10 * Second) 5 [] [] ''k''"

definition stored_codec :: codec where
  "stored_codec = \<lparr>cd_Marshal = (\<lambda>m. if m = [(''k'', stored_entry_index)] then Some ''m'' else None),
     cd_Unmarshal = (\<lambda>b. if b = ''m'' then Some [(''k'', stored_entry_index)] else None),
     cd_Compress = (\<lambda>b. b), cd_Read = (\<lambda>b req. Some sample_response)\<rparr>"

lemma sample_handler_sel:
  "sh_Configuration (sample_handler sts) = base_configuration0\<lparr>bc_SurrogateKeyDisabled := True\<rparr>"
  "sh_RegexpUrls (sample_handler sts) = []" "sh_SurrogateKeyStorer (sample_handler sts) = sample_surrogate SouinLayer True"
  "sh_DefaultMatchedUrl (sample_handler sts) = default_matched_url default_cache0"
  by (simp_all add: sample_handler_def)

lemma sample_handler_parts:
  "store_admission (sample_handler sts) = store_admission (sample_handler [])"
  "currentMatchedURL e (sample_handler sts) = currentMatchedURL e (sample_handler [])"
  "body_too_large (sample_handler sts) = body_too_large (sample_handler [])"
  "body_storable (sample_handler sts) = body_storable (sample_handler [])"
  by (simp_all only: fun_eq_iff store_admission_def currentMatchedURL_def cacheable_status_def
      hasAllowedAdditionalStatusCodesToCache_def body_too_large_def body_storable_def sample_handler_sel simp_thms)

lemma stored_entry_storers: "stored_entry e (sample_handler sts) = stored_entry e (sample_handler [])"
  by (simp only: fun_eq_iff stored_entry_def sample_handler_parts(1,3,4)[of sts] sample_handler_parts(2)[of _ sts] simp_thms)

lemma sample_unmapped:
  "ds_mapping stored_codec ''k'' sample_provider = None" "ds_stale sample_provider = 5"
  "cd_Read stored_codec b req = Some sample_response" "(5::int) < 10 * Second"
  by (simp_all add: ds_mapping_def sample_provider_def default_provider_Factory_def stored_codec_def Second_def)

theorem stored_response_found_witness:
  "\<exists>k v' w'. lookup_storers 5 [default_storer no_regexp stored_codec] k sample_request sample_revalidator 0
      (sy_store (snd (snd (Store (sample_env sample_reply) (sample_handler [default_storer no_regexp stored_codec]) 0
        sample_request (Some request_directives0) ''k'' ''/a'' sample_writer (sample_sys sample_provider)))))
    = (Inr (Some sample_response, None, v', DefaultStorageName, 0), w')"
proof -
  let ?h = "sample_handler [default_storer no_regexp stored_codec]"
  obtain r hdr where p: "stored_entry (sample_env sample_reply) ?h 0 sample_request (Some request_directives0) ''k'' sample_writer
      = Some (r, hdr)"
    and f: "so_baseKey r = ''k''" "so_variedKey r = ''k''" "so_variedHeaders r = []" "so_etag r = []"
      "so_duration r = 10 * Second" "header_get hdr ''X-Souin-Storer'' = []"
    using sample_stored_entry
    unfolding stored_entry_storers[of _ "[default_storer no_regexp stored_codec]"] map_option_eq_Some
    by (auto split: prod.splits)
  have w: "ds_wf stored_codec sample_provider"
    by (simp add: ds_wf_def codec_ok_def stored_codec_def sample_provider_def ds_ok_Factory)
  have set: "fst (set_multi 0 (default_storer no_regexp stored_codec) r (sy_store (sample_sys sample_provider))) = Inr False"
    by (simp add: set_multi_def f ds_SetMultiLevel_def sample_provider_def default_provider_Factory_def MappingUpdater_def
        stored_codec_def stored_entry_index_def new_entry_def MappingKeyPrefix_def Let_def sample_sys_fields)
  have fits: "entry_fits sample_request sample_revalidator (new_entry 0 (so_duration r)
      (ds_stale (sy_store (sample_sys sample_provider))) (so_variedHeaders r) (so_etag r) (so_variedKey r))"
    unfolding f sample_sys_fields by code_simp
  have facts: "user_key (so_variedKey r)" "ds_mapping stored_codec (so_baseKey r) (sy_store (sample_sys sample_provider)) = None"
    "0 \<le> ds_stale (sy_store (sample_sys sample_provider))" "cd_Read stored_codec (cd_Compress stored_codec (so_value r)) sample_request
      = Some sample_response" "ds_wf stored_codec (sy_store (sample_sys sample_provider))" "5 < 0 + so_duration r"
    using w sample_unmapped by (simp_all add: f sample_sys_fields user_key_def MappingKeyPrefix_def)
  have "\<exists>v' w'. lookup_storers 5 (sh_Storers ?h) (so_baseKey r) sample_request sample_revalidator 0
      (sy_store (snd (snd (Store (sample_env sample_reply) ?h 0 sample_request (Some request_directives0) ''k'' ''/a''
        sample_writer (sample_sys sample_provider))))) = (Inr (Some sample_response, None, v', DefaultStorageName, 0), w')"
    by (rule stored_response_found[OF sample_handler_storers p f(6) facts(5,1,2,3) set fits facts(4) _ facts(6)]) simp
  then show ?thesis unfolding sample_handler_storers by blast
qed

end
