(* ===== verification/ConfigParser.thy ===== *)
theory ConfigParser
  imports RequestContext
begin

text \<open>
  The parser that turns the untyped configuration of most plugins into a \<open>BaseConfiguration\<close>
  (plugins/souin/agnostic/configuration_parser.go).  A type assertion without a second result
  panics on another type, one with it gives the zero value.  Every \<open>range\<close> over a map visits the
  pairs in the order of the list.
\<close>

section \<open>Type assertions\<close>

definition str_or_empty :: "any \<Rightarrow> string" where
  "str_or_empty v = (case v of VStr s \<Rightarrow> s | _ \<Rightarrow> [])"

definition need_str :: "any \<Rightarrow> string go" where
  "need_str v = (case v of VStr s \<Rightarrow> Inr s | _ \<Rightarrow> Inl TypeAssertion)"

definition need_bool :: "any \<Rightarrow> bool go" where
  "need_bool v = (case v of VBool b \<Rightarrow> Inr b | _ \<Rightarrow> Inl TypeAssertion)"

definition need_int :: "any \<Rightarrow> int go" where
  "need_int v = (case v of VInt n \<Rightarrow> Inr n | _ \<Rightarrow> Inl TypeAssertion)"

definition need_map :: "any \<Rightarrow> (string \<times> any) list go" where
  "need_map v = (case v of VMap m \<Rightarrow> Inr m | _ \<Rightarrow> Inl TypeAssertion)"

definition need_list :: "any \<Rightarrow> any list go" where
  "need_list v = (case v of VList l \<Rightarrow> Inr l | _ \<Rightarrow> Inl TypeAssertion)"

text \<open>A list of strings or of numbers, typed or as a list of untyped values.\<close>

definition string_list :: "any \<Rightarrow> string list go" where
  "string_list v = (case v of VStrs ss \<Rightarrow> Inr ss | _ \<Rightarrow> go_bind (need_list v) (go_mapM need_str))"

definition int_list :: "any \<Rightarrow> int list go" where
  "int_list v = (case v of VInts ns \<Rightarrow> Inr ns | _ \<Rightarrow> go_bind (need_list v) (go_mapM need_int))"

text \<open>A duration text; one that does not parse leaves the old value.\<close>

definition duration_or :: "duration \<Rightarrow> any \<Rightarrow> duration go" where
  "duration_or old v = go_bind (need_str v) (\<lambda>s. Inr (case ParseDuration s of None \<Rightarrow> old | Some d \<Rightarrow> d))"

section \<open>The API\<close>

definition parse_endpoint :: "any \<Rightarrow> api_endpoint" where
  "parse_endpoint v =
     (case v of
        VMap m \<Rightarrow> api_endpoint0\<lparr>ep_Enable := True,
          ep_BasePath := (case map_of m ''basepath'' of None \<Rightarrow> [] | Some b \<Rightarrow> str_or_empty b)\<rparr>
      | _ \<Rightarrow> api_endpoint0)"

definition api_field :: "string \<times> any \<Rightarrow> api_config \<Rightarrow> api_config go" where
  "api_field kv a =
     (case kv of (k, v) \<Rightarrow>
        if k = ''basepath'' then go_bind (need_str v) (\<lambda>s. Inr (a\<lparr>api_BasePath := s\<rparr>))
        else if k = ''debug'' then Inr (a\<lparr>api_Debug := parse_endpoint v\<rparr>)
        else if k = ''prometheus'' then Inr (a\<lparr>api_Prometheus := parse_endpoint v\<rparr>)
        else if k = ''souin'' then Inr (a\<lparr>api_Souin := parse_endpoint v\<rparr>)
        else Inr a)"

definition parseAPI :: "(string \<times> any) list \<Rightarrow> api_config go" where
  "parseAPI m = go_foldM api_field m api_config0"

section \<open>Cache keys\<close>

text \<open>A flag is set by its presence: its value is not looked at.\<close>

definition key_field :: "string \<times> any \<Rightarrow> cache_key_rule \<Rightarrow> cache_key_rule go" where
  "key_field kv ck =
     (case kv of (k, v) \<Rightarrow>
        if k \<in> set json_flags then Inr (set_json_flag k True ck)
        else if k = ''headers'' then
          go_bind (string_list v) (\<lambda>hs. Inr (ck\<lparr>ck_Headers := (case v of VStrs _ \<Rightarrow> hs | _ \<Rightarrow> ck_Headers ck @ hs)\<rparr>))
        else if k = ''template'' then go_bind (need_str v) (\<lambda>t. Inr (ck\<lparr>ck_Template := t\<rparr>))
        else Inr ck)"

definition parse_cache_key :: "regexp_engine \<Rightarrow> string \<times> any \<Rightarrow> (string, cache_key_rule) amap go" where
  "parse_cache_key re kv =
     (case kv of (k, v) \<Rightarrow>
        go_bind (need_map v) (\<lambda>m. go_bind (go_foldM key_field m cache_key_rule0) (\<lambda>ck.
          if re_ok re k then Inr [(k, ck)] else Inl MustCompile)))"

definition parseCacheKeys :: "regexp_engine \<Rightarrow> (string \<times> any) list \<Rightarrow> cache_keys go" where
  "parseCacheKeys re m = go_mapM (parse_cache_key re) m"

section \<open>The default cache\<close>

text \<open>The settings of a storage; \<open>with_url\<close> and \<open>with_path\<close> tell which of them the storage has.\<close>

definition provider_field :: "bool \<Rightarrow> bool \<Rightarrow> string \<times> any \<Rightarrow> cache_provider \<Rightarrow> cache_provider go" where
  "provider_field with_url with_path kv p =
     (case kv of (k, v) \<Rightarrow>
        if with_url \<and> k = ''url'' then Inr (p\<lparr>cp_URL := str_or_empty v\<rparr>)
        else if with_path \<and> k = ''path'' then Inr (p\<lparr>cp_Path := str_or_empty v\<rparr>)
        else if k = ''configuration'' then go_bind (need_map v) (\<lambda>m. Inr (p\<lparr>cp_Configuration := VMap m\<rparr>))
        else Inr p)"

definition parse_provider :: "bool \<Rightarrow> bool \<Rightarrow> any \<Rightarrow> cache_provider go" where
  "parse_provider with_url with_path v =
     go_bind (need_map v) (\<lambda>m. go_foldM (provider_field with_url with_path) m cache_provider0)"

definition cdn_field :: "string \<times> any \<Rightarrow> cdn_config \<Rightarrow> cdn_config go" where
  "cdn_field kv c =
     (case kv of (k, v) \<Rightarrow>
        if k = ''api_key'' then Inr (c\<lparr>cdn_APIKey := str_or_empty v\<rparr>)
        else if k = ''dynamic'' then go_bind (need_bool v) (\<lambda>b. Inr (c\<lparr>cdn_Dynamic := b\<rparr>))
        else if k = ''email'' then Inr (c\<lparr>cdn_Email := str_or_empty v\<rparr>)
        else if k = ''hostname'' then Inr (c\<lparr>cdn_Hostname := str_or_empty v\<rparr>)
        else if k = ''network'' then Inr (c\<lparr>cdn_Network := str_or_empty v\<rparr>)
        else if k = ''provider'' then Inr (c\<lparr>cdn_Provider := str_or_empty v\<rparr>)
        else if k = ''service_id'' then Inr (c\<lparr>cdn_ServiceID := str_or_empty v\<rparr>)
        else if k = ''strategy'' then Inr (c\<lparr>cdn_Strategy := str_or_empty v\<rparr>)
        else if k = ''zone_id'' then Inr (c\<lparr>cdn_ZoneID := str_or_empty v\<rparr>)
        else Inr c)"

definition parse_cdn :: "any \<Rightarrow> cdn_config go" where
  "parse_cdn v = go_bind (need_map v) (\<lambda>m. go_foldM cdn_field m (cdn_config0\<lparr>cdn_Dynamic := True\<rparr>))"

definition regex_field :: "string \<times> any \<Rightarrow> string \<Rightarrow> string go" where
  "regex_field kv ex =
     (case kv of (k, v) \<Rightarrow> if k = ''exclude'' \<and> v \<noteq> VNil then need_str v else Inr ex)"

definition timeout_field :: "string \<times> any \<Rightarrow> timeout_config \<Rightarrow> timeout_config go" where
  "timeout_field kv t =
     (case kv of (k, v) \<Rightarrow>
        if k = ''backend'' then go_bind (duration_or 0 v) (\<lambda>d. Inr (t\<lparr>to_Backend := d\<rparr>))
        else if k = ''cache'' then go_bind (duration_or 0 v) (\<lambda>d. Inr (t\<lparr>to_Cache := d\<rparr>))
        else Inr t)"

definition uint64_or_zero :: "any \<Rightarrow> int" where
  "uint64_or_zero v = (case v of VUint64 n \<Rightarrow> n | _ \<Rightarrow> 0)"

text \<open>
  One case of the switch: what a setting does to the cache's configuration.  The second half of the
  cases is a definition of its own.
\<close>

definition cache_field_rest :: "string \<times> any \<Rightarrow> default_cache \<Rightarrow> default_cache go" where
  "cache_field_rest kv dc =
     (case kv of (k, v) \<Rightarrow>
        if k = ''olric'' then
          go_bind (parse_provider True True v) (\<lambda>p. Inr (dc\<lparr>dc_Distributed := True, dc_Olric := p\<rparr>))
        else if k = ''redis'' then
          go_bind (parse_provider True True v) (\<lambda>p. Inr (dc\<lparr>dc_Distributed := True, dc_Redis := p\<rparr>))
        else if k = ''regex'' then
          go_bind (need_map v) (\<lambda>m. go_bind (go_foldM regex_field m []) (\<lambda>ex. Inr (dc\<lparr>dc_RegexExclude := ex\<rparr>)))
        else if k = ''simplefs'' then go_bind (parse_provider False True v) (\<lambda>p. Inr (dc\<lparr>dc_SimpleFS := p\<rparr>))
        else if k = ''timeout'' then
          go_bind (need_map v) (\<lambda>m. go_bind (go_foldM timeout_field m \<lparr>to_Backend = 0, to_Cache = 0\<rparr>)
            (\<lambda>t. Inr (dc\<lparr>dc_Timeout := t\<rparr>)))
        else if k = ''ttl'' then go_bind (duration_or (dc_TTL dc) v) (\<lambda>d. Inr (dc\<lparr>dc_TTL := d\<rparr>))
        else if k = ''stale'' then go_bind (duration_or (dc_Stale dc) v) (\<lambda>d. Inr (dc\<lparr>dc_Stale := d\<rparr>))
        else if k = ''storers'' then
          go_bind (string_list v) (\<lambda>x. Inr (dc\<lparr>dc_Storers := (case v of VStrs _ \<Rightarrow> x | _ \<Rightarrow> dc_Storers dc @ x)\<rparr>))
        else if k = ''default_cache_control'' then Inr (dc\<lparr>dc_DefaultCacheControl := str_or_empty v\<rparr>)
        else if k = ''max_cacheable_body_bytes'' then Inr (dc\<lparr>dc_MaxBodyBytes := uint64_or_zero v\<rparr>)
        else Inr dc)"

definition cache_field :: "string \<times> any \<Rightarrow> default_cache \<Rightarrow> default_cache go" where
  "cache_field kv dc =
     (case kv of (k, v) \<Rightarrow>
        if k = ''allowed_http_verbs'' then go_bind (string_list v) (\<lambda>x. Inr (dc\<lparr>dc_AllowedHTTPVerbs := x\<rparr>))
        else if k = ''allowed_additional_status_codes'' then
          go_bind (int_list v) (\<lambda>x. Inr (dc\<lparr>dc_AllowedAdditionalStatusCodes := x\<rparr>))
        else if k = ''badger'' then go_bind (parse_provider True True v) (\<lambda>p. Inr (dc\<lparr>dc_Badger := p\<rparr>))
        else if k = ''cache_name'' then Inr (dc\<lparr>dc_CacheName := str_or_empty v\<rparr>)
        else if k = ''cdn'' then go_bind (parse_cdn v) (\<lambda>c. Inr (dc\<lparr>dc_CDN := c\<rparr>))
        else if k = ''etcd'' then go_bind (parse_provider True True v) (\<lambda>p. Inr (dc\<lparr>dc_Etcd := p\<rparr>))
        else if k = ''headers'' then
          go_bind (string_list v) (\<lambda>x. Inr (dc\<lparr>dc_Headers := (case v of VStrs _ \<Rightarrow> x | _ \<Rightarrow> dc_Headers dc @ x)\<rparr>))
        else if k = ''mapping_eviction_interval'' then
          go_bind (duration_or (dc_MappingEvictionInterval dc) v) (\<lambda>d. Inr (dc\<lparr>dc_MappingEvictionInterval := d\<rparr>))
        else if k = ''mode'' then Inr (dc\<lparr>dc_Mode := str_or_empty v\<rparr>)
        else if k = ''nats'' then go_bind (parse_provider True False v) (\<lambda>p. Inr (dc\<lparr>dc_Nats := p\<rparr>))
        else if k = ''nuts'' then go_bind (parse_provider True True v) (\<lambda>p. Inr (dc\<lparr>dc_Nuts := p\<rparr>))
        else if k = ''otter'' then go_bind (parse_provider True True v) (\<lambda>p. Inr (dc\<lparr>dc_Otter := p\<rparr>))
        else cache_field_rest kv dc)"

definition parseDefaultCache :: "(string \<times> any) list \<Rightarrow> default_cache go" where
  "parseDefaultCache m = go_foldM cache_field m (default_cache0\<lparr>dc_MappingEvictionInterval := Hour\<rparr>)"

section \<open>URLs and surrogate keys\<close>

text \<open>The header list is looked for in the settings of the whole URL, which are a map, and so is never found.\<close>

definition url_headers :: "any \<Rightarrow> string list go" where
  "url_headers urlV =
     (case urlV of VStrs hs \<Rightarrow> Inr hs | VList l \<Rightarrow> go_mapM need_str l | _ \<Rightarrow> Inr [])"

definition url_field :: "any \<Rightarrow> string \<times> any \<Rightarrow> url_config \<Rightarrow> url_config go" where
  "url_field urlV kv u =
     (case kv of (k, v) \<Rightarrow>
        if k = ''headers'' then go_bind (url_headers urlV) (\<lambda>hs. Inr (u\<lparr>url_Headers := hs\<rparr>))
        else if k = ''ttl'' then go_bind (duration_or (url_TTL u) v) (\<lambda>d. Inr (u\<lparr>url_TTL := d\<rparr>))
        else if k = ''default_cache_control'' then Inr (u\<lparr>url_DefaultCacheControl := str_or_empty v\<rparr>)
        else Inr u)"

definition parse_url :: "any \<Rightarrow> url_config go" where
  "parse_url urlV = go_bind (need_map urlV)
     (\<lambda>m. go_foldM (url_field urlV) m \<lparr>url_TTL = 0, url_Headers = [], url_DefaultCacheControl = []\<rparr>)"

definition parseURLs :: "(string \<times> any) list \<Rightarrow> (string, url_config) amap go" where
  "parseURLs m = go_foldM (\<lambda>(k, v) u. go_bind (parse_url v) (\<lambda>x. Inr (amap_put k x u))) m []"

definition surrogate_header :: "string \<times> any \<Rightarrow> (string, string) amap \<Rightarrow> (string, string) amap go" where
  "surrogate_header kv hs = (case kv of (hn, hv) \<Rightarrow> go_bind (need_str hv) (\<lambda>s. Inr (amap_put hn s hs)))"

definition surrogate_field :: "string \<times> any \<Rightarrow> surrogate_keys \<Rightarrow> surrogate_keys go" where
  "surrogate_field kv sk =
     (case kv of (k, v) \<Rightarrow>
        if k = ''headers'' then
          go_bind (need_map v) (\<lambda>m. go_bind (go_foldM surrogate_header m (sk_Headers sk)) (\<lambda>hs. Inr (sk\<lparr>sk_Headers := hs\<rparr>)))
        else if k = ''url'' then go_bind (need_str v) (\<lambda>s. Inr (sk\<lparr>sk_URL := s\<rparr>))
        else Inr sk)"

definition parse_surrogate :: "any \<Rightarrow> surrogate_keys go" where
  "parse_surrogate v = go_bind (need_map v) (\<lambda>m. go_foldM surrogate_field m surrogate_keys0)"

definition parseSurrogateKeys :: "(string \<times> any) list \<Rightarrow> (string, surrogate_keys) amap go" where
  "parseSurrogateKeys m = go_foldM (\<lambda>(k, v) u. go_bind (parse_surrogate v) (\<lambda>x. Inr (amap_put k x u))) m []"

section \<open>The whole configuration\<close>

definition config_field :: "regexp_engine \<Rightarrow> string \<times> any \<Rightarrow> base_configuration \<Rightarrow> base_configuration go" where
  "config_field re kv c =
     (case kv of (k, v) \<Rightarrow>
        if k = ''api'' then go_bind (need_map v) (\<lambda>m. go_bind (parseAPI m) (\<lambda>x. Inr (c\<lparr>bc_API := x\<rparr>)))
        else if k = ''cache_keys'' then
          go_bind (need_map v) (\<lambda>m. go_bind (parseCacheKeys re m) (\<lambda>x. Inr (c\<lparr>bc_CacheKeys := x\<rparr>)))
        else if k = ''default_cache'' then
          go_bind (need_map v) (\<lambda>m. go_bind (parseDefaultCache m) (\<lambda>x. Inr (c\<lparr>bc_DefaultCache := x\<rparr>)))
        else if k = ''log_level'' then go_bind (need_str v) (\<lambda>s. Inr (c\<lparr>bc_LogLevel := s\<rparr>))
        else if k = ''urls'' then go_bind (need_map v) (\<lambda>m. go_bind (parseURLs m) (\<lambda>x. Inr (c\<lparr>bc_URLs := x\<rparr>)))
        else if k = ''ykeys'' then
          go_bind (need_map v) (\<lambda>m. go_bind (parseSurrogateKeys m) (\<lambda>x. Inr (c\<lparr>bc_Ykeys := x\<rparr>)))
        else if k = ''surrogate_keys'' then
          go_bind (need_map v) (\<lambda>m. go_bind (parseSurrogateKeys m) (\<lambda>x. Inr (c\<lparr>bc_SurrogateKeys := x\<rparr>)))
        else if k = ''disable_surrogate_key'' then go_bind (need_bool v) (\<lambda>b. Inr (c\<lparr>bc_SurrogateKeyDisabled := b\<rparr>))
        else Inr c)"

definition ParseConfiguration :: "regexp_engine \<Rightarrow> (string \<times> any) list \<Rightarrow> base_configuration \<Rightarrow> base_configuration go" where
  "ParseConfiguration re m c = go_foldM (config_field re) m c"

end
