(* ===== verification/CaddyConfig.thy ===== *)
theory CaddyConfig
  imports Handler ConfigParser
begin

text \<open>
  The Caddy plugin (plugins/caddy): the conversion of the settings of badger, redis and simplefs
  (configuration.go), the identifiers of the storages (dispatch.go), the merge of a handler's
  configuration with the global one and the provisioning (httpcache.go, app.go, admin.go).
  Parameters: \<open>load name provider stale\<close> tells whether Caddy fails to load a storage module,
  \<open>cwd\<close> is the working directory, \<open>parse_float\<close> reads a float.  The Caddyfile dispenser is not
  modelled.
\<close>

section \<open>Printing a value\<close>

text \<open>\<open>fmt.Sprint\<close> of one value; maps are printed in the order of their keys.\<close>

fun sprint_any :: "any \<Rightarrow> string" where
  "sprint_any VNil = ''<nil>''"
| "sprint_any (VStr s) = s"
| "sprint_any (VBool b) = (if b then ''true'' else ''false'')"
| "sprint_any (VInt n) = Itoa n"
| "sprint_any (VUint64 n) = Itoa n"
| "sprint_any (VFloat s) = s"
| "sprint_any (VDuration d) = Duration_String d"
| "sprint_any (VBytes b) = ''['' @ Join (map (\<lambda>c. Itoa (int (char_nat c))) b) '' '' @ '']''"
| "sprint_any (VStrs ss) = ''['' @ Join ss '' '' @ '']''"
| "sprint_any (VInts ns) = ''['' @ Join (map Itoa ns) '' '' @ '']''"
| "sprint_any (VList vs) = ''['' @ Join (map sprint_any vs) '' '' @ '']''"
| "sprint_any (VMap m) =
     ''map['' @ Join (map (\<lambda>(k, s). k @ '':'' @ s) (sort_key fst (map (\<lambda>(k, v). (k, sprint_any v)) m))) '' '' @ '']''"

section \<open>Settings of the storages\<close>

text \<open>\<open>strconv.Atoi\<close> and \<open>ParseUint\<close> with the error dropped: the value that comes with it.\<close>

definition atoi_of :: "any \<Rightarrow> any go" where
  "atoi_of v = go_bind (need_str v) (\<lambda>s. Inr (VInt (fst (Atoi s))))"

definition uint32_of :: "any \<Rightarrow> any go" where
  "uint32_of v = go_bind (need_str v) (\<lambda>s. Inr (VUint64
     (case ParseUint 32 s of Inr n \<Rightarrow> n | Inl ErrSyntax \<Rightarrow> 0 | Inl ErrRange \<Rightarrow> 2 ^ 32 - 1)))"

definition duration_of :: "any \<Rightarrow> any go" where
  "duration_of v = go_bind (need_str v) (\<lambda>s. Inr (VDuration (duration_or_zero (ParseDuration s))))"

definition bit_or_atoi :: "any \<Rightarrow> any go" where
  "bit_or_atoi v = (case v of VBool b \<Rightarrow> Inr (VInt (if b then 1 else 0)) | _ \<Rightarrow> atoi_of v)"

definition badger_flags :: "string list" where
  "badger_flags = [''SyncWrites'', ''ReadOnly'', ''InMemory'', ''MetricsEnabled'', ''CompactL0OnClose'',
     ''LmaxCompaction'', ''VerifyValueChecksum'', ''BypassLockGuard'', ''DetectConflicts'']"

definition badger_numbers :: "string list" where
  "badger_numbers = [''NumVersionsToKeep'', ''NumGoroutines'', ''MemTableSize'', ''BaseTableSize'',
     ''BaseLevelSize'', ''LevelSizeMultiplier'', ''TableSizeMultiplier'', ''MaxLevels'', ''ValueThreshold'',
     ''NumMemtables'', ''BlockSize'', ''BlockCacheSize'', ''IndexCacheSize'', ''NumLevelZeroTables'',
     ''NumLevelZeroTablesStall'', ''ValueLogFileSize'', ''NumCompactors'', ''ZSTDCompressionLevel'',
     ''ChecksumVerificationMode'', ''NamespaceOffset'']"

definition badger_value :: "(string \<Rightarrow> string) \<Rightarrow> string \<Rightarrow> any \<Rightarrow> any go" where
  "badger_value parse_float k v =
     (if k \<in> set badger_flags then Inr (VBool (case v of VStr s \<Rightarrow> ParseBool s | _ \<Rightarrow> True))
      else if k \<in> set badger_numbers then atoi_of v
      else if k \<in> {''Compression'', ''ValueLogMaxEntries''} then uint32_of v
      else if k \<in> {''VLogPercentile'', ''BloomFalsePositive''} then
        go_bind (need_str v) (\<lambda>s. Inr (VFloat (parse_float s)))
      else if k = ''EncryptionKey'' then go_bind (need_str v) (\<lambda>s. Inr (VBytes s))
      else if k = ''EncryptionKeyRotationDuration'' then duration_of v
      else Inr v)"

definition parseBadgerConfiguration ::
  "(string \<Rightarrow> string) \<Rightarrow> (string \<times> any) list \<Rightarrow> (string \<times> any) list go" where
  "parseBadgerConfiguration parse_float c =
     go_mapM (\<lambda>(k, v). go_bind (badger_value parse_float k v) (\<lambda>v'. Inr (k, v'))) c"

definition redis_flags :: "string list" where
  "redis_flags = [''SendToReplicas'', ''ShuffleInit'', ''ClientNoTouch'', ''DisableRetry'', ''DisableCache'',
     ''AlwaysPipelining'', ''AlwaysRESP2'', ''ForceSingleClient'', ''ReplicaOnly'', ''ClientNoEvict'',
     ''ContextTimeoutEnabled'', ''PoolFIFO'', ''ReadOnly'', ''RouteByLatency'', ''RouteRandomly'',
     ''DisableIndentity'']"

definition redis_numbers :: "string list" where
  "redis_numbers = [''SelectDB'', ''CacheSizeEachConn'', ''RingScaleEachConn'', ''ReadBufferEachConn'',
     ''WriteBufferEachConn'', ''BlockingPoolSize'', ''PipelineMultiplex'', ''DB'', ''Protocol'', ''MaxRetries'',
     ''PoolSize'', ''MinIdleConns'', ''MaxIdleConns'', ''MaxActiveConns'', ''MaxRedirects'']"

definition redis_durations :: "string list" where
  "redis_durations = [''ConnWriteTimeout'', ''MaxFlushDelay'', ''MinRetryBackoff'', ''MaxRetryBackoff'',
     ''DialTimeout'', ''ReadTimeout'', ''WriteTimeout'', ''PoolTimeout'', ''ConnMaxIdleTime'', ''ConnMaxLifetime'']"

definition tls_version :: "any \<Rightarrow> any" where
  "tls_version v =
     (let s0 = str_or_empty v; s = (if prefix ''TLS'' s0 then TrimBlank (drop 3 s0) else s0)
      in if s = ''0x0300'' \<or> s = ''SSLv3'' then VInt 768
         else if s = ''0x0301'' \<or> s = ''1.0'' then VInt 769
         else if s = ''0x0302'' \<or> s = ''1.1'' then VInt 770
         else if s = ''0x0303'' \<or> s = ''1.2'' then VInt 771
         else if s = ''0x0304'' \<or> s = ''1.3'' then VInt 772
         else v)"

definition redis_value :: "string \<Rightarrow> any \<Rightarrow> any go" where
  "redis_value k v =
     (if k \<in> {''Addrs'', ''InitAddress''} then Inr (case v of VStr s \<Rightarrow> VStrs [s] | _ \<Rightarrow> v)
      else if k \<in> set redis_flags then Inr (VBool True)
      else if k \<in> set redis_numbers then bit_or_atoi v
      else if k \<in> set redis_durations then duration_of v
      else if k \<in> {''MaxVersion'', ''MinVersion''} then Inr (tls_version v)
      else Inr v)"

function parseRedisConfiguration :: "(string \<times> any) list \<Rightarrow> (string \<times> any) list go" where
  "parseRedisConfiguration [] = Inr []"
| "parseRedisConfiguration ((k, v) # c) =
     go_bind (if k = ''TLSConfig''
              then (case v of VMap m \<Rightarrow> go_bind (parseRedisConfiguration m) (\<lambda>m'. Inr (VMap m'))
                    | _ \<Rightarrow> Inl TypeAssertion)
              else redis_value k v)
       (\<lambda>v'. go_bind (parseRedisConfiguration c) (\<lambda>c'. Inr ((k, v') # c')))"
  by pat_completeness auto
termination
  by (relation "measure (\<lambda>c. size (VMap c))") auto

definition simplefs_value :: "string \<Rightarrow> any \<Rightarrow> any go" where
  "simplefs_value k v = (if k \<in> {''size'', ''directory_size''} then bit_or_atoi v else Inr v)"

definition parseSimpleFSConfiguration :: "(string \<times> any) list \<Rightarrow> (string \<times> any) list go" where
  "parseSimpleFSConfiguration c = go_mapM (\<lambda>(k, v). go_bind (simplefs_value k v) (\<lambda>v'. Inr (k, v'))) c"

section \<open>The configuration\<close>

text \<open>
  The plugin's \<open>DefaultCache\<close> has the fields of \<open>default_cache\<close> but the ports, which stay empty.
  \<open>cy_HeadersNil\<close> tells a nil list of headers from an empty one.
\<close>

record caddy_configuration =
  cy_DefaultCache :: default_cache
  cy_HeadersNil :: bool
  cy_API :: api_config
  cy_CacheKeys :: cache_keys
  cy_URLs :: "(string, url_config) amap"
  cy_LogLevel :: string
  cy_SurrogateKeys :: "(string, surrogate_keys) amap"
  cy_SurrogateKeyDisabled :: bool

text \<open>What the getters of the configuration interface show of it; neither kind of surrogate keys is shown.\<close>

definition caddy_interface :: "caddy_configuration \<Rightarrow> base_configuration" where
  "caddy_interface c = \<lparr>bc_DefaultCache = cy_DefaultCache c, bc_API = cy_API c, bc_CacheKeys = cy_CacheKeys c,
     bc_URLs = cy_URLs c, bc_LogLevel = cy_LogLevel c, bc_PluginName = ''caddy'', bc_Ykeys = [],
     bc_SurrogateKeys = [], bc_SurrogateKeyDisabled = cy_SurrogateKeyDisabled c\<rparr>"

text \<open>\<open>GetDefaultCache\<close> returns the address of a field, which is never nil.\<close>

definition caddy_GetDefaultCache :: "caddy_configuration \<Rightarrow> default_cache option" where
  "caddy_GetDefaultCache c = Some (cy_DefaultCache c)"

text \<open>The handler's module: its configuration and the settings of its JSON form.\<close>

record caddy_middleware =
  cm_cacheKeys :: cache_keys
  cm_Configuration :: caddy_configuration
  cm_LogLevel :: string
  cm_Headers :: "string list option"
  cm_Badger :: cache_provider
  cm_Key :: cache_key_rule
  cm_CacheKeys :: "cache_keys option"
  cm_MappingEvictionInterval :: duration
  cm_Nats :: cache_provider
  cm_Nuts :: cache_provider
  cm_Otter :: cache_provider
  cm_Etcd :: cache_provider
  cm_Redis :: cache_provider
  cm_Olric :: cache_provider
  cm_Timeout :: timeout_config
  cm_TTL :: duration
  cm_SimpleFS :: cache_provider
  cm_Stale :: duration
  cm_Storers :: "string list"
  cm_DefaultCacheControl :: string
  cm_CacheName :: string

definition caddy_configuration0 :: caddy_configuration where
  "caddy_configuration0 = \<lparr>cy_DefaultCache = default_cache0, cy_HeadersNil = True, cy_API = api_config0,
     cy_CacheKeys = [], cy_URLs = [], cy_LogLevel = [], cy_SurrogateKeys = [], cy_SurrogateKeyDisabled = False\<rparr>"

definition configurationPropertyMapper :: "caddy_middleware \<Rightarrow> caddy_middleware" where
  "configurationPropertyMapper s =
     (if caddy_GetDefaultCache (cm_Configuration s) = None then
        let dc = default_cache0\<lparr>dc_Badger := cm_Badger s, dc_Nats := cm_Nats s, dc_Nuts := cm_Nuts s,
              dc_SimpleFS := cm_SimpleFS s, dc_Otter := cm_Otter s, dc_Key := cm_Key s,
              dc_DefaultCacheControl := cm_DefaultCacheControl s, dc_CacheName := cm_CacheName s,
              dc_Distributed := (cp_URL (cm_Olric s) \<noteq> [] \<or> cp_Path (cm_Olric s) \<noteq> []
                \<or> cp_Configuration (cm_Olric s) \<noteq> VNil \<or> cp_Configuration (cm_Etcd s) \<noteq> VNil
                \<or> cp_URL (cm_Redis s) \<noteq> [] \<or> cp_Configuration (cm_Redis s) \<noteq> VNil),
              dc_Headers := (case cm_Headers s of None \<Rightarrow> [] | Some hs \<Rightarrow> hs),
              dc_Olric := cm_Olric s, dc_Etcd := cm_Etcd s, dc_Redis := cm_Redis s,
              dc_Timeout := cm_Timeout s, dc_TTL := cm_TTL s,
              dc_MappingEvictionInterval := cm_MappingEvictionInterval s, dc_Stale := cm_Stale s,
              dc_Storers := cm_Storers s\<rparr>
        in s\<lparr>cm_Configuration := caddy_configuration0\<lparr>cy_CacheKeys := cm_cacheKeys s, cy_DefaultCache := dc,
             cy_HeadersNil := (cm_Headers s = None), cy_LogLevel := cm_LogLevel s\<rparr>\<rparr>
      else s)"

section \<open>The global application\<close>

text \<open>
  \<open>ca_notifier\<close> is the channel's one place: what was sent before the channel was closed.
\<close>

record 'w caddy_app =
  ca_DefaultCache :: default_cache
  ca_HeadersNil :: bool
  ca_Storers :: "'w storer list"
  ca_SurrogateStorage :: "'w base_storage option"
  ca_SurrogateKeyDisabled :: bool
  ca_CacheKeys :: "cache_keys option"
  ca_API :: api_config
  ca_LogLevel :: string
  ca_notifier :: "(api_config \<times> 'w base_storage) option"

definition withSurrogateStorer :: "'w base_storage \<Rightarrow> 'w caddy_app \<Rightarrow> 'w caddy_app" where
  "withSurrogateStorer surrogate app =
     app\<lparr>ca_SurrogateStorage := Some surrogate, ca_notifier := Some (ca_API app, surrogate)\<rparr>"

definition isProviderEmpty :: "cache_provider \<Rightarrow> bool" where
  "isProviderEmpty c \<longleftrightarrow> \<not> cp_Found c"

section \<open>FromApp\<close>

text \<open>The defaults that the global settings get when neither they nor the handler's have a value.\<close>

definition app_defaults :: "default_cache \<Rightarrow> default_cache \<Rightarrow> default_cache" where
  "app_defaults dc appDc =
     (let a = (if dc_TTL appDc = 0 \<and> dc_TTL dc = 0 then appDc\<lparr>dc_TTL := 120 * Second\<rparr> else appDc)
      in if dc_MappingEvictionInterval a = 0 \<and> dc_MappingEvictionInterval dc = 0
         then a\<lparr>dc_MappingEvictionInterval := Hour\<rparr> else a)"

definition key_unset :: "cache_key_rule \<Rightarrow> bool" where
  "key_unset k \<longleftrightarrow> \<not> ck_DisableBody k \<and> \<not> ck_DisableHost k \<and> \<not> ck_DisableMethod k \<and> \<not> ck_DisableQuery k
     \<and> \<not> ck_DisableScheme k \<and> \<not> ck_DisableVary k \<and> \<not> ck_Hash k \<and> \<not> ck_Hide k \<and> ck_Headers k = [] \<and> ck_Template k = []"

definition no_storage :: "default_cache \<Rightarrow> bool" where
  "no_storage dc \<longleftrightarrow> list_all isProviderEmpty [dc_Badger dc, dc_Etcd dc, dc_Nats dc, dc_Nuts dc, dc_Olric dc,
     dc_Otter dc, dc_Redis dc, dc_SimpleFS dc]"

definition merge_storages :: "default_cache \<Rightarrow> default_cache \<Rightarrow> default_cache" where
  "merge_storages a dc = dc\<lparr>dc_Distributed := dc_Distributed a, dc_Olric := dc_Olric a, dc_Redis := dc_Redis a,
     dc_Etcd := dc_Etcd a, dc_Badger := dc_Badger a, dc_Nats := dc_Nats a, dc_Nuts := dc_Nuts a,
     dc_Otter := dc_Otter a, dc_SimpleFS := dc_SimpleFS a\<rparr>"

text \<open>What \<open>FromApp\<close> makes of the handler's settings and the global ones.\<close>

definition merge_default_cache :: "default_cache \<Rightarrow> bool \<Rightarrow> default_cache \<Rightarrow> default_cache" where
  "merge_default_cache a headersNil dc =
     (let dc1 = dc\<lparr>dc_AllowedHTTPVerbs := dc_AllowedHTTPVerbs dc @ dc_AllowedHTTPVerbs a,
            dc_AllowedAdditionalStatusCodes := dc_AllowedAdditionalStatusCodes dc @ dc_AllowedAdditionalStatusCodes a,
            dc_CDN := dc_CDN a,
            dc_Headers := (if headersNil then dc_Headers a else dc_Headers dc),
            dc_TTL := (if dc_TTL dc = 0 then dc_TTL a else dc_TTL dc),
            dc_MappingEvictionInterval := (if dc_MappingEvictionInterval dc = 0 then dc_MappingEvictionInterval a
              else dc_MappingEvictionInterval dc),
            dc_Stale := (if dc_Stale dc = 0 then dc_Stale a else dc_Stale dc),
            dc_Storers := (if dc_Storers dc = [] then dc_Storers a else dc_Storers dc),
            dc_Timeout := \<lparr>to_Backend = (if to_Backend (dc_Timeout dc) = 0 then to_Backend (dc_Timeout a)
                else to_Backend (dc_Timeout dc)),
              to_Cache = (if to_Cache (dc_Timeout dc) = 0 then to_Cache (dc_Timeout a) else to_Cache (dc_Timeout dc))\<rparr>,
            dc_Mode := (if dc_Mode dc = [] then dc_Mode a else dc_Mode dc),
            dc_Key := (if key_unset (dc_Key dc) then dc_Key a else dc_Key dc),
            dc_DefaultCacheControl := (if dc_DefaultCacheControl dc = [] then dc_DefaultCacheControl a
              else dc_DefaultCacheControl dc),
            dc_MaxBodyBytes := (if dc_MaxBodyBytes dc = 0 then dc_MaxBodyBytes a else dc_MaxBodyBytes dc),
            dc_CacheName := (if dc_CacheName dc = [] then dc_CacheName a else dc_CacheName dc),
            dc_RegexExclude := (if dc_RegexExclude dc = [] then dc_RegexExclude a else dc_RegexExclude dc)\<rparr>
      in if no_storage dc then merge_storages a dc1 else dc1)"

definition FromApp :: "caddy_middleware \<Rightarrow> 'w caddy_app \<Rightarrow> caddy_middleware \<times> 'w caddy_app" where
  "FromApp s0 app0 =
     (let c0 = cm_Configuration s0;
          c = (if caddy_GetDefaultCache c0 = None then caddy_configuration0 else c0);
          s = s0\<lparr>cm_Configuration := c\<rparr>;
          a = app_defaults (cy_DefaultCache c) (ca_DefaultCache app0);
          app = app0\<lparr>ca_DefaultCache := a\<rparr>
      in if caddy_GetDefaultCache c = None then
           (s\<lparr>cm_Configuration := c\<lparr>cy_DefaultCache := default_cache0\<lparr>
                dc_AllowedHTTPVerbs := dc_AllowedHTTPVerbs a,
                dc_AllowedAdditionalStatusCodes := dc_AllowedAdditionalStatusCodes a,
                dc_Headers := dc_Headers a, dc_Key := dc_Key a, dc_TTL := dc_TTL a, dc_Stale := dc_Stale a,
                dc_DefaultCacheControl := dc_DefaultCacheControl a,
                dc_MappingEvictionInterval := dc_MappingEvictionInterval a,
                dc_CacheName := dc_CacheName a, dc_Timeout := dc_Timeout a\<rparr>,
              cy_HeadersNil := ca_HeadersNil app\<rparr>\<rparr>, app)
         else
           (let keys = cy_CacheKeys c;
                dc = cy_DefaultCache c
            in (s\<lparr>cm_CacheKeys := (if cm_CacheKeys s = None then ca_CacheKeys app else cm_CacheKeys s),
                  cm_Configuration := c\<lparr>
                    cy_CacheKeys := keys @ concat (map (map (\<lambda>(k, v). [(k, v)])) keys),
                    cy_DefaultCache := merge_default_cache a (cy_HeadersNil c) dc,
                    cy_HeadersNil := (cy_HeadersNil c \<and> ca_HeadersNil app),
                    cy_LogLevel := (if cy_LogLevel c = [] then ca_LogLevel app else cy_LogLevel c),
                    cy_SurrogateKeyDisabled := (cy_SurrogateKeyDisabled c \<or> ca_SurrogateKeyDisabled app)\<rparr>\<rparr>,
                app)))"

section \<open>Identifiers of the storages\<close>

definition conf_map :: "any \<Rightarrow> (string \<times> any) list" where
  "conf_map c = (case c of VMap m \<Rightarrow> m | _ \<Rightarrow> [])"

definition conf_or :: "string \<Rightarrow> string \<Rightarrow> (string \<times> any) list \<Rightarrow> string" where
  "conf_or old k m = (case map_of m k of None \<Rightarrow> old | Some d \<Rightarrow> sprint_any d)"

definition badger_uuid :: "duration \<Rightarrow> cache_provider \<Rightarrow> string go" where
  "badger_uuid stale p =
     (let m = conf_map (cp_Configuration p);
          dir0 = conf_or (cp_Path p) ''Dir'' m;
          vdir0 = conf_or dir0 ''ValueDir'' m;
          (dir, vdir) = (if cp_Configuration p = VNil then (dir0, vdir0)
            else let d = (if dir0 = [] then ''souin_dir'' else dir0)
                 in (d, if vdir0 = [] then d else vdir0))
      in Inr (''BADGER-'' @ dir @ ''-'' @ vdir @ ''-'' @ Duration_String stale))"

definition etcd_uuid :: "duration \<Rightarrow> cache_provider \<Rightarrow> string go" where
  "etcd_uuid stale p =
     (let m = conf_map (cp_Configuration p)
      in Inr (''ETCD-'' @ conf_or (cp_URL p) ''Endpoints'' m @ ''-'' @ conf_or [] ''Username'' m @ ''-''
           @ conf_or [] ''Password'' m @ ''-'' @ Duration_String stale))"

definition nats_uuid :: "duration \<Rightarrow> cache_provider \<Rightarrow> string go" where
  "nats_uuid stale p = Inr (''NATS-'' @ cp_URL p @ ''-'' @ Duration_String stale)"

definition nuts_uuid :: "duration \<Rightarrow> cache_provider \<Rightarrow> string go" where
  "nuts_uuid stale p =
     (let dir = (if cp_Configuration p \<noteq> VNil then conf_or ''/tmp/souin-nuts'' ''Dir'' (conf_map (cp_Configuration p))
                 else if cp_Path p \<noteq> [] then cp_Path p else ''/tmp/souin-nuts'')
      in Inr (''NUTS-'' @ dir @ ''-'' @ Duration_String stale))"

definition olric_uuid :: "duration \<Rightarrow> cache_provider \<Rightarrow> string go" where
  "olric_uuid stale p = Inr (''OLRIC-'' @ cp_URL p @ ''-'' @ Duration_String stale)"

definition otter_uuid :: "duration \<Rightarrow> cache_provider \<Rightarrow> string go" where
  "otter_uuid stale p = Inr (''OTTER-'' @ Duration_String stale)"

text \<open>The addresses must be a list of untyped values that are strings.\<close>

definition addresses :: "string \<Rightarrow> string \<Rightarrow> (string \<times> any) list \<Rightarrow> string go" where
  "addresses old k m =
     (case map_of m k of None \<Rightarrow> Inr old
      | Some d \<Rightarrow> go_bind (need_list d) (\<lambda>l. go_bind (go_mapM need_str l) (\<lambda>ss. Inr (Join ss '',''))))"

definition redis_uuid :: "duration \<Rightarrow> cache_provider \<Rightarrow> string go" where
  "redis_uuid stale p =
     (let m = conf_map (cp_Configuration p)
      in go_bind (addresses (cp_URL p) ''InitAddress'' m) (\<lambda>a1.
         go_bind (addresses a1 ''Addrs'' m) (\<lambda>a2.
           Inr (''REDIS-'' @ a2 @ ''-'' @ conf_or [] ''Username'' m @ ''-''
             @ conf_or (conf_or ''0'' ''SelectDB'' m) ''DB'' m @ ''-'' @ conf_or ''souin-redis'' ''ClientName'' m
             @ ''-'' @ Duration_String stale))))"

definition simplefs_uuid :: "string \<Rightarrow> duration \<Rightarrow> cache_provider \<Rightarrow> string go" where
  "simplefs_uuid cwd stale p =
     (let m = conf_map (cp_Configuration p);
          path1 = (if cp_Path p = [] then conf_or [] ''path'' m else cp_Path p);
          path = (if path1 = [] then cwd else path1)
      in Inr (''SIMPLEFS-'' @ path @ ''-'' @ conf_or ''0'' ''size'' m))"

definition storage_step ::
  "(string \<Rightarrow> cache_provider \<Rightarrow> duration \<Rightarrow> bool) \<Rightarrow> string \<Rightarrow> (default_cache \<Rightarrow> cache_provider)
     \<Rightarrow> ((cache_provider \<Rightarrow> cache_provider) \<Rightarrow> default_cache \<Rightarrow> default_cache)
     \<Rightarrow> (duration \<Rightarrow> cache_provider \<Rightarrow> string go) \<Rightarrow> default_cache \<Rightarrow> default_cache go" where
  "storage_step load name get upd uuid dc =
     (if \<not> cp_Found (get dc) \<or> load name (get dc) (dc_Stale dc) then Inr dc
      else go_bind (uuid (dc_Stale dc) (get dc)) (\<lambda>u. Inr (upd (\<lambda>p. p\<lparr>cp_Uuid := u\<rparr>) dc)))"

definition parseStorages ::
  "(string \<Rightarrow> cache_provider \<Rightarrow> duration \<Rightarrow> bool) \<Rightarrow> string \<Rightarrow> default_cache \<Rightarrow> default_cache go" where
  "parseStorages load cwd dc =
     go_bind (storage_step load ''badger'' dc_Badger dc_Badger_update badger_uuid dc) (\<lambda>dc1.
     go_bind (storage_step load ''etcd'' dc_Etcd dc_Etcd_update etcd_uuid dc1) (\<lambda>dc2.
     go_bind (storage_step load ''nats'' dc_Nats dc_Nats_update nats_uuid dc2) (\<lambda>dc3.
     go_bind (storage_step load ''nuts'' dc_Nuts dc_Nuts_update nuts_uuid dc3) (\<lambda>dc4.
     go_bind (storage_step load ''olric'' dc_Olric dc_Olric_update olric_uuid dc4) (\<lambda>dc5.
     go_bind (storage_step load ''otter'' dc_Otter dc_Otter_update otter_uuid dc5) (\<lambda>dc6.
     go_bind (storage_step load ''redis'' dc_Redis dc_Redis_update redis_uuid dc6) (\<lambda>dc7.
       storage_step load ''simplefs'' dc_SimpleFS dc_SimpleFS_update (simplefs_uuid cwd) dc7)))))))"

section \<open>Provisioning\<close>

text \<open>
  \<open>pool\<close> is the surrogate storage that the usage pool holds across reloads; \<open>registry\<close> the
  storages that were loaded.  The result: the handler, the application and the pool.
\<close>

definition Provision ::
  "regexp_engine \<Rightarrow> api_env \<Rightarrow> (string \<Rightarrow> cache_provider \<Rightarrow> duration \<Rightarrow> bool) \<Rightarrow> string \<Rightarrow> 'w storer
     \<Rightarrow> (string, 'w storer) amap \<Rightarrow> caddy_middleware \<Rightarrow> 'w caddy_app \<Rightarrow> 'w base_storage option
     \<Rightarrow> ('w handler \<times> 'w caddy_app \<times> 'w base_storage option) go" where
  "Provision re ae load cwd memory registry s app pool =
     (case FromApp (configurationPropertyMapper s) app of
        (s1, app1) \<Rightarrow>
          go_bind (parseStorages load cwd (cy_DefaultCache (cm_Configuration s1))) (\<lambda>dc.
          go_bind (NewHTTPCacheHandler re ae memory registry (caddy_interface ((cm_Configuration s1)\<lparr>cy_DefaultCache := dc\<rparr>))) (\<lambda>bh.
            let bh1 = (case pool of None \<Rightarrow> bh | Some st \<Rightarrow> bh\<lparr>sh_SurrogateKeyStorer := st\<rparr>);
                app2 = (if ca_Storers app1 = [] then app1\<lparr>ca_Storers := sh_Storers bh1\<rparr> else app1);
                pool1 = Some (sh_SurrogateKeyStorer bh1)
            in Inr (case ca_SurrogateStorage app2 of
                      None \<Rightarrow> (bh1, withSurrogateStorer (sh_SurrogateKeyStorer bh1) app2, pool1)
                    | Some st \<Rightarrow> (bh1\<lparr>sh_SurrogateKeyStorer := st\<rparr>, app2, pool1)))))"

section \<open>The admin endpoint\<close>

text \<open>The goroutine of \<open>adminAPI.Provision\<close>, once the application has sent its notification.\<close>

definition admin_handlers ::
  "api_env \<Rightarrow> 'w caddy_app \<Rightarrow> (string, 'w http_handler) amap option go" where
  "admin_handlers e app =
     (case ca_notifier app of
        None \<Rightarrow> Inr None
      | Some (api, surrogate) \<Rightarrow>
          GenerateHandlerMap e (caddy_interface (caddy_configuration0\<lparr>cy_API := api,
            cy_DefaultCache := default_cache0\<lparr>dc_TTL := 120 * Second, dc_MappingEvictionInterval := Hour\<rparr>\<rparr>))
            (ca_Storers app) surrogate)"

text \<open>The handler whose path occurs in the request's URI; none is the error 404.\<close>

definition handleAPIEndpoints :: "(string, 'w http_handler) amap option \<Rightarrow> request \<Rightarrow> 'w http_handler option" where
  "handleAPIEndpoints handlers r =
     (case handlers of
        None \<Rightarrow> None
      | Some m \<Rightarrow> map_option snd (find (\<lambda>(k, _). sublist k (req_RequestURI r)) m))"

end
