(* ===== verification/ParserLaws.thy ===== *)
theory ParserLaws
  imports ConfigParser "HOL-Library.Multiset"
begin

text \<open>
  What the configuration parser guarantees and what it does not: the order in which Go visits the
  top-level map does not matter, the order of the cache-key rules does; a flag of a rule is its
  presence; the headers of a URL are lost.
\<close>

section \<open>Order\<close>

text \<open>The result without the reason of a panic.\<close>

definition go_value :: "'a go \<Rightarrow> 'a option" where
  "go_value r = (case r of Inl _ \<Rightarrow> None | Inr x \<Rightarrow> Some x)"

lemma go_value_simps [simp]:
  "go_value (Inl p) = None" "go_value (Inr x) = Some x"
  by (simp_all add: go_value_def)

lemma go_value_bind: "go_value (go_bind r f) = Option.bind (go_value r) (\<lambda>x. go_value (f x))"
  by (cases r) simp_all

definition go_steps :: "('a \<Rightarrow> 's \<Rightarrow> 's go) \<Rightarrow> 'a \<Rightarrow> 's option \<Rightarrow> 's option" where
  "go_steps f x os = Option.bind os (\<lambda>s. go_value (f x s))"

lemma go_steps_None: "fold (go_steps f) xs None = None"
  by (induction xs) (simp_all add: go_steps_def)

lemma go_foldM_value: "go_value (go_foldM f xs s) = fold (go_steps f) xs (Some s)"
proof (induction xs arbitrary: s)
  case Nil
  show ?case by simp
next
  case (Cons x xs)
  show ?case
    by (cases "f x s") (simp_all add: Cons.IH go_steps_def [of f x] go_steps_None)
qed

lemma go_foldM_permuted:
  assumes "mset xs = mset ys" and "distinct (map fst xs)"
    and "\<And>k v k' v' s. k \<noteq> k' \<Longrightarrow>
      go_value (go_bind (f (k, v) s) (f (k', v'))) = go_value (go_bind (f (k', v') s) (f (k, v)))"
  shows "go_value (go_foldM f xs s) = go_value (go_foldM f ys s)"
proof -
  have "go_steps f x \<circ> go_steps f y = go_steps f y \<circ> go_steps f x" if "x \<in> set xs" "y \<in> set xs" for x y
  proof (cases "x = y")
    case False
    then have "fst x \<noteq> fst y" using that assms(2) by (auto simp: distinct_map inj_on_def)
    then show ?thesis using assms(3) [of "fst x" "fst y" "snd x" _ "snd y"]
      by (auto simp: fun_eq_iff go_steps_def go_value_bind split: option.splits)
  qed simp
  then have "fold (go_steps f) xs = fold (go_steps f) ys"
    using assms(1) by (rule fold_multiset_equiv)
  then show ?thesis by (simp add: go_foldM_value)
qed

definition config_update :: "string \<Rightarrow> (base_configuration \<Rightarrow> base_configuration) \<Rightarrow> bool" where
  "config_update k g \<longleftrightarrow> g = id
     \<or> k = ''api'' \<and> (\<exists>x. g = (\<lambda>c. c\<lparr>bc_API := x\<rparr>))
     \<or> k = ''cache_keys'' \<and> (\<exists>x. g = (\<lambda>c. c\<lparr>bc_CacheKeys := x\<rparr>))
     \<or> k = ''default_cache'' \<and> (\<exists>x. g = (\<lambda>c. c\<lparr>bc_DefaultCache := x\<rparr>))
     \<or> k = ''log_level'' \<and> (\<exists>x. g = (\<lambda>c. c\<lparr>bc_LogLevel := x\<rparr>))
     \<or> k = ''urls'' \<and> (\<exists>x. g = (\<lambda>c. c\<lparr>bc_URLs := x\<rparr>))
     \<or> k = ''ykeys'' \<and> (\<exists>x. g = (\<lambda>c. c\<lparr>bc_Ykeys := x\<rparr>))
     \<or> k = ''surrogate_keys'' \<and> (\<exists>x. g = (\<lambda>c. c\<lparr>bc_SurrogateKeys := x\<rparr>))
     \<or> k = ''disable_surrogate_key'' \<and> (\<exists>x. g = (\<lambda>c. c\<lparr>bc_SurrogateKeyDisabled := x\<rparr>))"

lemma config_update_commute:
  assumes "config_update k g" "config_update k' g'" "k \<noteq> k'"
  shows "g (g' c) = g' (g c)"
  using assms unfolding config_update_def
  by (elim disjE conjE exE; hypsubst) simp_all

lemma config_field_update:
  obtains r where "\<And>c. go_value (config_field re (k, v) c) = map_option (\<lambda>g. g c) r"
    and "\<And>g. r = Some g \<Longrightarrow> config_update k g"
proof
  let ?p = "need_map v"
  define r :: "(base_configuration \<Rightarrow> base_configuration) option" where "r =
     (if k = ''api'' then map_option (\<lambda>x c. c\<lparr>bc_API := x\<rparr>) (go_value (go_bind ?p parseAPI))
      else if k = ''cache_keys'' then map_option (\<lambda>x c. c\<lparr>bc_CacheKeys := x\<rparr>) (go_value (go_bind ?p (parseCacheKeys re)))
      else if k = ''default_cache'' then map_option (\<lambda>x c. c\<lparr>bc_DefaultCache := x\<rparr>) (go_value (go_bind ?p parseDefaultCache))
      else if k = ''log_level'' then map_option (\<lambda>x c. c\<lparr>bc_LogLevel := x\<rparr>) (go_value (need_str v))
      else if k = ''urls'' then map_option (\<lambda>x c. c\<lparr>bc_URLs := x\<rparr>) (go_value (go_bind ?p parseURLs))
      else if k = ''ykeys'' then map_option (\<lambda>x c. c\<lparr>bc_Ykeys := x\<rparr>) (go_value (go_bind ?p parseSurrogateKeys))
      else if k = ''surrogate_keys'' then map_option (\<lambda>x c. c\<lparr>bc_SurrogateKeys := x\<rparr>) (go_value (go_bind ?p parseSurrogateKeys))
      else if k = ''disable_surrogate_key'' then map_option (\<lambda>x c. c\<lparr>bc_SurrogateKeyDisabled := x\<rparr>) (go_value (need_bool v))
      else Some id)"
  show "go_value (config_field re (k, v) c) = map_option (\<lambda>g. g c) r" for c
    unfolding r_def config_field_def
    by (simp add: go_value_bind map_option_bind option.map_comp comp_def bind_map_option map_conv_bind_option)
  show "config_update k g" if "r = Some g" for g
    using that unfolding r_def config_update_def by (auto split: if_splits)
qed

lemma config_field_commute:
  assumes "k \<noteq> k'"
  shows "go_value (go_bind (config_field re (k, v) c) (config_field re (k', v')))
    = go_value (go_bind (config_field re (k', v') c) (config_field re (k, v)))"
proof -
  obtain r where r: "\<And>c. go_value (config_field re (k, v) c) = map_option (\<lambda>g. g c) r"
    "\<And>g. r = Some g \<Longrightarrow> config_update k g" by (rule config_field_update [of re k v]) blast
  obtain r' where r': "\<And>c. go_value (config_field re (k', v') c) = map_option (\<lambda>g. g c) r'"
    "\<And>g. r' = Some g \<Longrightarrow> config_update k' g" by (rule config_field_update [of re k' v']) blast
  show ?thesis
    using config_update_commute [OF r(2) r'(2) assms, of _ _ c]
    by (cases r; cases r') (simp_all add: go_value_bind r(1) r'(1), metis)
qed

text \<open>
  C37. The parsed configuration does not depend on the order in which Go visits the top-level map:
  two listings of the same settings, with distinct names, give the same configuration.
\<close>

theorem ParseConfiguration_order_independent:
  assumes "distinct (map fst m)" and "mset m = mset m'" and "ParseConfiguration re m c = Inr c'"
  shows "ParseConfiguration re m' c = Inr c'"
proof -
  have "go_value (ParseConfiguration re m c) = go_value (ParseConfiguration re m' c)"
    unfolding ParseConfiguration_def
    using assms(2,1) config_field_commute by (rule go_foldM_permuted)
  then show ?thesis using assms(3)
    by (cases "ParseConfiguration re m' c") simp_all
qed

definition sample_settings :: "(string \<times> any) list" where
  "sample_settings = [(''log_level'', VStr ''debug''), (''disable_surrogate_key'', VBool True),
     (''api'', VMap [(''basepath'', VStr ''/admin'')])]"

theorem ParseConfiguration_order_independent_witness:
  "\<exists>c. ParseConfiguration no_regexp (rev sample_settings) base_configuration0 = Inr c
     \<and> bc_LogLevel c = ''debug'' \<and> api_BasePath (bc_API c) = ''/admin''"
proof -
  let ?c = "base_configuration0\<lparr>bc_LogLevel := ''debug'', bc_SurrogateKeyDisabled := True,
    bc_API := api_config0\<lparr>api_BasePath := ''/admin''\<rparr>\<rparr>"
  have "ParseConfiguration no_regexp sample_settings base_configuration0 = Inr ?c"
    by (simp add: ParseConfiguration_def sample_settings_def config_field_def need_str_def need_bool_def
        need_map_def parseAPI_def api_field_def)
  then have "ParseConfiguration no_regexp (rev sample_settings) base_configuration0 = Inr ?c"
    by (rule ParseConfiguration_order_independent [rotated 2]) (simp_all add: sample_settings_def)
  then show ?thesis by simp
qed

section \<open>Cache keys\<close>

text \<open>The nine flags of a rule, by the names they have in the configuration.\<close>

definition rule_flags :: "cache_key_rule \<Rightarrow> (string \<times> bool) list" where
  "rule_flags ck = [(''disable_body'', ck_DisableBody ck), (''disable_host'', ck_DisableHost ck),
     (''disable_method'', ck_DisableMethod ck), (''disable_query'', ck_DisableQuery ck),
     (''sort_query'', ck_SortQuery ck), (''disable_scheme'', ck_DisableScheme ck),
     (''disable_vary'', ck_DisableVary ck), (''hash'', ck_Hash ck), (''hide'', ck_Hide ck)]"

lemma set_json_flag_flags:
  "k \<in> set json_flags \<Longrightarrow>
     rule_flags (set_json_flag k True ck) = map (\<lambda>(f, b). (f, b \<or> f = k)) (rule_flags ck)"
  unfolding json_flags_def by (simp, elim disjE; simp add: set_json_flag_def rule_flags_def)

lemma rule_flags_names: "(f, b) \<in> set (rule_flags ck) \<Longrightarrow> f \<in> set json_flags"
  by (auto simp: rule_flags_def json_flags_def)

lemma rule_flags0: "(f, b) \<in> set (rule_flags cache_key_rule0) \<Longrightarrow> \<not> b"
  by (auto simp: rule_flags_def cache_key_rule0_def)

lemma key_field_flags:
  assumes "key_field (k, v) ck = Inr ck'"
  shows "rule_flags ck' = map (\<lambda>(f, b). (f, b \<or> f = k)) (rule_flags ck)"
proof (cases "k \<in> set json_flags")
  case True
  then have "ck' = set_json_flag k True ck" using assms by (simp add: key_field_def)
  then show ?thesis using True by (simp add: set_json_flag_flags)
next
  case False
  then have "rule_flags ck' = rule_flags ck"
    using assms by (auto simp: key_field_def rule_flags_def go_bind_Inr_iff split: if_splits)
  moreover have "map (\<lambda>(f, b). (f, b \<or> f = k)) (rule_flags ck) = rule_flags ck"
    by (rule map_idI) (use False rule_flags_names in auto)
  ultimately show ?thesis by simp
qed

lemma key_fields_flags:
  "go_foldM key_field fs ck = Inr ck' \<Longrightarrow>
     rule_flags ck' = map (\<lambda>(f, b). (f, b \<or> f \<in> fst ` set fs)) (rule_flags ck)"
proof (induction fs arbitrary: ck)
  case Nil
  then show ?case by simp
next
  case (Cons kv fs)
  obtain k v where kv: "kv = (k, v)" by (cases kv)
  from Cons.prems obtain c1 where c1: "key_field (k, v) ck = Inr c1" "go_foldM key_field fs c1 = Inr ck'"
    by (auto simp: kv go_bind_Inr_iff)
  show ?case using Cons.IH [OF c1(2)] key_field_flags [OF c1(1)] by (auto simp: kv)
qed

lemma go_mapM_nth:
  "go_mapM f xs = Inr ys \<Longrightarrow> length ys = length xs \<and> (\<forall>i<length xs. f (xs ! i) = Inr (ys ! i))"
proof (induction xs arbitrary: ys)
  case (Cons x xs)
  then show ?case by (force simp: go_bind_Inr_iff nth_Cons split: nat.splits)
qed simp

text \<open>
  A flag of a cache-key rule is set exactly when its name occurs in the settings of the rule: the
  value, \<open>false\<close> included, is not looked at.
\<close>

theorem cache_key_flags_by_presence:
  assumes "parseCacheKeys re m = Inr cks" and "i < length m" and "m ! i = (p, VMap fs)"
  shows "\<exists>rule. cks ! i = [(p, rule)] \<and> (\<forall>(f, b) \<in> set (rule_flags rule). b \<longleftrightarrow> f \<in> fst ` set fs)"
proof -
  have "parse_cache_key re (p, VMap fs) = Inr (cks ! i)"
    using go_mapM_nth [OF assms(1) [unfolded parseCacheKeys_def]] assms(2,3) by auto
  then obtain rule where rule: "go_foldM key_field fs cache_key_rule0 = Inr rule" "cks ! i = [(p, rule)]"
    by (auto simp: parse_cache_key_def need_map_def go_bind_Inr_iff split: if_splits)
  have "b \<longleftrightarrow> f \<in> fst ` set fs" if "(f, b) \<in> set (rule_flags rule)" for f b
    using that key_fields_flags [OF rule(1)] by (auto dest: rule_flags0)
  then show ?thesis using rule(2) by blast
qed

definition any_pattern :: regexp_engine where
  "any_pattern = no_regexp\<lparr>re_ok := (\<lambda>p. True), re_MatchString := (\<lambda>p s. True)\<rparr>"

theorem cache_key_flags_by_presence_witness:
  "\<exists>rule. parseCacheKeys any_pattern [(''/'', VMap [(''disable_body'', VBool False)])] = Inr [[(''/'', rule)]]
     \<and> ck_DisableBody rule \<and> \<not> ck_DisableHost rule"
proof -
  let ?m = "[(''/'', VMap [(''disable_body'', VBool False)])]"
  obtain cks where cks: "parseCacheKeys any_pattern ?m = Inr cks" "length cks = 1"
    by (auto simp: parseCacheKeys_def parse_cache_key_def need_map_def key_field_def json_flags_def any_pattern_def)
  from cache_key_flags_by_presence [OF cks(1), of 0 "''/''" "[(''disable_body'', VBool False)]"]
  obtain rule where "cks ! 0 = [(''/'', rule)]"
    "\<forall>(f, b) \<in> set (rule_flags rule). b \<longleftrightarrow> f \<in> fst ` set [(''disable_body'', VBool False)]" by auto
  with cks show ?thesis by (auto simp: rule_flags_def length_Suc_conv)
qed

text \<open>
  The rules of the cache keys are tried in the order in which the map was visited: the first one
  whose pattern matches the request decides the key, so that another visit of the same map may give
  another key for the same request.
\<close>

theorem cache_key_first_rule_wins:
  assumes "parseCacheKeys re ((p, v) # m) = Inr cks" and "re_MatchString re p (req_RequestURI r)"
    and "kc_template (kc_info g) = []" and "kc_overrides g = kc_overrides (key_SetupContext (c\<lparr>bc_CacheKeys := cks\<rparr>))"
  obtains rule where "parse_cache_key re (p, v) = Inr [(p, rule)]"
    and "computeKey re tpl g r = (if ck_Template rule \<noteq> [] then template_key tpl r (key_info_of rule)
      else plain_key r (key_info_of rule))"
proof -
  from assms(1) obtain rule rest where *: "parse_cache_key re (p, v) = Inr [(p, rule)]" "cks = [(p, rule)] # rest"
    by (auto simp: parseCacheKeys_def parse_cache_key_def go_bind_Inr_iff split: if_splits)
  show ?thesis
    by (rule that [OF *(1)])
      (simp add: computeKey_def assms(2-4) *(2) key_SetupContext_def key_info_of_def)
qed

theorem cache_key_first_rule_wins_witness:
  "\<exists>cks cks'. parseCacheKeys any_pattern [(''a'', VMap [(''disable_host'', VBool True)]), (''b'', VMap [])] = Inr cks
     \<and> parseCacheKeys any_pattern [(''b'', VMap []), (''a'', VMap [(''disable_host'', VBool True)])] = Inr cks'
     \<and> computeKey any_pattern (\<lambda>r t. t) (key_SetupContext (base_configuration0\<lparr>bc_CacheKeys := cks\<rparr>)) sample_request
       \<noteq> computeKey any_pattern (\<lambda>r t. t) (key_SetupContext (base_configuration0\<lparr>bc_CacheKeys := cks'\<rparr>)) sample_request"
proof -
  let ?a = "(''a'', VMap [(''disable_host'', VBool True)])" and ?b = "(''b'', VMap [])"
  let ?g = "\<lambda>cks. key_SetupContext (base_configuration0\<lparr>bc_CacheKeys := cks\<rparr>)"
  have ab: "parse_cache_key any_pattern ?a = Inr [(''a'', cache_key_rule0\<lparr>ck_DisableHost := True\<rparr>)]"
    "parse_cache_key any_pattern ?b = Inr [(''b'', cache_key_rule0)]"
    by (simp_all add: parse_cache_key_def need_map_def key_field_def json_flags_def set_json_flag_def any_pattern_def)
  then obtain cks cks' where cks: "parseCacheKeys any_pattern [?a, ?b] = Inr cks"
    "parseCacheKeys any_pattern [?b, ?a] = Inr cks'"
    by (auto simp: parseCacheKeys_def)
  have g: "kc_template (kc_info (?g x)) = []" for x
    by (simp add: key_SetupContext_def base_configuration0_def default_cache0_def cache_key_rule0_def key_info_of_def)
  have m: "re_MatchString any_pattern x y" for x y by (simp add: any_pattern_def)
  obtain rule where 1: "parse_cache_key any_pattern ?a = Inr [(''a'', rule)]"
    "computeKey any_pattern (\<lambda>r t. t) (?g cks) sample_request = (if ck_Template rule \<noteq> []
       then template_key (\<lambda>r t. t) sample_request (key_info_of rule) else plain_key sample_request (key_info_of rule))"
    by (rule cache_key_first_rule_wins [OF cks(1) m g refl])
  obtain rule' where 2: "parse_cache_key any_pattern ?b = Inr [(''b'', rule')]"
    "computeKey any_pattern (\<lambda>r t. t) (?g cks') sample_request = (if ck_Template rule' \<noteq> []
       then template_key (\<lambda>r t. t) sample_request (key_info_of rule') else plain_key sample_request (key_info_of rule'))"
    by (rule cache_key_first_rule_wins [OF cks(2) m g refl])
  have "plain_key sample_request (key_info_of rule) \<noteq> plain_key sample_request (key_info_of rule')"
    "ck_Template rule = []" "ck_Template rule' = []"
    using 1(1) 2(1) ab
    by (auto simp: plain_key_def parseKeyInformations_def key_info_of_def cache_key_rule0_def sample_request_def)
  with 1(2) 2(2) cks show ?thesis by auto
qed

section \<open>URLs\<close>

lemma url_field_headers:
  assumes "url_field (VMap fs) kv u = Inr u'" and "url_Headers u = []"
  shows "url_Headers u' = []"
  using assms by (cases kv) (auto simp: url_field_def url_headers_def go_bind_Inr_iff split: if_splits)

text \<open>
  The header lists of the URL settings are lost: whatever the configuration says, every parsed
  URL has no headers.
\<close>

theorem parseURLs_headers_lost:
  assumes "parseURLs m = Inr us" and "map_of us k = Some u"
  shows "url_Headers u = []"
proof -
  have parsed: "url_Headers x = []" if x: "parse_url v = Inr x" for v x
  proof -
    from x obtain fs where "go_foldM (url_field (VMap fs)) fs \<lparr>url_TTL = 0, url_Headers = [], url_DefaultCacheControl = []\<rparr> = Inr x"
      by (cases v) (auto simp: parse_url_def need_map_def go_bind_Inr_iff)
    then show ?thesis
      by (rule go_foldM_invariant [where P = "\<lambda>u. url_Headers u = []"]) (auto intro: url_field_headers)
  qed
  have "\<forall>k u. map_of us k = Some u \<longrightarrow> url_Headers u = []"
    by (rule go_foldM_invariant [OF assms(1) [unfolded parseURLs_def], where P = "\<lambda>us. \<forall>k u. map_of us k = Some u \<longrightarrow> url_Headers u = []"])
      (auto simp: go_bind_Inr_iff parsed split: if_splits)
  then show ?thesis using assms(2) by blast
qed

theorem parseURLs_headers_lost_witness:
  "\<exists>u. parseURLs [(''/a'', VMap [(''headers'', VStrs [''Accept''])])] = Inr [(''/a'', u)] \<and> url_Headers u = []"
proof -
  obtain us u where "parseURLs [(''/a'', VMap [(''headers'', VStrs [''Accept''])])] = Inr us"
    "us = [(''/a'', u)]" "map_of us ''/a'' = Some u"
    by (auto simp: parseURLs_def parse_url_def need_map_def url_field_def url_headers_def)
  with parseURLs_headers_lost show ?thesis by metis
qed

end
