(* ===== verification/CaddyLaws.thy ===== *)
theory CaddyLaws
  imports CaddyConfig ParserLaws
begin

text \<open>
  The Caddy plugin: which settings are in force after the merge with the global ones, which are
  lost, which storages take part, and that a reload keeps the surrogate keys.
\<close>

section \<open>Merging\<close>

abbreviation merged :: "caddy_middleware \<Rightarrow> 'w caddy_app \<Rightarrow> caddy_configuration" where
  "merged s app \<equiv> cm_Configuration (fst (FromApp s app))"

lemma merged_default_cache:
  "cy_DefaultCache (merged s app) =
     (let d = cy_DefaultCache (cm_Configuration s)
      in merge_default_cache (app_defaults d (ca_DefaultCache app)) (cy_HeadersNil (cm_Configuration s)) d)"
  by (simp add: FromApp_def caddy_GetDefaultCache_def Let_def)

lemma merged_cache_keys:
  "cy_CacheKeys (merged s app) =
     cy_CacheKeys (cm_Configuration s) @ concat (map (map (\<lambda>(k, v). [(k, v)])) (cy_CacheKeys (cm_Configuration s)))"
  by (simp add: FromApp_def caddy_GetDefaultCache_def Let_def)

lemma merge_storages_keeps [simp]:
  "dc_TTL (merge_storages a dc) = dc_TTL dc" "dc_Stale (merge_storages a dc) = dc_Stale dc"
  "dc_MappingEvictionInterval (merge_storages a dc) = dc_MappingEvictionInterval dc"
  by (simp_all add: merge_storages_def)

text \<open>
  After the merge no handler is without a time to live or an eviction interval: the handler's
  value wins, then the global one, then 120 seconds and one hour.
\<close>

theorem FromApp_durations_set:
  shows "dc_TTL (cy_DefaultCache (merged s app)) \<noteq> 0
    \<and> dc_MappingEvictionInterval (cy_DefaultCache (merged s app)) \<noteq> 0
    \<and> dc_TTL (cy_DefaultCache (merged s app)) \<in>
        {dc_TTL (cy_DefaultCache (cm_Configuration s)), dc_TTL (ca_DefaultCache app), 120 * Second}
    \<and> dc_MappingEvictionInterval (cy_DefaultCache (merged s app)) \<in>
        {dc_MappingEvictionInterval (cy_DefaultCache (cm_Configuration s)),
         dc_MappingEvictionInterval (ca_DefaultCache app), Hour}"
  unfolding merged_default_cache
  by (simp add: merge_default_cache_def app_defaults_def Let_def Second_def Hour_def Minute_def)

section \<open>Cache keys\<close>

lemma first_match_append:
  "first_match re uri (xs @ ys) = (case first_match re uri xs of None \<Rightarrow> first_match re uri ys | r \<Rightarrow> r)"
  by (induction xs) (auto split: option.splits)

lemma first_match_None:
  "first_match re uri xs = None \<longleftrightarrow> (\<forall>m \<in> set xs. \<forall>(k, v) \<in> set m. \<not> re_MatchString re k uri)"
proof (induction xs)
  case (Cons m xs)
  show ?case
  proof (cases "find (\<lambda>(k, v). re_MatchString re k uri) m")
    case None
    then have "\<forall>(k, v) \<in> set m. \<not> re_MatchString re k uri" unfolding find_None_iff by auto
    then show ?thesis using Cons None by simp
  next
    case (Some p)
    then have p: "p \<in> set m" "re_MatchString re (fst p) uri"
      by (auto simp: find_Some_iff split_beta in_set_conv_nth)
    have "\<not> (\<forall>m' \<in> set (m # xs). \<forall>(k, v) \<in> set m'. \<not> re_MatchString re k uri)"
      using p by (simp add: split_beta) blast
    moreover have "first_match re uri (m # xs) \<noteq> None" using Some by (cases p) simp
    ultimately show ?thesis by blast
  qed
qed simp

definition overrides_of :: "caddy_configuration \<Rightarrow> (string, key_info) amap list" where
  "overrides_of c = kc_overrides (key_SetupContext (caddy_interface c))"

text \<open>
  The cache keys of the global options never take part: the handler's own rules are appended to
  themselves instead, so that the rule that decides the key of a request is the one of the handler
  alone, whatever the application holds.
\<close>

theorem global_cache_keys_ignored:
  "first_match re uri (overrides_of (merged s app)) = first_match re uri (overrides_of (cm_Configuration s))"
proof -
  let ?ks = "cy_CacheKeys (cm_Configuration s)"
  let ?f = "map (\<lambda>(r, v). [(r, key_info_of v)])"
  have o: "overrides_of c = concat (map ?f (cy_CacheKeys c))" for c
    by (simp add: overrides_of_def key_SetupContext_def caddy_interface_def)
  let ?own = "concat (map ?f ?ks)"
  have "overrides_of (merged s app) = ?own @ concat (map ?f (concat (map (map (\<lambda>(k, v). [(k, v)])) ?ks)))"
    unfolding o merged_cache_keys by simp
  moreover have "first_match re uri (concat (map ?f (concat (map (map (\<lambda>(k, v). [(k, v)])) ?ks)))) = None"
    if "first_match re uri ?own = None"
    using that unfolding first_match_None by fastforce
  ultimately show ?thesis
    unfolding o by (simp add: first_match_append split: option.splits)
qed

section \<open>Provisioning\<close>

text \<open>
  The settings of the handler's JSON form are never read: two handlers with the same
  \<open>Configuration\<close> are provisioned alike, whatever their other fields hold.
\<close>

theorem json_settings_ignored:
  assumes "cm_Configuration s = cm_Configuration s'"
  shows "Provision re ae load cwd memory registry s app pool = Provision re ae load cwd memory registry s' app pool"
proof -
  have "configurationPropertyMapper x = x" for x
    by (simp add: configurationPropertyMapper_def caddy_GetDefaultCache_def)
  moreover have "merged s app = merged s' app" "snd (FromApp s app) = snd (FromApp s' app)"
    using assms by (simp_all add: FromApp_def caddy_GetDefaultCache_def Let_def)
  ultimately show ?thesis
    by (cases "FromApp s app"; cases "FromApp s' app") (simp add: Provision_def)
qed

lemma Provision_surrogates:
  assumes "Provision re ae load cwd memory registry s app pool = Inr (h, app', pool')"
  shows "(\<forall>st. pool = Some st \<longrightarrow> pool' = Some st)"
    and "ca_SurrogateStorage app = None \<longrightarrow>
      pool' = Some (sh_SurrogateKeyStorer h) \<and> ca_SurrogateStorage app' = Some (sh_SurrogateKeyStorer h)"
    and "(\<forall>st. ca_SurrogateStorage app = Some st \<longrightarrow> sh_SurrogateKeyStorer h = st)"
    and "ca_SurrogateStorage app' = Some (sh_SurrogateKeyStorer h)"
proof -
  obtain s1 app1 where f: "FromApp (configurationPropertyMapper s) app = (s1, app1)" by fastforce
  have "ca_SurrogateStorage (snd (FromApp x app)) = ca_SurrogateStorage app" for x
    by (simp add: FromApp_def caddy_GetDefaultCache_def Let_def)
  then have a: "ca_SurrogateStorage app1 = ca_SurrogateStorage app" by (metis f snd_conv)
  obtain dc bh where "parseStorages load cwd (cy_DefaultCache (cm_Configuration s1)) = Inr dc"
    "NewHTTPCacheHandler re ae memory registry (caddy_interface ((cm_Configuration s1)\<lparr>cy_DefaultCache := dc\<rparr>)) = Inr bh"
    using assms unfolding Provision_def f by (auto simp: go_bind_Inr_iff)
  note P = assms [unfolded Provision_def f prod.case this go_bind_simps Let_def]
  show "(\<forall>st. pool = Some st \<longrightarrow> pool' = Some st)"
    "ca_SurrogateStorage app = None \<longrightarrow>
      pool' = Some (sh_SurrogateKeyStorer h) \<and> ca_SurrogateStorage app' = Some (sh_SurrogateKeyStorer h)"
    "(\<forall>st. ca_SurrogateStorage app = Some st \<longrightarrow> sh_SurrogateKeyStorer h = st)"
    "ca_SurrogateStorage app' = Some (sh_SurrogateKeyStorer h)"
    using P a by (auto simp: withSurrogateStorer_def split: option.splits if_splits)
qed

text \<open>
  A reload keeps the surrogate keys: the handler that is provisioned for a new application while
  the pool still holds the storage of an earlier one uses that storage.
\<close>

theorem reload_keeps_surrogates:
  assumes "Provision re ae load cwd memory registry s app pool = Inr (h, app1, pool1)"
    and "Provision re' ae' load' cwd' memory' registry' s' app' pool1 = Inr (h', app1', pool1')"
    and "ca_SurrogateStorage app = None" "ca_SurrogateStorage app' = None"
  shows "sh_SurrogateKeyStorer h' = sh_SurrogateKeyStorer h"
  using Provision_surrogates(2) [OF assms(1)] Provision_surrogates(1,2) [OF assms(2)] assms(3,4) by simp

section \<open>Storages\<close>

lemma storage_step_other:
  assumes "storage_step load name get upd uuid dc = Inr dc'" and "\<And>f d. field (upd f d) = field d"
  shows "field dc' = field dc"
  using assms by (auto simp: storage_step_def go_bind_Inr_iff split: if_splits)

text \<open>The storages with their settings, in the order of the code.\<close>

definition storages_of :: "default_cache \<Rightarrow> (string \<times> cache_provider) list" where
  "storages_of dc = [(''badger'', dc_Badger dc), (''etcd'', dc_Etcd dc), (''nats'', dc_Nats dc),
     (''nuts'', dc_Nuts dc), (''olric'', dc_Olric dc), (''otter'', dc_Otter dc), (''redis'', dc_Redis dc),
     (''simplefs'', dc_SimpleFS dc)]"

definition uuid_prefixed :: "(duration \<Rightarrow> cache_provider \<Rightarrow> string go) \<Rightarrow> bool" where
  "uuid_prefixed uuid \<longleftrightarrow> (\<forall>d p. uuid d p \<noteq> Inr [])"

lemma uuids_prefixed:
  "uuid_prefixed badger_uuid" "uuid_prefixed etcd_uuid" "uuid_prefixed nats_uuid" "uuid_prefixed nuts_uuid"
  "uuid_prefixed olric_uuid" "uuid_prefixed otter_uuid" "uuid_prefixed redis_uuid" "uuid_prefixed (simplefs_uuid cwd)"
  by (auto simp: uuid_prefixed_def badger_uuid_def etcd_uuid_def nats_uuid_def nuts_uuid_def olric_uuid_def
      otter_uuid_def redis_uuid_def simplefs_uuid_def go_bind_Inr_iff Let_def split: prod.splits)

lemma storage_step_uuid:
  assumes "storage_step load name get upd uuid dc = Inr dc'" "uuid_prefixed uuid"
    and "\<And>f d. get (upd f d) = f (get d)" "cp_Uuid (get dc) = []"
  shows "cp_Uuid (get dc') \<noteq> [] \<longleftrightarrow> cp_Found (get dc) \<and> \<not> load name (get dc) (dc_Stale dc)"
  using assms by (auto simp: storage_step_def uuid_prefixed_def go_bind_Inr_iff split: if_splits)

text \<open>
  A storage gets an identifier, under which the cache handler then looks it up, exactly when it
  is configured and Caddy loaded its module.
\<close>

theorem parseStorages_identifies:
  assumes "parseStorages load cwd dc = Inr dc'" "\<forall>u \<in> set (configured_uuids dc). u = []"
  shows "list_all2 (\<lambda>(name, p) (name', p'). name' = name
    \<and> (cp_Uuid p' \<noteq> [] \<longleftrightarrow> cp_Found p \<and> \<not> load name p (dc_Stale dc))) (storages_of dc) (storages_of dc')"
proof -
  obtain d1 d2 d3 d4 d5 d6 d7 where
    s: "storage_step load ''badger'' dc_Badger dc_Badger_update badger_uuid dc = Inr d1"
    "storage_step load ''etcd'' dc_Etcd dc_Etcd_update etcd_uuid d1 = Inr d2"
    "storage_step load ''nats'' dc_Nats dc_Nats_update nats_uuid d2 = Inr d3"
    "storage_step load ''nuts'' dc_Nuts dc_Nuts_update nuts_uuid d3 = Inr d4"
    "storage_step load ''olric'' dc_Olric dc_Olric_update olric_uuid d4 = Inr d5"
    "storage_step load ''otter'' dc_Otter dc_Otter_update otter_uuid d5 = Inr d6"
    "storage_step load ''redis'' dc_Redis dc_Redis_update redis_uuid d6 = Inr d7"
    "storage_step load ''simplefs'' dc_SimpleFS dc_SimpleFS_update (simplefs_uuid cwd) d7 = Inr dc'"
    using assms(1) unfolding parseStorages_def by (auto simp: go_bind_Inr_iff)
  have stale: "dc_Stale d1 = dc_Stale dc" "dc_Stale d2 = dc_Stale dc" "dc_Stale d3 = dc_Stale dc"
    "dc_Stale d4 = dc_Stale dc" "dc_Stale d5 = dc_Stale dc" "dc_Stale d6 = dc_Stale dc" "dc_Stale d7 = dc_Stale dc"
    using s(1-7) [THEN storage_step_other [where field = dc_Stale]] by simp_all
  have b: "dc_Badger dc' = dc_Badger d1"
    using s(2-8) [THEN storage_step_other [where field = dc_Badger]] by simp
  have e: "dc_Etcd d1 = dc_Etcd dc" "dc_Etcd dc' = dc_Etcd d2"
    using s(1,3-8) [THEN storage_step_other [where field = dc_Etcd]] by simp_all
  have n: "dc_Nats d2 = dc_Nats dc" "dc_Nats dc' = dc_Nats d3"
    using s(1,2,4-8) [THEN storage_step_other [where field = dc_Nats]] by simp_all
  have u: "dc_Nuts d3 = dc_Nuts dc" "dc_Nuts dc' = dc_Nuts d4"
    using s(1-3,5-8) [THEN storage_step_other [where field = dc_Nuts]] by simp_all
  have l: "dc_Olric d4 = dc_Olric dc" "dc_Olric dc' = dc_Olric d5"
    using s(1-4,6-8) [THEN storage_step_other [where field = dc_Olric]] by simp_all
  have t: "dc_Otter d5 = dc_Otter dc" "dc_Otter dc' = dc_Otter d6"
    using s(1-5,7,8) [THEN storage_step_other [where field = dc_Otter]] by simp_all
  have r: "dc_Redis d6 = dc_Redis dc" "dc_Redis dc' = dc_Redis d7"
    using s(1-6,8) [THEN storage_step_other [where field = dc_Redis]] by simp_all
  have f: "dc_SimpleFS d7 = dc_SimpleFS dc"
    using s(1-7) [THEN storage_step_other [where field = dc_SimpleFS]] by simp
  have z: "cp_Uuid (dc_Badger dc) = []" "cp_Uuid (dc_Etcd dc) = []" "cp_Uuid (dc_Nats dc) = []"
    "cp_Uuid (dc_Nuts dc) = []" "cp_Uuid (dc_Olric dc) = []" "cp_Uuid (dc_Otter dc) = []"
    "cp_Uuid (dc_Redis dc) = []" "cp_Uuid (dc_SimpleFS dc) = []"
    using assms(2) by (simp_all add: configured_uuids_def)
  show ?thesis
    using s [THEN storage_step_uuid] uuids_prefixed(1-7) uuids_prefixed(8) [of cwd] z stale b e n u l t r f
    by (simp add: storages_of_def)
qed

section \<open>Witnesses\<close>

definition sample_module :: caddy_middleware where
  "sample_module = \<lparr>cm_cacheKeys = [], cm_Configuration = caddy_configuration0, cm_LogLevel = [], cm_Headers = None,
     cm_Badger = cache_provider0, cm_Key = cache_key_rule0, cm_CacheKeys = None, cm_MappingEvictionInterval = 0,
     cm_Nats = cache_provider0, cm_Nuts = cache_provider0, cm_Otter = cache_provider0, cm_Etcd = cache_provider0,
     cm_Redis = cache_provider0, cm_Olric = cache_provider0, cm_Timeout = \<lparr>to_Backend = 0, to_Cache = 0\<rparr>,
     cm_TTL = 0, cm_SimpleFS = cache_provider0, cm_Stale = 0, cm_Storers = [], cm_DefaultCacheControl = [],
     cm_CacheName = []\<rparr>"

definition sample_app :: "default_provider caddy_app" where
  "sample_app = \<lparr>ca_DefaultCache = default_cache0, ca_HeadersNil = True, ca_Storers = [], ca_SurrogateStorage = None,
     ca_SurrogateKeyDisabled = False, ca_CacheKeys = None, ca_API = api_config0, ca_LogLevel = [], ca_notifier = None\<rparr>"

definition sample_api_env :: api_env where
  "sample_api_env = \<lparr>ae_re = any_pattern, ae_codec = sample_codec, ae_decode = (\<lambda>_. None),
     ae_url_parts = (\<lambda>_. None), ae_url_ok = (\<lambda>_. False), ae_pprof = (\<lambda>_ r w. w), ae_promhttp = (\<lambda>r w. w)\<rparr>"

abbreviation (input) sample_provision ::
  "caddy_middleware \<Rightarrow> default_provider base_storage option
     \<Rightarrow> (default_provider handler \<times> default_provider caddy_app \<times> default_provider base_storage option) go" where
  "sample_provision s pool \<equiv> Provision any_pattern sample_api_env (\<lambda>_ _ _. False) ''/''
     (default_storer any_pattern sample_codec) [] s sample_app pool"

theorem json_settings_ignored_witness:
  "sample_provision (sample_module\<lparr>cm_TTL := 5, cm_Storers := [''badger'']\<rparr>) None = sample_provision sample_module None"
  by (rule json_settings_ignored) simp

lemma sample_merged:
  "cy_DefaultCache (merged sample_module sample_app) =
     default_cache0\<lparr>dc_TTL := 120 * Second, dc_MappingEvictionInterval := Hour\<rparr>"
  unfolding merged_default_cache
  by (simp add: sample_module_def sample_app_def caddy_configuration0_def default_cache0_def Let_def app_defaults_def
      merge_default_cache_def no_storage_def isProviderEmpty_def cache_provider0_def merge_storages_def key_unset_def
      cache_key_rule0_def)

lemma sample_provisioned: "\<exists>h app' pool'. sample_provision sample_module pool = Inr (h, app', pool')"
proof -
  obtain s1 app1 where f: "FromApp (configurationPropertyMapper sample_module) sample_app = (s1, app1)" by fastforce
  have c: "configurationPropertyMapper sample_module = sample_module"
    by (simp add: configurationPropertyMapper_def caddy_GetDefaultCache_def)
  let ?dc = "default_cache0\<lparr>dc_TTL := 120 * Second, dc_MappingEvictionInterval := Hour\<rparr>"
  have d: "cy_DefaultCache (cm_Configuration s1) = ?dc" using sample_merged f c by simp
  have p: "parseStorages (\<lambda>_ _ _. False) ''/'' ?dc = Inr ?dc"
    by (simp add: parseStorages_def storage_step_def default_cache0_def cache_provider0_def)
  have "\<exists>h. NewHTTPCacheHandler any_pattern sample_api_env (default_storer any_pattern sample_codec) []
      (caddy_interface ((cm_Configuration s1)\<lparr>cy_DefaultCache := ?dc\<rparr>)) = Inr h"
    by (simp add: NewHTTPCacheHandler_def choose_storers_def Let_def InitializeRegexp_def any_pattern_def no_regexp_def
        InitializeSurrogate_def bs_init_def caddy_interface_def default_storer_def GenerateHandlerMap_def
        api_Initialize_def initializeSouin_def sample_api_env_def default_cache0_def)
  then show ?thesis
    unfolding Provision_def f by (auto simp: d p Let_def split: option.splits)
qed

theorem reload_keeps_surrogates_witness:
  "\<exists>h app1 pool1 h' app1' pool1'. sample_provision sample_module None = Inr (h, app1, pool1)
     \<and> sample_provision sample_module pool1 = Inr (h', app1', pool1')
     \<and> sh_SurrogateKeyStorer h' = sh_SurrogateKeyStorer h"
proof -
  obtain h app1 pool1 where 1: "sample_provision sample_module None = Inr (h, app1, pool1)"
    using sample_provisioned by blast
  obtain h' app1' pool1' where 2: "sample_provision sample_module pool1 = Inr (h', app1', pool1')"
    using sample_provisioned by blast
  have "sh_SurrogateKeyStorer h' = sh_SurrogateKeyStorer h"
    by (rule reload_keeps_surrogates [OF 1 2]) (simp_all add: sample_app_def)
  with 1 2 show ?thesis by blast
qed

theorem parseStorages_identifies_witness:
  "\<exists>dc'. parseStorages (\<lambda>name _ _. name = ''otter'') ''/''
      (default_cache0\<lparr>dc_Nuts := cache_provider0\<lparr>cp_Found := True\<rparr>, dc_Otter := cache_provider0\<lparr>cp_Found := True\<rparr>\<rparr>) = Inr dc'
    \<and> cp_Uuid (dc_Nuts dc') \<noteq> [] \<and> cp_Uuid (dc_Otter dc') = [] \<and> cp_Uuid (dc_Redis dc') = []"
proof -
  let ?dc = "default_cache0\<lparr>dc_Nuts := cache_provider0\<lparr>cp_Found := True\<rparr>, dc_Otter := cache_provider0\<lparr>cp_Found := True\<rparr>\<rparr>"
  obtain dc' where d: "parseStorages (\<lambda>name _ _. name = ''otter'') ''/'' ?dc = Inr dc'"
    by (simp add: parseStorages_def storage_step_def default_cache0_def cache_provider0_def nuts_uuid_def)
  have "list_all2 (\<lambda>(name, p) (name', p'). name' = name \<and> (cp_Uuid p' \<noteq> [] \<longleftrightarrow> cp_Found p \<and> \<not> name = ''otter''))
     (storages_of ?dc) (storages_of dc')"
    by (rule parseStorages_identifies [OF d])
      (simp add: configured_uuids_def default_cache0_def cache_provider0_def)
  with d show ?thesis
    by (simp add: storages_of_def default_cache0_def cache_provider0_def)
qed

end
