(* ===== verification/Caddyfile.thy ===== *)
theory Caddyfile
  imports CaddyConfig
begin

text \<open>
  The Caddyfile parser of the Caddy plugin (plugins/caddy/configuration.go, httpcache.go).  The
  dispenser of tokens is Caddy's: it is a parameter, a record of the methods that the parser calls
  over a state \<open>'d\<close>.  A run that does not end is \<open>None\<close>; a run that ends is an error or a value,
  with the state of the dispenser.  Of an error of the dispenser only the text is kept.
\<close>

section \<open>The dispenser\<close>

record 'd dispenser =
  dp_Next :: "'d \<Rightarrow> bool \<times> 'd"
  dp_Nesting :: "'d \<Rightarrow> nat"
  dp_NextBlock :: "nat \<Rightarrow> 'd \<Rightarrow> bool \<times> 'd"
  dp_Val :: "'d \<Rightarrow> string"
  dp_RemainingArgs :: "'d \<Rightarrow> string list \<times> 'd"

datatype cf_error = CfPanic go_panic | CfErr string

type_synonym ('x, 'd) cf = "((cf_error + 'x) \<times> 'd) option"

definition cf_ret :: "'x \<Rightarrow> 'd \<Rightarrow> ('x, 'd) cf" where
  "cf_ret x d = Some (Inr x, d)"

definition cf_err :: "string \<Rightarrow> 'd \<Rightarrow> ('x, 'd) cf" where
  "cf_err msg d = Some (Inl (CfErr msg), d)"

definition cf_go :: "'x go \<Rightarrow> 'd \<Rightarrow> ('x, 'd) cf" where
  "cf_go g d = Some (case g of Inl p \<Rightarrow> Inl (CfPanic p) | Inr x \<Rightarrow> Inr x, d)"

definition cf_bind :: "('x, 'd) cf \<Rightarrow> ('x \<Rightarrow> 'd \<Rightarrow> ('y, 'd) cf) \<Rightarrow> ('y, 'd) cf" where
  "cf_bind c f = Option.bind c (\<lambda>(r, d). case r of Inl e \<Rightarrow> Some (Inl e, d) | Inr x \<Rightarrow> f x d)"

text \<open>\<open>h.RemainingArgs()\<close> and its first element.\<close>

definition cf_args :: "'d dispenser \<Rightarrow> 'd \<Rightarrow> (string list, 'd) cf" where
  "cf_args D d = (case dp_RemainingArgs D d of (args, d') \<Rightarrow> Some (Inr args, d'))"

definition cf_first :: "string list \<Rightarrow> 'd \<Rightarrow> (string, 'd) cf" where
  "cf_first args d = (case args of [] \<Rightarrow> Some (Inl (CfPanic IndexOutOfRange), d) | a # _ \<Rightarrow> cf_ret a d)"

definition cf_arg :: "'d dispenser \<Rightarrow> 'd \<Rightarrow> (string, 'd) cf" where
  "cf_arg D d = cf_bind (cf_args D d) cf_first"

text \<open>A loop that runs its body as long as the dispenser goes on.\<close>

partial_function (option) cf_loop ::
  "('d \<Rightarrow> bool \<times> 'd) \<Rightarrow> ('x \<Rightarrow> 'd \<Rightarrow> ('x, 'd) cf) \<Rightarrow> 'x \<Rightarrow> 'd \<Rightarrow> ('x, 'd) cf" where
  "cf_loop next body x d =
     (case next d of (again, d1) \<Rightarrow>
        if \<not> again then Some (Inr x, d1)
        else Option.bind (body x d1) (\<lambda>(r, d2). case r of
          Inl e \<Rightarrow> Some (Inl e, d2)
        | Inr x' \<Rightarrow> cf_loop next body x' d2))"

declare cf_loop.simps [code]

text \<open>\<open>for nesting := h.Nesting(); h.NextBlock(nesting);\<close> with the directive given to the body.\<close>

definition cf_block ::
  "'d dispenser \<Rightarrow> (string \<Rightarrow> 'x \<Rightarrow> 'd \<Rightarrow> ('x, 'd) cf) \<Rightarrow> 'x \<Rightarrow> 'd \<Rightarrow> ('x, 'd) cf" where
  "cf_block D body x d =
     cf_loop (dp_NextBlock D (dp_Nesting D d)) (\<lambda>x d. body (dp_Val D d) x d) x d"

section \<open>Free-form settings\<close>

partial_function (option) caddyfile_entries ::
  "'d dispenser \<Rightarrow> nat \<Rightarrow> (string \<times> any) list \<Rightarrow> 'd \<Rightarrow> ((string \<times> any) list \<times> 'd) option" where
  "caddyfile_entries D nesting input d =
     (case dp_NextBlock D nesting d of (again, d1) \<Rightarrow>
        if \<not> again then Some (input, d1)
        else
          (let val = dp_Val D d1
           in if val = ''}'' \<or> val = ''{'' then caddyfile_entries D nesting input d1
              else case dp_RemainingArgs D d1 of
                ([a], d2) \<Rightarrow> caddyfile_entries D nesting (amap_put val (VStr a) input) d2
              | ([], d2) \<Rightarrow> Option.bind (caddyfile_entries D (dp_Nesting D d2) [] d2)
                  (\<lambda>(sub, d3). caddyfile_entries D nesting (amap_put val (VMap sub) input) d3)
              | (args, d2) \<Rightarrow> caddyfile_entries D nesting (amap_put val (VStrs args) input) d2))"

declare caddyfile_entries.simps [code]

definition parseCaddyfileRecursively :: "'d dispenser \<Rightarrow> 'd \<Rightarrow> ((string \<times> any) list, 'd) cf" where
  "parseCaddyfileRecursively D d =
     Option.bind (caddyfile_entries D (dp_Nesting D d) [] d) (\<lambda>(m, d'). Some (Inr m, d'))"

section \<open>Directives\<close>

definition unsupported :: "string \<Rightarrow> string \<Rightarrow> 'd \<Rightarrow> ('x, 'd) cf" where
  "unsupported what directive d = cf_err (''unsupported '' @ what @ '' directive: '' @ directive) d"

definition cf_endpoint ::
  "'d dispenser \<Rightarrow> string \<Rightarrow> string \<Rightarrow> api_endpoint \<Rightarrow> 'd \<Rightarrow> (api_endpoint, 'd) cf" where
  "cf_endpoint D name directive ep d =
     (if directive = ''basepath'' then cf_bind (cf_arg D d) (\<lambda>a. cf_ret (ep\<lparr>ep_BasePath := a\<rparr>))
      else unsupported name directive d)"

definition cf_api :: "'d dispenser \<Rightarrow> string \<Rightarrow> api_config \<Rightarrow> 'd \<Rightarrow> (api_config, 'd) cf" where
  "cf_api D directive a d =
     (let on = api_endpoint0\<lparr>ep_Enable := True\<rparr>
      in if directive = ''basepath'' then cf_bind (cf_arg D d) (\<lambda>b. cf_ret (a\<lparr>api_BasePath := b\<rparr>))
         else if directive = ''debug'' then
           cf_bind (cf_block D (cf_endpoint D ''debug'') on d) (\<lambda>ep. cf_ret (a\<lparr>api_Debug := ep\<rparr>))
         else if directive = ''prometheus'' then
           cf_bind (cf_block D (cf_endpoint D ''prometheus'') on d) (\<lambda>ep. cf_ret (a\<lparr>api_Prometheus := ep\<rparr>))
         else if directive = ''souin'' then
           cf_bind (cf_block D (cf_endpoint D ''souin'') on d) (\<lambda>ep. cf_ret (a\<lparr>api_Souin := ep\<rparr>))
         else unsupported ''api'' directive d)"

text \<open>
  The block of a storage: which of \<open>url\<close> and \<open>path\<close> it has, and what becomes of its free-form settings.
\<close>

definition cf_provider ::
  "'d dispenser \<Rightarrow> string \<Rightarrow> bool \<Rightarrow> bool \<Rightarrow> ((string \<times> any) list \<Rightarrow> (string \<times> any) list go)
     \<Rightarrow> string \<Rightarrow> cache_provider \<Rightarrow> 'd \<Rightarrow> (cache_provider, 'd) cf" where
  "cf_provider D name with_url with_path settings directive p d =
     (if with_url \<and> directive = ''url'' then cf_bind (cf_arg D d) (\<lambda>u. cf_ret (p\<lparr>cp_URL := u\<rparr>))
      else if with_path \<and> directive = ''path'' then cf_bind (cf_arg D d) (\<lambda>u. cf_ret (p\<lparr>cp_Path := u\<rparr>))
      else if directive = ''configuration'' then
        cf_bind (parseCaddyfileRecursively D d) (\<lambda>m d1. cf_bind (cf_go (settings m) d1)
          (\<lambda>m'. cf_ret (p\<lparr>cp_Configuration := VMap m'\<rparr>)))
      else unsupported name directive d)"

definition cf_storage ::
  "'d dispenser \<Rightarrow> string \<Rightarrow> bool \<Rightarrow> bool \<Rightarrow> ((string \<times> any) list \<Rightarrow> (string \<times> any) list go)
     \<Rightarrow> 'd \<Rightarrow> (cache_provider, 'd) cf" where
  "cf_storage D name with_url with_path settings d =
     cf_block D (cf_provider D name with_url with_path settings) (cache_provider0\<lparr>cp_Found := True\<rparr>) d"

definition cf_key :: "'d dispenser \<Rightarrow> string \<Rightarrow> string \<Rightarrow> cache_key_rule \<Rightarrow> 'd \<Rightarrow> (cache_key_rule, 'd) cf" where
  "cf_key D name directive ck d =
     (if directive \<in> set json_flags then cf_ret (set_json_flag directive True ck) d
      else if directive = ''template'' then cf_bind (cf_arg D d) (\<lambda>t. cf_ret (ck\<lparr>ck_Template := t\<rparr>))
      else if directive = ''headers'' then cf_bind (cf_args D d) (\<lambda>hs. cf_ret (ck\<lparr>ck_Headers := hs\<rparr>))
      else unsupported name directive d)"

text \<open>One rule of the cache keys; the pattern is the directive.\<close>

definition cf_cache_key ::
  "'d dispenser \<Rightarrow> regexp_engine \<Rightarrow> string \<Rightarrow> cache_keys \<Rightarrow> 'd \<Rightarrow> (cache_keys, 'd) cf" where
  "cf_cache_key D re rg keys d =
     cf_bind (cf_block D (cf_key D (''cache_keys ('' @ rg @ '')'')) cache_key_rule0 d) (\<lambda>ck d1.
       cf_go (if re_ok re rg then Inr (keys @ [[(rg, ck)]]) else Inl MustCompile) d1)"

definition cf_cdn :: "'d dispenser \<Rightarrow> string \<Rightarrow> cdn_config \<Rightarrow> 'd \<Rightarrow> (cdn_config, 'd) cf" where
  "cf_cdn D directive c d =
     (if directive = ''api_key'' then cf_bind (cf_arg D d) (\<lambda>a. cf_ret (c\<lparr>cdn_APIKey := a\<rparr>))
      else if directive = ''dynamic'' then
        cf_bind (cf_args D d) (\<lambda>args. cf_ret (c\<lparr>cdn_Dynamic := (case args of [] \<Rightarrow> True | a # _ \<Rightarrow> ParseBool a)\<rparr>))
      else if directive = ''email'' then cf_bind (cf_arg D d) (\<lambda>a. cf_ret (c\<lparr>cdn_Email := a\<rparr>))
      else if directive = ''hostname'' then cf_bind (cf_arg D d) (\<lambda>a. cf_ret (c\<lparr>cdn_Hostname := a\<rparr>))
      else if directive = ''network'' then cf_bind (cf_arg D d) (\<lambda>a. cf_ret (c\<lparr>cdn_Network := a\<rparr>))
      else if directive = ''provider'' then cf_bind (cf_arg D d) (\<lambda>a. cf_ret (c\<lparr>cdn_Provider := a\<rparr>))
      else if directive = ''service_id'' then cf_bind (cf_arg D d) (\<lambda>a. cf_ret (c\<lparr>cdn_ServiceID := a\<rparr>))
      else if directive = ''strategy'' then cf_bind (cf_arg D d) (\<lambda>a. cf_ret (c\<lparr>cdn_Strategy := a\<rparr>))
      else if directive = ''zone_id'' then cf_bind (cf_arg D d) (\<lambda>a. cf_ret (c\<lparr>cdn_ZoneID := a\<rparr>))
      else unsupported ''cdn'' directive d)"

definition cf_regex :: "'d dispenser \<Rightarrow> string \<Rightarrow> string \<Rightarrow> 'd \<Rightarrow> (string, 'd) cf" where
  "cf_regex D directive ex d =
     (if directive = ''exclude'' then cf_arg D d else unsupported ''regex'' directive d)"

definition cf_timeout :: "'d dispenser \<Rightarrow> string \<Rightarrow> timeout_config \<Rightarrow> 'd \<Rightarrow> (timeout_config, 'd) cf" where
  "cf_timeout D directive t d =
     (if directive = ''backend'' then
        cf_bind (cf_arg D d) (\<lambda>a. cf_ret (t\<lparr>to_Backend := duration_or_zero (ParseDuration a)\<rparr>))
      else if directive = ''cache'' then
        cf_bind (cf_arg D d) (\<lambda>a. cf_ret (t\<lparr>to_Cache := duration_or_zero (ParseDuration a)\<rparr>))
      else unsupported ''timeout'' directive d)"

text \<open>A setting of the cache itself, from the result of reading it.\<close>

definition cf_set ::
  "('x, 'd) cf \<Rightarrow> ('x \<Rightarrow> default_cache \<Rightarrow> default_cache) \<Rightarrow> caddy_configuration \<Rightarrow> (caddy_configuration, 'd) cf" where
  "cf_set c f cfg = cf_bind c (\<lambda>x. cf_ret (cfg\<lparr>cy_DefaultCache := f x (cy_DefaultCache cfg)\<rparr>))"

definition duration_else :: "duration \<Rightarrow> string \<Rightarrow> duration" where
  "duration_else old s = (case ParseDuration s of None \<Rightarrow> old | Some d \<Rightarrow> d)"

section \<open>The root directives\<close>

text \<open>The directives of the root block, in three parts: what is not a storage, the storages, the rest.\<close>

definition cf_root_rest ::
  "'d dispenser \<Rightarrow> string \<Rightarrow> caddy_configuration \<Rightarrow> 'd \<Rightarrow> (caddy_configuration, 'd) cf" where
  "cf_root_rest D directive cfg d =
     (if directive = ''regex'' then
        cf_set (cf_block D (cf_regex D) (dc_RegexExclude (cy_DefaultCache cfg)) d) (\<lambda>ex dc. dc\<lparr>dc_RegexExclude := ex\<rparr>) cfg
      else if directive = ''stale'' then
        cf_set (cf_arg D d) (\<lambda>a dc. dc\<lparr>dc_Stale := duration_else (dc_Stale dc) a\<rparr>) cfg
      else if directive = ''storers'' then cf_set (cf_args D d) (\<lambda>args dc. dc\<lparr>dc_Storers := args\<rparr>) cfg
      else if directive = ''timeout'' then
        cf_set (cf_block D (cf_timeout D) \<lparr>to_Backend = 0, to_Cache = 0\<rparr> d) (\<lambda>t dc. dc\<lparr>dc_Timeout := t\<rparr>) cfg
      else if directive = ''ttl'' then
        cf_set (cf_arg D d) (\<lambda>a dc. dc\<lparr>dc_TTL := duration_else (dc_TTL dc) a\<rparr>) cfg
      else if directive = ''disable_coalescing'' then
        cf_set (cf_ret () d) (\<lambda>_ dc. dc\<lparr>dc_DisableCoalescing := True\<rparr>) cfg
      else if directive = ''mapping_eviction_interval'' then
        cf_set (cf_arg D d)
          (\<lambda>a dc. dc\<lparr>dc_MappingEvictionInterval := duration_else (dc_MappingEvictionInterval dc) a\<rparr>) cfg
      else if directive = ''disable_surrogate_key'' then cf_ret (cfg\<lparr>cy_SurrogateKeyDisabled := True\<rparr>) d
      else unsupported ''root'' directive d)"

definition cf_root_storage ::
  "(string \<Rightarrow> string) \<Rightarrow> 'd dispenser \<Rightarrow> string \<Rightarrow> caddy_configuration \<Rightarrow> 'd \<Rightarrow> (caddy_configuration, 'd) cf" where
  "cf_root_storage parse_float D directive cfg d =
     (if directive = ''badger'' then
        cf_set (cf_storage D ''badger'' False True (parseBadgerConfiguration parse_float) d) (\<lambda>p dc. dc\<lparr>dc_Badger := p\<rparr>) cfg
      else if directive = ''etcd'' then
        cf_set (cf_storage D ''etcd'' False False Inr d) (\<lambda>p dc. dc\<lparr>dc_Distributed := True, dc_Etcd := p\<rparr>) cfg
      else if directive = ''nats'' then
        cf_set (cf_storage D ''nats'' True False Inr d) (\<lambda>p dc. dc\<lparr>dc_Nats := p\<rparr>) cfg
      else if directive = ''nuts'' then
        cf_set (cf_storage D ''nuts'' True True Inr d) (\<lambda>p dc. dc\<lparr>dc_Nuts := p\<rparr>) cfg
      else if directive = ''otter'' then
        cf_set (cf_storage D ''otter'' False False Inr d) (\<lambda>p dc. dc\<lparr>dc_Otter := p\<rparr>) cfg
      else if directive = ''olric'' then
        cf_set (cf_storage D ''olric'' True True Inr d) (\<lambda>p dc. dc\<lparr>dc_Distributed := True, dc_Olric := p\<rparr>) cfg
      else if directive = ''redis'' then
        cf_set (cf_storage D ''redis'' True True parseRedisConfiguration d)
          (\<lambda>p dc. dc\<lparr>dc_Distributed := True, dc_Redis := p\<rparr>) cfg
      else if directive = ''simplefs'' then
        cf_set (cf_storage D ''simplefs'' False True parseSimpleFSConfiguration d) (\<lambda>p dc. dc\<lparr>dc_SimpleFS := p\<rparr>) cfg
      else cf_root_rest D directive cfg d)"

definition cf_root ::
  "regexp_engine \<Rightarrow> (string \<Rightarrow> string) \<Rightarrow> 'd dispenser \<Rightarrow> bool \<Rightarrow> string \<Rightarrow> caddy_configuration \<Rightarrow> 'd
     \<Rightarrow> (caddy_configuration, 'd) cf" where
  "cf_root re parse_float D isGlobal directive cfg d =
     (if directive = ''allowed_http_verbs'' then
        cf_set (cf_args D d) (\<lambda>args dc. dc\<lparr>dc_AllowedHTTPVerbs := dc_AllowedHTTPVerbs dc @ args\<rparr>) cfg
      else if directive = ''allowed_additional_status_codes'' then
        cf_set (cf_args D d) (\<lambda>args dc. dc\<lparr>dc_AllowedAdditionalStatusCodes :=
          dc_AllowedAdditionalStatusCodes dc @ map (fst \<circ> Atoi) (filter (snd \<circ> Atoi) args)\<rparr>) cfg
      else if directive = ''api'' then
        (if \<not> isGlobal then cf_err (CHR 0x27 # ''api'' @ CHR 0x27 # '' block must be global'') d
         else cf_bind (cf_block D (cf_api D) api_config0 d) (\<lambda>a. cf_ret (cfg\<lparr>cy_API := a\<rparr>)))
      else if directive = ''cache_keys'' then
        cf_bind (cf_block D (cf_cache_key D re) (cy_CacheKeys cfg) d) (\<lambda>ks. cf_ret (cfg\<lparr>cy_CacheKeys := ks\<rparr>))
      else if directive = ''cache_name'' then cf_set (cf_arg D d) (\<lambda>a dc. dc\<lparr>dc_CacheName := a\<rparr>) cfg
      else if directive = ''cdn'' then
        cf_set (cf_block D (cf_cdn D) (cdn_config0\<lparr>cdn_Dynamic := True\<rparr>) d) (\<lambda>c dc. dc\<lparr>dc_CDN := c\<rparr>) cfg
      else if directive = ''default_cache_control'' then
        cf_set (cf_args D d) (\<lambda>args dc. dc\<lparr>dc_DefaultCacheControl := Join args '' ''\<rparr>) cfg
      else if directive = ''max_cacheable_body_bytes'' then
        cf_bind (cf_args D d) (\<lambda>args d1. cf_bind (cf_first args d1) (\<lambda>a d2.
          case ParseUint 64 a of
            Inl _ \<Rightarrow> cf_err (''unsupported max_cacheable_body_bytes: ['' @ Join args '' '' @ '']'') d2
          | Inr n \<Rightarrow> cf_ret (cfg\<lparr>cy_DefaultCache := (cy_DefaultCache cfg)\<lparr>dc_MaxBodyBytes := n\<rparr>\<rparr>) d2))
      else if directive = ''headers'' then
        cf_bind (cf_args D d) (\<lambda>args. cf_ret (cfg\<lparr>cy_HeadersNil := (cy_HeadersNil cfg \<and> args = []),
          cy_DefaultCache := (cy_DefaultCache cfg)\<lparr>dc_Headers := dc_Headers (cy_DefaultCache cfg) @ args\<rparr>\<rparr>))
      else if directive = ''key'' then
        cf_set (cf_block D (cf_key D ''key'') cache_key_rule0 d) (\<lambda>k dc. dc\<lparr>dc_Key := k\<rparr>) cfg
      else if directive = ''log_level'' then
        cf_bind (cf_arg D d) (\<lambda>a. cf_ret (cfg\<lparr>cy_LogLevel := a\<rparr>))
      else if directive = ''mode'' then
        cf_bind (cf_args D d) (\<lambda>args d1.
          if 1 < length args then cf_err (''mode must contains only one arg: ['' @ Join args '' '' @ ''] given'') d1
          else cf_set (cf_first args d1) (\<lambda>a dc. dc\<lparr>dc_Mode := a\<rparr>) cfg)
      else cf_root_storage parse_float D directive cfg d)"

definition parseConfiguration ::
  "regexp_engine \<Rightarrow> (string \<Rightarrow> string) \<Rightarrow> 'd dispenser \<Rightarrow> bool \<Rightarrow> caddy_configuration \<Rightarrow> 'd
     \<Rightarrow> (caddy_configuration, 'd) cf" where
  "parseConfiguration re parse_float D isGlobal cfg d =
     cf_loop (dp_Next D) (cf_block D (cf_root re parse_float D isGlobal)) cfg d"

text \<open>The two entry points: the directive of a handler and the global option.\<close>

definition UnmarshalCaddyfile ::
  "regexp_engine \<Rightarrow> (string \<Rightarrow> string) \<Rightarrow> 'd dispenser \<Rightarrow> caddy_middleware \<Rightarrow> 'd \<Rightarrow> (caddy_middleware, 'd) cf" where
  "UnmarshalCaddyfile re parse_float D s d =
     cf_bind (parseConfiguration re parse_float D False caddy_configuration0 d) (\<lambda>c. cf_ret (s\<lparr>cm_Configuration := c\<rparr>))"

definition parseCaddyfileGlobalOption ::
  "regexp_engine \<Rightarrow> (string \<Rightarrow> string) \<Rightarrow> 'd dispenser \<Rightarrow> 'd \<Rightarrow> ('w caddy_app, 'd) cf" where
  "parseCaddyfileGlobalOption re parse_float D d =
     cf_bind (parseConfiguration re parse_float D True
         (caddy_configuration0\<lparr>cy_DefaultCache := default_cache0\<lparr>dc_TTL := 120 * Second, dc_MappingEvictionInterval := Hour\<rparr>,
            cy_HeadersNil := False\<rparr>) d)
       (\<lambda>c. cf_ret \<lparr>ca_DefaultCache = cy_DefaultCache c, ca_HeadersNil = cy_HeadersNil c, ca_Storers = [],
          ca_SurrogateStorage = None, ca_SurrogateKeyDisabled = cy_SurrogateKeyDisabled c,
          ca_CacheKeys = (if cy_CacheKeys c = [] then None else Some (cy_CacheKeys c)), ca_API = cy_API c,
          ca_LogLevel = cy_LogLevel c, ca_notifier = None\<rparr>)"

end
