(* ===== verification/CaddyfileLaws.thy ===== *)
theory CaddyfileLaws
  imports Caddyfile
begin

text \<open>
  The Caddyfile parser ends on every input, provided that the dispenser consumes a token whenever it
  goes on; and what it builds: the API is only set by the global options, and a configuration with
  a distributed storage is marked as distributed.
\<close>

section \<open>Termination\<close>

text \<open>
  What the parser relies on: going on consumes a token, and no method gives tokens back; \<open>m\<close> is the
  number of tokens left.
\<close>

definition dispenser_ok :: "'d dispenser \<Rightarrow> ('d \<Rightarrow> nat) \<Rightarrow> bool" where
  "dispenser_ok D m \<longleftrightarrow>
     (\<forall>d again d'. dp_Next D d = (again, d') \<longrightarrow> (if again then m d' < m d else m d' \<le> m d))
     \<and> (\<forall>n d again d'. dp_NextBlock D n d = (again, d') \<longrightarrow> (if again then m d' < m d else m d' \<le> m d))
     \<and> (\<forall>d args d'. dp_RemainingArgs D d = (args, d') \<longrightarrow> m d' \<le> m d)"

definition ends_at :: "('d \<Rightarrow> nat) \<Rightarrow> ('x, 'd) cf \<Rightarrow> 'd \<Rightarrow> bool" where
  "ends_at m c d \<longleftrightarrow> (\<exists>r d'. c = Some (r, d') \<and> m d' \<le> m d)"

named_theorems ends \<open>computations that end\<close>

lemma ends_at_ret [ends]: "ends_at m (cf_ret x d) d"
  by (simp add: ends_at_def cf_ret_def)

lemma ends_at_err [ends]: "ends_at m (cf_err e d) d" "ends_at m (unsupported w v d) d"
  by (simp_all add: ends_at_def cf_err_def unsupported_def)

lemma ends_at_go [ends]: "ends_at m (cf_go g d) d"
  by (simp add: ends_at_def cf_go_def)

lemma ends_at_first [ends]: "ends_at m (cf_first args d) d"
  by (cases args) (simp_all add: ends_at_def cf_first_def cf_ret_def)

lemma ends_at_args [ends]: "dispenser_ok D m \<Longrightarrow> ends_at m (cf_args D d) d"
  by (auto simp: ends_at_def cf_args_def dispenser_ok_def split: prod.splits)

lemma ends_at_bind [ends]:
  assumes "ends_at m c d" and "\<And>x d'. ends_at m (f x d') d'"
  shows "ends_at m (cf_bind c f) d"
proof -
  obtain r d' where c: "c = Some (r, d')" "m d' \<le> m d" using assms(1) by (auto simp: ends_at_def)
  show ?thesis
  proof (cases r)
    case (Inl e)
    then show ?thesis using c by (simp add: ends_at_def cf_bind_def)
  next
    case (Inr x)
    obtain r2 d2 where "f x d' = Some (r2, d2)" "m d2 \<le> m d'" using assms(2) [of x d'] by (auto simp: ends_at_def)
    then show ?thesis using c Inr by (simp add: ends_at_def cf_bind_def)
  qed
qed

lemma ends_at_arg [ends]: "dispenser_ok D m \<Longrightarrow> ends_at m (cf_arg D d) d"
  unfolding cf_arg_def by (intro ends)

lemma ends_at_set [ends]: "ends_at m c d \<Longrightarrow> ends_at m (cf_set c f cfg) d"
  unfolding cf_set_def by (intro ends)

lemma ends_at_loop:
  assumes step: "\<And>d again d'. nxt d = (again, d') \<Longrightarrow> (if again then m d' < m d else m d' \<le> m d)"
    and body: "\<And>x d. ends_at m (body x d) d"
  shows "ends_at m (cf_loop nxt body x d) d"
proof (induction "m d" arbitrary: x d rule: less_induct)
  case less
  obtain again d1 where n: "nxt d = (again, d1)" by fastforce
  show ?case
  proof (cases again)
    case False
    then show ?thesis using step [OF n] by (simp add: cf_loop.simps n ends_at_def)
  next
    case True
    obtain r d2 where b: "body x d1 = Some (r, d2)" "m d2 \<le> m d1" using body [of x d1] by (auto simp: ends_at_def)
    have lt: "m d2 < m d" using step [OF n] True b(2) by simp
    show ?thesis
    proof (cases r)
      case (Inl e)
      then show ?thesis using b lt True by (simp add: cf_loop.simps n ends_at_def)
    next
      case (Inr y)
      obtain r3 d3 where "cf_loop nxt body y d2 = Some (r3, d3)" "m d3 \<le> m d2"
        using less [OF lt, of y] by (auto simp: ends_at_def)
      then show ?thesis using b lt True Inr by (simp add: cf_loop.simps [of nxt body x d] n ends_at_def)
    qed
  qed
qed

lemma ends_at_block [ends]:
  assumes "dispenser_ok D m" "\<And>v x d. ends_at m (body v x d) d"
  shows "ends_at m (cf_block D body x d) d"
  unfolding cf_block_def
  by (rule ends_at_loop) (use assms in \<open>auto simp: dispenser_ok_def\<close>)

lemma caddyfile_entries_end:
  assumes "dispenser_ok D m"
  shows "\<exists>x d'. caddyfile_entries D n input d = Some (x, d') \<and> m d' \<le> m d"
proof (induction "m d" arbitrary: n input d rule: less_induct)
  case less
  obtain again d1 where n: "dp_NextBlock D n d = (again, d1)" by fastforce
  then have m: "if again then m d1 < m d else m d1 \<le> m d" using assms by (auto simp: dispenser_ok_def)
  obtain args d2 where a: "dp_RemainingArgs D d1 = (args, d2)" by fastforce
  then have m2: "m d2 \<le> m d1" using assms by (auto simp: dispenser_ok_def)
  show ?case
  proof (cases again)
    case False
    then show ?thesis using m by (subst caddyfile_entries.simps) (simp add: n)
  next
    case True
    then have lt: "m d1 < m d" "m d2 < m d" using m m2 by simp_all
    have go: "\<exists>x d'. caddyfile_entries D n i d'' = Some (x, d') \<and> m d' \<le> m d" if "m d'' < m d" for i d''
      using less [OF that, of n i] that by (meson le_trans less_imp_le)
    obtain sub d3 where s: "caddyfile_entries D (dp_Nesting D d2) [] d2 = Some (sub, d3)" "m d3 \<le> m d2"
      using less [OF lt(2)] by blast
    have lt3: "m d3 < m d" using s(2) lt(2) by simp
    show ?thesis
      using go [OF lt(1)] go [OF lt(2)] go [OF lt3] True
      by (subst caddyfile_entries.simps) (auto simp: n a s(1) Let_def split: list.splits)
  qed
qed

lemma ends_at_recursively [ends]: "dispenser_ok D m \<Longrightarrow> ends_at m (parseCaddyfileRecursively D d) d"
  using caddyfile_entries_end [of D m "dp_Nesting D d" "[]" d]
  by (auto simp: ends_at_def parseCaddyfileRecursively_def)

lemma ends_at_if [ends]: "(b \<Longrightarrow> ends_at m x d) \<Longrightarrow> (\<not> b \<Longrightarrow> ends_at m y d) \<Longrightarrow> ends_at m (if b then x else y) d"
  by simp

lemma ends_at_num [ends]:
  "(\<And>e. ends_at m (f e) d) \<Longrightarrow> (\<And>n. ends_at m (g n) d) \<Longrightarrow> ends_at m (case r of Inl e \<Rightarrow> f e | Inr n \<Rightarrow> g n) d"
  by (cases r) simp_all

lemma directives_end [ends]:
  assumes "dispenser_ok D m"
  shows "ends_at m (cf_endpoint D name v ep d) d" "ends_at m (cf_api D v a d) d"
    "ends_at m (cf_provider D name u p st v pr d) d" "ends_at m (cf_storage D name u p st d) d"
    "ends_at m (cf_key D name v ck d) d" "ends_at m (cf_cache_key D re v ks d) d" "ends_at m (cf_cdn D v c d) d"
    "ends_at m (cf_regex D v ex d) d" "ends_at m (cf_timeout D v t d) d"
proof -
  have e: "ends_at m (cf_endpoint D name v ep d) d" for name v ep d
    unfolding cf_endpoint_def by (intro ends assms)
  have p: "ends_at m (cf_provider D name u p st v pr d) d" for v pr d
    unfolding cf_provider_def by (intro ends assms)
  have k: "ends_at m (cf_key D name v ck d) d" for name v ck d
    unfolding cf_key_def by (intro ends assms)
  show "ends_at m (cf_endpoint D name v ep d) d" "ends_at m (cf_provider D name u p st v pr d) d"
    "ends_at m (cf_key D name v ck d) d" by (rule e p k)+
  show "ends_at m (cf_api D v a d) d"
    unfolding cf_api_def Let_def by (intro ends assms e)
  show "ends_at m (cf_storage D name u p st d) d"
    unfolding cf_storage_def by (intro ends assms p)
  show "ends_at m (cf_cache_key D re v ks d) d"
    unfolding cf_cache_key_def by (intro ends assms k)
  show "ends_at m (cf_cdn D v c d) d"
    unfolding cf_cdn_def by (intro ends assms)
  show "ends_at m (cf_regex D v ex d) d"
    unfolding cf_regex_def by (intro ends assms)
  show "ends_at m (cf_timeout D v t d) d"
    unfolding cf_timeout_def by (intro ends assms)
qed

lemma roots_end [ends]:
  assumes "dispenser_ok D m"
  shows "ends_at m (cf_root re pf D g v cfg d) d"
proof -
  have r: "ends_at m (cf_root_rest D v cfg d) d"
    unfolding cf_root_rest_def by (intro ends assms)
  have "ends_at m (cf_root_storage pf D v cfg d) d"
    unfolding cf_root_storage_def by (intro ends assms r)
  then show ?thesis
    unfolding cf_root_def by (intro ends assms)
qed

text \<open>
  C40. The Caddyfile parser ends on every input, with a configuration or an error, when its dispenser
  consumes a token each time it goes on.
\<close>

theorem parseConfiguration_ends:
  assumes "dispenser_ok D m"
  shows "\<exists>r d'. parseConfiguration re parse_float D isGlobal cfg d = Some (r, d') \<and> m d' \<le> m d"
proof -
  have "ends_at m (parseConfiguration re parse_float D isGlobal cfg d) d"
    unfolding parseConfiguration_def
  proof (rule ends_at_loop)
    show "if again then m d' < m d else m d' \<le> m d" if "dp_Next D d = (again, d')" for d again d'
      using assms that by (auto simp: dispenser_ok_def)
    show "ends_at m (cf_block D (cf_root re parse_float D isGlobal) x d) d" for x d
      by (intro ends assms)
  qed
  then show ?thesis by (simp add: ends_at_def)
qed

section \<open>What is built\<close>

text \<open>Every value that the computation may return satisfies \<open>P\<close>.\<close>

definition yields :: "('x \<Rightarrow> bool) \<Rightarrow> ('x, 'd) cf \<Rightarrow> bool" where
  "yields P c \<longleftrightarrow> (\<forall>y d'. c = Some (Inr y, d') \<longrightarrow> P y)"

named_theorems yielding \<open>computations whose values satisfy a predicate\<close>

lemma yields_ret [yielding]: "P x \<Longrightarrow> yields P (cf_ret x d)"
  by (simp add: yields_def cf_ret_def)

lemma yields_err [yielding]: "yields P (cf_err e d)" "yields P (unsupported w v d)"
  by (simp_all add: yields_def cf_err_def unsupported_def)

lemma yields_bind [yielding]: "(\<And>x d. yields P (f x d)) \<Longrightarrow> yields P (cf_bind c f)"
  by (auto simp: yields_def cf_bind_def split: Option.bind_splits sum.splits)

lemma yields_set [yielding]:
  "(\<And>x. P (cfg\<lparr>cy_DefaultCache := f x (cy_DefaultCache cfg)\<rparr>)) \<Longrightarrow> yields P (cf_set c f cfg)"
  unfolding cf_set_def by (intro yielding)

lemma yields_if [yielding]: "(b \<Longrightarrow> yields P x) \<Longrightarrow> (\<not> b \<Longrightarrow> yields P y) \<Longrightarrow> yields P (if b then x else y)"
  by simp

lemma yields_num [yielding]:
  "(\<And>e. yields P (f e)) \<Longrightarrow> (\<And>n. yields P (g n)) \<Longrightarrow> yields P (case r of Inl e \<Rightarrow> f e | Inr n \<Rightarrow> g n)"
  by (cases r) simp_all

lemma cf_loop_invariant:
  assumes "cf_loop nxt body x d = Some (Inr y, d')" "P x"
    and "\<And>x d y d'. body x d = Some (Inr y, d') \<Longrightarrow> P x \<Longrightarrow> P y"
  shows "P y"
proof -
  define Q where "Q body x r \<longleftrightarrow>
      ((\<forall>x d. P x \<longrightarrow> yields P (body x d)) \<longrightarrow> P x \<longrightarrow> (case fst r of Inl e \<Rightarrow> True | Inr y \<Rightarrow> P y))"
    for body :: "'a \<Rightarrow> 'b \<Rightarrow> ('a, 'b) cf" and x and r :: "(cf_error + 'a) \<times> 'b"
  have "Q body x r" if "cf_loop nxt body x d = Some r" for r
  proof (rule cf_loop.raw_induct [where xa = "(((nxt, body), x), d)" and P = "\<lambda>_ body x _ r. Q body x r", unfolded prod.case])
    show "cf_loop nxt body x d = Some r" by fact
  next
    fix cf and nxt :: "'b \<Rightarrow> bool \<times> 'b" and body x d r
    assume IH: "\<And>nxt body x d r. cf nxt body x d = Some r \<Longrightarrow> Q body x r"
      and eq: "(case nxt d of (again, d1) \<Rightarrow> if \<not> again then Some (Inr x, d1)
        else Option.bind (body x d1) (\<lambda>(r, d2). case r of Inl e \<Rightarrow> Some (Inl e, d2) | Inr x' \<Rightarrow> cf nxt body x' d2)) = Some r"
    show "Q body x r"
      unfolding Q_def
    proof (intro impI)
      assume body: "\<forall>x d. P x \<longrightarrow> yields P (body x d)" and "P x"
      obtain again d1 where n: "nxt d = (again, d1)" by fastforce
      show "case fst r of Inl e \<Rightarrow> True | Inr y \<Rightarrow> P y"
      proof (cases again)
        case False
        then show ?thesis using eq n \<open>P x\<close> by auto
      next
        case True
        then obtain r2 d2 where b: "body x d1 = Some (r2, d2)" using eq n by (auto split: Option.bind_splits)
        show ?thesis
        proof (cases r2)
          case (Inl e)
          then show ?thesis using eq n True b by auto
        next
          case (Inr x')
          have "P x'" using body \<open>P x\<close> b Inr by (auto simp: yields_def)
          then show ?thesis using eq n True b Inr IH [of nxt body x' d2 r] body by (simp add: Q_def)
        qed
      qed
    qed
  qed
  from this [OF assms(1)] show ?thesis using assms(2,3) by (auto simp: Q_def yields_def)
qed

lemma cf_block_invariant:
  assumes "cf_block D body x d = Some (Inr y, d')" "P x"
    and "\<And>v x d y d'. body v x d = Some (Inr y, d') \<Longrightarrow> P x \<Longrightarrow> P y"
  shows "P y"
  using assms(1) unfolding cf_block_def by (rule cf_loop_invariant) (use assms(2,3) in auto)

text \<open>A distributed storage is marked as such.\<close>

definition distributed_ok :: "default_cache \<Rightarrow> bool" where
  "distributed_ok dc \<longleftrightarrow> (cp_Found (dc_Etcd dc) \<or> cp_Found (dc_Olric dc) \<or> cp_Found (dc_Redis dc) \<longrightarrow> dc_Distributed dc)"

definition config_ok :: "bool \<Rightarrow> api_config \<Rightarrow> caddy_configuration \<Rightarrow> bool" where
  "config_ok isGlobal a cfg \<longleftrightarrow> distributed_ok (cy_DefaultCache cfg) \<and> (isGlobal \<or> cy_API cfg = a)"

lemma cf_root_yields:
  assumes "config_ok g a cfg"
  shows "yields (config_ok g a) (cf_root re pf D g v cfg d)"
proof -
  have r: "yields (config_ok g a) (cf_root_rest D v cfg d)"
    unfolding cf_root_rest_def
    by (intro yielding; use assms in \<open>simp add: config_ok_def distributed_ok_def\<close>)
  have "yields (config_ok g a) (cf_root_storage pf D v cfg d)"
    unfolding cf_root_storage_def
    by (intro yielding r; use assms in \<open>simp add: config_ok_def distributed_ok_def\<close>)
  then show ?thesis
    unfolding cf_root_def
    by (intro yielding; use assms in \<open>simp add: config_ok_def distributed_ok_def\<close>)
qed

text \<open>
  A Caddyfile that parses, from a configuration where this holds, gives one in which a configured
  etcd, Olric or Redis implies the distributed mode; and in the block of a handler it never
  changes the settings of the API.
\<close>

theorem parseConfiguration_keeps:
  assumes "parseConfiguration re parse_float D isGlobal cfg d = Some (Inr cfg', d')"
    and "distributed_ok (cy_DefaultCache cfg)"
  shows "distributed_ok (cy_DefaultCache cfg') \<and> (isGlobal \<or> cy_API cfg' = cy_API cfg)"
proof -
  have "config_ok isGlobal (cy_API cfg) cfg'"
    using assms(1) unfolding parseConfiguration_def
  proof (rule cf_loop_invariant)
    show "config_ok isGlobal (cy_API cfg) cfg" using assms(2) by (simp add: config_ok_def)
    show "config_ok isGlobal (cy_API cfg) y"
      if "cf_block D (cf_root re parse_float D isGlobal) x d = Some (Inr y, d')" "config_ok isGlobal (cy_API cfg) x"
      for x d y d'
      using that by (rule cf_block_invariant) (metis cf_root_yields yields_def)
  qed
  then show ?thesis by (simp add: config_ok_def)
qed

section \<open>Witnesses\<close>

text \<open>
  A dispenser over lines of tokens, for the concrete instances: the nesting, the line at the cursor
  and the lines after it.  A line that ends in an opening brace has a block.
\<close>

type_synonym lines_state = "nat \<times> string list \<times> string list list"

definition opens_block :: "string list \<Rightarrow> bool" where
  "opens_block l \<longleftrightarrow> l \<noteq> [] \<and> last l = ''{''"

definition line_dispenser :: "lines_state dispenser" where
  "line_dispenser = \<lparr>
     dp_Next = (\<lambda>(k, c, ls). case ls of [] \<Rightarrow> (False, (k, c, [])) | l # r \<Rightarrow> (True, (k, l, r))),
     dp_Nesting = fst,
     dp_NextBlock = (\<lambda>n (k, c, ls). case ls of
         [] \<Rightarrow> (False, (k, c, []))
       | l # r \<Rightarrow>
           if n < k then (if l = [''}''] then (n < k - 1, (k - 1, l, r)) else (True, (k, l, r)))
           else if opens_block c then (if l = [''}''] then (False, (k, l, r)) else (True, (Suc k, l, r)))
           else (False, (k, c, ls))),
     dp_Val = (\<lambda>(k, c, ls). case c of [] \<Rightarrow> [] | a # _ \<Rightarrow> a),
     dp_RemainingArgs = (\<lambda>(k, c, ls). (filter (\<lambda>t. t \<noteq> ''{'') (tl c),
       (k, take 1 c @ (if opens_block c then [''{''] else []), ls)))\<rparr>"

lemma line_dispenser_ok: "dispenser_ok line_dispenser (\<lambda>(k, c, ls). length ls)"
  by (auto simp: dispenser_ok_def line_dispenser_def split: list.splits if_splits)

definition sample_caddyfile :: "string list list" where
  "sample_caddyfile = [[''cache'', ''{''], [''ttl'', ''5s''], [''redis'', ''{''], [''url'', ''cache:6379''], [''}''], [''}'']]"

theorem parseConfiguration_ends_witness:
  "\<exists>r d'. parseConfiguration no_regexp id line_dispenser False caddy_configuration0 (0, [], sample_caddyfile) = Some (r, d')"
  using parseConfiguration_ends [OF line_dispenser_ok] by blast

lemma sample_parsed:
  "(case parseConfiguration no_regexp id line_dispenser False caddy_configuration0 (0, [], sample_caddyfile) of
      Some (Inr cfg, _) \<Rightarrow> dc_TTL (cy_DefaultCache cfg) = 5 * Second \<and> cp_Found (dc_Redis (cy_DefaultCache cfg))
    | _ \<Rightarrow> False)"
  by code_simp

theorem parseConfiguration_keeps_witness:
  "\<exists>cfg d'. parseConfiguration no_regexp id line_dispenser False caddy_configuration0 (0, [], sample_caddyfile) = Some (Inr cfg, d')
     \<and> dc_TTL (cy_DefaultCache cfg) = 5 * Second \<and> dc_Distributed (cy_DefaultCache cfg)
     \<and> cy_API cfg = api_config0"
proof -
  obtain cfg d' where p: "parseConfiguration no_regexp id line_dispenser False caddy_configuration0 (0, [], sample_caddyfile)
      = Some (Inr cfg, d')"
    and t: "dc_TTL (cy_DefaultCache cfg) = 5 * Second" "cp_Found (dc_Redis (cy_DefaultCache cfg))"
    using sample_parsed by (auto split: option.splits prod.splits sum.splits)
  have "distributed_ok (cy_DefaultCache cfg) \<and> (False \<or> cy_API cfg = cy_API caddy_configuration0)"
    by (rule parseConfiguration_keeps [OF p])
      (simp add: distributed_ok_def caddy_configuration0_def default_cache0_def cache_provider0_def)
  then have "dc_Distributed (cy_DefaultCache cfg)" "cy_API cfg = api_config0"
    using t by (simp_all add: distributed_ok_def caddy_configuration0_def)
  with p t show ?thesis by blast
qed

end
