(* ===== verification/KratosConfig.thy ===== *)
theory KratosConfig
  imports ConfigParser
begin

text \<open>
  The configuration parser of the Kratos plugin (plugins/kratos/configuration.go) and what it loses.
  A \<open>config.Value\<close> of the Kratos framework is what its methods answer: a value with whether the
  error was nil, and for \<open>Slice\<close> and \<open>Map\<close> nothing when there was an error.  A key that a map does
  not have is a nil interface, whose methods panic.
\<close>

section \<open>Values\<close>

datatype kratos_value = KratosValue
  (kv_Bool: "bool \<times> bool") (kv_Load: any) (kv_Int: "int \<times> bool") (kv_Float: "string \<times> bool")
  (kv_String: "string \<times> bool") (kv_Slice: "kratos_value list option")
  (kv_Map: "(string \<times> kratos_value) list option")

type_synonym kratos_map = "(string \<times> kratos_value) list"

definition kv_strings :: "kratos_value \<Rightarrow> string list" where
  "kv_strings v = (case kv_Slice v of None \<Rightarrow> [] | Some l \<Rightarrow> map (fst \<circ> kv_String) l)"

definition kv_map_or_nil :: "kratos_value \<Rightarrow> kratos_map" where
  "kv_map_or_nil v = (case kv_Map v of None \<Rightarrow> [] | Some m \<Rightarrow> m)"

text \<open>The text of a duration: \<open>None\<close> when there is no text, zero when it is no duration.\<close>

definition kv_duration :: "kratos_value \<Rightarrow> duration option" where
  "kv_duration v = (if snd (kv_String v) then Some (duration_or_zero (ParseDuration (fst (kv_String v)))) else None)"

text \<open>A scalar setting as an untyped value.\<close>

definition kratos_scalar :: "kratos_value \<Rightarrow> any option" where
  "kratos_scalar v =
     (if snd (kv_Bool v) then Some (VBool (fst (kv_Bool v)))
      else let number = (case kv_Load v of
               VInt _ \<Rightarrow> (if snd (kv_Int v) then Some (VInt (fst (kv_Int v))) else None)
             | VUint64 _ \<Rightarrow> (if snd (kv_Int v) then Some (VInt (fst (kv_Int v))) else None)
             | VFloat _ \<Rightarrow> (if snd (kv_Float v) then Some (VFloat (fst (kv_Float v))) else None)
             | _ \<Rightarrow> None)
      in if number \<noteq> None then number else map_option VDuration (ParseDuration (fst (kv_String v))))"

function parseRecursively :: "kratos_map \<Rightarrow> (string \<times> any) list" where
  "parseRecursively [] = []"
| "parseRecursively ((key, v) # rest) =
     (case kratos_scalar v of
        Some x \<Rightarrow> [(key, x)]
      | None \<Rightarrow> (case kv_Map v of None \<Rightarrow> [] | Some m \<Rightarrow> [(key, VMap (parseRecursively m))]))
     @ parseRecursively rest"
  by pat_completeness auto
termination
proof (relation "measure (\<lambda>m. size (KratosValue (False, False) VNil (0, False) ([], False) ([], False) None (Some m)))")
  fix key :: string and v rest and m :: kratos_map
  assume "kv_Map v = Some m"
  then show "(m, (key, v) # rest)
      \<in> measure (\<lambda>m. size (KratosValue (False, False) VNil (0, False) ([], False) ([], False) None (Some m)))"
    by (cases v) simp
qed auto

section \<open>The sections of the configuration\<close>

definition kratos_endpoint :: "kratos_value \<Rightarrow> api_endpoint" where
  "kratos_endpoint v =
     (case kv_Map v of
        None \<Rightarrow> api_endpoint0
      | Some m \<Rightarrow> api_endpoint0\<lparr>ep_Enable := True,
          ep_BasePath := (case map_of m ''basepath'' of None \<Rightarrow> [] | Some b \<Rightarrow> fst (kv_String b))\<rparr>)"

definition kratos_api_field :: "string \<times> kratos_value \<Rightarrow> api_config \<Rightarrow> api_config" where
  "kratos_api_field kv a =
     (case kv of (k, v) \<Rightarrow>
        if k = ''debug'' then a\<lparr>api_Debug := kratos_endpoint v\<rparr>
        else if k = ''prometheus'' then a\<lparr>api_Prometheus := kratos_endpoint v\<rparr>
        else if k = ''souin'' then a\<lparr>api_Souin := kratos_endpoint v\<rparr>
        else a)"

definition kratos_parseAPI :: "kratos_map \<Rightarrow> api_config" where
  "kratos_parseAPI m = fold kratos_api_field m api_config0"

definition kratos_key_field :: "string \<times> kratos_value \<Rightarrow> cache_key_rule \<Rightarrow> cache_key_rule" where
  "kratos_key_field kv ck =
     (case kv of (k, v) \<Rightarrow>
        if k \<in> set json_flags then set_json_flag k True ck
        else if k = ''headers'' then ck\<lparr>ck_Headers := ck_Headers ck @ kv_strings v\<rparr>
        else if k = ''template'' then ck\<lparr>ck_Template := fst (kv_String v)\<rparr>
        else ck)"

definition kratos_parseCacheKeys :: "regexp_engine \<Rightarrow> kratos_map \<Rightarrow> cache_keys go" where
  "kratos_parseCacheKeys re m =
     go_mapM (\<lambda>(k, v). if re_ok re k then Inr [(k, fold kratos_key_field (kv_map_or_nil v) cache_key_rule0)]
       else Inl MustCompile) m"

text \<open>The settings of a storage; the three flags tell which of them the storage has.\<close>

definition kratos_provider_field ::
  "bool \<Rightarrow> bool \<Rightarrow> string \<times> kratos_value \<Rightarrow> cache_provider \<Rightarrow> cache_provider" where
  "kratos_provider_field with_url with_path kv p =
     (case kv of (k, v) \<Rightarrow>
        if with_url \<and> k = ''url'' then p\<lparr>cp_URL := fst (kv_String v)\<rparr>
        else if with_path \<and> k = ''path'' then p\<lparr>cp_Path := fst (kv_String v)\<rparr>
        else if k = ''configuration'' then
          (case kv_Map v of None \<Rightarrow> p | Some m \<Rightarrow> p\<lparr>cp_Configuration := VMap (parseRecursively m)\<rparr>)
        else p)"

definition kratos_provider :: "bool \<Rightarrow> bool \<Rightarrow> kratos_value \<Rightarrow> cache_provider" where
  "kratos_provider with_url with_path v =
     fold (kratos_provider_field with_url with_path) (kv_map_or_nil v) cache_provider0"

definition kratos_cdn_field :: "string \<times> kratos_value \<Rightarrow> cdn_config \<Rightarrow> cdn_config" where
  "kratos_cdn_field kv c =
     (case kv of (k, v) \<Rightarrow>
        if k = ''api_key'' then c\<lparr>cdn_APIKey := fst (kv_String v)\<rparr>
        else if k = ''dynamic'' then c\<lparr>cdn_Dynamic := fst (kv_Bool v)\<rparr>
        else if k = ''email'' then c\<lparr>cdn_Email := fst (kv_String v)\<rparr>
        else if k = ''hostname'' then c\<lparr>cdn_Hostname := fst (kv_String v)\<rparr>
        else if k = ''network'' then c\<lparr>cdn_Network := fst (kv_String v)\<rparr>
        else if k = ''provider'' then c\<lparr>cdn_Provider := fst (kv_String v)\<rparr>
        else if k = ''service_id'' then c\<lparr>cdn_ServiceID := fst (kv_String v)\<rparr>
        else if k = ''strategy'' then c\<lparr>cdn_Strategy := fst (kv_String v)\<rparr>
        else if k = ''zone_id'' then c\<lparr>cdn_ZoneID := fst (kv_String v)\<rparr>
        else c)"

definition kratos_timeout_field :: "string \<times> kratos_value \<Rightarrow> timeout_config \<Rightarrow> timeout_config" where
  "kratos_timeout_field kv t =
     (case kv of (k, v) \<Rightarrow>
        let d = (case kv_duration v of None \<Rightarrow> 0 | Some d \<Rightarrow> d)
        in if k = ''backend'' then t\<lparr>to_Backend := d\<rparr>
           else if k = ''cache'' then t\<lparr>to_Cache := d\<rparr>
           else t)"

definition kratos_cache_field_rest :: "string \<times> kratos_value \<Rightarrow> default_cache \<Rightarrow> default_cache go" where
  "kratos_cache_field_rest kv dc =
     (case kv of (k, v) \<Rightarrow>
        if k = ''olric'' then Inr (dc\<lparr>dc_Distributed := True, dc_Olric := kratos_provider True True v\<rparr>)
        else if k = ''redis'' then Inr (dc\<lparr>dc_Distributed := True, dc_Redis := kratos_provider True True v\<rparr>)
        else if k = ''regex'' then
          (case map_of (kv_map_or_nil v) ''exclude'' of
             None \<Rightarrow> Inl NilDeref
           | Some x \<Rightarrow> Inr (if fst (kv_String x) \<noteq> [] then dc\<lparr>dc_RegexExclude := fst (kv_String x)\<rparr> else dc))
        else if k = ''simplefs'' then Inr (dc\<lparr>dc_SimpleFS := kratos_provider False True v\<rparr>)
        else if k = ''timeout'' then
          Inr (dc\<lparr>dc_Timeout := fold kratos_timeout_field (kv_map_or_nil v) \<lparr>to_Backend = 0, to_Cache = 0\<rparr>\<rparr>)
        else if k = ''ttl'' then Inr (case kv_duration v of None \<Rightarrow> dc | Some d \<Rightarrow> dc\<lparr>dc_TTL := d\<rparr>)
        else if k = ''stale'' then Inr (case kv_duration v of None \<Rightarrow> dc | Some d \<Rightarrow> dc\<lparr>dc_Stale := d\<rparr>)
        else if k = ''storers'' then Inr (dc\<lparr>dc_Storers := kv_strings v\<rparr>)
        else if k = ''default_cache_control'' then Inr (dc\<lparr>dc_DefaultCacheControl := fst (kv_String v)\<rparr>)
        else if k = ''max_cacheable_body_bytes'' then
          Inr (case kv_Load v of VUint64 n \<Rightarrow> dc\<lparr>dc_MaxBodyBytes := n\<rparr> | _ \<Rightarrow> dc)
        else Inr dc)"

text \<open>The additional status codes empty the list of verbs: the code resets that list instead of its own.\<close>

definition kratos_cache_field :: "string \<times> kratos_value \<Rightarrow> default_cache \<Rightarrow> default_cache go" where
  "kratos_cache_field kv dc =
     (case kv of (k, v) \<Rightarrow>
        if k = ''allowed_http_verbs'' then Inr (dc\<lparr>dc_AllowedHTTPVerbs := kv_strings v\<rparr>)
        else if k = ''allowed_additional_status_codes'' then
          Inr (dc\<lparr>dc_AllowedHTTPVerbs := [],
            dc_AllowedAdditionalStatusCodes := dc_AllowedAdditionalStatusCodes dc
              @ (case kv_Slice v of None \<Rightarrow> [] | Some l \<Rightarrow> map (fst \<circ> kv_Int) l)\<rparr>)
        else if k = ''badger'' then Inr (dc\<lparr>dc_Badger := kratos_provider True True v\<rparr>)
        else if k = ''cache_name'' then Inr (dc\<lparr>dc_CacheName := fst (kv_String v)\<rparr>)
        else if k = ''cdn'' then
          Inr (dc\<lparr>dc_CDN := fold kratos_cdn_field (kv_map_or_nil v) (cdn_config0\<lparr>cdn_Dynamic := True\<rparr>)\<rparr>)
        else if k = ''etcd'' then Inr (dc\<lparr>dc_Etcd := kratos_provider True True v\<rparr>)
        else if k = ''headers'' then Inr (dc\<lparr>dc_Headers := kv_strings v\<rparr>)
        else if k = ''nats'' then Inr (dc\<lparr>dc_Nats := kratos_provider True False v\<rparr>)
        else if k = ''nuts'' then Inr (dc\<lparr>dc_Nuts := kratos_provider True True v\<rparr>)
        else if k = ''otter'' then Inr (dc\<lparr>dc_Otter := kratos_provider False False v\<rparr>)
        else kratos_cache_field_rest kv dc)"

definition kratos_parseDefaultCache :: "kratos_map \<Rightarrow> default_cache go" where
  "kratos_parseDefaultCache m = go_foldM kratos_cache_field m default_cache0"

definition kratos_parse_url :: "kratos_value \<Rightarrow> url_config go" where
  "kratos_parse_url v =
     (let m = kv_map_or_nil v
      in case map_of m ''ttl'' of
           None \<Rightarrow> Inl NilDeref
         | Some t \<Rightarrow> Inr \<lparr>url_TTL = (case kv_duration t of None \<Rightarrow> 0 | Some d \<Rightarrow> d),
             url_Headers = (case map_of m ''headers'' of None \<Rightarrow> [] | Some h \<Rightarrow> kv_strings h),
             url_DefaultCacheControl = (case map_of m ''default_cache_control'' of None \<Rightarrow> []
               | Some c \<Rightarrow> fst (kv_String c))\<rparr>)"

definition kratos_parseURLs :: "kratos_map \<Rightarrow> (string, url_config) amap go" where
  "kratos_parseURLs m = go_foldM (\<lambda>(k, v) u. go_bind (kratos_parse_url v) (\<lambda>x. Inr (amap_put k x u))) m []"

definition kratos_surrogate_field :: "string \<times> kratos_value \<Rightarrow> surrogate_keys \<Rightarrow> surrogate_keys" where
  "kratos_surrogate_field kv sk =
     (case kv of (k, v) \<Rightarrow>
        if k = ''headers'' then
          sk\<lparr>sk_Headers := fold (\<lambda>(hKey, hValue). amap_put hKey (fst (kv_String hValue))) (kv_map_or_nil v) []\<rparr>
        else if k = ''url'' then sk\<lparr>sk_URL := fst (kv_String v)\<rparr>
        else sk)"

definition kratos_parseSurrogateKeys :: "kratos_map \<Rightarrow> (string, surrogate_keys) amap" where
  "kratos_parseSurrogateKeys m =
     fold (\<lambda>(k, v). amap_put k (fold kratos_surrogate_field (kv_map_or_nil v) surrogate_keys0)) m []"

definition kratos_config_field ::
  "regexp_engine \<Rightarrow> string \<times> kratos_value \<Rightarrow> base_configuration \<Rightarrow> base_configuration go" where
  "kratos_config_field re kv c =
     (case kv of (k, v) \<Rightarrow>
        let m = kv_map_or_nil v
        in if k = ''api'' then Inr (c\<lparr>bc_API := kratos_parseAPI m\<rparr>)
           else if k = ''cache_keys'' then go_bind (kratos_parseCacheKeys re m) (\<lambda>x. Inr (c\<lparr>bc_CacheKeys := x\<rparr>))
           else if k = ''default_cache'' then
             go_bind (kratos_parseDefaultCache m) (\<lambda>x. Inr (c\<lparr>bc_DefaultCache := x\<rparr>))
           else if k = ''log_level'' then Inr (c\<lparr>bc_LogLevel := fst (kv_String v)\<rparr>)
           else if k = ''urls'' then go_bind (kratos_parseURLs m) (\<lambda>x. Inr (c\<lparr>bc_URLs := x\<rparr>))
           else if k = ''ykeys'' then Inr (c\<lparr>bc_Ykeys := kratos_parseSurrogateKeys m\<rparr>)
           else if k = ''surrogate_keys'' then Inr (c\<lparr>bc_SurrogateKeys := kratos_parseSurrogateKeys m\<rparr>)
           else if k = ''disable_surrogate_key'' then Inr (c\<lparr>bc_SurrogateKeyDisabled := True\<rparr>)
           else Inr c)"

text \<open>The argument is the value under \<open>httpcache\<close>.\<close>

definition kratos_ParseConfiguration :: "regexp_engine \<Rightarrow> kratos_value \<Rightarrow> base_configuration go" where
  "kratos_ParseConfiguration re v = go_foldM (kratos_config_field re) (kv_map_or_nil v) base_configuration0"

section \<open>What is lost\<close>

text \<open>
  Whether the allowed verbs of a Kratos configuration with additional status codes survive depends
  on the order in which Go visits the map: the verbs that come first are dropped.
\<close>

theorem kratos_codes_drop_verbs:
  "\<exists>dc dc'. kratos_parseDefaultCache [(''allowed_http_verbs'', v), (''allowed_additional_status_codes'', c)] = Inr dc
     \<and> kratos_parseDefaultCache [(''allowed_additional_status_codes'', c), (''allowed_http_verbs'', v)] = Inr dc'
     \<and> dc_AllowedHTTPVerbs dc = [] \<and> dc_AllowedHTTPVerbs dc' = kv_strings v
     \<and> dc_AllowedAdditionalStatusCodes dc = dc_AllowedAdditionalStatusCodes dc'"
  by (simp add: kratos_parseDefaultCache_def kratos_cache_field_def default_cache0_def)

text \<open>
  A Kratos configuration in which some URL has no \<open>ttl\<close> makes the parser panic, wherever that URL
  is visited.
\<close>

theorem kratos_url_needs_ttl:
  assumes "(k, v) \<in> set m" and "map_of (kv_map_or_nil v) ''ttl'' = None"
  shows "kratos_parseURLs m = Inl NilDeref"
proof -
  have only: "kratos_parse_url x = Inl p \<Longrightarrow> p = NilDeref" for x p
    by (auto simp: kratos_parse_url_def Let_def split: option.splits)
  have "go_foldM (\<lambda>(k, v) u. go_bind (kratos_parse_url v) (\<lambda>x. Inr (amap_put k x u))) m acc = Inl NilDeref" for acc
    using assms(1)
  proof (induction m arbitrary: acc)
    case (Cons x m)
    obtain k' v' where x: "x = (k', v')" by (cases x)
    show ?case
    proof (cases "kratos_parse_url v'")
      case (Inl p)
      then show ?thesis using only by (simp add: x)
    next
      case (Inr u)
      then have "v' \<noteq> v" using assms(2) by (auto simp: kratos_parse_url_def Let_def)
      then show ?thesis using Cons Inr by (auto simp: x)
    qed
  qed simp
  then show ?thesis by (simp add: kratos_parseURLs_def)
qed

definition kratos_text :: "string \<Rightarrow> kratos_value" where
  "kratos_text s = KratosValue (False, False) (VStr s) (0, False) ([], False) (s, True) None None"

definition kratos_node :: "kratos_map \<Rightarrow> kratos_value" where
  "kratos_node m = KratosValue (False, False) (VMap []) (0, False) ([], False) ([], False) None (Some m)"

theorem kratos_url_needs_ttl_witness:
  "kratos_parseURLs [(''/a'', kratos_node [(''ttl'', kratos_text ''5s'')]),
     (''/b'', kratos_node [(''default_cache_control'', kratos_text ''public'')])] = Inl NilDeref"
  by (rule kratos_url_needs_ttl [of "''/b''" "kratos_node [(''default_cache_control'', kratos_text ''public'')]"])
    (simp_all add: kratos_node_def kv_map_or_nil_def)

text \<open>The texts of the settings: none is left in what \<open>parseRecursively\<close> returns.\<close>

fun no_text :: "any \<Rightarrow> bool" where
  "no_text (VStr s) = False"
| "no_text (VStrs ss) = False"
| "no_text (VList l) = False"
| "no_text (VMap m) = (\<forall>(k, v) \<in> set m. no_text v)"
| "no_text v = True"

lemma kratos_scalar_no_text: "kratos_scalar v = Some x \<Longrightarrow> no_text x"
  by (auto simp: kratos_scalar_def Let_def split: if_splits any.splits)

text \<open>
  C39. The settings that the Kratos plugin hands to a storage hold no text and no list: of a
  \<open>configuration\<close> map only booleans, numbers, durations and nested maps survive.
\<close>

theorem kratos_settings_lose_texts:
  "no_text (VMap (parseRecursively m))"
proof (induction m rule: parseRecursively.induct)
  case (2 key v rest)
  then show ?case by (cases "kratos_scalar v"; cases "kv_Map v") (auto dest: kratos_scalar_no_text)
qed simp

end
