(* ===== verification/TraefikStorage.thy ===== *)
theory TraefikStorage
  imports DefaultStorage
begin

text \<open>
  The storage of the Traefik plugin (plugins/traefik/override/storage and override/rfc): one
  \<open>Cache\<close> over the vendored \<open>akyoto/cache\<close>, whose \<open>sync.Map\<close> is an association list from keys to
  values with an expiry, and the copy of the mapping election and of the validation of entity
  tags.  Mappings are JSON here and bodies are not compressed: \<open>cd_Marshal\<close> and \<open>cd_Unmarshal\<close> of
  the parameter \<open>codec\<close> stand for encoding/json on a mapping and \<open>cd_Read\<close> for
  \<open>http.ReadResponse\<close>; \<open>cd_Compress\<close> is not used.  First the operations, then the contract this
  storage offers as a locale, then its states as a step relation and what holds in them.
\<close>

section \<open>akyoto/cache\<close>

record ak_item =
  ai_data :: string
  ai_expires :: int

type_synonym ak_items = "(string, ak_item) amap"

definition ak_expired :: "gtime \<Rightarrow> ak_item \<Rightarrow> bool" where
  "ak_expired now i \<longleftrightarrow> 0 < ai_expires i \<and> ai_expires i < now"

definition ak_Get :: "gtime \<Rightarrow> string \<Rightarrow> ak_items \<Rightarrow> string option" where
  "ak_Get now key items =
     (case map_of items key of
        None \<Rightarrow> None
      | Some i \<Rightarrow> if ak_expired now i then None else Some (ai_data i))"

definition ak_Set :: "gtime \<Rightarrow> string \<Rightarrow> string \<Rightarrow> duration \<Rightarrow> ak_items \<Rightarrow> ak_items" where
  "ak_Set now key val d items =
     amap_put key \<lparr>ai_data = val, ai_expires = (if 0 < d then now + d else 0)\<rparr> items"

text \<open>What \<open>Range\<close> hands to its callback, in the order of the visit.\<close>

definition ak_Range :: "gtime \<Rightarrow> ak_items \<Rightarrow> (string \<times> string) list" where
  "ak_Range now items = map (\<lambda>(k, i). (k, ai_data i)) (filter (\<lambda>(k, i). \<not> ak_expired now i) items)"

definition ak_Delete :: "string \<Rightarrow> ak_items \<Rightarrow> ak_items" where
  "ak_Delete key items = amap_del key items"

text \<open>One tick of the goroutine that \<open>New\<close> starts.\<close>

definition ak_clean :: "gtime \<Rightarrow> ak_items \<Rightarrow> ak_items" where
  "ak_clean now items = filter (\<lambda>(k, i). \<not> ak_expired now i) items"

section \<open>The provider\<close>

record tk_provider =
  tp_items :: ak_items
  tp_stale :: duration

text \<open>\<open>Factory\<close> keeps the first cache it made, with the stale period of the configuration of then.\<close>

definition tk_Factory :: "duration \<Rightarrow> tk_provider option \<Rightarrow> tk_provider" where
  "tk_Factory stale shared = (case shared of None \<Rightarrow> \<lparr>tp_items = [], tp_stale = stale\<rparr> | Some p \<Rightarrow> p)"

definition tk_Name :: string where
  "tk_Name = ''CACHE''"

definition tk_ListKeys :: "gtime \<Rightarrow> tk_provider \<Rightarrow> string list" where
  "tk_ListKeys now s = map fst (ak_Range now (tp_items s))"

definition tk_MapKeys :: "gtime \<Rightarrow> string \<Rightarrow> tk_provider \<Rightarrow> (string, string) amap" where
  "tk_MapKeys now pre s =
     fold (\<lambda>(key, v) keys. if prefix pre key then amap_put (CutPrefix key pre) v keys else keys)
       (ak_Range now (tp_items s)) []"

text \<open>\<open>Get\<close> answers an empty value, never nil, for a key that is missing or has expired.\<close>

definition tk_Get :: "gtime \<Rightarrow> string \<Rightarrow> tk_provider \<Rightarrow> string option" where
  "tk_Get now key s = (case ak_Get now key (tp_items s) of None \<Rightarrow> Some [] | Some b \<Rightarrow> Some b)"

definition tk_Set :: "gtime \<Rightarrow> string \<Rightarrow> string \<Rightarrow> duration \<Rightarrow> tk_provider \<Rightarrow> tk_provider" where
  "tk_Set now key val d s = s\<lparr>tp_items := ak_Set now key val d (tp_items s)\<rparr>"

definition tk_Delete :: "string \<Rightarrow> tk_provider \<Rightarrow> tk_provider" where
  "tk_Delete key s = s\<lparr>tp_items := ak_Delete key (tp_items s)\<rparr>"

definition tk_DeleteMany :: "regexp_engine \<Rightarrow> gtime \<Rightarrow> string \<Rightarrow> tk_provider \<Rightarrow> tk_provider" where
  "tk_DeleteMany re now key s =
     fold (\<lambda>(current, v) s. if delete_many_hits re key current then tk_Delete current s else s)
       (ak_Range now (tp_items s)) s"

definition tk_Reset :: "regexp_engine \<Rightarrow> gtime \<Rightarrow> tk_provider \<Rightarrow> tk_provider" where
  "tk_Reset re now s = tk_DeleteMany re now ''*'' s"

section \<open>override/rfc/revalidation.go\<close>

definition tk_ValidateETagFromHeader :: "string \<Rightarrow> revalidator \<Rightarrow> revalidator" where
  "tk_ValidateETagFromHeader etag v0 =
     (let v1 = v0\<lparr>rv_ResponseETag := etag,
            rv_NeedRevalidation := (rv_NeedRevalidation v0 \<or> etag \<noteq> []),
            rv_Matched := (etag = [] \<or> (etag \<noteq> [] \<and> rv_RequestETags v0 = []))\<rparr>
      in if rv_RequestETags v1 = [] then v1\<lparr>rv_NotModified := False\<rparr>
         else if rv_IfNoneMatchPresent v1 then v1\<lparr>rv_Matched := etag_listed (rv_IfNoneMatch v1) etag\<rparr>
         else if rv_IfMatchPresent v1 then
           (if etag = [] then v1\<lparr>rv_Matched := False\<rparr>
            else v1\<lparr>rv_Matched := etag_listed (rv_IfMatch v1) etag\<rparr>)
         else v1)"

definition tk_headers_match :: "request \<Rightarrow> key_index \<Rightarrow> bool" where
  "tk_headers_match req ki \<longleftrightarrow>
     list_all (\<lambda>(hname, hval). header_get (req_Header req) hname = Join hval '', '') (ki_VariedHeaders ki)"

fun tk_election_loop ::
  "codec \<Rightarrow> (string \<Rightarrow> 'w \<Rightarrow> string option \<times> 'w) \<Rightarrow> gtime \<Rightarrow> request \<Rightarrow> storage_mapper
     \<Rightarrow> response option \<Rightarrow> revalidator \<Rightarrow> 'w \<Rightarrow> election \<times> 'w" where
  "tk_election_loop cd get now req [] stale v w = ((None, stale, v, False), w)"
| "tk_election_loop cd get now req ((k, ki) # m) stale v w =
     (if \<not> tk_headers_match req ki then tk_election_loop cd get now req m stale v w
      else
        let v1 = tk_ValidateETagFromHeader (ki_Etag ki) v
        in if \<not> rv_Matched v1 then tk_election_loop cd get now req m stale v1 w
           else
             let (fresh_bytes, w1) = (if now < ki_FreshTime ki then get k w else (None, w))
             in case fresh_bytes of
                  Some b \<Rightarrow>
                    (case cd_Read cd b req of
                       None \<Rightarrow> ((None, stale, v1, True), w1)
                     | Some r \<Rightarrow> ((Some r, stale, v1, False), w1))
                | None \<Rightarrow>
                    (let (stale_bytes, w2) = (if now < ki_StaleTime ki then get k w1 else (None, w1))
                     in case stale_bytes of
                          None \<Rightarrow> tk_election_loop cd get now req m stale v1 w2
                        | Some b \<Rightarrow>
                            (case cd_Read cd b req of
                               None \<Rightarrow> ((None, None, v1, True), w2)
                             | Some r \<Rightarrow> tk_election_loop cd get now req m (Some r) v1 w2)))"

definition tk_MappingElection ::
  "codec \<Rightarrow> (string \<Rightarrow> 'w \<Rightarrow> string option \<times> 'w) \<Rightarrow> gtime \<Rightarrow> string \<Rightarrow> request \<Rightarrow> revalidator
     \<Rightarrow> 'w \<Rightarrow> election \<times> 'w" where
  "tk_MappingElection cd get now item req v w =
     (case (if item \<noteq> [] then cd_Unmarshal cd item else Some []) of
        None \<Rightarrow> ((None, None, v, True), w)
      | Some m \<Rightarrow> tk_election_loop cd get now req m None v w)"

definition tk_MappingUpdater ::
  "codec \<Rightarrow> string \<Rightarrow> string \<Rightarrow> gtime \<Rightarrow> gtime \<Rightarrow> gtime \<Rightarrow> header \<Rightarrow> string \<Rightarrow> string \<Rightarrow> string option" where
  "tk_MappingUpdater cd key item now freshTime staleTime variedHeaders etag realKey =
     (case (if item \<noteq> [] then cd_Unmarshal cd item else Some []) of
        None \<Rightarrow> None
      | Some m \<Rightarrow>
          cd_Marshal cd (amap_put key
            \<lparr>ki_StoredAt = now, ki_FreshTime = freshTime, ki_StaleTime = staleTime,
             ki_VariedHeaders = variedHeaders, ki_Etag = etag, ki_RealKey = realKey\<rparr> m))"

section \<open>The multi-level operations\<close>

definition tk_GetMultiLevel ::
  "codec \<Rightarrow> gtime \<Rightarrow> string \<Rightarrow> request \<Rightarrow> revalidator \<Rightarrow> tk_provider
     \<Rightarrow> response option \<times> response option \<times> revalidator" where
  "tk_GetMultiLevel cd now key req v s =
     (case ak_Get now (MappingKeyPrefix @ key) (tp_items s) of
        None \<Rightarrow> (None, None, v)
      | Some result \<Rightarrow>
          (case tk_MappingElection cd (\<lambda>k s. (tk_Get now k s, s)) now result req v s of
             ((fresh, stale, v', _), _) \<Rightarrow> (fresh, stale, v')))"

text \<open>The first component tells whether an error was returned.\<close>

definition tk_SetMultiLevel ::
  "codec \<Rightarrow> gtime \<Rightarrow> string \<Rightarrow> string \<Rightarrow> string \<Rightarrow> header \<Rightarrow> string \<Rightarrow> duration \<Rightarrow> string
     \<Rightarrow> tk_provider \<Rightarrow> bool \<times> tk_provider" where
  "tk_SetMultiLevel cd now baseKey variedKey val variedHeaders etag d realKey s =
     (let s1 = tk_Set now variedKey val d s;
          mappingKey = MappingKeyPrefix @ baseKey;
          old = bytes_of (ak_Get now mappingKey (tp_items s1))
      in case tk_MappingUpdater cd variedKey old now (now + d) (now + (d + tp_stale s)) variedHeaders etag realKey of
           None \<Rightarrow> (True, s1)
         | Some b \<Rightarrow> (False, tk_Set now mappingKey b 0 s1))"

section \<open>The older layout of varied keys\<close>

text \<open>
  \<open>varyVoter\<close> compares the request with the header values written into a varied key.  An item
  without a colon makes the slice \<open>item[:index]\<close> panic.
\<close>

definition vary_item_value :: "string \<Rightarrow> string" where
  "vary_item_value item =
     (let hVal = last (splitc (CHR '':'') item)
      in if sublist ''%3B'' hVal \<or> sublist ''%3A'' hVal then bytes_of (QueryUnescape hVal) else hVal)"

fun vary_items_match :: "request \<Rightarrow> string list \<Rightarrow> bool go" where
  "vary_items_match req [] = Inr True"
| "vary_items_match req (item # items) =
     (if CHR '':'' \<notin> set item then Inl IndexOutOfRange
      else if header_get (req_Header req) (Join (butlast (splitc (CHR '':'') item)) '':'') \<noteq> vary_item_value item
      then Inr False
      else vary_items_match req items)"

definition tk_varyVoter :: "string \<Rightarrow> request \<Rightarrow> string \<Rightarrow> bool go" where
  "tk_varyVoter baseKey req currentKey =
     (if currentKey = baseKey then Inr True
      else if sublist VarySeparator currentKey \<and> prefix (baseKey @ VarySeparator) currentKey then
        (let list = last (Split currentKey VarySeparator)
         in if list = [] then Inr False else vary_items_match req (Split list '';''))
      else Inr False)"

fun tk_prefix_loop ::
  "codec \<Rightarrow> string \<Rightarrow> request \<Rightarrow> (string \<times> string) list \<Rightarrow> revalidator
     \<Rightarrow> (response option \<times> revalidator) go" where
  "tk_prefix_loop cd key req [] v = Inr (None, v)"
| "tk_prefix_loop cd key req ((k, b) # es) v =
     (if \<not> prefix key k then tk_prefix_loop cd key req es v
      else go_bind (if k = key then Inr True else tk_varyVoter key req k) (\<lambda>hit.
        case (if hit then cd_Read cd b req else None) of
          None \<Rightarrow> tk_prefix_loop cd key req es v
        | Some res \<Rightarrow>
            let v1 = tk_ValidateETagFromHeader (header_get (resp_Header res) ''etag'') v
            in if rv_Matched v1 then Inr (Some res, v1) else tk_prefix_loop cd key req es v1))"

definition tk_Prefix ::
  "codec \<Rightarrow> gtime \<Rightarrow> string \<Rightarrow> request \<Rightarrow> revalidator \<Rightarrow> tk_provider \<Rightarrow> (response option \<times> revalidator) go" where
  "tk_Prefix cd now key req v s = tk_prefix_loop cd key req (ak_Range now (tp_items s)) v"

section \<open>As a storer\<close>

definition traefik_storer :: "regexp_engine \<Rightarrow> codec \<Rightarrow> tk_provider storer" where
  "traefik_storer re cd = \<lparr>st_Name = tk_Name, st_Uuid = [],
     st_MapKeys = (\<lambda>now p s. (tk_MapKeys now p s, s)),
     st_ListKeys = (\<lambda>now s. (Inr (tk_ListKeys now s), s)),
     st_Get = (\<lambda>now k s. (tk_Get now k s, s)),
     st_Set = (\<lambda>now k b d s. (False, tk_Set now k b d s)),
     st_Delete = tk_Delete,
     st_DeleteMany = tk_DeleteMany re,
     st_Reset = (\<lambda>now s. (False, tk_Reset re now s)),
     st_GetMultiLevel = (\<lambda>now k req v s. (Inr (tk_GetMultiLevel cd now k req v s), s)),
     st_SetMultiLevel = (\<lambda>now bk vk b vh etag d rk s.
        case tk_SetMultiLevel cd now bk vk b vh etag d rk s of (e, s') \<Rightarrow> (Inr e, s'))\<rparr>"

definition tk_NewStorages :: "regexp_engine \<Rightarrow> codec \<Rightarrow> tk_provider storer list" where
  "tk_NewStorages re cd = [traefik_storer re cd]"

section \<open>The contract of the overriding storages\<close>

text \<open>
  What this storage promises beyond \<open>kv_storer\<close>: a read never answers nil, and a duration that is
  not positive means for ever.  The election then reads an empty text where a value is gone.
\<close>

definition tk_fits :: "request \<Rightarrow> revalidator \<Rightarrow> key_index \<Rightarrow> bool" where
  "tk_fits req v ki \<longleftrightarrow> tk_headers_match req ki \<and> etag_accepts v (ki_Etag ki)"

lemma Matched_tk_ValidateETag: "rv_Matched (tk_ValidateETagFromHeader etag v) = etag_accepts v etag"
  by (simp add: tk_ValidateETagFromHeader_def etag_accepts_def Let_def)

lemma etag_accepts_tk_Validate [simp]: "etag_accepts (tk_ValidateETagFromHeader e v) = etag_accepts v"
  by (rule ext) (simp add: etag_accepts_def tk_ValidateETagFromHeader_def Let_def)

lemma tk_fits_Validate [simp]: "tk_fits req (tk_ValidateETagFromHeader e v) = tk_fits req v"
  by (rule ext) (simp add: tk_fits_def)

fun tk_elect ::
  "codec \<Rightarrow> (string \<Rightarrow> string) \<Rightarrow> gtime \<Rightarrow> request \<Rightarrow> storage_mapper \<Rightarrow> response option
     \<Rightarrow> revalidator \<Rightarrow> election" where
  "tk_elect cd look now req [] stale v = (None, stale, v, False)"
| "tk_elect cd look now req ((k, ki) # m) stale v =
     (let v1 = (if tk_headers_match req ki then tk_ValidateETagFromHeader (ki_Etag ki) v else v)
      in if \<not> tk_fits req v ki then tk_elect cd look now req m stale v1
         else if now < ki_FreshTime ki then
           (case cd_Read cd (look k) req of
              None \<Rightarrow> (None, stale, v1, True)
            | Some r \<Rightarrow> (Some r, stale, v1, False))
         else if now < ki_StaleTime ki then
           (case cd_Read cd (look k) req of
              None \<Rightarrow> (None, None, v1, True)
            | Some r \<Rightarrow> tk_elect cd look now req m (Some r) v1)
         else tk_elect cd look now req m stale v1)"

locale override_storer = kv_storer S wf val user_key lasts
  for S :: "'w storer" and wf :: "'w \<Rightarrow> bool"
    and val :: "gtime \<Rightarrow> string \<Rightarrow> 'w \<Rightarrow> string option" and user_key :: "string \<Rightarrow> bool"
    and lasts :: "gtime \<Rightarrow> duration \<Rightarrow> gtime \<Rightarrow> bool" +
  assumes get_some: "wf w \<Longrightarrow> fst (st_Get S now k w) \<noteq> None"
    and lasts_forever: "d \<le> 0 \<Longrightarrow> lasts now d t"
begin

lemma get_eq: "wf w \<Longrightarrow> fst (st_Get S now k w) = Some (bytes_of (val now k w))"
  using get_some[of w now k] get_bytes[of w now k] by (auto simp: bytes_of_simps)

lemma set_forever:
  "wf w \<Longrightarrow> user_key k \<Longrightarrow> d \<le> 0 \<Longrightarrow> val t k (snd (st_Set S now k b d w)) = Some b"
  by (simp add: set_val lasts_forever)

text \<open>The election computes \<open>tk_elect\<close> over the bytes visible in the state it starts in.\<close>

lemma tk_election_loop_elect:
  assumes "wf w"
  shows "fst (tk_election_loop cd (st_Get S now) now req m stale v w)
      = tk_elect cd (\<lambda>k. bytes_of (val now k w)) now req m stale v
    \<and> wf (snd (tk_election_loop cd (st_Get S now) now req m stale v w))"
  using assms
proof (induction m arbitrary: stale v w)
  case (Cons p m)
  obtain k ki where p: "p = (k, ki)" by fastforce
  obtain w1 where g: "st_Get S now k w = (Some (bytes_of (val now k w)), w1)"
    using get_eq[OF Cons.prems, of now k] by (cases "st_Get S now k w") auto
  have w1: "wf w1" "\<And>k'. val now k' w1 = val now k' w"
    using get_wf[OF Cons.prems, of now k] get_keeps[OF Cons.prems, of now now _ k] by (simp_all add: g)
  show ?case
    using Cons.IH[OF Cons.prems] Cons.IH[OF w1(1)] w1 Cons.prems
    by (simp add: p g Let_def tk_fits_def Matched_tk_ValidateETag split: option.splits)
qed simp

end

section \<open>The laws of the cache\<close>

definition tk_val :: "gtime \<Rightarrow> string \<Rightarrow> tk_provider \<Rightarrow> string option" where
  "tk_val t k s = ak_Get t k (tp_items s)"

definition tk_wf :: "tk_provider \<Rightarrow> bool" where
  "tk_wf s \<longleftrightarrow> amap_ok (tp_items s)"

definition tk_lasts :: "gtime \<Rightarrow> duration \<Rightarrow> gtime \<Rightarrow> bool" where
  "tk_lasts now d t \<longleftrightarrow> d \<le> 0 \<or> now + d \<le> 0 \<or> t \<le> now + d"

lemma tk_val_simps [simp]:
  "tk_val t k' (tk_Set now k b d s) = (if k' = k then if tk_lasts now d t then Some b else None else tk_val t k' s)"
  "tk_val t k' (tk_Delete k s) = (if k' = k then None else tk_val t k' s)"
  by (auto simp: tk_val_def tk_Set_def tk_Delete_def ak_Get_def ak_Set_def ak_Delete_def ak_expired_def tk_lasts_def)

lemma tk_stale_simps [simp]: "tp_stale (tk_Set now k b d s) = tp_stale s" "tp_stale (tk_Delete k s) = tp_stale s"
  by (simp_all add: tk_Set_def tk_Delete_def)

lemma tk_wf_simps [simp, intro]:
  "tk_wf s \<Longrightarrow> tk_wf (tk_Set now k b d s)" "tk_wf s \<Longrightarrow> tk_wf (tk_Delete k s)"
  by (simp_all add: tk_wf_def tk_Set_def tk_Delete_def ak_Set_def ak_Delete_def)

lemma tk_Get_bytes: "bytes_of (tk_Get now k s) = bytes_of (tk_val now k s)" "tk_Get now k s \<noteq> None"
  by (simp_all add: tk_Get_def tk_val_def bytes_of_simps split: option.split)

lemma ak_Range_map_of: "amap_ok items \<Longrightarrow> map_of (ak_Range now items) k = ak_Get now k items"
  unfolding ak_Range_def ak_Get_def amap_ok_def
  by (induction items) (auto split: option.split, (metis (no_types, lifting) image_eqI map_of_SomeD fst_conv)+)

lemma ak_Range_keys: "amap_keys (ak_Range now items) = amap_keys (filter (\<lambda>(k, i). \<not> ak_expired now i) items)"
  by (simp add: ak_Range_def o_def case_prod_beta)

lemma ak_Range_distinct: "amap_ok items \<Longrightarrow> amap_ok (ak_Range now items)"
  unfolding amap_ok_def ak_Range_keys by (rule distinct_map_filter)

text \<open>\<open>DeleteMany\<close> removes what it hits among the live keys.\<close>

lemma tk_Delete_if_items:
  "tp_items (if b then tk_Delete a s else s) = amap_filter_keys (\<lambda>k. \<not> (k = a \<and> b)) (tp_items s)"
  by (simp add: tk_Delete_def ak_Delete_def amap_del_def amap_filter_keys_def)

lemma tk_DeleteMany_fold:
  "tp_items (fold (\<lambda>(current, v) s. if P current then tk_Delete current s else s) es s)
    = amap_filter_keys (\<lambda>k. \<not> (k \<in> set (amap_keys es) \<and> P k)) (tp_items s)
   \<and> tp_stale (fold (\<lambda>(current, v) s. if P current then tk_Delete current s else s) es s) = tp_stale s"
proof (induction es arbitrary: s)
  case Nil
  then show ?case by (simp add: amap_filter_keys_def)
next
  case (Cons e es)
  then show ?case
    by (auto simp: case_prod_beta tk_Delete_if_items amap_filter_keys_def intro!: filter_cong)
qed

lemma tk_DeleteMany_items:
  "tp_items (tk_DeleteMany re now key s)
    = amap_filter_keys (\<lambda>k. \<not> (k \<in> set (amap_keys (ak_Range now (tp_items s))) \<and> delete_many_hits re key k)) (tp_items s)"
  "tp_stale (tk_DeleteMany re now key s) = tp_stale s"
  unfolding tk_DeleteMany_def using tk_DeleteMany_fold[of "delete_many_hits re key"] by blast+

lemma ak_Get_live: "amap_ok items \<Longrightarrow> ak_Get now k items \<noteq> None \<longleftrightarrow> k \<in> set (amap_keys (ak_Range now items))"
  by (metis ak_Range_map_of map_of_eq_None_iff list.set_map)

lemma ak_Get_expired_later: "now \<le> t \<Longrightarrow> ak_Get now k items = None \<Longrightarrow> ak_Get t k items = None"
  by (auto simp: ak_Get_def ak_expired_def split: option.splits if_splits)

lemma tk_DeleteMany_val:
  assumes "tk_wf s" "now \<le> t"
  shows "tk_val t k (tk_DeleteMany re now key s) = (if delete_many_hits re key k then None else tk_val t k s)"
proof (cases "ak_Get now k (tp_items s) = None")
  case True
  then show ?thesis using assms ak_Get_live[of "tp_items s" now k] ak_Get_expired_later[OF assms(2) True]
    by (auto simp: tk_val_def tk_DeleteMany_items ak_Get_def tk_wf_def)
next
  case False
  then show ?thesis using assms ak_Get_live[of "tp_items s" now k]
    by (auto simp: tk_val_def tk_DeleteMany_items ak_Get_def tk_wf_def)
qed

lemma tk_DeleteMany_mono: "tk_val t k (tk_DeleteMany re now key s) \<in> {None, tk_val t k s}"
  by (auto simp: tk_val_def tk_DeleteMany_items ak_Get_def)

lemma tk_DeleteMany_wf [simp, intro]: "tk_wf s \<Longrightarrow> tk_wf (tk_DeleteMany re now key s)"
  by (simp add: tk_wf_def tk_DeleteMany_items)

lemma tk_MapKeys_fold:
  assumes "amap_ok es"
  shows "map_of (fold (\<lambda>(key, v) keys. if prefix pre key then amap_put (CutPrefix key pre) v keys else keys) es acc) k
    = (case map_of es (pre @ k) of Some v \<Rightarrow> Some v | None \<Rightarrow> map_of acc k)"
  using assms
proof (induction es arbitrary: acc)
  case (Cons e es)
  obtain key v where e: "e = (key, v)" by fastforce
  have "prefix pre key \<Longrightarrow> (k = CutPrefix key pre) = (key = pre @ k)"
    by (auto simp: CutPrefix_def prefix_def)
  moreover have "map_of es key = None" using Cons.prems by (simp add: e amap_ok_def map_of_eq_None_iff)
  ultimately show ?case using Cons by (auto simp: e amap_ok_def split: option.splits)
qed simp

lemma tk_MapKeys_val: "tk_wf s \<Longrightarrow> map_of (tk_MapKeys now pre s) k = tk_val now (pre @ k) s"
  using tk_MapKeys_fold[OF ak_Range_distinct, of "tp_items s" pre now "[]" k]
  by (simp add: tk_MapKeys_def tk_val_def tk_wf_def ak_Range_map_of split: option.splits)

text \<open>The cache keeps the contract; every key may be written.\<close>

lemma traefik_storer_sel [simp]:
  "st_Get (traefik_storer re cd) now k s = (tk_Get now k s, s)"
  "st_Set (traefik_storer re cd) now k b d s = (False, tk_Set now k b d s)"
  "st_Delete (traefik_storer re cd) = tk_Delete"
  "st_DeleteMany (traefik_storer re cd) = tk_DeleteMany re"
  "st_Reset (traefik_storer re cd) now s = (False, tk_Reset re now s)"
  "st_MapKeys (traefik_storer re cd) now p s = (tk_MapKeys now p s, s)"
  "st_ListKeys (traefik_storer re cd) now s = (Inr (tk_ListKeys now s), s)"
  "st_Name (traefik_storer re cd) = tk_Name"
  "st_GetMultiLevel (traefik_storer re cd) now k req v s = (Inr (tk_GetMultiLevel cd now k req v s), s)"
  "st_SetMultiLevel (traefik_storer re cd) now bk vk b vh etag d rk s
     = (Inr (fst (tk_SetMultiLevel cd now bk vk b vh etag d rk s)), snd (tk_SetMultiLevel cd now bk vk b vh etag d rk s))"
  by (simp_all add: traefik_storer_def case_prod_beta)

lemma tk_storer: "override_storer (traefik_storer re cd) tk_wf tk_val (\<lambda>k. True) tk_lasts"
  using tk_DeleteMany_mono
  by unfold_locales
    (auto simp: tk_Get_bytes tk_DeleteMany_val tk_MapKeys_val delete_many_hits_def tk_lasts_def)

interpretation tk: override_storer "traefik_storer re cd" tk_wf tk_val "\<lambda>k. True" tk_lasts
  for re cd by (rule tk_storer)

end
