(* ===== verification/TraefikSurrogate.thy ===== *)
theory TraefikSurrogate
  imports TraefikStorage Surrogate
begin

text \<open>
  The surrogate keys of the Traefik plugin (override/surrogate/providers/common.go): the base
  storage that replaces the one of pkg/surrogate under the same four CDN providers, whose own files
  are the ones modelled in Surrogate.  Definitions come first, then the laws inside the contract
  of the overriding storages, then the properties over the Traefik cache.
\<close>

section \<open>Parsing\<close>

text \<open>
  \<open>regexp.MustCompile(sep + " *").Split(value, -1)\<close> for a separator without special characters: a
  match takes the separator and all blanks that follow.
\<close>

function sep_blank_split :: "string \<Rightarrow> string \<Rightarrow> string \<Rightarrow> string list" where
  "sep_blank_split sep acc [] = [rev acc]"
| "sep_blank_split sep acc (c # cs) =
     (if sep \<noteq> [] \<and> prefix sep (c # cs)
      then rev acc # sep_blank_split sep [] (dropWhile (\<lambda>x. x = CHR '' '') (drop (length sep) (c # cs)))
      else sep_blank_split sep (c # acc) cs)"
  by pat_completeness auto
termination
proof (relation "measure (\<lambda>(sep, acc, s). length s)")
  fix sep acc c cs
  assume "sep \<noteq> [] \<and> prefix sep (c # (cs :: string))"
  then have "length (drop (length sep) (c # cs)) < length (c # cs)" by (auto simp: neq_Nil_conv)
  then show "((sep, [], dropWhile (\<lambda>x. x = CHR '' '') (drop (length sep) (c # cs))), (sep, acc, c # cs))
    \<in> measure (\<lambda>(sep, acc, s). length s)"
    using length_dropWhile_le[of "\<lambda>x. x = CHR '' ''" "drop (length sep) (c # cs)"] by simp
qed auto

definition tk_ParseHeaders :: "'w base_storage \<Rightarrow> string \<Rightarrow> string list" where
  "tk_ParseHeaders s v = sep_blank_split (getHeaderSeparator (bs_parent s)) [] v"

text \<open>\<open>uniqueTag\<close> unescapes every item it keeps.\<close>

fun tk_unique_loop :: "string list \<Rightarrow> string list \<Rightarrow> string list" where
  "tk_unique_loop tmp [] = []"
| "tk_unique_loop tmp (item # items) =
     (if item = [] \<or> item \<in> set tmp then tk_unique_loop tmp items
      else bytes_of (QueryUnescape item) # tk_unique_loop (item # tmp) items)"

definition tk_uniqueTag :: "string list \<Rightarrow> string list" where
  "tk_uniqueTag vs = tk_unique_loop [] vs"

section \<open>The base storage\<close>

definition tk_stalePrefix :: string where
  "tk_stalePrefix = ''STALE_''"

definition tk_storageToInfiniteTTLMap :: "(string, duration) amap" where
  "tk_storageToInfiniteTTLMap = [(''CACHE'', 365 * 24 * Hour)]"

text \<open>\<open>init\<close> takes the first of the new storages, whatever storer was configured.\<close>

definition tk_bs_init :: "regexp_engine \<Rightarrow> 'w storer \<Rightarrow> base_configuration \<Rightarrow> cdn_layer \<Rightarrow> 'w base_storage go" where
  "tk_bs_init re storer config parent =
     (let cdn = dc_CDN (bc_DefaultCache config)
      in go_bind (go_mapM (\<lambda>(key, regexps). go_bind (keys_regexp_of re regexps) (\<lambda>i. Inr (key, i)))
                    (bc_SurrogateKeys config))
           (\<lambda>keysRegexp. Inr \<lparr>bs_parent = parent, bs_Storage = storer, bs_Keys = bc_SurrogateKeys config,
              bs_keysRegexp = keysRegexp, bs_dynamic = cdn_Dynamic cdn,
              bs_keepStale = (cdn_Strategy cdn \<noteq> ''hard''),
              bs_duration = (case map_of tk_storageToInfiniteTTLMap (st_Name storer) of Some d \<Rightarrow> d | None \<Rightarrow> 0)\<rparr>))"

definition tk_containsCacheKey :: "string \<Rightarrow> string \<Rightarrow> bool" where
  "tk_containsCacheKey currentValue cacheKey \<longleftrightarrow>
     (if currentValue = [] then False
      else currentValue = cacheKey \<or> prefix (cacheKey @ '','') currentValue
        \<or> suffix ('','' @ cacheKey) currentValue \<or> sublist ('','' @ cacheKey @ '','') currentValue)"

definition tk_storeTag :: "gtime \<Rightarrow> 'w base_storage \<Rightarrow> string \<Rightarrow> string \<Rightarrow> 'w \<Rightarrow> 'w" where
  "tk_storeTag now s tag cacheKey w =
     (case st_Get (bs_Storage s) now (surrogatePrefix @ tag) w of
        (r, w1) \<Rightarrow>
          let currentValue = bytes_of r
          in if tk_containsCacheKey currentValue cacheKey then w1
             else snd (st_Set (bs_Storage s) now (surrogatePrefix @ tag) (currentValue @ '','' @ cacheKey) (-1) w1))"

definition tk_candidateStore :: "string \<Rightarrow> bool" where
  "tk_candidateStore tag \<longleftrightarrow> \<not> sublist ''no-store'' tag"

definition tk_getOrderedSurrogateKeyHeadersCandidate :: "cdn_layer \<Rightarrow> string list" where
  "tk_getOrderedSurrogateKeyHeadersCandidate p =
     (case p of
        Cloudflare _ _ _ \<Rightarrow> [''Cache-Tag'', ''Surrogate-Key'']
      | Fastly _ _ _ \<Rightarrow> [''Surrogate-Key'']
      | _ \<Rightarrow> [''Surrogate-Key'', ''Edge-Cache-Tag'', ''Cache-Tags''])"

definition tk_GetSurrogateControl :: "'w base_storage \<Rightarrow> header \<Rightarrow> string \<times> string" where
  "tk_GetSurrogateControl s h =
     (let candidates = getOrderedSurrogateControlHeadersCandidate (bs_parent s)
      in case find (\<lambda>c. header_get h c \<noteq> []) candidates of
           Some c \<Rightarrow> (c, header_get h c)
         | None \<Rightarrow> (last candidates, []))"

definition tk_getSurrogateKey :: "'w base_storage \<Rightarrow> header \<Rightarrow> string" where
  "tk_getSurrogateKey s h =
     (case find (\<lambda>c. header_get h c \<noteq> []) (tk_getOrderedSurrogateKeyHeadersCandidate (bs_parent s)) of
        Some c \<Rightarrow> header_get h c | None \<Rightarrow> [])"

text \<open>
  \<open>purgeTag\<close> reads the list under the bare tag, but deletes it under the tag with its prefix.
\<close>

definition tk_purgeTag :: "gtime \<Rightarrow> 'w base_storage \<Rightarrow> string \<Rightarrow> 'w \<Rightarrow> string list \<times> 'w" where
  "tk_purgeTag now s tag w =
     (case st_Get (bs_Storage s) now tag w of
        (r, w1) \<Rightarrow>
          let w2 = st_Delete (bs_Storage s) (surrogatePrefix @ tag) w1
          in if bs_keepStale s then (Split (bytes_of r) '','', w2)
             else case st_Get (bs_Storage s) now (tk_stalePrefix @ tag) w2 of
               (r', w3) \<Rightarrow>
                 (Split (bytes_of r @ '','' @ bytes_of r') '','',
                  st_Delete (bs_Storage s) (surrogatePrefix @ tk_stalePrefix @ tag) w3))"

definition tk_store_both :: "gtime \<Rightarrow> 'w base_storage \<Rightarrow> string \<Rightarrow> string \<Rightarrow> 'w \<Rightarrow> 'w" where
  "tk_store_both now s cacheKey key w =
     tk_storeTag now s (tk_stalePrefix @ key) (tk_stalePrefix @ cacheKey) (tk_storeTag now s key cacheKey w)"

definition tk_store_key :: "gtime \<Rightarrow> 'w base_storage \<Rightarrow> header \<Rightarrow> string \<Rightarrow> string \<Rightarrow> 'w \<Rightarrow> 'w" where
  "tk_store_key now s h cacheKey key w =
     (let controls = tk_ParseHeaders s (snd (tk_GetSurrogateControl s h))
      in if controls = [] \<or> controls = [[]] then tk_store_both now s cacheKey key w
         else fold (\<lambda>control w. if tk_candidateStore control then tk_store_both now s cacheKey key w else w) controls w)"

definition tk_bs_Store :: "gtime \<Rightarrow> 'w base_storage \<Rightarrow> header \<Rightarrow> string \<Rightarrow> 'w \<Rightarrow> 'w" where
  "tk_bs_Store now s h cacheKey w =
     fold (tk_store_key now s h (QueryEscape cacheKey)) (tk_ParseHeaders s (tk_getSurrogateKey s h)) w"

fun tk_purge_tags :: "gtime \<Rightarrow> 'w base_storage \<Rightarrow> string list \<Rightarrow> 'w \<Rightarrow> string list \<times> 'w" where
  "tk_purge_tags now s [] w = ([], w)"
| "tk_purge_tags now s (su # sus) w =
     (case tk_purgeTag now s su w of (ks, w1) \<Rightarrow>
        (case tk_purge_tags now s sus w1 of (ks', w2) \<Rightarrow> (ks @ ks', w2)))"

definition tk_bs_Purge :: "gtime \<Rightarrow> 'w base_storage \<Rightarrow> header \<Rightarrow> 'w \<Rightarrow> (string list \<times> string list) \<times> 'w" where
  "tk_bs_Purge now s h w =
     (let surrogates = tk_ParseHeaders s (tk_getSurrogateKey s h)
      in case tk_purge_tags now s surrogates w of (ks, w1) \<Rightarrow> ((tk_uniqueTag ks, surrogates), w1))"

definition tk_bs_Invalidate :: "gtime \<Rightarrow> 'w base_storage \<Rightarrow> string \<Rightarrow> header \<Rightarrow> 'w \<Rightarrow> 'w" where
  "tk_bs_Invalidate now s meth h w =
     (if isSafeHTTPMethod meth then w
      else snd (tk_purge_tags now s (header_index h ''Cache-Group-Invalidation'') w))"

definition tk_bs_List :: "gtime \<Rightarrow> 'w base_storage \<Rightarrow> 'w \<Rightarrow> (string, string) amap \<times> 'w" where
  "tk_bs_List now s w = st_MapKeys (bs_Storage s) now surrogatePrefix w"

definition tk_bs_Destruct :: "gtime \<Rightarrow> 'w base_storage \<Rightarrow> 'w \<Rightarrow> 'w" where
  "tk_bs_Destruct now s w = st_DeleteMany (bs_Storage s) now (surrogatePrefix @ ''.*'') w"

text \<open>The providers' own methods over this base, as the vendored copies of their files have them.\<close>

definition tk_sp_Store ::
  "gtime \<Rightarrow> 'w base_storage \<Rightarrow> header \<Rightarrow> string \<Rightarrow> 'w \<Rightarrow> header \<times> 'w" where
  "tk_sp_Store now s h cacheKey w =
     (let w1 = tk_bs_Store now s h cacheKey w;
          strip = (\<lambda>h. header_del ''Surrogate-Control'' (header_del ''Surrogate-Key'' h))
      in case bs_parent s of
           Akamai _ \<Rightarrow> (strip (header_set ''Edge-Cache-Tag'' (header_get h ''Surrogate-Key'') h), w1)
         | Cloudflare _ _ _ \<Rightarrow>
             (strip (header_set ''Cache-Tag''
                (Join (tk_ParseHeaders s (header_get h ''Surrogate-Key'')) (getHeaderSeparator (bs_parent s))) h), w1)
         | _ \<Rightarrow> (h, w1))"

definition tk_sp_Purge ::
  "gtime \<Rightarrow> (string \<Rightarrow> bool) \<Rightarrow> 'w base_storage \<Rightarrow> header \<Rightarrow> 'w
     \<Rightarrow> (string list \<times> string list \<times> cdn_request list) \<times> 'w" where
  "tk_sp_Purge now url_ok s h w =
     (case tk_bs_Purge now s h w of ((ks, headers), w1) \<Rightarrow>
        ((ks, headers, cdn_requests url_ok (bs_parent s) headers), w1))"

section \<open>Where the two base storages agree\<close>

text \<open>The choice of the control header and the membership test are those of pkg/surrogate.\<close>

lemma getCandidateHeader_find:
  "cs \<noteq> [] \<Longrightarrow> getCandidateHeader h cs =
    (case find (\<lambda>c. header_get h c \<noteq> []) cs of Some c \<Rightarrow> (c, header_get h c) | None \<Rightarrow> (last cs, []))"
  by (induction h cs rule: getCandidateHeader.induct) (auto split: option.splits)

lemma tk_GetSurrogateControl_eq [simp]: "tk_GetSurrogateControl s h = GetSurrogateControl s h"
proof -
  have "getOrderedSurrogateControlHeadersCandidate (bs_parent s) \<noteq> []"
    by (simp add: getOrderedSurrogateControlHeadersCandidate_def Let_def split: cdn_layer.split)
  from getCandidateHeader_find[OF this, of h] show ?thesis
    by (simp add: tk_GetSurrogateControl_def GetSurrogateControl_def Let_def)
qed

lemma tk_containsCacheKey_eq [simp]: "tk_containsCacheKey = containsCacheKey"
  by (intro ext) (simp add: tk_containsCacheKey_def containsCacheKey_def)

section \<open>Tags in an overriding storage\<close>

lemma STALE_not_Nil [simp]: "tk_stalePrefix @ k \<noteq> []" and STALE_no_comma: "CHR '','' \<notin> set tk_stalePrefix"
  by (simp_all add: tk_stalePrefix_def)

text \<open>The decision of \<open>Store\<close>, and what one surrogate key adds to the list of a tag.\<close>

definition tk_tag_storable :: "'w base_storage \<Rightarrow> header \<Rightarrow> bool" where
  "tk_tag_storable s h \<longleftrightarrow>
     (let controls = tk_ParseHeaders s (snd (tk_GetSurrogateControl s h))
      in controls = [] \<or> controls = [[]] \<or> list_ex tk_candidateStore controls)"

definition tk_adds :: "string \<Rightarrow> string \<Rightarrow> string \<Rightarrow> string \<Rightarrow> bool" where
  "tk_adds cacheKey key tag x \<longleftrightarrow>
     (tag = key \<and> x = cacheKey) \<or> (tag = tk_stalePrefix @ key \<and> x = tk_stalePrefix @ cacheKey)"

text \<open>The keys a value lists: its non-empty fields.\<close>

definition tk_listed :: "string option \<Rightarrow> string set" where
  "tk_listed v = {f \<in> set (Split (bytes_of v) '',''). f \<noteq> []}"

lemma tk_listed_append:
  "CHR '','' \<notin> set k \<Longrightarrow> k \<noteq> [] \<Longrightarrow> tk_listed (Some (cur @ '','' @ k)) = insert k (tk_listed (Some cur))"
  using Split_comma_append[of cur k] by (auto simp: tk_listed_def Split_comma_single bytes_of_simps)

lemma tk_listed_contains:
  "containsCacheKey cur k \<Longrightarrow> CHR '','' \<notin> set k \<Longrightarrow> k \<noteq> [] \<Longrightarrow> k \<in> tk_listed (Some cur)"
  using containsCacheKey_iff[of k cur] by (simp add: tk_listed_def bytes_of_simps)

lemma tk_uniqueTag_empty: "set ks \<subseteq> {[]} \<Longrightarrow> tk_uniqueTag ks = []"
proof -
  have "set ks \<subseteq> {[]} \<Longrightarrow> tk_unique_loop tmp ks = []" for tmp by (induction ks) auto
  then show "set ks \<subseteq> {[]} \<Longrightarrow> ?thesis" by (simp add: tk_uniqueTag_def)
qed

locale override_surrogate = override_storer S wf val user_key lasts
  for S :: "'w storer" and wf :: "'w \<Rightarrow> bool"
    and val :: "gtime \<Rightarrow> string \<Rightarrow> 'w \<Rightarrow> string option" and user_key :: "string \<Rightarrow> bool"
    and lasts :: "gtime \<Rightarrow> duration \<Rightarrow> gtime \<Rightarrow> bool" +
  assumes surrogate_key: "user_key (surrogatePrefix @ tag)"
begin

definition lists :: "gtime \<Rightarrow> 'w \<Rightarrow> string \<Rightarrow> string set" where
  "lists now w tag = tk_listed (val now (surrogatePrefix @ tag) w)"

lemma storeTag_spec:
  assumes "bs_Storage s = S" "wf w"
  shows "wf (tk_storeTag now s tag k w)"
    and "now \<le> t \<Longrightarrow> val t k' (tk_storeTag now s tag k w) =
      (let cur = bytes_of (val now (surrogatePrefix @ tag) w)
       in if k' = surrogatePrefix @ tag \<and> \<not> containsCacheKey cur k then Some (cur @ '','' @ k) else val t k' w)"
proof -
  obtain r w1 where g: "st_Get S now (surrogatePrefix @ tag) w = (r, w1)" by fastforce
  have r: "bytes_of r = bytes_of (val now (surrogatePrefix @ tag) w)" and w1: "wf w1"
    and keep: "\<And>t k'. now \<le> t \<Longrightarrow> val t k' w1 = val t k' w"
    using get_bytes[OF assms(2)] get_wf[OF assms(2)] get_keeps[OF assms(2)] g by (metis fst_conv snd_conv)+
  show "wf (tk_storeTag now s tag k w)"
    using assms(1) w1 by (simp add: tk_storeTag_def g Let_def set_wf surrogate_key)
  show "now \<le> t \<Longrightarrow> val t k' (tk_storeTag now s tag k w) =
      (let cur = bytes_of (val now (surrogatePrefix @ tag) w)
       in if k' = surrogatePrefix @ tag \<and> \<not> containsCacheKey cur k then Some (cur @ '','' @ k) else val t k' w)"
    using assms(1) by (simp add: tk_storeTag_def g Let_def r set_val[OF w1 surrogate_key] lasts_forever keep)
qed

lemma storeTag_lists:
  assumes "bs_Storage s = S" "wf w" "CHR '','' \<notin> set k" "k \<noteq> []"
  shows "x \<in> lists now (tk_storeTag now s tag' k w) tag \<longleftrightarrow> x \<in> lists now w tag \<or> (x = k \<and> tag = tag')"
proof -
  define cur where "cur = bytes_of (val now (surrogatePrefix @ tag') w)"
  have cur: "tk_listed (val now (surrogatePrefix @ tag') w) = tk_listed (Some cur)"
    by (simp add: cur_def tk_listed_def bytes_of_simps)
  show ?thesis
    using storeTag_spec(2)[OF assms(1,2) order_refl, of now "surrogatePrefix @ tag" tag' k] cur
      tk_listed_append[OF assms(3,4), of cur] tk_listed_contains[OF _ assms(3,4), of cur]
    by (auto simp: lists_def Let_def cur_def[symmetric])
qed

lemma store_both_lists:
  assumes "bs_Storage s = S" "wf w" "CHR '','' \<notin> set k" "k \<noteq> []"
  shows "wf (tk_store_both now s k key w)"
    "x \<in> lists now (tk_store_both now s k key w) tag \<longleftrightarrow> x \<in> lists now w tag \<or> tk_adds k key tag x"
  using assms STALE_no_comma
  by (auto simp: tk_store_both_def storeTag_spec(1) storeTag_lists tk_adds_def)

lemma store_key_lists:
  assumes "bs_Storage s = S" "wf w" "CHR '','' \<notin> set k" "k \<noteq> []"
  shows "wf (tk_store_key now s h k key w)
    \<and> (x \<in> lists now (tk_store_key now s h k key w) tag \<longleftrightarrow>
         x \<in> lists now w tag \<or> tk_tag_storable s h \<and> tk_adds k key tag x)"
proof -
  have "wf (fold (\<lambda>control w. if tk_candidateStore control then tk_store_both now s k key w else w) cs w)
    \<and> (x \<in> lists now (fold (\<lambda>control w. if tk_candidateStore control then tk_store_both now s k key w else w) cs w) tag
        \<longleftrightarrow> x \<in> lists now w tag \<or> list_ex tk_candidateStore cs \<and> tk_adds k key tag x)" for cs
    using assms(2)
  proof (induction cs arbitrary: w)
    case (Cons c cs)
    then show ?case using store_both_lists[OF assms(1) Cons.prems assms(3,4)] by auto
  qed simp
  then show ?thesis
    using store_both_lists[OF assms] by (auto simp: tk_store_key_def tk_tag_storable_def Let_def)
qed

lemma Store_lists:
  assumes "bs_Storage s = S" "wf w" "cacheKey \<noteq> []"
  shows "wf (tk_bs_Store now s h cacheKey w)
    \<and> (x \<in> lists now (tk_bs_Store now s h cacheKey w) tag \<longleftrightarrow> x \<in> lists now w tag \<or>
        tk_tag_storable s h \<and>
        (\<exists>key \<in> set (tk_ParseHeaders s (tk_getSurrogateKey s h)). tk_adds (QueryEscape cacheKey) key tag x))"
proof -
  have "wf (fold (tk_store_key now s h (QueryEscape cacheKey)) keys w)
    \<and> (x \<in> lists now (fold (tk_store_key now s h (QueryEscape cacheKey)) keys w) tag \<longleftrightarrow> x \<in> lists now w tag \<or>
        tk_tag_storable s h \<and> (\<exists>key \<in> set keys. tk_adds (QueryEscape cacheKey) key tag x))" for keys
    using assms(2)
  proof (induction keys arbitrary: w)
    case (Cons key keys)
    then show ?case
      using store_key_lists[OF assms(1) Cons.prems QueryEscape_no_comma] assms(3) by auto
  qed simp
  then show ?thesis by (simp add: tk_bs_Store_def)
qed

text \<open>A purge finds what stands under the bare tags, and removes the lists.\<close>

definition purged :: "'w base_storage \<Rightarrow> string \<Rightarrow> string set" where
  "purged s tag = {surrogatePrefix @ tag} \<union> (if bs_keepStale s then {} else {surrogatePrefix @ tk_stalePrefix @ tag})"

lemma purgeTag_spec:
  assumes "bs_Storage s = S" "wf w" "bytes_of (val now tag w) = []" "bytes_of (val now (tk_stalePrefix @ tag) w) = []"
  shows "set (fst (tk_purgeTag now s tag w)) \<subseteq> {[]} \<and> wf (snd (tk_purgeTag now s tag w)) \<and>
    (\<forall>t\<ge>now. \<forall>k. val t k (snd (tk_purgeTag now s tag w)) = (if k \<in> purged s tag then None else val t k w))"
proof -
  obtain r w1 where g: "st_Get S now tag w = (r, w1)" by fastforce
  have 1: "bytes_of r = []" "wf w1" "\<And>t k'. now \<le> t \<Longrightarrow> val t k' w1 = val t k' w"
    using get_bytes[OF assms(2), of now tag] get_wf[OF assms(2), of now tag] get_keeps[OF assms(2), of now _ _ tag] g assms(3)
    by simp_all
  define w2 where "w2 = st_Delete S (surrogatePrefix @ tag) w1"
  have 2: "wf w2" "\<And>t k'. now \<le> t \<Longrightarrow> val t k' w2 = (if k' = surrogatePrefix @ tag then None else val t k' w)"
    using 1 by (simp_all add: w2_def delete_wf delete_val)
  obtain r' w3 where g': "st_Get S now (tk_stalePrefix @ tag) w2 = (r', w3)" by fastforce
  have 3: "bytes_of r' = []" "wf w3" "\<And>t k'. now \<le> t \<Longrightarrow> val t k' w3 = val t k' w2"
    using get_bytes[OF 2(1), of now "tk_stalePrefix @ tag"] get_wf[OF 2(1), of now "tk_stalePrefix @ tag"]
      get_keeps[OF 2(1), of now _ _ "tk_stalePrefix @ tag"] g' 2(2)[OF order_refl, of "tk_stalePrefix @ tag"] assms(4)
    by (auto simp: bytes_of_simps split: if_splits)
  have "set (Split [] '','') \<subseteq> {[]}" "set (Split '','' '','') \<subseteq> {[]}" by code_simp+
  then show ?thesis
    using assms(1) 1 2 3
    by (auto simp: tk_purgeTag_def g w2_def[symmetric] g' Let_def purged_def delete_wf delete_val)
qed

lemma purge_tags_spec:
  assumes "bs_Storage s = S" "wf w"
    and "\<forall>tag \<in> set tags. bytes_of (val now tag w) = [] \<and> bytes_of (val now (tk_stalePrefix @ tag) w) = []"
  shows "set (fst (tk_purge_tags now s tags w)) \<subseteq> {[]} \<and> wf (snd (tk_purge_tags now s tags w)) \<and>
    (\<forall>t\<ge>now. \<forall>k. val t k (snd (tk_purge_tags now s tags w)) =
       (if \<exists>tag \<in> set tags. k \<in> purged s tag then None else val t k w))"
  using assms(2,3)
proof (induction tags arbitrary: w)
  case (Cons tag tags)
  obtain ks w1 where p: "tk_purgeTag now s tag w = (ks, w1)" by fastforce
  have 1: "set ks \<subseteq> {[]}" "wf w1" "\<And>t k. now \<le> t \<Longrightarrow> val t k w1 = (if k \<in> purged s tag then None else val t k w)"
    using purgeTag_spec[OF assms(1) Cons.prems(1), where now = now and tag = tag] Cons.prems(2) by (auto simp: p)
  have "\<forall>tag \<in> set tags. bytes_of (val now tag w1) = [] \<and> bytes_of (val now (tk_stalePrefix @ tag) w1) = []"
    using Cons.prems(2) 1(3)[OF order_refl] by (auto simp: bytes_of_simps)
  note IH = Cons.IH[OF 1(2) this]
  show ?case using IH 1 by (auto simp: p case_prod_beta)
qed simp

lemma Purge_spec:
  assumes "bs_Storage s = S" "wf w"
    and "\<forall>tag \<in> set (tk_ParseHeaders s (tk_getSurrogateKey s h)).
      bytes_of (val now tag w) = [] \<and> bytes_of (val now (tk_stalePrefix @ tag) w) = []"
  shows "fst (fst (tk_bs_Purge now s h w)) = []"
    "now \<le> t \<Longrightarrow> val t k (snd (tk_bs_Purge now s h w)) =
      (if \<exists>tag \<in> set (tk_ParseHeaders s (tk_getSurrogateKey s h)). k \<in> purged s tag then None else val t k w)"
  using purge_tags_spec[OF assms] tk_uniqueTag_empty by (auto simp: tk_bs_Purge_def Let_def case_prod_beta)

end

interpretation ts: override_surrogate "traefik_storer re cd" tk_wf tk_val "\<lambda>k. True" tk_lasts
  for re cd by (intro override_surrogate.intro tk_storer override_surrogate_axioms.intro) simp

section \<open>Properties\<close>

text \<open>
  After \<open>Store\<close> each surrogate key of the response lists the escaped cache key, and its stale
  tag the stale key, in addition to what they listed, unless every control directive forbids it;
  all other tags list what they did.
\<close>

theorem tk_Store_lists:
  assumes "bs_Storage s = traefik_storer re cd" "tk_wf w" "cacheKey \<noteq> []"
  shows "tk_listed (tk_val now (surrogatePrefix @ tag) (tk_bs_Store now s h cacheKey w)) =
    tk_listed (tk_val now (surrogatePrefix @ tag) w) \<union>
      (if tk_tag_storable s h
       then {x. \<exists>key \<in> set (tk_ParseHeaders s (tk_getSurrogateKey s h)). tk_adds (QueryEscape cacheKey) key tag x}
       else {})"
  using ts.Store_lists[OF assms] by (auto simp: ts.lists_def)

definition tk_sample_surrogate :: "cdn_layer \<Rightarrow> bool \<Rightarrow> tk_provider base_storage" where
  "tk_sample_surrogate p keep = \<lparr>bs_parent = p, bs_Storage = traefik_storer no_regexp sample_codec, bs_Keys = [],
     bs_keysRegexp = [], bs_dynamic = True, bs_keepStale = keep, bs_duration = 365 * 24 * Hour\<rparr>"

definition tk_empty_cache :: tk_provider where
  "tk_empty_cache = tk_Factory 5 None"

lemma tk_sample_surrogate_facts:
  "bs_Storage (tk_sample_surrogate p keep) = traefik_storer no_regexp sample_codec" "tk_wf tk_empty_cache"
  "tk_val t k tk_empty_cache = None"
  by (simp_all add: tk_sample_surrogate_def tk_empty_cache_def tk_Factory_def tk_wf_def tk_val_def ak_Get_def)

lemma tk_sample_parsed:
  "tk_ParseHeaders (tk_sample_surrogate SouinLayer keep) (tk_getSurrogateKey (tk_sample_surrogate SouinLayer keep) sample_tags)
     = [''a'', ''b'']"
  "tk_tag_storable (tk_sample_surrogate SouinLayer True) sample_tags"
  by (cases keep; code_simp) code_simp

theorem tk_Store_lists_witness:
  "QueryEscape sample_key \<in> tk_listed (tk_val 0 (surrogatePrefix @ ''b'')
     (tk_bs_Store 0 (tk_sample_surrogate SouinLayer True) sample_tags sample_key tk_empty_cache))"
  using tk_Store_lists[OF tk_sample_surrogate_facts(1,2), of sample_key 0 "''b''" SouinLayer True sample_tags] tk_sample_parsed
  by (auto simp: sample_key_def tk_adds_def)

text \<open>
  C27. A purge of surrogate keys under which the cache itself holds no value names no cache key at
  all: it reads the lists under the wrong keys.  It deletes the lists, and nothing else changes, so
  that the responses stored with these keys stay and can no longer be found through them.
\<close>

theorem tk_Purge_finds_nothing:
  assumes "bs_Storage s = traefik_storer re cd" "tk_wf w" "now \<le> t"
    and "\<forall>tag \<in> set (tk_ParseHeaders s (tk_getSurrogateKey s h)). tk_val now tag w = None \<and> tk_val now (tk_stalePrefix @ tag) w = None"
  shows "fst (fst (tk_sp_Purge now url_ok s h w)) = [] \<and>
    tk_val t k (snd (tk_sp_Purge now url_ok s h w)) =
      (if \<exists>tag \<in> set (tk_ParseHeaders s (tk_getSurrogateKey s h)).
            k = surrogatePrefix @ tag \<or> (\<not> bs_keepStale s \<and> k = surrogatePrefix @ tk_stalePrefix @ tag)
       then None else tk_val t k w)"
proof -
  have "\<forall>tag \<in> set (tk_ParseHeaders s (tk_getSurrogateKey s h)).
      bytes_of (tk_val now tag w) = [] \<and> bytes_of (tk_val now (tk_stalePrefix @ tag) w) = []"
    using assms(4) by (simp add: bytes_of_simps)
  note P = ts.Purge_spec[OF assms(1,2) this, unfolded ts.purged_def]
  show ?thesis using P(1) P(2)[OF assms(3), of k] by (auto simp: tk_sp_Purge_def case_prod_beta)
qed

definition tk_tagged_cache :: tk_provider where
  "tk_tagged_cache = tk_storeTag 0 (tk_sample_surrogate SouinLayer True) ''a'' sample_key tk_empty_cache"

lemma tk_tagged_cache_eq: "tk_tagged_cache = tk_Set 0 (surrogatePrefix @ ''a'') ('','' @ sample_key) (-1) tk_empty_cache"
  by code_simp

theorem tk_Purge_finds_nothing_witness:
  "fst (fst (tk_sp_Purge 0 (\<lambda>u. True) (tk_sample_surrogate SouinLayer False) sample_tags tk_tagged_cache)) = []
    \<and> tk_val 0 (surrogatePrefix @ ''a'') (snd (tk_sp_Purge 0 (\<lambda>u. True) (tk_sample_surrogate SouinLayer False)
        sample_tags tk_tagged_cache)) = None"
  using tk_Purge_finds_nothing[OF tk_sample_surrogate_facts(1), of tk_tagged_cache 0 0 SouinLayer False sample_tags]
  by (simp add: tk_sample_parsed tk_tagged_cache_eq tk_sample_surrogate_facts surrogatePrefix_def tk_stalePrefix_def)

end
