(* ===== verification/TraefikApi.thy ===== *)
theory TraefikApi
  imports TraefikSurrogate Api
begin

text \<open>
  The administration API of the Traefik plugin (override/api): one endpoint, whose patterns are
  compiled at every request.  The parameters are those of Api.
\<close>

section \<open>The endpoint\<close>

record 'w tk_souin_api =
  ta_basePath :: string
  ta_enabled :: bool
  ta_storers :: "'w storer list"
  ta_surrogateStorage :: "'w base_storage"
  ta_allowedMethods :: "string list"

definition tk_initializeSouin :: "base_configuration \<Rightarrow> 'w storer list \<Rightarrow> 'w base_storage \<Rightarrow> 'w tk_souin_api" where
  "tk_initializeSouin c storers surrogateStorage =
     (let bp0 = ep_BasePath (api_Souin (bc_API c));
          verbs = dc_AllowedHTTPVerbs (bc_DefaultCache c)
      in \<lparr>ta_basePath = (if bp0 = [] then ''/souin'' else bp0), ta_enabled = ep_Enable (api_Souin (bc_API c)),
          ta_storers = storers, ta_surrogateStorage = surrogateStorage,
          ta_allowedMethods = (if verbs = [] then [''GET'', ''HEAD''] else verbs)\<rparr>)"

definition tk_BulkDelete :: "gtime \<Rightarrow> 'w tk_souin_api \<Rightarrow> string \<Rightarrow> 'w \<Rightarrow> 'w" where
  "tk_BulkDelete now s key w = fold (\<lambda>current. st_DeleteMany current now key) (ta_storers s) w"

definition tk_api_Delete :: "'w tk_souin_api \<Rightarrow> string \<Rightarrow> 'w \<Rightarrow> 'w" where
  "tk_api_Delete s key w = fold (\<lambda>current. st_Delete current key) (ta_storers s) w"

definition tk_GetAll :: "gtime \<Rightarrow> 'w tk_souin_api \<Rightarrow> 'w \<Rightarrow> string list go \<times> 'w" where
  "tk_GetAll now s w = list_all_keys now (ta_storers s) [] w"

definition tk_listKeys :: "regexp_engine \<Rightarrow> gtime \<Rightarrow> 'w tk_souin_api \<Rightarrow> string \<Rightarrow> 'w \<Rightarrow> string list go \<times> 'w" where
  "tk_listKeys re now s search w =
     (if \<not> re_ok re search then (Inr [], w)
      else case tk_GetAll now s w of
        (Inl p, w1) \<Rightarrow> (Inl p, w1)
      | (Inr ks, w1) \<Rightarrow> (Inr (filter (re_MatchString re search) ks), w1))"

definition must_compile :: "regexp_engine \<Rightarrow> string \<Rightarrow> string go" where
  "must_compile re p = (if re_ok re p then Inr p else Inl MustCompile)"

text \<open>\<open>regexp.MustCompile(base + "/(.+)").FindAllStringSubmatch(uri, -1)[0][1]\<close>.\<close>

definition tk_extract_arg :: "regexp_engine \<Rightarrow> 'w tk_souin_api \<Rightarrow> string \<Rightarrow> string go" where
  "tk_extract_arg re s uri =
     go_bind (must_compile re (ta_basePath s @ ''/(.+)'')) (\<lambda>p.
       case re_FindAllStringSubmatch re p uri of
         (_ # a # _) # _ \<Rightarrow> Inr a
       | _ \<Rightarrow> Inl IndexOutOfRange)"

section \<open>HandleRequest\<close>

definition tk_api_GET :: "api_env \<Rightarrow> 'w tk_souin_api \<Rightarrow> bool \<Rightarrow> 'w http_handler" where
  "tk_api_GET e s compile now r rw w =
     (let re = ae_re e;
          finish = (\<lambda>res rw. rw_Write res (rw_set_header ''Content-Type'' ''application/json'' rw))
      in case must_compile re (ta_basePath s @ ''/surrogate_keys'') of
           Inl p \<Rightarrow> (Inl p, w)
         | Inr sk \<Rightarrow>
             if re_FindString re sk (req_RequestURI r) \<noteq> [] then
               (case tk_bs_List now (ta_surrogateStorage s) w of (m, w1) \<Rightarrow> (Inr (finish (json_object m) rw), w1))
             else if compile then
               (case tk_extract_arg re s (req_RequestURI r) of
                  Inl p \<Rightarrow> (Inl p, w)
                | Inr search \<Rightarrow>
                    (case tk_listKeys re now s search w of
                       (Inl p, w1) \<Rightarrow> (Inl p, w1)
                     | (Inr ks, w1) \<Rightarrow>
                         (let res = json_strings ks;
                              rw1 = (if length res = 2 then rw_WriteHeader 404 rw else rw)
                          in (Inr (finish res rw1), w1))))
             else (case tk_GetAll now s w of
                     (Inl p, w1) \<Rightarrow> (Inl p, w1)
                   | (Inr ks, w1) \<Rightarrow> (Inr (finish (json_strings ks) rw), w1)))"

definition tk_keys_to_invalidate ::
  "api_env \<Rightarrow> 'w tk_souin_api \<Rightarrow> gtime \<Rightarrow> invalidation \<Rightarrow> 'w \<Rightarrow> string list go \<times> 'w" where
  "tk_keys_to_invalidate e s now iv w =
     (case iv_Type iv of
        GroupInvalidation \<Rightarrow>
          (case tk_sp_Purge now (ae_url_ok e) (ta_surrogateStorage s) [(''Surrogate-Key'', iv_Groups iv)] w of
             ((ks, _, _), w1) \<Rightarrow> (Inr ks, w1))
      | OtherInvalidation \<Rightarrow> (Inr [], w)
      | OriginInvalidation \<Rightarrow>
          (case tk_GetAll now s w of
             (Inl p, w1) \<Rightarrow> (Inl p, w1)
           | (Inr listed, w1) \<Rightarrow>
               (let bodyKeys = map fst (selector_hosts e (iv_Selectors iv))
                in (Inr (filter (\<lambda>k. list_ex (\<lambda>bk. sublist bk k) bodyKeys) listed), w1)))
      | t \<Rightarrow>
          (case tk_GetAll now s w of
             (Inl p, w1) \<Rightarrow> (Inl p, w1)
           | (Inr listed, w1) \<Rightarrow>
               (let bodyKeys = map (\<lambda>(host, path). host @ ''-'' @ path) (selector_hosts e (iv_Selectors iv))
                in (Inr (filter (\<lambda>k. list_ex (uri_key_matches t k) bodyKeys) listed), w1))))"

definition tk_api_POST :: "api_env \<Rightarrow> 'w tk_souin_api \<Rightarrow> 'w http_handler" where
  "tk_api_POST e s now r rw w =
     (case ae_decode e (bytes_of (req_Body r)) of
        None \<Rightarrow> (Inr (rw_WriteHeader 400 rw), w)
      | Some iv \<Rightarrow>
          (case tk_keys_to_invalidate e s now iv w of
             (Inl p, w1) \<Rightarrow> (Inl p, w1)
           | (Inr ks, w1) \<Rightarrow> (Inr (rw_Write [] (rw_WriteHeader 200 rw)), fold (tk_api_Delete s) ks w1)))"

definition tk_api_PURGE :: "api_env \<Rightarrow> 'w tk_souin_api \<Rightarrow> bool \<Rightarrow> 'w http_handler" where
  "tk_api_PURGE e s compile now r rw w =
     (let re = ae_re e;
          rw1 = rw_Write [] (rw_WriteHeader 204 rw)
      in if compile then
           (case go_bind (must_compile re (ta_basePath s @ ''/(.+)'')) (\<lambda>_. must_compile re (ta_basePath s @ ''/flush$'')) of
              Inl p \<Rightarrow> (Inl p, w)
            | Inr flushRg \<Rightarrow>
                if re_FindString re flushRg (req_RequestURI r) \<noteq> [] then
                  (Inr rw1, tk_bs_Destruct now (ta_surrogateStorage s) (tk_BulkDelete now s ''.+'' w))
                else case tk_extract_arg re s (req_RequestURI r) of
                  Inl p \<Rightarrow> (Inl p, w)
                | Inr submatch \<Rightarrow> (Inr rw1, tk_BulkDelete now s submatch w))
         else case tk_sp_Purge now (ae_url_ok e) (ta_surrogateStorage s) (req_Header r) w of
           ((ck, _, _), w1) \<Rightarrow> (Inr rw1, fold (tk_api_Delete s) ck w1))"

definition tk_api_HandleRequest :: "api_env \<Rightarrow> 'w tk_souin_api \<Rightarrow> 'w http_handler" where
  "tk_api_HandleRequest e s now r rw w =
     (case must_compile (ae_re e) (ta_basePath s @ ''/.+'') of
        Inl p \<Rightarrow> (Inl p, w)
      | Inr rg \<Rightarrow>
          let compile = re_FindString (ae_re e) rg (req_RequestURI r) \<noteq> []
          in if req_Method r = ''GET'' then tk_api_GET e s compile now r rw w
             else if req_Method r = ''POST'' then tk_api_POST e s now r rw w
             else if req_Method r = ''PURGE'' then tk_api_PURGE e s compile now r rw w
             else (Inr (rw_Write [] rw), w))"

section \<open>The handler map\<close>

definition tk_api_Initialize :: "base_configuration \<Rightarrow> 'w storer list \<Rightarrow> 'w base_storage \<Rightarrow> 'w tk_souin_api list" where
  "tk_api_Initialize c storers surrogateStorage = [tk_initializeSouin c storers surrogateStorage]"

definition tk_GenerateHandlerMap ::
  "api_env \<Rightarrow> base_configuration \<Rightarrow> 'w storer list \<Rightarrow> 'w base_storage \<Rightarrow> (string, 'w http_handler) amap option" where
  "tk_GenerateHandlerMap e c storers surrogateStorage =
     (let bp0 = api_BasePath (bc_API c);
          base = (if bp0 = [] then ''/souin-api'' else bp0);
          enabled = filter ta_enabled (tk_api_Initialize c storers surrogateStorage)
      in if enabled = [] then None
         else Some (fold (\<lambda>s hm. amap_put (base @ ta_basePath s) (tk_api_HandleRequest e s) hm) enabled []))"

section \<open>Over the Traefik cache\<close>

lemma tk_api_Delete_fold:
  assumes "ta_storers s = [traefik_storer re cd]" "tk_wf w"
  shows "tk_wf (fold (tk_api_Delete s) ks w) \<and>
    tk_val t k (fold (tk_api_Delete s) ks w) = (if k \<in> set ks then None else tk_val t k w)"
proof -
  have "tk_api_Delete s key v = tk_Delete key v" for key v by (simp add: tk_api_Delete_def assms(1))
  then have "tk_api_Delete s = tk_Delete" by blast
  then show ?thesis using tk.fold_delete_val[OF assms(2), where k = k and ks = ks and t = t, unfolded traefik_storer_sel] by simp
qed

text \<open>
  An invalidation by URI prefix, URI or origin removes exactly the values whose key matches one
  of the selectors, mappings included, and nothing else; it answers 200.
\<close>

definition tk_selected :: "api_env \<Rightarrow> invalidation \<Rightarrow> string \<Rightarrow> bool" where
  "tk_selected e iv k \<longleftrightarrow>
     (case iv_Type iv of
        OriginInvalidation \<Rightarrow> (\<exists>(host, path) \<in> set (selector_hosts e (iv_Selectors iv)). sublist host k)
      | t \<Rightarrow> (\<exists>(host, path) \<in> set (selector_hosts e (iv_Selectors iv)). uri_key_matches t k (host @ ''-'' @ path)))"

theorem tk_api_invalidates_selected:
  assumes "ta_storers s = [traefik_storer re cd]" "tk_wf w" "now \<le> t"
    and "ae_decode e (bytes_of (req_Body r)) = Some iv"
    and "iv_Type iv \<in> {UriInvalidation, UriPrefixInvalidation, OriginInvalidation}"
  shows "\<exists>w'. tk_api_POST e s now r rw w = (Inr (rw_Write [] (rw_WriteHeader 200 rw)), w') \<and>
    tk_val t k w' = (if tk_selected e iv k then None else tk_val t k w)"
proof -
  define hits where "hits = filter (tk_selected e iv) (tk_ListKeys now w)"
  have listed: "tk_GetAll now s w = (Inr (tk_ListKeys now w), w)" by (simp add: tk_GetAll_def assms(1))
  have keys: "tk_keys_to_invalidate e s now iv w = (Inr hits, w)"
    using assms(5) unfolding hits_def
    by (elim insertE emptyE) (simp_all add: tk_keys_to_invalidate_def listed tk_selected_def[abs_def] Let_def list_ex_iff case_prod_beta)
  have live: "k \<in> set (tk_ListKeys now w) \<longleftrightarrow> tk_val now k w \<noteq> None"
    using ak_Get_live[of "tp_items w" now k] assms(2) by (simp add: tk_ListKeys_def tk_val_def tk_wf_def)
  have later: "tk_val now k w = None \<Longrightarrow> tk_val t k w = None"
    using ak_Get_expired_later[OF assms(3)] by (simp add: tk_val_def)
  show ?thesis
    using tk_api_Delete_fold[OF assms(1,2), of hits t k] live later
    by (auto simp: tk_api_POST_def assms(4) keys hits_def)
qed

text \<open>
  A purge by surrogate keys through the endpoint answers 204 and keeps every cached response:
  only the lists of the named keys disappear.
\<close>

theorem tk_api_purge_keeps_responses:
  assumes "ta_storers s = [traefik_storer re cd]" "bs_Storage (ta_surrogateStorage s) = traefik_storer re cd"
    and "tk_wf w" "now \<le> t" "req_Method r = ''PURGE''" "re_ok (ae_re e) (ta_basePath s @ ''/.+'')"
    and "re_FindString (ae_re e) (ta_basePath s @ ''/.+'') (req_RequestURI r) = []"
    and "\<forall>tag \<in> set (tk_ParseHeaders (ta_surrogateStorage s) (tk_getSurrogateKey (ta_surrogateStorage s) (req_Header r))).
      tk_val now tag w = None \<and> tk_val now (tk_stalePrefix @ tag) w = None"
    and "\<not> prefix surrogatePrefix k"
  shows "\<exists>w'. tk_api_HandleRequest e s now r rw w = (Inr (rw_Write [] (rw_WriteHeader 204 rw)), w') \<and>
    tk_val t k w' = tk_val t k w"
proof -
  obtain ck sks reqs w1 where p: "tk_sp_Purge now (ae_url_ok e) (ta_surrogateStorage s) (req_Header r) w = ((ck, sks, reqs), w1)"
    by (metis prod.exhaust)
  have empty: "\<forall>tag \<in> set (tk_ParseHeaders (ta_surrogateStorage s) (tk_getSurrogateKey (ta_surrogateStorage s) (req_Header r))).
      bytes_of (tk_val now tag w) = [] \<and> bytes_of (tk_val now (tk_stalePrefix @ tag) w) = []"
    using assms(8) by (simp add: bytes_of_simps)
  have "ck = []" "tk_val t k w1 = tk_val t k w"
    using ts.Purge_spec[OF assms(2,3) empty] assms(4,9) p
    by (auto simp: tk_sp_Purge_def case_prod_beta ts.purged_def prefix_def split: if_splits)
  then show ?thesis
    using assms(5-7) by (simp add: tk_api_HandleRequest_def tk_api_PURGE_def must_compile_def p Let_def)
qed

section \<open>Concrete instances\<close>

definition tk_sample_api :: "tk_provider tk_souin_api" where
  "tk_sample_api = \<lparr>ta_basePath = ''/souin'', ta_enabled = True, ta_storers = [traefik_storer no_regexp sample_codec],
     ta_surrogateStorage = tk_sample_surrogate SouinLayer True, ta_allowedMethods = [''GET'', ''HEAD'']\<rparr>"

text \<open>A client that asks to invalidate \<open>h/a\<close> by prefix, and an engine that compiles every pattern and finds none.\<close>

definition tk_sample_invalidation :: invalidation where
  "tk_sample_invalidation = \<lparr>iv_Type = UriPrefixInvalidation, iv_Selectors = [''h/a''], iv_Groups = [], iv_Purge = False\<rparr>"

definition tk_sample_api_env :: api_env where
  "tk_sample_api_env = sample_api_env\<lparr>ae_re := no_regexp\<lparr>re_ok := \<lambda>p. True\<rparr>,
     ae_decode := \<lambda>b. Some tk_sample_invalidation, ae_url_parts := \<lambda>k. Some (''h'', ''/a'')\<rparr>"

theorem tk_api_invalidates_selected_witness:
  "\<exists>w'. tk_api_POST tk_sample_api_env tk_sample_api 0 sample_request response_writer0
       (tk_Set 0 sample_key ''r'' 10 tk_empty_cache)
     = (Inr (rw_Write [] (rw_WriteHeader 200 response_writer0)), w') \<and> tk_val 3 sample_key w' = None"
proof -
  have "tk_selected tk_sample_api_env tk_sample_invalidation sample_key" by code_simp
  then show ?thesis
    using tk_api_invalidates_selected[of tk_sample_api no_regexp sample_codec "tk_Set 0 sample_key ''r'' 10 tk_empty_cache" 0 3
        tk_sample_api_env sample_request tk_sample_invalidation response_writer0 sample_key]
    by (simp add: tk_sample_api_def tk_sample_surrogate_facts tk_sample_api_env_def tk_sample_invalidation_def)
qed

theorem tk_api_purge_keeps_responses_witness:
  "\<exists>w'. tk_api_HandleRequest tk_sample_api_env tk_sample_api 0
       (sample_request\<lparr>req_Method := ''PURGE'', req_Header := sample_tags\<rparr>) response_writer0
       (tk_Set 0 sample_key ''r'' 10 tk_tagged_cache)
     = (Inr (rw_Write [] (rw_WriteHeader 204 response_writer0)), w') \<and> tk_val 3 sample_key w' = Some ''r''"
  using tk_api_purge_keeps_responses[of tk_sample_api no_regexp sample_codec "tk_Set 0 sample_key ''r'' 10 tk_tagged_cache" 0 3
      "sample_request\<lparr>req_Method := ''PURGE'', req_Header := sample_tags\<rparr>" tk_sample_api_env sample_key response_writer0]
  by (simp add: tk_sample_api_def tk_sample_surrogate_facts tk_sample_api_env_def tk_tagged_cache_eq tk_sample_parsed
      no_regexp_def surrogatePrefix_def tk_stalePrefix_def sample_key_def tk_lasts_def)

end
