(* ===== verification/TraefikHandler.thy ===== *)
theory TraefikHandler
  imports TraefikApi Upstream
begin

text \<open>
  The Traefik plugin's copies of package context and of pkg/middleware up to \<open>Upstream\<close> and
  \<open>Revalidate\<close> (override/context, override/middleware).  Where a piece of the copy is the code of
  the core package word for word, the definition of the core is used; what differs has a
  definition here.  The state is that of Handler.  The goroutine that marks the writer when the
  request's context ends is taken to have run before the writer is used again.
\<close>

section \<open>Context\<close>

text \<open>The overrides of the key rules are commented out, and templates are not evaluated.\<close>

definition tk_key_SetupContext :: "base_configuration \<Rightarrow> key_context" where
  "tk_key_SetupContext c = \<lparr>kc_info = key_info_of (dc_Key (bc_DefaultCache c)), kc_overrides = []\<rparr>"

definition tk_computeKey :: "regexp_engine \<Rightarrow> key_context \<Rightarrow> request \<Rightarrow> computed_key" where
  "tk_computeKey re g req =
     (case first_match re (req_RequestURI req) (kc_overrides g) of
        None \<Rightarrow> plain_key req (kc_info g)
      | Some v \<Rightarrow> plain_key req v)"

definition tk_key_SetContext :: "regexp_engine \<Rightarrow> key_context \<Rightarrow> request \<Rightarrow> request" where
  "tk_key_SetContext re g req =
     (case tk_computeKey re g req of (key, headers, hash, displayable) \<Rightarrow>
        req\<lparr>req_ctx := (req_ctx req)\<lparr>cx_Key := Some key, cx_Hashed := hash, cx_IgnoredHeaders := headers,
          cx_DisplayableKey := Some displayable\<rparr>\<rparr>)"

text \<open>The clock always replaces the date of the request.\<close>

definition tk_now_SetContext :: "gtime \<Rightarrow> request \<Rightarrow> request" where
  "tk_now_SetContext clock req =
     req\<lparr>req_Header := header_set ''Date'' (Format RFC1123 clock) (req_Header req),
       req_ctx := (req_ctx req)\<lparr>cx_Now := clock\<rparr>\<rparr>"

definition tk_Context_Init :: "base_configuration \<Rightarrow> http_context" where
  "tk_Context_Init c = \<lparr>hc_CacheName = cache_SetupContext c, hc_GraphQL = graphql_SetupContext c,
     hc_Key = tk_key_SetupContext c, hc_Method = method_SetupContext c, hc_Mode = mode_SetupContext c,
     hc_Timeout = timeout_SetupContext c\<rparr>"

definition tk_SetBaseContext :: "gtime \<Rightarrow> http_context \<Rightarrow> request \<Rightarrow> request" where
  "tk_SetBaseContext clock c req =
     mode_SetContext (hc_Mode c) (timeout_SetContext clock (hc_Timeout c)
       (method_SetContext (hc_Method c) (cache_SetContext (hc_CacheName c) (tk_now_SetContext clock req))))"

definition tk_SetContext ::
  "regexp_engine \<Rightarrow> (string \<Rightarrow> string) \<Rightarrow> http_context \<Rightarrow> request \<Rightarrow> request \<Rightarrow> request \<times> request" where
  "tk_SetContext re sha256_hex c req baseRq =
     (case graphql_SetContextWithBaseRequest sha256_hex (hc_GraphQL c) req baseRq of
        (req', baseRq') \<Rightarrow> (tk_key_SetContext re (hc_Key c) req', baseRq'))"

section \<open>Writer\<close>

text \<open>\<open>Send\<close> knows no range requests.\<close>

definition tk_Send :: "custom_writer \<Rightarrow> custom_writer" where
  "tk_Send cw =
     (let storedLength = header_get (cw_Header cw) StoredLengthHeader;
          cw1 = (if storedLength \<noteq> [] then cw_Set ''Content-Length'' storedLength cw else cw);
          b = cw_Buf cw1;
          cw2 = (if b \<noteq> [] then cw_Set ''Content-Length'' (Itoa (int (length b))) cw1 else cw1);
          cw3 = cw_update_Header (\<lambda>h. header_del StoredTTLHeader (header_del StoredLengthHeader h)) cw2;
          cw4 = (if \<not> cw_headersSent cw3
                 then cw3\<lparr>cw_Rw := rw_WriteHeader (cw_statusCode cw3) (cw_Rw cw3), cw_headersSent := True\<rparr>
                 else cw3)
      in cw4\<lparr>cw_Rw := rw_Write b (cw_Rw cw4), cw_Buf := []\<rparr>)"

text \<open>Headers are copied by \<open>Set(k, src.Get(k))\<close>: of several values only the first arrives.\<close>

definition tk_copy_first :: "header \<Rightarrow> custom_writer \<Rightarrow> custom_writer" where
  "tk_copy_first src cw = fold (\<lambda>k. cw_Set k (header_get src k)) (amap_keys src) cw"

section \<open>Construction\<close>

definition tk_NewHTTPCacheHandler ::
  "regexp_engine \<Rightarrow> codec \<Rightarrow> api_env \<Rightarrow> base_configuration \<Rightarrow> tk_provider handler go" where
  "tk_NewHTTPCacheHandler re cd ae c =
     (let dc = bc_DefaultCache c;
          storers = tk_NewStorages re cd;
          ex = dc_RegexExclude dc
      in go_bind (InitializeRegexp re c) (\<lambda>regexpUrls.
         go_bind (tk_bs_init re (hd (tk_NewStorages re cd)) c (SurrogateFactory (dc_CDN dc))) (\<lambda>surrogateStorage.
         if ex \<noteq> [] \<and> \<not> re_ok re ex then Inl MustCompile
         else Inr \<lparr>sh_Configuration = c, sh_Storers = storers,
             sh_InternalEndpointHandlers = tk_GenerateHandlerMap ae c storers surrogateStorage,
             sh_ExcludeRegex = (if ex \<noteq> [] then Some ex else None), sh_RegexpUrls = regexpUrls,
             sh_SurrogateKeyStorer = surrogateStorage, sh_DefaultMatchedUrl = default_matched_url dc,
             sh_context = tk_Context_Init c, sh_storersLen = length storers\<rparr>)))"

section \<open>Store\<close>

text \<open>\<open>httputil.DumpResponse\<close> on a response without protocol version and length.\<close>

definition pad3 :: "int \<Rightarrow> string" where
  "pad3 code = (let t = Itoa code in replicate (3 - length t) (CHR ''0'') @ t)"

definition dump_status_text :: "int \<Rightarrow> string" where
  "dump_status_text code = (if StatusText code = [] then ''status code '' @ Itoa code else StatusText code)"

definition bodyAllowedForStatus :: "int \<Rightarrow> bool" where
  "bodyAllowedForStatus code \<longleftrightarrow> \<not> (100 \<le> code \<and> code \<le> 199) \<and> code \<noteq> 204 \<and> code \<noteq> 304"

definition DumpResponse :: "int \<Rightarrow> header \<Rightarrow> string \<Rightarrow> string" where
  "DumpResponse code headers body =
     ''HTTP/0.0 '' @ pad3 code @ '' '' @ dump_status_text code @ crlf
     @ header_write (amap_filter_keys (\<lambda>k. k \<notin> {''Content-Length'', ''Transfer-Encoding'', ''Trailer''}) headers)
     @ (if body = [] \<and> bodyAllowedForStatus code then ''Content-Length: 0'' @ crlf else [])
     @ crlf @ body"

definition tk_GetVariedCacheKey :: "request \<Rightarrow> string list \<Rightarrow> string \<times> string list" where
  "tk_GetVariedCacheKey rq headers =
     (if headers = [] then ([], headers)
      else let entries = map (\<lambda>v. v @ '':'' @ vary_value rq v) headers
           in (VarySeparator @ Join entries DecodedHeaderSeparator, entries))"

definition tk_body_storable :: "'w handler \<Rightarrow> int \<Rightarrow> nat \<Rightarrow> bool" where
  "tk_body_storable h code bLen \<longleftrightarrow>
     0 < bLen \<or> canStatusCodeEmptyContent code \<or> hasAllowedAdditionalStatusCodesToCache h code"

definition tk_store_write ::
  "'w handler \<Rightarrow> gtime \<Rightarrow> stored_response \<Rightarrow> header \<Rightarrow> string \<Rightarrow> 'w sys \<Rightarrow> string go \<times> 'w sys" where
  "tk_store_write h now r resH status s =
     (case store_all now (sh_Storers h) r (sy_store s) of
        (Inl p, w1) \<Rightarrow> (Inl p, s\<lparr>sy_store := w1\<rparr>)
      | (Inr fails, w1) \<Rightarrow>
          let s1 = s\<lparr>sy_store := w1\<rparr>;
              ok = length fails < sh_storersLen h;
              s2 = (if ok then sys_log (EvSurrogateStore resH (so_variedKey r) []) s1 else s1)
          in (Inr (status @ (if ok then ''; stored'' else []) @ concat fails), s2))"

definition tk_store_entry ::
  "'w handler \<Rightarrow> gtime \<Rightarrow> request \<Rightarrow> string \<Rightarrow> int \<Rightarrow> string \<Rightarrow> header \<Rightarrow> duration \<Rightarrow> bool \<Rightarrow> string
     \<Rightarrow> 'w sys \<Rightarrow> string go \<times> 'w sys" where
  "tk_store_entry h now rq cachedKey code b resH ma ended status s =
     (let (variedHeaders, isVaryStar) = VariedHeaderAllCommaSepValues resH
      in if isVaryStar then (Inr (status @ ''; detail=UPSTREAM-VARY-STAR''), s)
         else
           let (suffix', names) = tk_GetVariedCacheKey rq variedHeaders;
               r = \<lparr>so_baseKey = cachedKey, so_variedKey = cachedKey @ suffix',
                    so_value = DumpResponse code resH b, so_variedHeaders = varied_request_headers rq names,
                    so_etag = header_get resH ''Etag'', so_duration = ma\<rparr>
           in if ended then (Inr (status @ ''; detail=REQUEST-CANCELED-OR-UPSTREAM-BROKEN-PIPE''), s)
              else tk_store_write h now r resH status s)"

definition tk_Store ::
  "mw_env \<Rightarrow> 'w handler \<Rightarrow> gtime \<Rightarrow> request \<Rightarrow> request_directives option \<Rightarrow> string
     \<Rightarrow> custom_writer \<Rightarrow> 'w sys \<Rightarrow> up_error option go \<times> custom_writer \<times> 'w sys" where
  "tk_Store e h now rq requestCc cachedKey cw s =
     (case store_admission h rq cw of
        Inl (err, cw1) \<Rightarrow> (Inr err, cw1, s)
      | Inr (cw1, rc) \<Rightarrow>
          let mode = cx_Mode (req_ctx rq);
              code = cw_statusCode cw1;
              key = GetCacheKeyFromCtx (req_ctx rq)
          in case store_ttl now mode rc (cw_Header cw1) (url_TTL (currentMatchedURL e h rq)) of
               None \<Rightarrow> (Inr None, cw1, s)
             | Some (ma0, hasFreshness) \<Rightarrow>
                 let cw2 = cw_Set StoredTTLHeader (Duration_String ma0) cw1;
                     ma = store_duration now rq ma0;
                     status = cx_CacheName (req_ctx rq) @ ''; fwd=uri-miss'';
                     finish = (\<lambda>st. cw_Set ''Cache-Status'' (st @ ''; key='' @ key) cw2)
                 in case store_allowed mode requestCc rc hasFreshness of
                      Inl p \<Rightarrow> (Inl p, cw2, s)
                    | Inr False \<Rightarrow> (Inr None, finish (status @ ''; detail=NO-STORE-DIRECTIVE''), s)
                    | Inr True \<Rightarrow>
                        let b = cw_Buf cw2;
                            h1 = stored_headers rq rc (length b) (cw_Header cw2)
                        in if body_too_large h (length b) then
                             (Inr None, cw_Set ''Cache-Status''
                                (status @ ''; detail=UPSTREAM-RESPONSE-TOO-LARGE; key='' @ key) cw2, s)
                           else
                             let resH = header_set StoredLengthHeader (header_get h1 ''Content-Length'') h1
                             in if \<not> tk_body_storable h code (length b) then
                                  (Inr None, finish (status @ ''; detail=UPSTREAM-ERROR-OR-EMPTY-RESPONSE''), s)
                                else case tk_store_entry h now rq cachedKey code b resH ma (cw_Done cw2) status s of
                                  (Inl p, s1) \<Rightarrow> (Inl p, cw2, s1)
                                | (Inr st, s1) \<Rightarrow> (Inr None, finish st, s1))"

section \<open>Upstream\<close>

definition tk_call_next :: "mw_env \<Rightarrow> request \<Rightarrow> custom_writer \<Rightarrow> 'w sys \<Rightarrow> upstream_reply \<times> custom_writer \<times> 'w sys" where
  "tk_call_next e rq cw s =
     (case call_next e rq cw s of
        (reply, cw1, s1) \<Rightarrow> (reply, cw1\<lparr>cw_headersSent := (cw_headersSent cw1 \<or> up_done reply)\<rparr>, s1))"

definition tk_invalidate_groups :: "'w handler \<Rightarrow> gtime \<Rightarrow> string \<Rightarrow> header \<Rightarrow> 'w sys \<Rightarrow> 'w sys" where
  "tk_invalidate_groups h now meth headers s =
     sys_store (tk_bs_Invalidate now (sh_SurrogateKeyStorer h) meth headers) s"

text \<open>The value of a flight has no \<open>disableCoalescing\<close> here; the field is false.\<close>

definition tk_upstream_landed ::
  "mw_env \<Rightarrow> 'w handler \<Rightarrow> gtime \<Rightarrow> request \<Rightarrow> request_directives option \<Rightarrow> string
     \<Rightarrow> custom_writer \<Rightarrow> 'w sys \<Rightarrow> flight_end \<times> custom_writer \<times> 'w sys" where
  "tk_upstream_landed e h now rq requestCc cachedKey cw s =
     (let code = cw_statusCode cw;
          cw1 = (if cacheable_status h code then cw else cache_status_miss rq ''UNCACHEABLE-STATUS-CODE'' cw)
      in if \<not> cacheable_status h code \<and> is_upstream_error code then (Landed None (Some Upstream50xError), cw1, s)
         else
           let (headerName, cacheControl) = tk_GetSurrogateControl (sh_SurrogateKeyStorer h) (cw_Header cw1);
               cw2 = (if cacheControl = [] then cw_Set headerName (url_DefaultCacheControl (sh_DefaultMatchedUrl h)) cw1
                      else cw1)
           in case tk_Store e h now rq requestCc cachedKey cw2 s of
                (Inl p, cw3, s1) \<Rightarrow> (Panicked p, cw3, s1)
              | (Inr err, cw3, s1) \<Rightarrow>
                  (Landed (Some \<lparr>sf_body = cw_Buf cw3, sf_headers = cw_Header cw3, sf_requestHeaders = req_Header rq,
                     sf_code = code, sf_disableCoalescing = False\<rparr>) err,
                   reset_buffer cw3, s1))"

definition tk_upstream_leader ::
  "mw_env \<Rightarrow> 'w handler \<Rightarrow> request \<Rightarrow> request_directives option \<Rightarrow> string
     \<Rightarrow> custom_writer \<Rightarrow> 'w sys \<Rightarrow> flight_end \<times> custom_writer \<times> 'w sys" where
  "tk_upstream_leader e h rq requestCc cachedKey cw s =
     (case tk_call_next e rq cw s of
        (reply, cw1, s1) \<Rightarrow>
          (case up_end reply of
             NextAbort \<Rightarrow> (Aborted, cw1, s1)
           | NextPanic \<Rightarrow> (Panicked HandlerPanic, cw1, s1)
           | NextErr t \<Rightarrow> (Landed None (Some (NextError t)), cache_status_miss rq ''SERVE-HTTP-ERROR'' cw1, s1)
           | NextOk \<Rightarrow>
               tk_upstream_landed e h (up_time reply) rq requestCc cachedKey cw1
                 (tk_invalidate_groups h (up_time reply) (req_Method rq) (cw_Header cw1) s1)))"

text \<open>\<open>None\<close> asks for another round.\<close>

definition tk_upstream_settle :: "request \<Rightarrow> flight_end \<Rightarrow> custom_writer \<Rightarrow> up_error option go option \<times> custom_writer" where
  "tk_upstream_settle rq fl cw =
     (case fl of
        Aborted \<Rightarrow> (Some (Inr None), cw)
      | Panicked p \<Rightarrow> (Some (Inl p), cw)
      | Landed _ (Some err) \<Rightarrow> (Some (Inr (Some err)), cw)
      | Landed None None \<Rightarrow> (Some (Inr None), cw)
      | Landed (Some v) None \<Rightarrow>
          if vary_differs rq v then (None, cw)
          else (Some (Inr None),
                cw_WriteHeader (sf_code v) (tk_copy_first (sf_headers v) (cw_Write (sf_body v) (reset_buffer cw)))))"

definition tk_upstream_round ::
  "mw_env \<Rightarrow> 'w handler \<Rightarrow> flight \<Rightarrow> request \<Rightarrow> request_directives option \<Rightarrow> string
     \<Rightarrow> custom_writer \<Rightarrow> 'w sys \<Rightarrow> up_error option go option \<times> custom_writer \<times> 'w sys" where
  "tk_upstream_round e h role rq requestCc cachedKey cw s =
     (case role of
        Lead shared \<Rightarrow>
          (case tk_upstream_leader e h rq requestCc cachedKey cw s of
             (fl, cw1, s1) \<Rightarrow> (case tk_upstream_settle rq fl cw1 of (r, cw2) \<Rightarrow> (r, cw2, s1)))
      | Follow v err \<Rightarrow> (case tk_upstream_settle rq (Landed v err) cw of (r, cw2) \<Rightarrow> (r, cw2, s))
      | FollowAbort \<Rightarrow> (case tk_upstream_settle rq Aborted cw of (r, cw2) \<Rightarrow> (r, cw2, s))
      | FollowPanic \<Rightarrow> (case tk_upstream_settle rq (Panicked HandlerPanic) cw of (r, cw2) \<Rightarrow> (r, cw2, s)))"

text \<open>A round in which the request leads; its own value never differs from the request.\<close>

definition tk_upstream_alone ::
  "mw_env \<Rightarrow> 'w handler \<Rightarrow> request \<Rightarrow> request_directives option \<Rightarrow> string
     \<Rightarrow> custom_writer \<Rightarrow> 'w sys \<Rightarrow> up_error option go \<times> custom_writer \<times> 'w sys" where
  "tk_upstream_alone e h rq requestCc cachedKey cw s =
     (case tk_upstream_round e h (Lead False) rq requestCc cachedKey cw s of
        (Some r, cw1, s1) \<Rightarrow> (r, cw1, s1)
      | (None, cw1, s1) \<Rightarrow> (Inr None, cw1, s1))"

fun tk_Upstream_rounds ::
  "mw_env \<Rightarrow> 'w handler \<Rightarrow> flight list \<Rightarrow> request \<Rightarrow> request_directives option \<Rightarrow> string
     \<Rightarrow> custom_writer \<Rightarrow> 'w sys \<Rightarrow> up_error option go \<times> custom_writer \<times> 'w sys" where
  "tk_Upstream_rounds e h [] rq requestCc cachedKey cw s = tk_upstream_alone e h rq requestCc cachedKey cw s"
| "tk_Upstream_rounds e h (role # roles) rq requestCc cachedKey cw s =
     (case tk_upstream_round e h role rq requestCc cachedKey cw s of
        (Some r, cw1, s1) \<Rightarrow> (r, cw1, s1)
      | (None, cw1, s1) \<Rightarrow> tk_Upstream_rounds e h roles rq requestCc cachedKey cw1 s1)"

definition tk_Upstream ::
  "mw_env \<Rightarrow> 'w handler \<Rightarrow> flight list \<Rightarrow> request \<Rightarrow> request_directives option \<Rightarrow> string
     \<Rightarrow> custom_writer \<Rightarrow> 'w sys \<Rightarrow> up_error option go \<times> custom_writer \<times> 'w sys" where
  "tk_Upstream e h roles rq requestCc cachedKey cw s =
     (if alone h False then tk_upstream_alone e h rq requestCc cachedKey cw s
      else tk_Upstream_rounds e h roles rq requestCc cachedKey cw s)"

section \<open>Revalidate\<close>

definition tk_revalidate_landed ::
  "mw_env \<Rightarrow> 'w handler \<Rightarrow> revalidator \<Rightarrow> gtime \<Rightarrow> up_error option \<Rightarrow> request \<Rightarrow> request_directives option \<Rightarrow> string
     \<Rightarrow> custom_writer \<Rightarrow> 'w sys \<Rightarrow> flight_end \<times> custom_writer \<times> 'w sys" where
  "tk_revalidate_landed e h v now err rq requestCc cachedKey cw s =
     (let code = cw_statusCode cw;
          finish = (\<lambda>err cw s.
            let cw1 = revalidation_status rq code cw
            in (Landed (Some \<lparr>sf_body = cw_Buf cw1, sf_headers = cw_Header cw1, sf_requestHeaders = [],
                  sf_code = code, sf_disableCoalescing = False\<rparr>) err, reset_buffer cw1, s))
      in if err \<noteq> None then finish err cw s
         else if rv_IfUnmodifiedSincePresent v \<and> code \<noteq> 304 then
           (case early_answer 412 cw of (fl, cw1) \<Rightarrow> (fl, cw1, s))
         else if not_modified_since v (cw_Header cw) then
           (case early_answer 304 cw of (fl, cw1) \<Rightarrow> (fl, cw1, s))
         else if code \<noteq> 304 then
           (case tk_Store e h now rq requestCc cachedKey cw s of
              (Inl p, cw1, s1) \<Rightarrow> (Panicked p, cw1, s1)
            | (Inr err', cw1, s1) \<Rightarrow> finish err' cw1 s1)
         else finish None cw s)"

definition tk_revalidate_leader ::
  "mw_env \<Rightarrow> 'w handler \<Rightarrow> revalidator \<Rightarrow> request \<Rightarrow> request_directives option \<Rightarrow> string
     \<Rightarrow> custom_writer \<Rightarrow> 'w sys \<Rightarrow> flight_end \<times> custom_writer \<times> 'w sys" where
  "tk_revalidate_leader e h v rq requestCc cachedKey cw s =
     (case tk_call_next e rq cw s of
        (reply, cw1, s1) \<Rightarrow>
          let now = up_time reply;
              landed = (\<lambda>err. tk_revalidate_landed e h v now err rq requestCc cachedKey cw1
                          (tk_invalidate_groups h now (req_Method rq) (cw_Header cw1) s1))
          in case up_end reply of
               NextAbort \<Rightarrow> (Aborted, cw1, s1)
             | NextPanic \<Rightarrow> (Panicked HandlerPanic, cw1, s1)
             | NextErr t \<Rightarrow> landed (Some (NextError t))
             | NextOk \<Rightarrow> landed None)"

text \<open>The buffer is not emptied before the flight's body is written to it.\<close>

definition tk_Revalidate ::
  "mw_env \<Rightarrow> 'w handler \<Rightarrow> flight list \<Rightarrow> revalidator \<Rightarrow> request \<Rightarrow> request_directives option \<Rightarrow> string
     \<Rightarrow> custom_writer \<Rightarrow> 'w sys \<Rightarrow> up_error option go \<times> custom_writer \<times> 'w sys" where
  "tk_Revalidate e h roles v rq requestCc cachedKey cw s =
     (case (case first_role h roles of
              Lead _ \<Rightarrow> tk_revalidate_leader e h v rq requestCc cachedKey cw s
            | Follow val err \<Rightarrow> (Landed val err, cw, s)
            | FollowAbort \<Rightarrow> (Aborted, cw, s)
            | FollowPanic \<Rightarrow> (Panicked HandlerPanic, cw, s)) of
        (Landed val err, cw1, s1) \<Rightarrow>
          (Inr err,
           (case val of
              None \<Rightarrow> cw1
            | Some x \<Rightarrow> cw_WriteHeader (sf_code x) (tk_copy_first (sf_headers x) (cw_Write (sf_body x) cw1))), s1)
      | (Aborted, cw1, s1) \<Rightarrow> (Inl HandlerPanic, cw1, s1)
      | (Panicked p, cw1, s1) \<Rightarrow> (Inl p, cw1, s1))"

end
