(* ===== verification/TraefikServe.thy ===== *)
theory TraefikServe
  imports TraefikHandler Serve
begin

text \<open>
  \<open>ServeHTTP\<close> of the Traefik plugin (plugins/traefik/override/middleware/middleware.go), cut at
  the stages of Serve.  A stage that is the core's word for word is the core's definition; the
  copy has no counters, no backfilling of the other storers, no range requests and no hashed keys.
  The pool its buffers come from is left out: a writer starts with an empty buffer of its own.
\<close>

section \<open>Answers\<close>

definition tk_revalidate_send ::
  "mw_env \<Rightarrow> 'w handler \<Rightarrow> flow \<Rightarrow> revalidator \<Rightarrow> custom_writer \<Rightarrow> 'w sys \<Rightarrow> 'w outcome" where
  "tk_revalidate_send e h f v cw s =
     (case tk_Revalidate e h (fl_roles f) v (fl_req f) (fl_requestCc f) (fl_cachedKey f) cw s of
        (Inl p, cw1, s1) \<Rightarrow> Ret (Inl p) cw1 s1
      | (Inr err, cw1, s1) \<Rightarrow> Ret (Inr err) (tk_Send cw1) s1)"

text \<open>Headers, status code and body of a stored response.\<close>

definition tk_send_stored :: "response \<Rightarrow> custom_writer \<Rightarrow> custom_writer" where
  "tk_send_stored resp cw =
     tk_Send (cw_Write (resp_Body resp) (cw_WriteHeader (resp_StatusCode resp) (copy_headers (resp_Header resp) cw)))"

section \<open>Fresh responses\<close>

definition tk_serve_etag_match ::
  "flow \<Rightarrow> revalidator \<Rightarrow> response \<Rightarrow> string \<Rightarrow> custom_writer \<Rightarrow> 'w sys \<Rightarrow> 'w outcome" where
  "tk_serve_etag_match f v fresh storerName cw s =
     (let resp = SetCacheStatusHeader (fl_now f) fresh storerName
      in Ret (Inr None)
           (if rv_NotModified v
            then tk_Send (reset_buffer (cw_WriteHeader 304 (copy_headers (resp_Header resp) cw)))
            else tk_send_stored resp cw) s)"

definition tk_serve_fresh ::
  "mw_env \<Rightarrow> 'w handler \<Rightarrow> flow \<Rightarrow> string \<Rightarrow> revalidator \<Rightarrow> response \<Rightarrow> string \<Rightarrow> custom_writer \<Rightarrow> 'w sys \<Rightarrow> 'w outcome" where
  "tk_serve_fresh e h f headerName v fresh storerName cw s =
     (let mode = fl_mode f
      in if rv_ResponseETag v \<noteq> [] \<and> rv_Matched v then tk_serve_etag_match f v fresh storerName cw s
         else if \<not> Bypass_request mode \<and> rv_NeedRevalidation v then tk_revalidate_send e h f v cw s
         else
           let resCc = ParseResponseCacheControl (HeaderAllCommaSepValuesString (resp_Header fresh) headerName);
               serve = (let resp = SetCacheStatusHeader (fl_now f) fresh storerName
                        in case fresh_max_age_ok f resp of
                             Inl p \<Rightarrow> Ret (Inl p) cw s
                           | Inr True \<Rightarrow> Ret (Inr None) (tk_send_stored resp cw) s
                           | Inr False \<Rightarrow> Cont cw s)
           in if Bypass_response mode then serve
              else case resCc of
                None \<Rightarrow> Ret (Inl NilDeref) cw s
              | Some rc \<Rightarrow> if rs_NoCachePresent rc then tk_revalidate_send e h f v cw s else serve)"

section \<open>Stale responses\<close>

definition tk_serve_stale_hit :: "response \<Rightarrow> custom_writer \<Rightarrow> 'w sys \<Rightarrow> 'w outcome" where
  "tk_serve_stale_hit resp cw s =
     (let resp1 = hit_stale resp
      in Ret (Inr None)
           (tk_Send (cw_Write (resp_Body resp1) (tk_copy_first (resp_Header resp1)
              (cw_WriteHeader (resp_StatusCode resp) cw)))) s)"

definition tk_serve_stale_on_error :: "response \<Rightarrow> int \<Rightarrow> custom_writer \<Rightarrow> 'w sys \<Rightarrow> 'w outcome" where
  "tk_serve_stale_on_error resp code cw s =
     (let h1 = HitStaleCache (resp_Header resp);
          h2 = header_set ''Cache-Status'' (header_get h1 ''Cache-Status'' @ ''; fwd-status='' @ Itoa code) h1
      in Ret (Inr None)
           (tk_Send (cw_Write (resp_Body resp) (reset_buffer
              (cw_WriteHeader (resp_StatusCode resp) (tk_copy_first h2 cw))))) s)"

text \<open>The revalidation in the background writes to a new writer on the server's writer.\<close>

definition tk_serve_while_revalidate ::
  "flow \<Rightarrow> revalidator \<Rightarrow> response \<Rightarrow> custom_writer \<Rightarrow> 'w sys \<Rightarrow> 'w outcome" where
  "tk_serve_while_revalidate f v resp cw s =
     (let cw1 = tk_send_stored resp cw;
          bg = (NewCustomWriter (fl_req f) (cw_Rw cw1))\<lparr>cw_Done := cw_Done cw1\<rparr>
      in Ret (Inr None) cw1
           (sys_log (EvRevalidate v bg (fl_req f) (fl_requestCc f) (fl_cachedKey f) (fl_uri f)) s))"

definition tk_settle_stale_revalidation ::
  "flow \<Rightarrow> revalidator \<Rightarrow> response \<Rightarrow> string \<Rightarrow> int \<Rightarrow> custom_writer \<Rightarrow> 'w sys \<Rightarrow> 'w outcome" where
  "tk_settle_stale_revalidation f v resp storerName code cw s =
     (if code = 304 \<and> \<not> rv_Matched v then
        (let resp1 = SetCacheStatusHeader (fl_later f) resp storerName
         in Ret (Inr None)
              (tk_Send (cw_Write (resp_Body resp1) (tk_copy_first (resp_Header resp1)
                 (cw_WriteHeader (resp_StatusCode resp1) cw)))) s)
      else if code \<noteq> 304 \<and> rv_Matched v then
        Ret (Inr None) (tk_Send (reset_buffer (cw_WriteHeader 304 cw))) s
      else Ret (Inr None) (tk_Send cw) s)"

definition tk_serve_stale_revalidated ::
  "mw_env \<Rightarrow> 'w handler \<Rightarrow> flow \<Rightarrow> revalidator \<Rightarrow> response \<Rightarrow> string \<Rightarrow> response_directives \<Rightarrow> request_directives
     \<Rightarrow> custom_writer \<Rightarrow> 'w sys \<Rightarrow> 'w outcome" where
  "tk_serve_stale_revalidated e h f v resp storerName rc co cw s =
     (let req1 = add_if_none_match (rv_ResponseETag v) (fl_req f);
          f1 = f\<lparr>fl_req := req1\<rparr>
      in case tk_Revalidate e h (fl_roles f) v req1 (fl_requestCc f) (fl_cachedKey f)
             (cw\<lparr>cw_Req := req1\<rparr>) s of
           (Inl p, cw1, s1) \<Rightarrow> Ret (Inl p) cw1 s1
         | (Inr None, cw1, s1) \<Rightarrow> tk_settle_stale_revalidation f1 v resp storerName (cw_statusCode cw1) cw1 s1
         | (Inr (Some _), cw1, s1) \<Rightarrow>
             if -1 < rs_StaleIfError rc \<or> 0 < rq_StaleIfError co
             then tk_serve_stale_on_error resp (cw_statusCode cw1) cw1 s1
             else Ret (Inr None)
               (tk_Send (reset_buffer (cw1\<lparr>cw_Rw := rw_WriteHeader 504 (cw_Rw cw1)\<rparr>))) s1)"

definition tk_serve_max_stale ::
  "mw_env \<Rightarrow> 'w handler \<Rightarrow> flow \<Rightarrow> revalidator \<Rightarrow> response option \<Rightarrow> string \<Rightarrow> request_directives
     \<Rightarrow> custom_writer \<Rightarrow> 'w sys \<Rightarrow> 'w outcome" where
  "tk_serve_max_stale e h f v stale storerName co cw s =
     (case stale of
        None \<Rightarrow> Cont cw s
      | Some resp0 \<Rightarrow>
          let (valid, resp1) = (if Strict (fl_mode f) then ValidateCacheControl (fl_now f) resp0 co else (True, resp0))
          in if \<not> valid then Cont cw s
             else
               let addTime = stored_ttl_seconds resp1;
                   resp = SetCacheStatusHeader (fl_now f) resp1 storerName
               in case ParseResponseCacheControl (HeaderAllCommaSepValuesString (resp_Header resp) ''Cache-Control'') of
                    None \<Rightarrow> Ret (Inl NilDeref) cw s
                  | Some rc \<Rightarrow>
                      if 0 < rs_StaleWhileRevalidate rc then tk_serve_while_revalidate f v resp cw s
                      else if Bypass_response (fl_mode f) \<or> rs_MustRevalidate rc \<or> rs_NoCachePresent rc
                              \<or> rv_NeedRevalidation v
                      then tk_serve_stale_revalidated e h f v resp storerName rc co cw s
                      else if \<not> Strict (fl_mode f)
                              \<or> ValidateMaxAgeCachedStaleResponse co (Some rc) resp addTime \<noteq> None
                      then tk_serve_stale_hit resp cw s
                      else Cont cw s)"

text \<open>Here a stale response is only used when the upstream fails, whatever the mode.\<close>

definition tk_serve_stale_if_error ::
  "mw_env \<Rightarrow> 'w handler \<Rightarrow> flow \<Rightarrow> revalidator \<Rightarrow> response \<Rightarrow> string \<Rightarrow> request_directives
     \<Rightarrow> custom_writer \<Rightarrow> 'w sys \<Rightarrow> 'w outcome" where
  "tk_serve_stale_if_error e h f v resp0 storerName co cw s =
     (let addTime = stored_ttl_seconds resp0;
          rc0 = ParseResponseCacheControl (HeaderAllCommaSepValuesString (resp_Header resp0) ''Cache-Control'')
      in if Strict (fl_mode f) \<and> ValidateMaxAgeCachedStaleResponse co rc0 resp0 addTime = None then Cont cw s
         else
           let resp = SetCacheStatusHeader (fl_now f) resp0 storerName
           in case ParseResponseCacheControl (HeaderAllCommaSepValuesString (resp_Header resp) ''Cache-Control'') of
                None \<Rightarrow> Ret (Inl NilDeref) cw s
              | Some rc \<Rightarrow>
                  if \<not> (-1 < rs_StaleIfError rc \<or> 0 < rq_StaleIfError co) then Cont cw s
                  else case tk_Revalidate e h (fl_roles f) v (fl_req f) (fl_requestCc f) (fl_cachedKey f) cw s of
                    (Inl p, cw1, s1) \<Rightarrow> Ret (Inl p) cw1 s1
                  | (Inr None, cw1, s1) \<Rightarrow> Cont cw1 s1
                  | (Inr (Some _), cw1, s1) \<Rightarrow> tk_serve_stale_on_error resp (cw_statusCode cw1) cw1 s1)"

section \<open>From the cache\<close>

definition tk_serve_from_cache ::
  "mw_env \<Rightarrow> 'w handler \<Rightarrow> flow \<Rightarrow> revalidator \<Rightarrow> response option \<Rightarrow> response option \<Rightarrow> string
     \<Rightarrow> custom_writer \<Rightarrow> 'w sys \<Rightarrow> 'w outcome" where
  "tk_serve_from_cache e h f v fresh stale storerName cw s =
     (let headerName = fst (tk_GetSurrogateControl (sh_SurrogateKeyStorer h) (cw_Header cw))
      in case fresh_acceptable f fresh of
           Inl p \<Rightarrow> Ret (Inl p) cw s
         | Inr (Some r) \<Rightarrow> tk_serve_fresh e h f headerName v r storerName cw s
         | Inr None \<Rightarrow>
             (case fl_requestCc f of
                None \<Rightarrow> Ret (Inl NilDeref) cw s
              | Some co \<Rightarrow>
                  if \<not> rq_OnlyIfCached co \<and> (rq_MaxStaleSet co \<or> -1 < rq_MaxStale co)
                  then tk_serve_max_stale e h f v stale storerName co cw s
                  else case stale of
                    None \<Rightarrow> Cont cw s
                  | Some resp \<Rightarrow> tk_serve_stale_if_error e h f v resp storerName co cw s))"

definition tk_cache_stage :: "mw_env \<Rightarrow> 'w handler \<Rightarrow> flow \<Rightarrow> custom_writer \<Rightarrow> 'w sys \<Rightarrow> 'w outcome" where
  "tk_cache_stage e h f cw s =
     (let req = fl_req f;
          skip = (if Bypass_request (fl_mode f) then Inr False
                  else case fl_requestCc f of None \<Rightarrow> Inl NilDeref | Some co \<Rightarrow> Inr (rq_NoCache co))
      in case skip of
           Inl p \<Rightarrow> Ret (Inl p) cw s
         | Inr True \<Rightarrow> Cont cw s
         | Inr False \<Rightarrow>
             (case lookup_storers (fl_now f) (sh_Storers h) (fl_cachedKey f) req (ParseRequest req) 0 (sy_store s) of
                (Inl p, w1) \<Rightarrow> Ret (Inl p) cw (s\<lparr>sy_store := w1\<rparr>)
              | (Inr (fresh, stale, v, storerName, _), w1) \<Rightarrow>
                  tk_serve_from_cache e h f v fresh stale storerName cw (s\<lparr>sy_store := w1\<rparr>)))"

section \<open>From the upstream\<close>

text \<open>After the deadline the code goes to the custom writer, the text to the server's writer.\<close>

definition tk_deadline_answer :: "request \<Rightarrow> custom_writer \<Rightarrow> custom_writer" where
  "tk_deadline_answer req cw =
     (let cw1 = cw_WriteHeader 504 cw;
          rw1 = rw_set_header ''Cache-Status''
            (cx_CacheName (req_ctx req) @ ''; fwd=bypass; detail=DEADLINE-EXCEEDED'') (cw_Rw cw1)
      in cw1\<lparr>cw_Rw := rw_Write ''Internal server error'' rw1, cw_Done := True\<rparr>)"

definition tk_upstream_stage ::
  "mw_env \<Rightarrow> 'w handler \<Rightarrow> flow \<Rightarrow> up_error option \<Rightarrow> custom_writer \<Rightarrow> 'w sys \<Rightarrow> up_error option go \<times> custom_writer \<times> 'w sys" where
  "tk_upstream_stage e h f race cw s =
     (let spawned = sys_log (EvUpstream cw (fl_req f) (fl_requestCc f) (fl_cachedKey f) (fl_uri f)) s
      in case race of
           Some DeadlineExceeded \<Rightarrow> (Inr (Some DeadlineExceeded), tk_deadline_answer (fl_req f) cw, spawned)
         | Some Canceled \<Rightarrow> (Inr (Some Canceled), cw\<lparr>cw_Done := True\<rparr>, spawned)
         | Some _ \<Rightarrow> (Inr None, cw\<lparr>cw_Done := True\<rparr>, spawned)
         | None \<Rightarrow>
             (case tk_Upstream e h (fl_roles f) (fl_req f) (fl_requestCc f) (fl_cachedKey f) cw s of
                (Inl p, cw1, s1) \<Rightarrow> (Inl p, cw1, s1)
              | (Inr None, cw1, s1) \<Rightarrow> (Inr None, tk_Send cw1, s1)
              | (Inr (Some Upstream50xError), cw1, s1) \<Rightarrow> (Inr None, tk_Send cw1, s1)
              | (Inr (Some err), cw1, s1) \<Rightarrow> (Inr (Some err), cw1, s1)))"

section \<open>Bypasses\<close>

definition tk_set_contexts :: "mw_env \<Rightarrow> 'w handler \<Rightarrow> request \<Rightarrow> request \<Rightarrow> request" where
  "tk_set_contexts e h req rq = fst (tk_SetContext (me_re e) (me_sha256_hex e) (sh_context h) req rq)"

definition tk_serve_bypass ::
  "mw_env \<Rightarrow> 'w handler \<Rightarrow> request \<Rightarrow> string \<Rightarrow> response_writer \<Rightarrow> 'w sys \<Rightarrow> 'w served" where
  "tk_serve_bypass e h req detail rw s =
     (case call_direct e req (bypass_status req detail rw) s of
        (reply, rw1, s1) \<Rightarrow>
          (case next_result (up_end reply) of
             Inl p \<Rightarrow> (Inl p, rw1, s1)
           | Inr err \<Rightarrow> (Inr err, rw1, tk_invalidate_groups h (up_time reply) (req_Method req) (rw_Header rw1) s1)))"

definition tk_serve_unsupported_method ::
  "mw_env \<Rightarrow> 'w handler \<Rightarrow> request \<Rightarrow> request \<Rightarrow> response_writer \<Rightarrow> 'w sys \<Rightarrow> 'w served" where
  "tk_serve_unsupported_method e h req rq rw s =
     (case call_direct e req (bypass_status req ''UNSUPPORTED-METHOD'' rw) s of
        (reply, rw1, s1) \<Rightarrow>
          (case next_result (up_end reply) of
             Inl p \<Rightarrow> (Inl p, rw1, s1)
           | Inr err \<Rightarrow>
               let s2 = tk_invalidate_groups h (up_time reply) (req_Method req) (rw_Header rw1) s1;
                   keyname = key_of (tk_set_contexts e h (req\<lparr>req_Method := ''GET''\<rparr>) rq)
               in (Inr err, rw1,
                   if err = None \<and> req_Method req \<noteq> ''GET'' \<and> logged_status 0 (up_calls reply) < 400
                   then sys_store (\<lambda>w. fold (\<lambda>st. st_Delete st (''IDX_'' @ keyname)) (sh_Storers h) w) s2
                   else s2)))"

section \<open>ServeHTTP\<close>

definition tk_serve_cached ::
  "mw_env \<Rightarrow> 'w handler \<Rightarrow> gtime \<Rightarrow> gtime \<Rightarrow> flight list \<Rightarrow> up_error option \<Rightarrow> request \<Rightarrow> request_directives option
     \<Rightarrow> response_writer \<Rightarrow> 'w sys \<Rightarrow> 'w served" where
  "tk_serve_cached e h now later roles race req requestCc rw s =
     (let f = \<lparr>fl_now = now, fl_later = later, fl_req = req, fl_requestCc = requestCc, fl_cachedKey = key_of req,
               fl_uri = req_Path req, fl_roles = roles\<rparr>
      in case tk_cache_stage e h f (NewCustomWriter req rw) s of
           Ret r cw1 s1 \<Rightarrow> (r, cw_Rw cw1, s1)
         | Cont cw1 s1 \<Rightarrow> (case tk_upstream_stage e h f race cw1 s1 of (r, cw2, s2) \<Rightarrow> (r, cw_Rw cw2, s2)))"

definition tk_ServeHTTP ::
  "mw_env \<Rightarrow> 'w handler \<Rightarrow> gtime \<Rightarrow> gtime \<Rightarrow> flight list \<Rightarrow> up_error option \<Rightarrow> response_writer \<Rightarrow> request \<Rightarrow> 'w sys \<Rightarrow> 'w served" where
  "tk_ServeHTTP e h now later roles race rw rq s =
     (case HandleInternally h rq of
        Some internal \<Rightarrow>
          (case internal now rq rw (sy_store s) of
             (Inl p, w1) \<Rightarrow> (Inl p, rw, s\<lparr>sy_store := w1\<rparr>)
           | (Inr rw1, w1) \<Rightarrow> (Inr None, rw1, s\<lparr>sy_store := w1\<rparr>))
      | None \<Rightarrow>
          let req = tk_SetBaseContext now (sh_context h) rq
          in if excluded e h req then serve_excluded e req rw s
             else if \<not> cx_SupportedMethod (req_ctx req) then tk_serve_unsupported_method e h req rq rw s
             else
               let requestCc = ParseRequestCacheControl (HeaderAllCommaSepValuesString (req_Header req) ''Cache-Control'')
               in if \<not> Bypass_request (cx_Mode (req_ctx req)) \<and> requestCc = None
                  then tk_serve_bypass e h req ''CACHE-CONTROL-EXTRACTION-ERROR'' rw s
                  else
                    let req1 = tk_set_contexts e h req rq
                    in if cx_IsMutationRequest (req_ctx req1)
                       then tk_serve_bypass e h req1 ''IS-MUTATION-REQUEST'' rw s
                       else tk_serve_cached e h now later roles race req1 requestCc rw s)"

section \<open>The goroutines\<close>

definition tk_run_event :: "mw_env \<Rightarrow> 'w handler \<Rightarrow> gtime \<Rightarrow> flight list \<Rightarrow> event \<Rightarrow> 'w sys \<Rightarrow> 'w sys" where
  "tk_run_event e h now roles ev s =
     (case ev of
        EvSurrogateStore hdr key uri \<Rightarrow>
          s\<lparr>sy_store := snd (tk_sp_Store now (sh_SurrogateKeyStorer h) hdr key (sy_store s))\<rparr>
      | EvRevalidate v cw req co key uri \<Rightarrow> (case tk_Revalidate e h roles v req co key cw s of (_, _, s1) \<Rightarrow> s1)
      | EvUpstream cw req co key uri \<Rightarrow> (case tk_Upstream e h roles req co key cw s of (_, _, s1) \<Rightarrow> s1)
      | _ \<Rightarrow> s)"

end
