(* ===== verification/TraefikStorageLaws.thy ===== *)
theory TraefikStorageLaws
  imports TraefikStorage
begin

text \<open>
  What the Traefik storage serves: the effect of storing a response on later look-ups, the states a
  cache can reach while responses are stored, keys deleted and the cleaning goroutine runs, the
  invariant of these states, and what becomes of a value that nobody writes again.
\<close>

section \<open>Mappings\<close>

text \<open>The mapping of a base key at a time; \<open>None\<close> when its bytes do not decode.\<close>

definition tk_mapping :: "codec \<Rightarrow> gtime \<Rightarrow> string \<Rightarrow> tk_provider \<Rightarrow> storage_mapper option" where
  "tk_mapping cd now bk s =
     (let b = bytes_of (tk_val now (MappingKeyPrefix @ bk) s) in if b = [] then Some [] else cd_Unmarshal cd b)"

text \<open>A mapping that encoding/json writes and reads back: its texts are valid UTF-8 and its years have four digits.\<close>

definition survives :: "codec \<Rightarrow> storage_mapper \<Rightarrow> bool" where
  "survives cd m \<longleftrightarrow> (\<exists>e. cd_Marshal cd m = Some e \<and> e \<noteq> [] \<and> cd_Unmarshal cd e = Some m)"

lemma tk_GetMultiLevel_elect:
  assumes "tk_wf s"
  shows "tk_GetMultiLevel cd now bk req v s =
    (case tk_mapping cd now bk s of
       None \<Rightarrow> (None, None, v)
     | Some m \<Rightarrow> elected (tk_elect cd (\<lambda>k. bytes_of (tk_val now k s)) now req m None v))"
proof -
  have "fst (tk_election_loop cd (\<lambda>k s. (tk_Get now k s, s)) now req m None v s)
      = tk_elect cd (\<lambda>k. bytes_of (tk_val now k s)) now req m None v" for m
    using tk.tk_election_loop_elect[OF assms, where now = now and req = req and m = m, unfolded traefik_storer_sel]
    by blast
  then show ?thesis
    by (cases "ak_Get now (MappingKeyPrefix @ bk) (tp_items s)")
      (auto simp: tk_GetMultiLevel_def tk_MappingElection_def tk_mapping_def tk_val_def bytes_of_simps Let_def
        elected_def case_prod_beta split: option.splits)
qed

lemma tk_SetMultiLevel_eq:
  assumes "vk \<noteq> MappingKeyPrefix @ bk" "tk_mapping cd now bk s = Some m"
    and "cd_Marshal cd (amap_put vk (new_entry now d (tp_stale s) vh etag rk) m) = Some e"
  shows "tk_SetMultiLevel cd now bk vk b vh etag d rk s
    = (False, tk_Set now (MappingKeyPrefix @ bk) e 0 (tk_Set now vk b d s))"
  using assms
  by (auto simp: tk_SetMultiLevel_def tk_MappingUpdater_def tk_mapping_def Let_def new_entry_def
      tk_val_simps(1)[unfolded tk_val_def] simp flip: tk_val_def split: if_splits)

lemma elected_simps [simp]: "elected (fr, st, v, e) = (fr, st, v)"
  by (simp add: elected_def)

section \<open>Reachable states\<close>

text \<open>
  A run of the cache: the clock moves on, the cleaning goroutine ticks, a response is stored under a
  varied key that belongs to its base key, keys are deleted.  \<open>owner\<close> gives the base key of a varied
  key.  A stored mapping survives its encoding.
\<close>

inductive tk_step ::
  "(string \<Rightarrow> string) \<Rightarrow> regexp_engine \<Rightarrow> codec \<Rightarrow> gtime \<times> tk_provider \<Rightarrow> gtime \<times> tk_provider \<Rightarrow> bool"
  for owner :: "string \<Rightarrow> string" and re :: regexp_engine and cd :: codec where
  Wait: "now \<le> t \<Longrightarrow> tk_step owner re cd (now, s) (t, s)"
| Clean: "tk_step owner re cd (now, s) (now, s\<lparr>tp_items := ak_clean now (tp_items s)\<rparr>)"
| Store: "0 < d \<Longrightarrow> user_key vk \<Longrightarrow> owner vk = bk \<Longrightarrow> tk_mapping cd now bk s = Some m \<Longrightarrow>
    survives cd (amap_put vk (new_entry now d (tp_stale s) vh etag rk) m) \<Longrightarrow>
    tk_step owner re cd (now, s) (now, snd (tk_SetMultiLevel cd now bk vk b vh etag d rk s))"
| Delete: "tk_step owner re cd (now, s) (now, tk_Delete k s)"
| DeleteMany: "tk_step owner re cd (now, s) (now, tk_DeleteMany re now p s)"

inductive_cases tk_stepE: "tk_step owner re cd (now, s) (t, s')"

inductive tk_reachable :: "(string \<Rightarrow> string) \<Rightarrow> regexp_engine \<Rightarrow> codec \<Rightarrow> duration \<Rightarrow> gtime \<times> tk_provider \<Rightarrow> bool"
  for owner :: "string \<Rightarrow> string" and re :: regexp_engine and cd :: codec and stale :: duration where
  Start: "0 < now \<Longrightarrow> tk_reachable owner re cd stale (now, tk_Factory stale None)"
| Step: "tk_reachable owner re cd stale x \<Longrightarrow> tk_step owner re cd x y \<Longrightarrow> tk_reachable owner re cd stale y"

text \<open>
  The invariant: mappings are kept for ever and list only keys of their own, every other value
  expires, and no later than the fresh time its mapping notes for it.
\<close>

definition tk_entries_ok :: "(string \<Rightarrow> string) \<Rightarrow> ak_items \<Rightarrow> string \<Rightarrow> storage_mapper \<Rightarrow> bool" where
  "tk_entries_ok owner items bk m \<longleftrightarrow> amap_ok m \<and>
     (\<forall>(k, ki) \<in> set m. user_key k \<and> owner k = bk \<and>
        (\<forall>i. map_of items k = Some i \<longrightarrow> ai_expires i \<le> ki_FreshTime ki))"

definition tk_item_ok :: "(string \<Rightarrow> string) \<Rightarrow> codec \<Rightarrow> ak_items \<Rightarrow> string \<Rightarrow> ak_item \<Rightarrow> bool" where
  "tk_item_ok owner cd items k i \<longleftrightarrow>
     (if user_key k then 0 < ai_expires i
      else ai_expires i = 0 \<and> ai_data i \<noteq> [] \<and>
        (\<exists>m. cd_Unmarshal cd (ai_data i) = Some m \<and> tk_entries_ok owner items (CutPrefix k MappingKeyPrefix) m))"

definition tk_inv :: "(string \<Rightarrow> string) \<Rightarrow> codec \<Rightarrow> gtime \<times> tk_provider \<Rightarrow> bool" where
  "tk_inv owner cd x \<longleftrightarrow> 0 < fst x \<and> tk_wf (snd x) \<and>
     (\<forall>k i. map_of (tp_items (snd x)) k = Some i \<longrightarrow> tk_item_ok owner cd (tp_items (snd x)) k i)"

text \<open>\<open>below\<close>: every item of the first list is an item of the second.\<close>

definition below :: "ak_items \<Rightarrow> ak_items \<Rightarrow> bool" where
  "below items' items \<longleftrightarrow> (\<forall>k i. map_of items' k = Some i \<longrightarrow> map_of items k = Some i)"

lemma belowD: "below items' items \<Longrightarrow> map_of items' k = Some i \<Longrightarrow> map_of items k = Some i"
  by (simp add: below_def)

lemma below_amap [simp]: "below (amap_del k items) items" "below (amap_filter_keys P items) items"
  by (simp_all add: below_def)

lemma below_filter: "amap_ok m \<Longrightarrow> below (filter P m) m"
  unfolding below_def by (metis amap_ok_lookup filter_is_subset map_of_SomeD subsetD)

lemma tk_item_ok_sub:
  assumes "tk_item_ok owner cd items k i" "below items' items"
  shows "tk_item_ok owner cd items' k i"
proof -
  have "tk_entries_ok owner items' bk m" if "tk_entries_ok owner items bk m" for bk m
    using that belowD[OF assms(2)] by (fastforce simp: tk_entries_ok_def)
  then show ?thesis using assms(1) by (auto simp: tk_item_ok_def split: if_splits)
qed

lemma tk_inv_sub:
  assumes "tk_inv owner cd (now, s)" "below (tp_items s') (tp_items s)" "amap_ok (tp_items s')"
  shows "tk_inv owner cd (now, s')"
  using assms(1,3) tk_item_ok_sub[OF _ assms(2)] belowD[OF assms(2)]
  unfolding tk_inv_def tk_wf_def by fastforce

lemma tk_mapping_ok:
  assumes "tk_inv owner cd (now, s)" "tk_mapping cd t bk s = Some m"
  shows "tk_entries_ok owner (tp_items s) bk m"
proof (cases "map_of (tp_items s) (MappingKeyPrefix @ bk)")
  case None
  then show ?thesis using assms(2) by (simp add: tk_mapping_def tk_val_def ak_Get_def bytes_of_simps tk_entries_ok_def)
next
  case (Some i)
  then have "tk_item_ok owner cd (tp_items s) (MappingKeyPrefix @ bk) i" using assms(1) by (simp add: tk_inv_def)
  then show ?thesis using assms(2) Some
    by (auto simp: tk_item_ok_def tk_mapping_def tk_val_def ak_Get_def ak_expired_def bytes_of_simps CutPrefix_def)
qed

lemma set_amap_put_other: "amap_ok m \<Longrightarrow> (k', x) \<in> set (amap_put k v m) \<Longrightarrow> k' = k \<and> x = v \<or> k' \<noteq> k \<and> (k', x) \<in> set m"
  using amap_ok_lookup[OF amap_ok_put, of m k' x k v] by (auto split: if_splits dest: map_of_SomeD)

lemma not_user_key_iff: "\<not> user_key k \<longleftrightarrow> (\<exists>bk. k = MappingKeyPrefix @ bk)"
  by (auto simp: user_key_def prefix_def)

lemma CutPrefix_append [simp]: "CutPrefix (p @ k) p = k"
  by (simp add: CutPrefix_def)

lemma tk_inv_Store:
  assumes inv: "tk_inv owner cd (now, s)" and d: "0 < d" and vk: "user_key vk" "owner vk = bk"
    and m: "tk_mapping cd now bk s = Some m"
    and sv: "survives cd (amap_put vk (new_entry now d (tp_stale s) vh etag rk) m)"
  shows "tk_inv owner cd (now, snd (tk_SetMultiLevel cd now bk vk b vh etag d rk s))"
proof -
  define m' where "m' = amap_put vk (new_entry now d (tp_stale s) vh etag rk) m"
  obtain e where e: "cd_Marshal cd m' = Some e" "e \<noteq> []" "cd_Unmarshal cd e = Some m'"
    using sv by (auto simp: survives_def m'_def)
  have ne: "vk \<noteq> MappingKeyPrefix @ bk" using vk(1) by auto
  define items where "items = tp_items s"
  define items' where "items' = tp_items (snd (tk_SetMultiLevel cd now bk vk b vh etag d rk s))"
  have look: "map_of items' k = (if k = MappingKeyPrefix @ bk then Some \<lparr>ai_data = e, ai_expires = 0\<rparr>
      else if k = vk then Some \<lparr>ai_data = b, ai_expires = now + d\<rparr> else map_of items k)" for k
    using tk_SetMultiLevel_eq[OF ne m e(1)[unfolded m'_def]] d
    by (simp add: items'_def items_def tk_Set_def ak_Set_def)
  have pos: "0 < now" using inv by (simp add: tk_inv_def)
  have old: "tk_entries_ok owner items bk m" using tk_mapping_ok[OF inv m] by (simp add: items_def)
  have other: "tk_entries_ok owner items' bk2 m2" if "tk_entries_ok owner items bk2 m2" "bk2 \<noteq> bk" for bk2 m2
    using that vk by (auto simp: tk_entries_ok_def look dest!: bspec split: if_splits)
  have entry: "user_key k \<and> owner k = bk \<and> (\<forall>i. map_of items' k = Some i \<longrightarrow> ai_expires i \<le> ki_FreshTime ki)"
    if "(k, ki) \<in> set m'" for k ki
  proof (cases "k = vk")
    case True
    then have "ki = new_entry now d (tp_stale s) vh etag rk"
      using that old set_amap_put_other[of m k ki vk] by (auto simp: tk_entries_ok_def m'_def)
    then show ?thesis using True vk ne by (simp add: look new_entry_def)
  next
    case False
    then have "(k, ki) \<in> set m"
      using that old set_amap_put_other[of m k ki vk] by (auto simp: tk_entries_ok_def m'_def)
    then show ?thesis using False old by (auto simp: tk_entries_ok_def look split: if_splits)
  qed
  then have new: "tk_entries_ok owner items' bk m'"
    using old by (auto simp: tk_entries_ok_def m'_def)
  have "tk_item_ok owner cd items' k i" if "map_of items' k = Some i" for k i
  proof (cases "user_key k")
    case True
    then show ?thesis using that inv d pos by (auto simp: tk_item_ok_def look tk_inv_def items_def split: if_splits)
  next
    case False
    then obtain bk2 where k: "k = MappingKeyPrefix @ bk2" by (auto simp: not_user_key_iff)
    show ?thesis
    proof (cases "bk2 = bk")
      case True
      then show ?thesis using that new e by (auto simp: k tk_item_ok_def look)
    next
      case False
      then have "map_of items k = Some i" using that vk(1) by (auto simp: look k split: if_splits)
      then have "tk_item_ok owner cd items k i" using inv by (simp add: tk_inv_def items_def)
      then show ?thesis using other[OF _ False] by (auto simp: k tk_item_ok_def)
    qed
  qed
  moreover have "tk_wf (snd (tk_SetMultiLevel cd now bk vk b vh etag d rk s))"
    using inv tk_SetMultiLevel_eq[OF ne m e(1)[unfolded m'_def]] by (simp add: tk_inv_def)
  ultimately show ?thesis using pos by (simp add: tk_inv_def items'_def)
qed

lemma tk_inv_step: "tk_step owner re cd x y \<Longrightarrow> tk_inv owner cd x \<Longrightarrow> tk_inv owner cd y"
proof (induction rule: tk_step.induct)
  case (Wait now t s)
  then show ?case by (simp add: tk_inv_def)
next
  case (Clean now s)
  then have "amap_ok (tp_items s)" by (simp add: tk_inv_def tk_wf_def)
  then show ?case
    by (intro tk_inv_sub[OF Clean]) (simp_all add: ak_clean_def below_filter amap_ok_def distinct_map_filter)
next
  case (Store d vk bk now s m vh etag rk b)
  then show ?case by (intro tk_inv_Store)
next
  case (Delete now s k)
  then show ?case
    by (intro tk_inv_sub[OF Delete]) (simp_all add: tk_Delete_def ak_Delete_def tk_inv_def tk_wf_def)
next
  case (DeleteMany now s p)
  then show ?case
    by (intro tk_inv_sub[OF DeleteMany]) (simp_all add: tk_DeleteMany_items tk_inv_def tk_wf_def)
qed

lemma tk_inv_reachable: "tk_reachable owner re cd stale x \<Longrightarrow> tk_inv owner cd x"
  by (induction rule: tk_reachable.induct)
    (auto simp: tk_inv_def tk_Factory_def tk_wf_def dest: tk_inv_step)

section \<open>Sample data\<close>

definition tk_sample_entry :: key_index where
  "tk_sample_entry = new_entry 1 10 5 [(''Accept'', [''x''])] [] sample_key"

definition tk_sample_variants :: storage_mapper where
  "tk_sample_variants = [(''v1'', new_entry 0 1 50 [] [] ''v1''), (''v2'', new_entry 0 100 50 [] [] ''v2'')]"

definition tk_sample_expired :: key_index where
  "tk_sample_expired = new_entry 1 (-1) 5 [] [] sample_key"

definition tk_sample_codec :: codec where
  "tk_sample_codec = \<lparr>cd_Marshal = (\<lambda>m. if m = [(sample_key, tk_sample_entry)] then Some ''m''
       else if m = [(sample_key, tk_sample_expired)] then Some ''e'' else None),
     cd_Unmarshal = (\<lambda>b. if b = ''m'' then Some [(sample_key, tk_sample_entry)]
       else if b = ''n'' then Some tk_sample_variants
       else if b = ''e'' then Some [(sample_key, tk_sample_expired)] else None),
     cd_Compress = (\<lambda>b. b), cd_Read = (\<lambda>b req. if b = ''r'' then Some sample_response else None)\<rparr>"

definition tk_sample :: tk_provider where
  "tk_sample = tk_Factory 5 None"

definition tk_sample_filled :: tk_provider where
  "tk_sample_filled = snd (tk_SetMultiLevel tk_sample_codec 1 sample_key sample_key ''r'' [(''Accept'', [''x''])] [] 10
     sample_key tk_sample)"

definition tk_sample_two :: tk_provider where
  "tk_sample_two = \<lparr>tp_items = [(MappingKeyPrefix @ sample_key, \<lparr>ai_data = ''n'', ai_expires = 0\<rparr>),
     (''v2'', \<lparr>ai_data = ''r'', ai_expires = 100\<rparr>)], tp_stale = 5\<rparr>"

lemma tk_sample_facts:
  "tk_wf tk_sample" "tk_mapping cd t bk tk_sample = Some []" "tp_stale tk_sample = 5"
  "cd_Read tk_sample_codec [] req = None" "cd_Read tk_sample_codec ''r'' req = Some sample_response"
  by (simp_all add: tk_sample_def tk_Factory_def tk_wf_def tk_mapping_def tk_val_def ak_Get_def bytes_of_simps
      tk_sample_codec_def)

lemma tk_sample_survives:
  "survives tk_sample_codec [(sample_key, new_entry 1 10 5 [(''Accept'', [''x''])] [] sample_key)]"
  "survives tk_sample_codec [(sample_key, new_entry 1 (-1) 5 [] [] sample_key)]"
  by (auto simp: survives_def tk_sample_codec_def tk_sample_entry_def tk_sample_expired_def tk_sample_variants_def new_entry_def)

lemma tk_sample_fits:
  "tk_fits sample_request sample_revalidator (new_entry 1 10 5 [(''Accept'', [''x''])] [] sample_key)"
  "tk_fits sample_request sample_revalidator (new_entry a b c [] [] k)"
  by (code_simp, simp add: tk_fits_def new_entry_def tk_headers_match_def etag_accepts_def sample_revalidator_def)

lemma tk_sample_step:
  "tk_step (\<lambda>k. sample_key) re tk_sample_codec (1, tk_sample) (1, tk_sample_filled)"
  unfolding tk_sample_filled_def
  by (rule tk_step.Store[where m = "[]"]) (simp_all add: sample_key_user tk_sample_facts tk_sample_survives)

lemma tk_sample_reachable: "1 \<le> t \<Longrightarrow> tk_reachable (\<lambda>k. sample_key) re tk_sample_codec 5 (t, tk_sample_filled)"
  by (rule tk_reachable.Step[OF tk_reachable.Step[OF tk_reachable.Start[of 1] tk_sample_step[unfolded tk_sample_def]]])
    (simp_all add: tk_step.Wait)

lemma tk_sample_filled_wf: "tk_wf tk_sample_filled"
  using tk_inv_reachable[OF tk_sample_reachable[of 1]] by (simp add: tk_inv_def)

section \<open>What is served\<close>

lemma tk_after_store:
  fixes b :: string
  assumes "tk_wf s" "user_key vk" "tk_mapping cd now bk s = Some []" "0 \<le> now" "0 < d"
    and "survives cd [(vk, new_entry now d (tp_stale s) vh etag rk)]"
  defines "s' \<equiv> snd (tk_SetMultiLevel cd now bk vk b vh etag d rk s)"
  shows "tk_wf s'" "tk_mapping cd t bk s' = Some [(vk, new_entry now d (tp_stale s) vh etag rk)]"
    "bytes_of (tk_val t vk s') = (if t \<le> now + d then b else [])"
proof -
  have ne: "vk \<noteq> MappingKeyPrefix @ bk" using assms(2) by auto
  obtain e where e: "cd_Marshal cd (amap_put vk (new_entry now d (tp_stale s) vh etag rk) []) = Some e" "e \<noteq> []"
    "cd_Unmarshal cd e = Some [(vk, new_entry now d (tp_stale s) vh etag rk)]"
    using assms(6) by (auto simp: survives_def)
  have s': "s' = tk_Set now (MappingKeyPrefix @ bk) e 0 (tk_Set now vk b d s)"
    using tk_SetMultiLevel_eq[OF ne assms(3) e(1)] by (simp add: s'_def)
  have "bytes_of (tk_val t (MappingKeyPrefix @ bk) s') = e"
    using ne assms(4,5) by (auto simp: s' tk_lasts_def bytes_of_simps)
  then show "tk_mapping cd t bk s' = Some [(vk, new_entry now d (tp_stale s) vh etag rk)]"
    using e by (simp add: tk_mapping_def)
  show "bytes_of (tk_val t vk s') = (if t \<le> now + d then b else [])"
    using ne assms(4,5) by (auto simp: s' tk_lasts_def bytes_of_simps)
  show "tk_wf s'" using assms(1) by (simp add: s')
qed

lemma tk_found_after_store:
  assumes "tk_wf s" "user_key vk" "tk_mapping cd now bk s = Some []" "0 \<le> now" "0 < d" "0 < tp_stale s"
    and "survives cd [(vk, new_entry now d (tp_stale s) vh etag rk)]"
    and "tk_fits req v (new_entry now d (tp_stale s) vh etag rk)"
    and "cd_Read cd b req = Some r" "t < now + d"
  shows "tk_GetMultiLevel cd t bk req v (snd (tk_SetMultiLevel cd now bk vk b vh etag d rk s))
    = (Some r, None, tk_ValidateETagFromHeader etag v)"
  using assms(6,8-)
  by (auto simp: tk_GetMultiLevel_elect tk_after_store[OF assms(1-5,7)])
    (auto simp: new_entry_def tk_fits_def Let_def)

text \<open>
  A response stored under a base key that had no mapping is served fresh while its duration
  lasts.  Then it is gone: the value expires with the duration, so that the stale period, for
  which the mapping still lists it, is over except at the very instant at which the value expires.
\<close>

theorem tk_store_then_get:
  assumes "tk_wf s" "user_key vk" "tk_mapping cd now bk s = Some []" "0 \<le> now" "0 < d" "0 < tp_stale s"
    and "survives cd [(vk, new_entry now d (tp_stale s) vh etag rk)]"
    and "tk_fits req v (new_entry now d (tp_stale s) vh etag rk)"
    and "cd_Read cd b req = Some r" "cd_Read cd [] req = None" and "now \<le> t"
  shows "\<exists>v'. tk_GetMultiLevel cd t bk req v (snd (tk_SetMultiLevel cd now bk vk b vh etag d rk s)) =
    (if t < now + d then Some r else None, if t = now + d then Some r else None, v')"
  using assms(5,6,8-)
  by (auto simp: tk_GetMultiLevel_elect tk_after_store[OF assms(1-5,7)])
    (auto simp: new_entry_def Let_def)

theorem tk_store_then_get_witness:
  "\<exists>v'. tk_GetMultiLevel tk_sample_codec 12 sample_key sample_request sample_revalidator tk_sample_filled = (None, None, v')"
  using tk_store_then_get[OF tk_sample_facts(1) sample_key_user tk_sample_facts(2), of 1 10 tk_sample_codec
      "[(''Accept'', [''x''])]" "[]" sample_key sample_request sample_revalidator "''r''" sample_response 12 sample_key]
    tk_sample_survives(1) tk_sample_fits(1)
  by (simp add: tk_sample_facts tk_sample_filled_def)

text \<open>
  One variant that fits the request and whose value is gone within its stale period ends the
  look-up without an answer, whatever fresh variants the mapping lists after it.
\<close>

theorem tk_dead_variant_hides_fresh:
  assumes "tk_wf s" "tk_mapping cd t bk s = Some (m1 @ (k, ki) # m2)" "\<forall>(k', ki') \<in> set m1. \<not> tk_fits req v ki'"
    and "tk_fits req v ki" "ki_FreshTime ki \<le> t" "t < ki_StaleTime ki"
    and "tk_val t k s = None" "cd_Read cd [] req = None"
  shows "\<exists>v'. tk_GetMultiLevel cd t bk req v s = (None, None, v')"
proof -
  have "\<exists>v'. tk_elect cd look t req (m1 @ (k, ki) # m2) None v = (None, None, v', True)"
    if "look k = []" for look
    using assms(3,4) that
  proof (induction m1 arbitrary: v)
    case Nil
    then show ?case using assms(5,6,8) by (simp add: Let_def)
  next
    case (Cons p m1)
    obtain k' ki' where p: "p = (k', ki')" by fastforce
    show ?case using Cons by (auto simp: p Let_def)
  qed
  moreover have "bytes_of (tk_val t k s) = []" using assms(7) by (simp add: bytes_of_simps)
  ultimately show ?thesis
    using assms(1,2) by (fastforce simp: tk_GetMultiLevel_elect)
qed

theorem tk_dead_variant_hides_fresh_witness:
  "\<exists>v'. tk_GetMultiLevel tk_sample_codec 10 sample_key sample_request sample_revalidator tk_sample_two = (None, None, v')"
proof (rule tk_dead_variant_hides_fresh[where ?m1.0 = "[]" and k = "''v1''" and ki = "new_entry 0 1 50 [] [] ''v1''"])
  show "tk_mapping tk_sample_codec 10 sample_key tk_sample_two
    = Some ([] @ (''v1'', new_entry 0 1 50 [] [] ''v1'') # [(''v2'', new_entry 0 100 50 [] [] ''v2'')])"
    by (simp add: tk_mapping_def tk_val_def ak_Get_def tk_sample_two_def ak_expired_def bytes_of_simps tk_sample_codec_def
        tk_sample_variants_def)
qed (simp_all add: tk_wf_def tk_sample_two_def amap_ok_def tk_sample_fits tk_sample_facts tk_val_def ak_Get_def
    MappingKeyPrefix_def, simp_all add: new_entry_def)

section \<open>What reachable states serve\<close>

lemma tk_elect_stale_sound:
  assumes "tk_elect cd look t req m stale v = (fr, Some r, v', err)"
  shows "stale = Some r \<or>
    (\<exists>(k, ki) \<in> set m. tk_fits req v ki \<and> ki_FreshTime ki \<le> t \<and> t < ki_StaleTime ki \<and> cd_Read cd (look k) req = Some r)"
  using assms
proof (induction m arbitrary: stale v)
  case (Cons p m)
  obtain k ki where p: "p = (k, ki)" by fastforce
  show ?case
    using Cons.prems Cons.IH by (fastforce simp: p Let_def split: if_splits option.splits)
qed simp

lemma tk_elect_fresh_sound:
  assumes "tk_elect cd look t req m stale v = (Some r, st, v', err)"
  shows "\<exists>(k, ki) \<in> set m. tk_fits req v ki \<and> t < ki_FreshTime ki \<and> cd_Read cd (look k) req = Some r"
  using assms
proof (induction m arbitrary: stale v)
  case (Cons p m)
  obtain k ki where p: "p = (k, ki)" by fastforce
  show ?case
    using Cons.prems Cons.IH by (fastforce simp: p Let_def split: if_splits option.splits)
qed simp

text \<open>
  Whatever is served as fresh was stored under an entry of the base key's mapping that fits the
  request and is in its fresh period, and is what the live value under that key reads back to.
\<close>

theorem tk_fresh_sound:
  assumes "tk_wf s" "cd_Read cd [] req = None" "tk_GetMultiLevel cd t bk req v s = (Some r, st, v')"
  shows "\<exists>m. tk_mapping cd t bk s = Some m \<and> (\<exists>(k, ki) \<in> set m. tk_fits req v ki \<and> t < ki_FreshTime ki \<and>
    (\<exists>b. tk_val t k s = Some b \<and> cd_Read cd b req = Some r))"
proof -
  obtain m e where m: "tk_mapping cd t bk s = Some m"
    and "tk_elect cd (\<lambda>k. bytes_of (tk_val t k s)) t req m None v = (Some r, st, v', e)"
    using assms(1,3) by (cases "tk_mapping cd t bk s") (auto simp: tk_GetMultiLevel_elect elected_def split: prod.splits)
  from tk_elect_fresh_sound[OF this(2)] obtain k ki where k: "(k, ki) \<in> set m" "tk_fits req v ki" "t < ki_FreshTime ki"
    "cd_Read cd (bytes_of (tk_val t k s)) req = Some r" by blast
  then have "\<exists>b. tk_val t k s = Some b \<and> cd_Read cd b req = Some r"
    using assms(2) by (cases "tk_val t k s") (auto simp: bytes_of_simps)
  with m k show ?thesis by blast
qed

theorem tk_fresh_sound_witness:
  "\<exists>m. tk_mapping tk_sample_codec 3 sample_key tk_sample_filled = Some m \<and>
    (\<exists>(k, ki) \<in> set m. tk_fits sample_request sample_revalidator ki \<and> 3 < ki_FreshTime ki \<and>
      (\<exists>b. tk_val 3 k tk_sample_filled = Some b \<and> cd_Read tk_sample_codec b sample_request = Some sample_response))"
  by (rule tk_fresh_sound[OF tk_sample_filled_wf tk_sample_facts(4), where st = None
        and v' = "tk_ValidateETagFromHeader [] sample_revalidator"]) code_simp



text \<open>
  Neither the clock nor the cleaning goroutine takes anything out of a mapping: the entries of
  all variants ever stored under a base key stay listed.
\<close>

theorem tk_mapping_never_cleaned:
  assumes "tk_reachable owner re cd stale (t, s)"
  shows "tk_mapping cd t' bk (s\<lparr>tp_items := ak_clean t'' (tp_items s)\<rparr>) = tk_mapping cd t bk s"
proof -
  note inv = tk_inv_reachable[OF assms]
  have "ak_Get t' (MappingKeyPrefix @ bk) (ak_clean t'' (tp_items s)) = ak_Get t (MappingKeyPrefix @ bk) (tp_items s)"
  proof (cases "map_of (tp_items s) (MappingKeyPrefix @ bk)")
    case None
    moreover have "amap_ok (tp_items s)" using inv by (simp add: tk_inv_def tk_wf_def)
    ultimately have "map_of (ak_clean t'' (tp_items s)) (MappingKeyPrefix @ bk) = None"
      using below_filter by (metis ak_clean_def belowD not_None_eq)
    then show ?thesis using None by (simp add: ak_Get_def)
  next
    case (Some i)
    then have "ai_expires i = 0" using inv by (auto simp: tk_inv_def tk_item_ok_def)
    then have keep: "\<not> ak_expired x i" for x by (simp add: ak_expired_def)
    have "(MappingKeyPrefix @ bk, i) \<in> set (ak_clean t'' (tp_items s))"
      using map_of_SomeD[OF Some] keep by (simp add: ak_clean_def)
    moreover have "amap_ok (ak_clean t'' (tp_items s))"
      using inv by (simp add: tk_inv_def tk_wf_def ak_clean_def amap_ok_def distinct_map_filter)
    ultimately show ?thesis using Some keep by (simp add: ak_Get_def amap_ok_lookup)
  qed
  then show ?thesis by (simp add: tk_mapping_def tk_val_def)
qed

theorem tk_mapping_never_cleaned_witness:
  "tk_mapping tk_sample_codec 1000 sample_key (tk_sample_filled\<lparr>tp_items := ak_clean 1000 (tp_items tk_sample_filled)\<rparr>)
    = Some [(sample_key, tk_sample_entry)]"
proof -
  have "tk_mapping tk_sample_codec 1 sample_key tk_sample_filled = Some [(sample_key, tk_sample_entry)]" by code_simp
  then show ?thesis using tk_mapping_never_cleaned[OF tk_sample_reachable[of 1 no_regexp]] by simp
qed

section \<open>What becomes of a value\<close>

definition tk_items_at :: "(nat \<Rightarrow> gtime \<times> tk_provider) \<Rightarrow> nat \<Rightarrow> ak_items" where
  "tk_items_at \<sigma> n = tp_items (snd (\<sigma> n))"

text \<open>The cleaning goroutine ticks at step \<open>n\<close> of a run.\<close>

definition cleans_at :: "(nat \<Rightarrow> gtime \<times> tk_provider) \<Rightarrow> nat \<Rightarrow> bool" where
  "cleans_at \<sigma> n \<longleftrightarrow> tk_items_at \<sigma> (Suc n) = ak_clean (fst (\<sigma> n)) (tk_items_at \<sigma> n)"

lemma tk_step_time: "tk_step owner re cd x y \<Longrightarrow> fst x \<le> fst y"
  by (induction rule: tk_step.induct) simp_all

lemma run_time:
  assumes "\<forall>n. tk_step owner re cd (\<sigma> n) (\<sigma> (Suc n))" "n \<le> m"
  shows "fst (\<sigma> n) \<le> fst (\<sigma> m)"
  using assms(1) tk_step_time by (intro lift_Suc_mono_le[OF _ assms(2)]) blast

lemma run_reachable:
  "tk_reachable owner re cd stale (\<sigma> 0) \<Longrightarrow> \<forall>n. tk_step owner re cd (\<sigma> n) (\<sigma> (Suc n)) \<Longrightarrow> tk_reachable owner re cd stale (\<sigma> n)"
  by (induction n) (auto intro: tk_reachable.Step)

lemma never_back:
  assumes "\<forall>n\<ge>n0. \<forall>i. map_of (tk_items_at \<sigma> (Suc n)) k = Some i \<longrightarrow> map_of (tk_items_at \<sigma> n) k = Some i"
    and "n0 \<le> m" "m \<le> n" "map_of (tk_items_at \<sigma> n) k = Some i"
  shows "map_of (tk_items_at \<sigma> m) k = Some i"
proof -
  have "map_of (tk_items_at \<sigma> n) k = Some i \<longrightarrow> map_of (tk_items_at \<sigma> m) k = Some i"
    using assms(3)
  proof (induction rule: dec_induct)
    case (step j)
    then have "map_of (tk_items_at \<sigma> (Suc j)) k = Some i \<longrightarrow> map_of (tk_items_at \<sigma> j) k = Some i"
      using assms(1)[rule_format, of j i] assms(2) by simp
    with step.IH show ?case by blast
  qed simp
  with assms(4) show ?thesis by blast
qed

text \<open>
  C23. In every run in which the cleaning goroutine keeps ticking at ever later times, a value that
  is not written again is gone from the memory from some moment on.
\<close>

theorem tk_values_leave:
  assumes "tk_reachable owner re cd stale (\<sigma> 0)" "\<forall>n. tk_step owner re cd (\<sigma> n) (\<sigma> (Suc n))"
    and "\<forall>T. \<exists>n. T < fst (\<sigma> n) \<and> cleans_at \<sigma> n" and "user_key k"
    and "\<forall>n\<ge>n0. \<forall>i. map_of (tk_items_at \<sigma> (Suc n)) k = Some i \<longrightarrow> map_of (tk_items_at \<sigma> n) k = Some i"
  shows "\<exists>n1. \<forall>n\<ge>n1. map_of (tk_items_at \<sigma> n) k = None"
proof (cases "map_of (tk_items_at \<sigma> n0) k")
  case None
  then show ?thesis using never_back[OF assms(5) order_refl] by (metis not_None_eq)
next
  case (Some i)
  have inv: "tk_inv owner cd (\<sigma> n)" for n
    using tk_inv_reachable[OF run_reachable[OF assms(1,2)]] .
  have pos: "0 < ai_expires i" using inv[of n0] Some assms(4) by (auto simp: tk_inv_def tk_item_ok_def tk_items_at_def)
  obtain n where n: "max (ai_expires i) (fst (\<sigma> n0)) < fst (\<sigma> n)" "cleans_at \<sigma> n" using assms(3) by blast
  have "n0 \<le> n" using n(1) run_time[OF assms(2), of n n0] by (cases "n \<le> n0") auto
  have gone: "map_of (tk_items_at \<sigma> (Suc n)) k = None"
  proof (rule ccontr)
    assume "map_of (tk_items_at \<sigma> (Suc n)) k \<noteq> None"
    then obtain j where j: "map_of (tk_items_at \<sigma> (Suc n)) k = Some j" by blast
    then have "j = i" using never_back[OF assms(5) order_refl, of "Suc n" j] \<open>n0 \<le> n\<close> Some by simp
    moreover have "\<not> ak_expired (fst (\<sigma> n)) j"
      using map_of_SomeD[OF j] n(2) by (auto simp: cleans_at_def ak_clean_def)
    ultimately show False using n(1) pos by (simp add: ak_expired_def)
  qed
  have "\<forall>m\<ge>Suc n. map_of (tk_items_at \<sigma> m) k = None"
  proof (intro allI impI)
    fix m assume "Suc n \<le> m"
    show "map_of (tk_items_at \<sigma> m) k = None"
    proof (rule ccontr)
      assume "map_of (tk_items_at \<sigma> m) k \<noteq> None"
      then obtain j where "map_of (tk_items_at \<sigma> m) k = Some j" by blast
      from never_back[OF assms(5) _ \<open>Suc n \<le> m\<close> this] \<open>n0 \<le> n\<close> gone show False by simp
    qed
  qed
  then show ?thesis by blast
qed

text \<open>A run that stores a value, waits past its expiry and lets the goroutine clean.\<close>

definition tk_sample_cleaned :: tk_provider where
  "tk_sample_cleaned = tk_sample_filled\<lparr>tp_items := ak_clean 16 (tp_items tk_sample_filled)\<rparr>"

definition tk_sample_run :: "nat \<Rightarrow> gtime \<times> tk_provider" where
  "tk_sample_run n = (int (n div 2) + 1, if n \<le> 30 then tk_sample_filled else tk_sample_cleaned)"

lemma tk_sample_cleaned_items: "tp_items tk_sample_cleaned = [(MappingKeyPrefix @ sample_key, \<lparr>ai_data = ''m'', ai_expires = 0\<rparr>)]"
  by code_simp

lemma tk_sample_run_steps: "tk_step (\<lambda>k. sample_key) no_regexp tk_sample_codec (tk_sample_run n) (tk_sample_run (Suc n))"
proof (cases "n = 30")
  case True
  then show ?thesis
    using tk_step.Clean[of "\<lambda>k. sample_key" no_regexp tk_sample_codec 16 tk_sample_filled]
    by (simp add: tk_sample_run_def tk_sample_cleaned_def)
next
  case False
  then have "snd (tk_sample_run (Suc n)) = snd (tk_sample_run n)" "fst (tk_sample_run n) \<le> fst (tk_sample_run (Suc n))"
    by (auto simp: tk_sample_run_def)
  then show ?thesis using tk_step.Wait by (metis prod.collapse)
qed

lemma tk_sample_run_cleans: "\<exists>n. T < fst (tk_sample_run n) \<and> cleans_at tk_sample_run n"
proof -
  have "cleans_at tk_sample_run (32 + 2 * nat T)"
    by (simp add: cleans_at_def tk_items_at_def tk_sample_run_def tk_sample_cleaned_items ak_clean_def ak_expired_def)
  moreover have "T < fst (tk_sample_run (32 + 2 * nat T))" by (simp add: tk_sample_run_def)
  ultimately show ?thesis by blast
qed

theorem tk_values_leave_witness:
  "\<exists>n1. \<forall>n\<ge>n1. map_of (tk_items_at tk_sample_run n) sample_key = None"
proof (rule tk_values_leave[where ?n0.0 = 0 and re = no_regexp and cd = tk_sample_codec and owner = "\<lambda>k. sample_key" and stale = 5])
  show "tk_reachable (\<lambda>k. sample_key) no_regexp tk_sample_codec 5 (tk_sample_run 0)"
    using tk_sample_reachable[of 1] by (simp add: tk_sample_run_def)
  show "\<forall>n\<ge>0. \<forall>i. map_of (tk_items_at tk_sample_run (Suc n)) sample_key = Some i \<longrightarrow>
      map_of (tk_items_at tk_sample_run n) sample_key = Some i"
    by (auto simp: tk_items_at_def tk_sample_run_def tk_sample_cleaned_items MappingKeyPrefix_def sample_key_def)
qed (simp_all add: tk_sample_run_steps tk_sample_run_cleans sample_key_user)

text \<open>
  \<open>Reset\<close> asks \<open>DeleteMany\<close> for the pattern \<open>*\<close>, which is no regular expression: it deletes nothing.
\<close>

theorem tk_Reset_keeps_all:
  assumes "\<not> re_ok re ''*''" "\<forall>k \<in> set (amap_keys (tp_items s)). \<not> prefix ''*'' k"
  shows "tk_Reset re now s = s"
proof -
  have "tp_items (tk_Reset re now s) = tp_items s"
    using assms by (auto simp: tk_Reset_def tk_DeleteMany_items delete_many_hits_def amap_filter_keys_def filter_id_conv)
  moreover have "tp_stale (tk_Reset re now s) = tp_stale s" by (simp add: tk_Reset_def tk_DeleteMany_items)
  ultimately show ?thesis by simp
qed

theorem tk_Reset_keeps_all_witness:
  "tk_Reset no_regexp 5 tk_sample_filled = tk_sample_filled"
  by (rule tk_Reset_keeps_all) code_simp+

text \<open>
  A response whose duration is not positive when it is stored never leaves the cache by itself,
  and is served stale, where all others are not, until the stale period has passed.
\<close>

theorem tk_expired_response_stays:
  assumes "tk_wf s" "user_key vk" "tk_mapping cd now bk s = Some []" "d \<le> 0" "now \<le> t"
    and "survives cd [(vk, new_entry now d (tp_stale s) vh etag rk)]"
    and "tk_fits req v (new_entry now d (tp_stale s) vh etag rk)" and "cd_Read cd b req = Some r"
  shows "tk_val t vk (snd (tk_SetMultiLevel cd now bk vk b vh etag d rk s)) = Some b
    \<and> (\<exists>v'. tk_GetMultiLevel cd t bk req v (snd (tk_SetMultiLevel cd now bk vk b vh etag d rk s)) =
        (None, if t < now + (d + tp_stale s) then Some r else None, v'))"
proof -
  have ne: "vk \<noteq> MappingKeyPrefix @ bk" using assms(2) by auto
  obtain e where e: "cd_Marshal cd (amap_put vk (new_entry now d (tp_stale s) vh etag rk) []) = Some e" "e \<noteq> []"
    "cd_Unmarshal cd e = Some [(vk, new_entry now d (tp_stale s) vh etag rk)]"
    using assms(6) by (auto simp: survives_def)
  define s' where "s' = tk_Set now (MappingKeyPrefix @ bk) e 0 (tk_Set now vk b d s)"
  have s': "snd (tk_SetMultiLevel cd now bk vk b vh etag d rk s) = s'"
    using tk_SetMultiLevel_eq[OF ne assms(3) e(1)] by (simp add: s'_def)
  have vals: "tk_val t (MappingKeyPrefix @ bk) s' = Some e" "tk_val t vk s' = Some b" "tk_wf s'"
    using ne assms(1,4) by (auto simp: s'_def tk_lasts_def)
  then have m: "tk_mapping cd t bk s' = Some [(vk, new_entry now d (tp_stale s) vh etag rk)]"
    using e by (simp add: tk_mapping_def bytes_of_simps)
  show ?thesis
    using m vals assms(4,5,7,8) unfolding s'
    by (auto simp: tk_GetMultiLevel_elect new_entry_def Let_def bytes_of_simps)
qed

theorem tk_expired_response_stays_witness:
  "tk_val 1000 sample_key (snd (tk_SetMultiLevel tk_sample_codec 1 sample_key sample_key ''r'' [] [] (-1) sample_key tk_sample))
    = Some ''r''"
  using tk_expired_response_stays[OF tk_sample_facts(1) sample_key_user tk_sample_facts(2), where now = 1 and d = "-1"
      and t = 1000 and cd = tk_sample_codec and vh = "[]" and etag = "[]" and rk = sample_key and req = sample_request
      and v = sample_revalidator and b = "''r''" and r = sample_response and bk = sample_key]
    tk_sample_survives(2) tk_sample_fits(2)
  by (simp add: tk_sample_facts)

end
