(* ===== verification/TraefikLaws.thy ===== *)
theory TraefikLaws
  imports TraefikServe TraefikStorageLaws ServeLaws
begin

text \<open>
  What a client of the Traefik plugin gets: the entry its \<open>Store\<close> writes compared with the one of
  the core package, that entry served again, the answer after a deadline, and the headers of a
  proxied answer.
\<close>

section \<open>Writers before and after Send\<close>

lemma tk_copy_first_ops [simp]:
  "pristine (tk_copy_first h cw) = pristine cw" "cw_Buf (tk_copy_first h cw) = cw_Buf cw"
  "cw_statusCode (tk_copy_first h cw) = cw_statusCode cw" "cw_Done (tk_copy_first h cw) = cw_Done cw"
proof -
  have "pristine (fold (\<lambda>k. cw_Set k (header_get h k)) ks cw) = pristine cw
    \<and> cw_Buf (fold (\<lambda>k. cw_Set k (header_get h k)) ks cw) = cw_Buf cw
    \<and> cw_statusCode (fold (\<lambda>k. cw_Set k (header_get h k)) ks cw) = cw_statusCode cw
    \<and> cw_Done (fold (\<lambda>k. cw_Set k (header_get h k)) ks cw) = cw_Done cw" for ks
    by (induction ks arbitrary: cw) auto
  then show "pristine (tk_copy_first h cw) = pristine cw" "cw_Buf (tk_copy_first h cw) = cw_Buf cw"
    "cw_statusCode (tk_copy_first h cw) = cw_statusCode cw" "cw_Done (tk_copy_first h cw) = cw_Done cw"
    by (simp_all add: tk_copy_first_def)
qed

lemma tk_Send_answers:
  assumes "pristine cw"
  shows "rw_status (cw_Rw (tk_Send cw)) = Some (cw_statusCode cw)"
    and "rw_Body (cw_Rw (tk_Send cw)) = cw_Buf cw"
  using assms
  by (auto simp: pristine_def rw_status_def tk_Send_def Let_def cw_update_Header_def cw_Set_def
      cw_detached_def rw_WriteHeader_def rw_Write_def)

lemma pristine_NewCustomWriter:
  assumes "rw_Sent rw = None" "rw_Body rw = []"
  shows "pristine (NewCustomWriter req rw)"
  using assms by (simp add: pristine_def NewCustomWriter_def header_get_def header_values_def)

section \<open>The entry that is stored\<close>

lemma tk_store_write_store:
  "sy_store (snd (tk_store_write h now r resH status s)) = snd (store_all now (sh_Storers h) r (sy_store s))"
  by (auto simp: tk_store_write_def Let_def sys_log_def split: prod.splits sum.splits)

lemma tk_GetVariedCacheKey_core:
  "cx_DisableVary (req_ctx rq) \<noteq> Some True \<Longrightarrow> tk_GetVariedCacheKey rq = GetVariedCacheKey rq"
  by (rule ext) (simp add: tk_GetVariedCacheKey_def GetVariedCacheKey_def)

lemma tk_store_entry_store:
  "sy_store (snd (tk_store_entry h now rq key code b resH ma ended status s)) =
     (let (names, star) = VariedHeaderAllCommaSepValues resH;
          (sf, names') = tk_GetVariedCacheKey rq names
      in if star \<or> ended then sy_store s
         else snd (store_all now (sh_Storers h) \<lparr>so_baseKey = key, so_variedKey = key @ sf,
           so_value = DumpResponse code resH b, so_variedHeaders = varied_request_headers rq names',
           so_etag = header_get resH ''Etag'', so_duration = ma\<rparr> (sy_store s)))"
  by (cases "VariedHeaderAllCommaSepValues resH"; cases "tk_GetVariedCacheKey rq (fst (VariedHeaderAllCommaSepValues resH))")
    (simp add: tk_store_entry_def tk_store_write_store Let_def)

lemma tk_Store_store:
  assumes "req_Method rq \<noteq> ''HEAD''" "\<not> cx_Hashed (req_ctx rq)" "cx_DisableVary (req_ctx rq) \<noteq> Some True"
  shows "sy_store (snd (snd (tk_Store e h now rq co key cw s))) =
     (case stored_entry e h now rq co key cw of
        None \<Rightarrow> sy_store s
      | Some (r, resH) \<Rightarrow>
          snd (store_all now (sh_Storers h) (r\<lparr>so_value := DumpResponse (cw_statusCode cw) resH (cw_Buf cw)\<rparr>) (sy_store s)))"
proof (cases "store_admission h rq cw")
  case (Inl a)
  then show ?thesis by (cases a) (simp add: tk_Store_def stored_entry_def)
next
  case (Inr p)
  obtain cw1 rc where p: "p = (cw1, rc)" by fastforce
  note adm = Inr[unfolded p]
  have f: "cw_Buf cw1 = cw_Buf cw" "cw_Done cw1 = cw_Done cw" "cw_statusCode cw1 = cw_statusCode cw"
    using only_header_changed_fields[OF store_admission_writer(2)[OF adm]] by simp_all
  have bs: "tk_body_storable h code n = body_storable h rq code n" for code n
    using assms(1) by (simp add: tk_body_storable_def body_storable_def)
  let ?ttl = "store_ttl now (cx_Mode (req_ctx rq)) rc (cw_Header cw1) (url_TTL (currentMatchedURL e h rq))"
  show ?thesis
  proof (cases ?ttl)
    case None
    then show ?thesis by (simp add: tk_Store_def stored_entry_def adm Let_def)
  next
    case (Some q)
    obtain ma fr where q: "q = (ma, fr)" by fastforce
    let ?resH = "let h1 = stored_headers rq rc (length (cw_Buf cw))
        (cw_Header (cw_Set StoredTTLHeader (Duration_String ma) cw1))
      in header_set StoredLengthHeader (header_get h1 ''Content-Length'') h1"
    obtain names star where v: "VariedHeaderAllCommaSepValues ?resH = (names, star)" by fastforce
    obtain sf names' where g: "GetVariedCacheKey rq names = (sf, names')" by fastforce
    note facts = adm Some[unfolded q] f v[unfolded Let_def] g bs tk_GetVariedCacheKey_core[OF assms(3)]
    show ?thesis
      using assms(2)
      by (cases "store_allowed (cx_Mode (req_ctx rq)) co rc fr")
        (auto simp: tk_Store_def stored_entry_def facts Let_def tk_store_entry_store store_finish_store hash_key_def
          simp del: header_get_set split: bool.splits)
  qed
qed


section \<open>Stored and served again\<close>

lemma tk_send_stored_answers:
  assumes "pristine cw" "cw_Buf cw = []"
  shows "rw_status (cw_Rw (tk_send_stored resp cw)) = Some (resp_StatusCode resp)"
    "rw_Body (cw_Rw (tk_send_stored resp cw)) = resp_Body resp"
  using assms by (simp_all add: tk_send_stored_def tk_Send_answers)

lemma tk_etag_match_answers:
  assumes "pristine cw" "cw_Buf cw = []"
  shows "\<exists>cw'. tk_serve_etag_match f v fresh name cw s = Ret (Inr None) cw' s \<and> answers fresh cw'"
  using assms by (auto simp: tk_serve_etag_match_def answers_def Let_def tk_Send_answers tk_send_stored_answers)

text \<open>A fresh response that needs no revalidation is the answer.\<close>

lemma tk_fresh_stage:
  assumes "pristine cw" "cw_Buf cw = []" "fl_requestCc f = Some co" "\<not> rq_NoCache co"
    and "Strict (fl_mode f) \<longrightarrow> strict_accepts (fl_now f) co fresh name"
    and "lookup_storers (fl_now f) (sh_Storers h) (fl_cachedKey f) (fl_req f) (ParseRequest (fl_req f)) 0 (sy_store s)
      = (Inr (Some fresh, stale, v, name, idx), w1)"
    and "rv_NeedRevalidation v \<longrightarrow> rv_ResponseETag v \<noteq> [] \<and> rv_Matched v"
    and "ParseResponseCacheControl (HeaderAllCommaSepValuesString (resp_Header fresh)
      (fst (tk_GetSurrogateControl (sh_SurrogateKeyStorer h) (cw_Header cw)))) = Some rc" "\<not> rs_NoCachePresent rc"
  shows "\<exists>cw' s'. tk_cache_stage e h f cw s = Ret (Inr None) cw' s' \<and> answers fresh cw' \<and> sy_store s' = w1
    \<and> next_calls s' = next_calls s"
proof -
  have "tk_cache_stage e h f cw s = tk_serve_fresh e h f (fst (tk_GetSurrogateControl (sh_SurrogateKeyStorer h) (cw_Header cw)))
      v fresh name cw (s\<lparr>sy_store := w1\<rparr>)"
    using assms(3,4,6) strict_accepts_fresh[OF assms(3,5)] by (auto simp: tk_cache_stage_def tk_serve_from_cache_def Let_def)
  moreover have "\<exists>cw'. tk_serve_fresh e h f (fst (tk_GetSurrogateControl (sh_SurrogateKeyStorer h) (cw_Header cw)))
      v fresh name cw s1 = Ret (Inr None) cw' s1 \<and> answers fresh cw'" for s1 :: "'a sys"
    using assms(7-) strict_accepts_fresh(2)[OF assms(3,5)] tk_etag_match_answers[OF assms(1,2)]
    by (auto simp: tk_serve_fresh_def Let_def answers_def tk_send_stored_answers[OF assms(1,2)])
  ultimately show ?thesis by (metis next_calls_simps(7) sys.select_convs(1) sys.surjective sys.update_convs(1))
qed

lemma tk_Validate_fields:
  "rv_ResponseETag (tk_ValidateETagFromHeader etag v) = etag"
  "rv_NeedRevalidation (tk_ValidateETagFromHeader etag v) = (rv_NeedRevalidation v \<or> etag \<noteq> [])"
  by (simp_all add: tk_ValidateETagFromHeader_def Let_def)

text \<open>
  C21. What \<open>Store\<close> writes is what later requests are answered with: until its duration is over,
  every request that fits the entry and has no time condition gets the stored response, or is told
  that its copy is current, and the upstream handler is not called.  In the strict mode the response
  must also pass the checks of its age.
\<close>

theorem tk_stored_response_served:
  assumes "sh_Storers h = [traefik_storer re cd]" "sh_Storers h' = [traefik_storer re cd]"
    and "req_Method rq \<noteq> ''HEAD''" "\<not> cx_Hashed (req_ctx rq)" "cx_DisableVary (req_ctx rq) \<noteq> Some True"
    and "stored_entry e h now rq co key cw = Some (r, hdr)" "0 < so_duration r" "0 \<le> now"
    and "tk_wf (sy_store s)" "user_key (so_variedKey r)" "tk_mapping cd now (so_baseKey r) (sy_store s) = Some []"
    and "0 < tp_stale (sy_store s)"
  defines "entry \<equiv> new_entry now (so_duration r) (tp_stale (sy_store s)) (so_variedHeaders r) (so_etag r) (so_variedKey r)"
  assumes "survives cd [(so_variedKey r, entry)]" "tk_fits (fl_req f) (ParseRequest (fl_req f)) entry"
    and "cd_Read cd (DumpResponse (cw_statusCode cw) hdr (cw_Buf cw)) (fl_req f) = Some resp"
    and "fl_cachedKey f = so_baseKey r" "fl_now f < now + so_duration r"
    and "\<not> rv_NeedRevalidation (ParseRequest (fl_req f))"
    and "fl_requestCc f = Some co'" "\<not> rq_NoCache co'" "pristine cw0" "cw_Buf cw0 = []"
    and "Strict (fl_mode f) \<longrightarrow> strict_accepts (fl_now f) co' resp tk_Name"
    and "ParseResponseCacheControl (HeaderAllCommaSepValuesString (resp_Header resp)
      (fst (tk_GetSurrogateControl (sh_SurrogateKeyStorer h') (cw_Header cw0)))) = Some rc" "\<not> rs_NoCachePresent rc"
  defines "s1 \<equiv> snd (snd (tk_Store e h now rq co key cw s))"
  shows "\<exists>cw' s'. tk_cache_stage e' h' f cw0 s1 = Ret (Inr None) cw' s' \<and> answers resp cw' \<and> next_calls s' = next_calls s1"
proof -
  have w1: "sy_store s1 = snd (tk_SetMultiLevel cd now (so_baseKey r) (so_variedKey r)
      (DumpResponse (cw_statusCode cw) hdr (cw_Buf cw)) (so_variedHeaders r) (so_etag r) (so_duration r) (so_variedKey r) (sy_store s))"
    using assms(1,6) tk_Store_store[OF assms(3-5), of e h now co key cw s] by (simp add: s1_def set_multi_def)
  have get: "tk_GetMultiLevel cd (fl_now f) (so_baseKey r) (fl_req f) (ParseRequest (fl_req f)) (sy_store s1)
      = (Some resp, None, tk_ValidateETagFromHeader (so_etag r) (ParseRequest (fl_req f)))"
    unfolding w1
    by (rule tk_found_after_store)
      (use assms(7-12) \<open>survives cd _\<close> \<open>tk_fits _ _ entry\<close> \<open>cd_Read cd _ _ = _\<close> \<open>fl_now f < _\<close> in \<open>simp_all add: entry_def\<close>)
  have look: "lookup_storers (fl_now f) (sh_Storers h') (fl_cachedKey f) (fl_req f) (ParseRequest (fl_req f)) 0 (sy_store s1)
      = (Inr (Some resp, None, tk_ValidateETagFromHeader (so_etag r) (ParseRequest (fl_req f)), tk_Name, 0), sy_store s1)"
    using assms(2) \<open>fl_cachedKey f = _\<close> get by simp
  have "rv_Matched (tk_ValidateETagFromHeader (so_etag r) (ParseRequest (fl_req f)))"
    using \<open>tk_fits _ _ entry\<close> by (simp add: Matched_tk_ValidateETag tk_fits_def entry_def new_entry_def)
  then have "rv_NeedRevalidation (tk_ValidateETagFromHeader (so_etag r) (ParseRequest (fl_req f))) \<longrightarrow>
      rv_ResponseETag (tk_ValidateETagFromHeader (so_etag r) (ParseRequest (fl_req f))) \<noteq> []
      \<and> rv_Matched (tk_ValidateETagFromHeader (so_etag r) (ParseRequest (fl_req f)))"
    using \<open>\<not> rv_NeedRevalidation _\<close> by (simp add: tk_Validate_fields)
  from tk_fresh_stage[OF \<open>pristine cw0\<close> \<open>cw_Buf cw0 = []\<close> \<open>fl_requestCc f = Some co'\<close> \<open>\<not> rq_NoCache co'\<close>
      \<open>Strict (fl_mode f) \<longrightarrow> _\<close> look this \<open>ParseResponseCacheControl _ = Some rc\<close> \<open>\<not> rs_NoCachePresent rc\<close>]
  show ?thesis by metis
qed

section \<open>After the deadline\<close>

text \<open>
  When the deadline passes first, the client gets status 200 with the text of an error: the code
  504 only reaches the buffering writer, which is not sent any more.
\<close>

theorem tk_deadline_gives_200:
  assumes "pristine cw" "tk_upstream_stage e h f (Some DeadlineExceeded) cw s = (r, cw', s')"
  shows "r = Inr (Some DeadlineExceeded) \<and> rw_status (cw_Rw cw') = Some 200 \<and> cw_statusCode cw' = 504
    \<and> rw_Body (cw_Rw cw') = ''Internal server error'' \<and> sy_store s' = sy_store s"
  using assms
  by (auto simp: tk_upstream_stage_def tk_deadline_answer_def Let_def pristine_def rw_status_def rw_set_header_def
      rw_WriteHeader_def rw_Write_def cw_WriteHeader_def sys_log_def)

section \<open>The headers of a proxied answer\<close>

definition single_valued :: "header \<Rightarrow> bool" where
  "single_valued h \<longleftrightarrow> (\<forall>k. length (header_values h k) \<le> 1)"

lemma single_valued_ops [simp, intro]:
  "single_valued h \<Longrightarrow> single_valued (header_set k v h)" "single_valued h \<Longrightarrow> single_valued (header_del k h)"
  by (simp_all add: single_valued_def)

lemma fold_set_values:
  "header_values (fold (\<lambda>k. header_set k (f k)) ks h) k'
     = (case filter (\<lambda>k. CanonicalHeaderKey k = CanonicalHeaderKey k') (rev ks) of
          [] \<Rightarrow> header_values h k' | k # _ \<Rightarrow> [f k])"
  by (induction ks rule: rev_induct) auto

text \<open>Every field of \<open>src\<close> has one value afterwards.\<close>

lemma fold_set_single:
  "single_valued (fold (\<lambda>k. header_set k (header_get h k)) (amap_keys h) h)"
  unfolding single_valued_def
proof
  fix k'
  show "length (header_values (fold (\<lambda>k. header_set k (header_get h k)) (amap_keys h) h) k') \<le> 1"
  proof (cases "CanonicalHeaderKey k' \<in> set (amap_keys h)")
    case True
    then have "filter (\<lambda>k. CanonicalHeaderKey k = CanonicalHeaderKey k') (rev (amap_keys h)) \<noteq> []"
      by (metis (mono_tags) CanonicalHeaderKey_idem filter_empty_conv set_rev)
    then show ?thesis by (auto simp: fold_set_values split: list.split)
  next
    case False
    then have "map_of h (CanonicalHeaderKey k') = None" by (simp add: map_of_eq_None_iff)
    then have "header_values h k' = []" by (simp add: header_values_def)
    then show ?thesis by (auto simp: fold_set_values split: list.split)
  qed
qed

definition attached :: "custom_writer \<Rightarrow> bool" where
  "attached cw \<longleftrightarrow> \<not> cw_detached cw \<and> rw_Sent (cw_Rw cw) = None"

lemma attached_ops [simp]:
  "attached (cw_Write b cw) = attached cw" "attached (cw_WriteHeader code cw) = attached cw"
  "attached (cw_update_Header f cw) = attached cw" "attached (reset_buffer cw) = attached cw"
  "attached (cw_Set k v cw) = attached cw" "attached (cache_status_miss rq d cw) = attached cw"
  by (auto simp: attached_def cw_detached_def cw_Write_def cw_WriteHeader_def cw_update_Header_def reset_buffer_def
      cw_Set_def cache_status_miss_def)

lemma attached_call [simp]: "attached (cw_call c cw) = attached cw"
  by (cases c) auto

lemma attached_calls [simp]: "attached (cw_calls cs cw) = attached cw"
  by (induction cs arbitrary: cw) auto

lemma attached_only_header: "only_header_changed cw cw' \<Longrightarrow> attached cw' = attached cw"
  by (auto simp: only_header_changed_def attached_def cw_detached_def)

lemma attached_Header [simp]:
  "attached cw \<Longrightarrow> cw_Header (cw_update_Header f cw) = f (cw_Header cw)"
  "cw_Header (cw_Write b cw) = cw_Header cw" "cw_Header (cw_WriteHeader code cw) = cw_Header cw"
  "cw_Header (reset_buffer cw) = cw_Header cw"
  by (auto simp: attached_def cw_Header_def cw_update_Header_def cw_detached_def cw_Write_def cw_WriteHeader_def reset_buffer_def)

lemma tk_copy_first_Header:
  "attached cw \<Longrightarrow> cw_Header (tk_copy_first h cw) = fold (\<lambda>k. header_set k (header_get h k)) (amap_keys h) (cw_Header cw)
     \<and> attached (tk_copy_first h cw)"
proof -
  have "attached cw \<Longrightarrow> cw_Header (fold (\<lambda>k. cw_Set k (header_get h k)) ks cw)
      = fold (\<lambda>k. header_set k (header_get h k)) ks (cw_Header cw)
    \<and> attached (fold (\<lambda>k. cw_Set k (header_get h k)) ks cw)" for ks
    by (induction ks arbitrary: cw) (auto simp: cw_Set_def)
  then show "attached cw \<Longrightarrow> ?thesis" by (simp add: tk_copy_first_def)
qed

lemma tk_Send_single:
  assumes "attached cw" "single_valued (cw_Header cw)"
  shows "\<exists>hdr. rw_Sent (cw_Rw (tk_Send cw)) = Some (cw_statusCode cw, hdr) \<and> single_valued hdr"
  using assms
  by (auto simp: tk_Send_def Let_def attached_def cw_detached_def cw_Header_def cw_update_Header_def cw_Set_def
      rw_WriteHeader_def rw_Write_def)

lemma tk_Store_writer:
  "tk_Store e h now rq co key cw s = (r, cw', s') \<Longrightarrow> only_header_changed cw cw'"
  by (auto simp: tk_Store_def Let_def dest!: store_admission_writer
      split: sum.splits prod.splits option.splits if_splits bool.splits)

lemma tk_upstream_landed_writer:
  assumes "tk_upstream_landed e h now rq co key cw s = (Landed (Some v) err, cw', s')" "attached cw"
  shows "sf_headers v = cw_Header cw'" "attached cw'" "sf_requestHeaders v = req_Header rq"
  using assms
  by (auto simp: tk_upstream_landed_def Let_def dest!: tk_Store_writer attached_only_header
      split: if_splits prod.splits sum.splits)

lemma tk_Store_error:
  "tk_Store e h now rq co key cw s = (Inr (Some err), cw', s') \<Longrightarrow> is_upstream_error (cw_statusCode cw)"
  by (auto simp: tk_Store_def store_admission_def Let_def split: sum.splits prod.splits option.splits if_splits bool.splits)

lemma tk_upstream_landed_error:
  assumes "tk_upstream_landed e h now rq co key cw s = (Landed v (Some err), cw', s')"
  shows "is_upstream_error (cw_statusCode cw)"
  using assms
  by (auto simp: tk_upstream_landed_def Let_def miss_status dest!: tk_Store_error split: if_splits prod.splits sum.splits)

lemma tk_upstream_landed_value:
  "tk_upstream_landed e h now rq co key cw s = (fl, cw', s') \<Longrightarrow>
     (\<exists>p. fl = Panicked p) \<or> (\<exists>v err. fl = Landed (Some v) err) \<or> is_upstream_error (cw_statusCode cw)"
  by (auto simp: tk_upstream_landed_def Let_def split: if_splits prod.splits sum.splits)

text \<open>What \<open>next\<close> leaves of the writer when the client is still there.\<close>

lemma tk_call_next_writer:
  assumes "tk_call_next e rq cw s = (reply, cw1, s1)" "\<not> up_done reply" "attached cw"
  shows "attached cw1" "cw_statusCode cw1 = cw_statusCode (cw_calls (up_calls reply) cw)" "reply = me_next e (sy_log s) rq"
  using assms attached_calls[of "up_calls reply" cw]
  by (auto simp: tk_call_next_def call_next_def Let_def attached_def cw_detached_def simp del: attached_calls split: prod.splits)

text \<open>
  A response of the upstream handler that is passed on to the client has lost all values but
  the first of every header: the body and the headers of the flight are copied back to the writer
  of the request that led it, with \<open>Set\<close> and \<open>Get\<close>.
\<close>

theorem tk_proxied_headers_single:
  assumes "attached cw" "fl_roles f = []" "me_next e (sy_log s) (fl_req f) = reply"
    and "up_end reply = NextOk" "\<not> up_done reply"
    and "\<not> is_upstream_error (cw_statusCode (cw_calls (up_calls reply) cw))"
    and "tk_upstream_stage e h f None cw s = (Inr None, cw', s')"
  shows "\<exists>code hdr. rw_Sent (cw_Rw cw') = Some (code, hdr) \<and> (\<forall>k. length (header_values hdr k) \<le> 1)"
proof -
  let ?rq = "fl_req f" and ?co = "fl_requestCc f" and ?key = "fl_cachedKey f"
  obtain reply' cw1 s1 where n: "tk_call_next e ?rq cw s = (reply', cw1, s1)" by (metis prod_cases3)
  have r: "reply' = reply"
    using n assms(3) by (auto simp: tk_call_next_def call_next_def Let_def split: prod.splits)
  note cw1 = tk_call_next_writer[OF n[unfolded r] assms(5,1)]
  let ?s2 = "tk_invalidate_groups h (up_time reply) (req_Method ?rq) (cw_Header cw1) s1"
  obtain fl cw2 s3 where L: "tk_upstream_landed e h (up_time reply) ?rq ?co ?key cw1 ?s2 = (fl, cw2, s3)"
    by (metis prod_cases3)
  have "\<not> is_upstream_error (cw_statusCode cw1)" using cw1(2) assms(6) by simp
  with tk_upstream_landed_value[OF L] tk_upstream_landed_error L
  consider p where "fl = Panicked p" | v where "fl = Landed (Some v) None"
    by (metis option.exhaust)
  then show ?thesis
  proof cases
    case 1
    then show ?thesis
      using assms(2,4,7) n L
      by (cases "alone h False")
        (auto simp: r tk_upstream_stage_def tk_Upstream_def tk_upstream_alone_def tk_upstream_round_def
          tk_upstream_leader_def tk_upstream_settle_def Let_def)
  next
    case 2
    note w = tk_upstream_landed_writer[OF L[unfolded 2] cw1(1)]
    let ?cw3 = "cw_WriteHeader (sf_code v) (tk_copy_first (sf_headers v) (cw_Write (sf_body v) (reset_buffer cw2)))"
    have "\<not> vary_differs ?rq v" using w(3) by (rule not_vary_differs_own)
    then have cw': "cw' = tk_Send ?cw3"
      using assms(2,4,7) n L
      by (cases "alone h False")
        (auto simp: r 2 tk_upstream_stage_def tk_Upstream_def tk_upstream_alone_def tk_upstream_round_def
          tk_upstream_leader_def tk_upstream_settle_def Let_def)
    have "attached ?cw3 \<and> single_valued (cw_Header ?cw3)"
      using w(1,2) fold_set_single[of "cw_Header cw2"]
        tk_copy_first_Header[of "cw_Write (sf_body v) (reset_buffer cw2)" "sf_headers v"] by simp
    then show ?thesis using tk_Send_single[of ?cw3] cw' by (auto simp: single_valued_def)
  qed
qed

section \<open>Witnesses\<close>

definition tk_sample_handler :: "tk_provider storer list \<Rightarrow> tk_provider handler" where
  "tk_sample_handler sts = \<lparr>sh_Configuration = base_configuration0, sh_Storers = sts,
     sh_InternalEndpointHandlers = None, sh_ExcludeRegex = None, sh_RegexpUrls = [],
     sh_SurrogateKeyStorer = tk_sample_surrogate SouinLayer True,
     sh_DefaultMatchedUrl = default_matched_url default_cache0, sh_context = tk_Context_Init base_configuration0,
     sh_storersLen = length sts\<rparr>"

definition tk_sample_sys :: "tk_provider \<Rightarrow> tk_provider sys" where
  "tk_sample_sys w = \<lparr>sy_store = w, sy_log = []\<rparr>"

definition tk_stored_index :: key_index where
  "tk_stored_index = new_entry 0 (10 * Second) 5 [] [] ''k''"

definition tk_stored_codec :: codec where
  "tk_stored_codec = \<lparr>cd_Marshal = (\<lambda>m. if m = [(''k'', tk_stored_index)] then Some ''m'' else None),
     cd_Unmarshal = (\<lambda>b. if b = ''m'' then Some [(''k'', tk_stored_index)] else None),
     cd_Compress = (\<lambda>b. b), cd_Read = (\<lambda>b req. if b = [] then None else Some sample_response)\<rparr>"

definition tk_storers :: "tk_provider storer list" where
  "tk_storers = [traefik_storer no_regexp tk_stored_codec]"

lemma tk_sample_stored:
  "map_option (\<lambda>(r, hdr). (so_baseKey r, so_variedKey r, so_variedHeaders r, so_etag r, so_duration r))
     (stored_entry (sample_env sample_reply) (tk_sample_handler []) 0 sample_request (Some request_directives0) ''k''
       sample_writer) = Some (''k'', ''k'', [], [], 10 * Second)"
  by code_simp

lemma tk_sample_handler_sel:
  "sh_Configuration (tk_sample_handler sts) = base_configuration0"
  "sh_RegexpUrls (tk_sample_handler sts) = []" "sh_SurrogateKeyStorer (tk_sample_handler sts) = tk_sample_surrogate SouinLayer True"
  "sh_DefaultMatchedUrl (tk_sample_handler sts) = default_matched_url default_cache0" "sh_Storers (tk_sample_handler sts) = sts"
  by (simp_all add: tk_sample_handler_def)

lemma tk_sample_handler_parts:
  "store_admission (tk_sample_handler sts) = store_admission (tk_sample_handler [])"
  "currentMatchedURL e (tk_sample_handler sts) = currentMatchedURL e (tk_sample_handler [])"
  "body_too_large (tk_sample_handler sts) = body_too_large (tk_sample_handler [])"
  "body_storable (tk_sample_handler sts) = body_storable (tk_sample_handler [])"
  by (simp_all only: fun_eq_iff store_admission_def currentMatchedURL_def cacheable_status_def
      hasAllowedAdditionalStatusCodesToCache_def body_too_large_def body_storable_def tk_sample_handler_sel simp_thms)

lemma tk_stored_entry_storers: "stored_entry e (tk_sample_handler sts) = stored_entry e (tk_sample_handler [])"
  by (simp only: fun_eq_iff stored_entry_def tk_sample_handler_parts(1,3,4)[of sts] tk_sample_handler_parts(2)[of _ sts] simp_thms)

lemma tk_sample_stored_entry:
  obtains r hdr where "stored_entry (sample_env sample_reply) (tk_sample_handler sts) 0 sample_request (Some request_directives0)
      ''k'' sample_writer = Some (r, hdr)" "so_baseKey r = ''k''" "so_variedKey r = ''k''" "so_variedHeaders r = []"
    "so_etag r = []" "so_duration r = 10 * Second"
  using tk_sample_stored unfolding tk_stored_entry_storers[of _ sts] map_option_eq_Some by (auto split: prod.splits)

lemma tk_sample_request_plain:
  "req_Method sample_request \<noteq> ''HEAD''" "\<not> cx_Hashed (req_ctx sample_request)"
  "cx_DisableVary (req_ctx sample_request) \<noteq> Some True"
  by (simp_all add: sample_request_def request_context0_def)


definition tk_sample_flow :: flow where
  "tk_sample_flow = (sample_flow [])\<lparr>fl_cachedKey := ''k''\<rparr>"

lemma tk_sample_flow_sel:
  "fl_req tk_sample_flow = sample_request" "fl_now tk_sample_flow = 3" "fl_cachedKey tk_sample_flow = ''k''"
  "fl_requestCc tk_sample_flow = Some request_directives0" "\<not> Strict (fl_mode tk_sample_flow)" "fl_roles tk_sample_flow = []"
  by (simp_all add: tk_sample_flow_def sample_flow_def fl_mode_def sample_request_def request_context0_def)

lemma tk_sample_writer_facts:
  "pristine (NewCustomWriter rq response_writer0)" "cw_Buf (NewCustomWriter rq response_writer0) = []"
  "attached (NewCustomWriter rq response_writer0)"
  by (rule pristine_NewCustomWriter) (simp_all add: NewCustomWriter_def response_writer0_def attached_def cw_detached_def)

theorem tk_deadline_gives_200_witness:
  "rw_status (cw_Rw (fst (snd (tk_upstream_stage (sample_env sample_reply) (tk_sample_handler tk_storers) tk_sample_flow
     (Some DeadlineExceeded) (NewCustomWriter sample_request response_writer0) (tk_sample_sys tk_sample))))) = Some 200"
  using tk_deadline_gives_200[OF tk_sample_writer_facts(1)] by (metis prod.collapse)

theorem tk_stored_response_served_witness:
  "\<exists>cw' s'. tk_cache_stage (sample_env sample_reply) (tk_sample_handler tk_storers) tk_sample_flow
      (NewCustomWriter sample_request response_writer0)
      (snd (snd (tk_Store (sample_env sample_reply) (tk_sample_handler tk_storers) 0 sample_request
        (Some request_directives0) ''k'' sample_writer (tk_sample_sys tk_sample)))) = Ret (Inr None) cw' s'
    \<and> answers sample_response cw'"
proof -
  obtain r hdr where r: "stored_entry (sample_env sample_reply) (tk_sample_handler tk_storers) 0 sample_request
      (Some request_directives0) ''k'' sample_writer = Some (r, hdr)"
    and f: "so_baseKey r = ''k''" "so_variedKey r = ''k''" "so_variedHeaders r = []" "so_etag r = []" "so_duration r = 10 * Second"
    by (rule tk_sample_stored_entry)
  have st: "sh_Storers (tk_sample_handler tk_storers) = [traefik_storer no_regexp tk_stored_codec]"
    by (simp add: tk_sample_handler_sel tk_storers_def)
  have fields: "0 < so_duration r" "tk_wf (sy_store (tk_sample_sys tk_sample))" "user_key (so_variedKey r)"
    "tk_mapping tk_stored_codec 0 (so_baseKey r) (sy_store (tk_sample_sys tk_sample)) = Some []"
    "tp_stale (sy_store (tk_sample_sys tk_sample)) = 5" "3 < 0 + so_duration r"
    by (simp_all add: f tk_sample_sys_def tk_sample_facts Second_def user_key_def MappingKeyPrefix_def)
  have entry: "new_entry 0 (so_duration r) (tp_stale (sy_store (tk_sample_sys tk_sample))) (so_variedHeaders r) (so_etag r)
      (so_variedKey r) = tk_stored_index"
    by (simp add: f fields tk_stored_index_def)
  have sv: "survives tk_stored_codec [(so_variedKey r, tk_stored_index)]" by (simp add: survives_def tk_stored_codec_def f)
  have fits: "tk_fits sample_request (ParseRequest sample_request) tk_stored_index" by code_simp
  have read: "cd_Read tk_stored_codec (DumpResponse (cw_statusCode sample_writer) hdr (cw_Buf sample_writer)) sample_request
      = Some sample_response" by (simp add: tk_stored_codec_def DumpResponse_def)
  have need: "\<not> rv_NeedRevalidation (ParseRequest sample_request)" by code_simp
  have "\<exists>cw' s'. tk_cache_stage (sample_env sample_reply) (tk_sample_handler tk_storers) tk_sample_flow
      (NewCustomWriter sample_request response_writer0)
      (snd (snd (tk_Store (sample_env sample_reply) (tk_sample_handler tk_storers) 0 sample_request
        (Some request_directives0) ''k'' sample_writer (tk_sample_sys tk_sample)))) = Ret (Inr None) cw' s'
    \<and> answers sample_response cw' \<and> next_calls s' = next_calls (snd (snd (tk_Store (sample_env sample_reply)
        (tk_sample_handler tk_storers) 0 sample_request (Some request_directives0) ''k'' sample_writer (tk_sample_sys tk_sample))))"
    by (rule tk_stored_response_served[OF st st tk_sample_request_plain r fields(1) _ fields(2,3,4)])
      (simp_all only: entry tk_sample_flow_sel sv fits read need fields f tk_sample_writer_facts sample_hit_directives
          simp_thms,
        simp_all only: sv[unfolded tk_stored_index_def f] fits[unfolded tk_stored_index_def],
        simp_all add: Second_def request_directives0_def response_directives0_def)
  then show ?thesis by blast
qed

text \<open>An upstream answer with two cookies.\<close>

definition cookie_reply :: upstream_reply where
  "cookie_reply = sample_reply\<lparr>up_calls := [AddHeader ''Set-Cookie'' ''a=1'', AddHeader ''Set-Cookie'' ''b=2'',
     CallWriteHeader 201, CallWrite ''hi'']\<rparr>"

lemma cookie_calls:
  "up_calls cookie_reply = [AddHeader ''Set-Cookie'' ''a=1'', AddHeader ''Set-Cookie'' ''b=2'', CallWriteHeader 201, CallWrite ''hi'']"
  "up_end cookie_reply = NextOk" "\<not> up_done cookie_reply"
  by (simp_all add: cookie_reply_def sample_reply_def)

lemma cookie_status:
  "attached cw \<Longrightarrow> cw_statusCode (cw_calls (up_calls cookie_reply) cw) = 201"
  by (simp add: cookie_calls cw_update_Header_def cw_Write_def cw_WriteHeader_def attached_def cw_detached_def)

lemma tk_created_Store:
  "cw_statusCode cw = 201 \<Longrightarrow> tk_Store e (tk_sample_handler sts) now rq co key cw s
     = (Inr None, cache_status_miss rq ''UNCACHEABLE-STATUS-CODE'' cw, s)"
  by (simp add: tk_Store_def store_admission_def cacheable_status_def isCacheableCode_def is_upstream_error_def
      hasAllowedAdditionalStatusCodesToCache_def tk_sample_handler_sel base_configuration0_def default_cache0_def)

lemma tk_created_landed:
  "cw_statusCode cw = 201 \<Longrightarrow> \<exists>v cw' s'. tk_upstream_landed e (tk_sample_handler sts) now rq co key cw s
     = (Landed (Some v) None, cw', s') \<and> sf_requestHeaders v = req_Header rq"
  by (auto simp: tk_upstream_landed_def Let_def tk_created_Store miss_status is_upstream_error_def split: prod.split)

lemma tk_created_upstream:
  assumes "attached cw"
  shows "\<exists>cw' s'. tk_upstream_stage (sample_env cookie_reply) (tk_sample_handler sts) tk_sample_flow None cw s = (Inr None, cw', s')"
proof -
  obtain cw1 s1 where n: "tk_call_next (sample_env cookie_reply) sample_request cw s = (cookie_reply, cw1, s1)"
    by (auto simp: tk_call_next_def call_next_def)
  have "cw_statusCode cw1 = 201" using tk_call_next_writer(2)[OF n cookie_calls(3) assms] cookie_status[OF assms] by simp
  from tk_created_landed[OF this] obtain v cw2 s2 where L: "tk_upstream_landed (sample_env cookie_reply) (tk_sample_handler sts)
      (up_time cookie_reply) sample_request (Some request_directives0) ''k'' cw1
      (tk_invalidate_groups (tk_sample_handler sts) (up_time cookie_reply) (req_Method sample_request) (cw_Header cw1) s1)
      = (Landed (Some v) None, cw2, s2)" "\<not> vary_differs sample_request v"
    using not_vary_differs_own by metis
  show ?thesis
    using n L
    by (cases "alone (tk_sample_handler sts) False")
      (simp_all add: tk_upstream_stage_def tk_Upstream_def tk_upstream_alone_def tk_upstream_round_def
        tk_upstream_leader_def tk_upstream_settle_def Let_def cookie_calls tk_sample_flow_sel)
qed

theorem tk_proxied_headers_single_witness:
  "\<exists>cw' s' code hdr. tk_upstream_stage (sample_env cookie_reply) (tk_sample_handler tk_storers) tk_sample_flow None
      (NewCustomWriter sample_request response_writer0) (tk_sample_sys tk_sample) = (Inr None, cw', s')
    \<and> rw_Sent (cw_Rw cw') = Some (code, hdr) \<and> length (header_values hdr ''Set-Cookie'') \<le> 1"
proof -
  note att = tk_sample_writer_facts(3)[of sample_request]
  obtain cw' s' where u: "tk_upstream_stage (sample_env cookie_reply) (tk_sample_handler tk_storers) tk_sample_flow None
      (NewCustomWriter sample_request response_writer0) (tk_sample_sys tk_sample) = (Inr None, cw', s')"
    using tk_created_upstream[OF att] by blast
  have "\<exists>code hdr. rw_Sent (cw_Rw cw') = Some (code, hdr) \<and> (\<forall>k. length (header_values hdr k) \<le> 1)"
    by (rule tk_proxied_headers_single[OF att tk_sample_flow_sel(6) _ cookie_calls(2,3) _ u])
      (simp_all add: cookie_status[OF att] is_upstream_error_def)
  then show ?thesis using u by blast
qed

end
