(* ===== verification/PluginConfig.thy ===== *)
theory PluginConfig
  imports ConfigParser Handler
begin

text \<open>
  How the plugins for the web frameworks come to a handler: their default configurations, the
  registration of the configured storages (plugins/souin/storages/storages.go), the constructors of
  plugins/chi, echo, gin, goa, go-zero, goyave, dotweb, webgo, fiber, hertz, beego, roadrunner and
  kratos, and what those that read the configuration of their host do first.  The loggers are left
  out.
\<close>

section \<open>Default configurations\<close>

definition chi_DefaultConfiguration :: base_configuration where
  "chi_DefaultConfiguration = base_configuration0\<lparr>bc_DefaultCache := default_cache0\<lparr>dc_TTL := 10 * Second, dc_Stale := 10 * Second\<rparr>,
     bc_LogLevel := ''info''\<rparr>"

definition chi_DevDefaultConfiguration :: base_configuration where
  "chi_DevDefaultConfiguration = base_configuration0\<lparr>
     bc_API := api_config0\<lparr>api_BasePath := ''/souin-api'', api_Prometheus := api_endpoint0\<lparr>ep_Enable := True\<rparr>,
       api_Souin := api_endpoint0\<lparr>ep_Enable := True\<rparr>\<rparr>,
     bc_DefaultCache := default_cache0\<lparr>dc_RegexExclude := ''/excluded'', dc_TTL := 5 * Second, dc_Stale := 10 * Second\<rparr>,
     bc_LogLevel := ''debug''\<rparr>"

definition echo_DefaultConfiguration :: base_configuration where
  "echo_DefaultConfiguration = base_configuration0\<lparr>bc_DefaultCache := default_cache0\<lparr>dc_TTL := 10 * Second\<rparr>,
     bc_LogLevel := ''info''\<rparr>"

definition echo_DevDefaultConfiguration :: base_configuration where
  "echo_DevDefaultConfiguration = base_configuration0\<lparr>
     bc_API := api_config0\<lparr>api_BasePath := ''/souin-api'', api_Prometheus := api_endpoint0\<lparr>ep_Enable := True\<rparr>,
       api_Souin := api_endpoint0\<lparr>ep_Enable := True\<rparr>\<rparr>,
     bc_DefaultCache := default_cache0\<lparr>dc_AllowedHTTPVerbs := [''GET''], dc_RegexExclude := ''/excluded'', dc_TTL := 5 * Second, dc_Stale := 5 * Second\<rparr>,
     bc_LogLevel := ''debug''\<rparr>"

definition gin_DefaultConfiguration :: base_configuration where
  "gin_DefaultConfiguration = base_configuration0\<lparr>bc_DefaultCache := default_cache0\<lparr>dc_TTL := 10 * Second\<rparr>,
     bc_LogLevel := ''info''\<rparr>"

definition gin_DevDefaultConfiguration :: base_configuration where
  "gin_DevDefaultConfiguration = base_configuration0\<lparr>
     bc_API := api_config0\<lparr>api_BasePath := ''/souin-api'', api_Prometheus := api_endpoint0\<lparr>ep_Enable := True\<rparr>,
       api_Souin := api_endpoint0\<lparr>ep_Enable := True\<rparr>\<rparr>,
     bc_DefaultCache := default_cache0\<lparr>dc_RegexExclude := ''/excluded'', dc_TTL := 5 * Second\<rparr>,
     bc_LogLevel := ''debug''\<rparr>"

definition goa_DefaultConfiguration :: base_configuration where
  "goa_DefaultConfiguration = base_configuration0\<lparr>bc_DefaultCache := default_cache0\<lparr>dc_TTL := 10 * Second, dc_Stale := 10 * Second\<rparr>,
     bc_LogLevel := ''info''\<rparr>"

definition goa_DevDefaultConfiguration :: base_configuration where
  "goa_DevDefaultConfiguration = base_configuration0\<lparr>
     bc_API := api_config0\<lparr>api_BasePath := ''/souin-api'', api_Prometheus := api_endpoint0\<lparr>ep_Enable := True\<rparr>,
       api_Souin := api_endpoint0\<lparr>ep_Enable := True\<rparr>\<rparr>,
     bc_DefaultCache := default_cache0\<lparr>dc_RegexExclude := ''/excluded'', dc_TTL := 5 * Second, dc_Stale := 10 * Second\<rparr>,
     bc_LogLevel := ''debug''\<rparr>"

definition gozero_DefaultConfiguration :: base_configuration where
  "gozero_DefaultConfiguration = base_configuration0\<lparr>bc_DefaultCache := default_cache0\<lparr>dc_TTL := 10 * Second\<rparr>,
     bc_LogLevel := ''info''\<rparr>"

definition gozero_DevDefaultConfiguration :: base_configuration where
  "gozero_DevDefaultConfiguration = base_configuration0\<lparr>
     bc_API := api_config0\<lparr>api_BasePath := ''/souin-api'', api_Prometheus := api_endpoint0\<lparr>ep_Enable := True\<rparr>,
       api_Souin := api_endpoint0\<lparr>ep_Enable := True\<rparr>\<rparr>,
     bc_DefaultCache := default_cache0\<lparr>dc_RegexExclude := ''/excluded'', dc_TTL := 5 * Second\<rparr>,
     bc_LogLevel := ''debug''\<rparr>"

definition goyave_DefaultConfiguration :: base_configuration where
  "goyave_DefaultConfiguration = base_configuration0\<lparr>bc_DefaultCache := default_cache0\<lparr>dc_TTL := 10 * Second\<rparr>,
     bc_LogLevel := ''info''\<rparr>"

definition goyave_DevDefaultConfiguration :: base_configuration where
  "goyave_DevDefaultConfiguration = base_configuration0\<lparr>
     bc_API := api_config0\<lparr>api_BasePath := ''/souin-api'', api_Prometheus := api_endpoint0\<lparr>ep_Enable := True\<rparr>,
       api_Souin := api_endpoint0\<lparr>ep_Enable := True\<rparr>\<rparr>,
     bc_DefaultCache := default_cache0\<lparr>dc_RegexExclude := ''/excluded'', dc_TTL := 5 * Second\<rparr>,
     bc_LogLevel := ''info''\<rparr>"

definition dotweb_DefaultConfiguration :: base_configuration where
  "dotweb_DefaultConfiguration = base_configuration0\<lparr>bc_DefaultCache := default_cache0\<lparr>dc_TTL := 10 * Second\<rparr>,
     bc_LogLevel := ''info''\<rparr>"

definition dotweb_DevDefaultConfiguration :: base_configuration where
  "dotweb_DevDefaultConfiguration = base_configuration0\<lparr>
     bc_API := api_config0\<lparr>api_BasePath := ''/souin-api'', api_Prometheus := api_endpoint0\<lparr>ep_Enable := True\<rparr>,
       api_Souin := api_endpoint0\<lparr>ep_Enable := True\<rparr>\<rparr>,
     bc_DefaultCache := default_cache0\<lparr>dc_RegexExclude := ''/excluded'', dc_TTL := 5 * Second\<rparr>,
     bc_LogLevel := ''debug''\<rparr>"

definition webgo_DefaultConfiguration :: base_configuration where
  "webgo_DefaultConfiguration = base_configuration0\<lparr>bc_DefaultCache := default_cache0\<lparr>dc_TTL := 10 * Second\<rparr>,
     bc_LogLevel := ''info''\<rparr>"

definition webgo_DevDefaultConfiguration :: base_configuration where
  "webgo_DevDefaultConfiguration = base_configuration0\<lparr>
     bc_API := api_config0\<lparr>api_BasePath := ''/souin-api'', api_Prometheus := api_endpoint0\<lparr>ep_Enable := True\<rparr>,
       api_Souin := api_endpoint0\<lparr>ep_Enable := True\<rparr>\<rparr>,
     bc_DefaultCache := default_cache0\<lparr>dc_RegexExclude := ''/excluded'', dc_TTL := 5 * Second\<rparr>,
     bc_LogLevel := ''debug''\<rparr>"

definition fiber_DefaultConfiguration :: base_configuration where
  "fiber_DefaultConfiguration = base_configuration0\<lparr>bc_DefaultCache := default_cache0\<lparr>dc_TTL := 10 * Second\<rparr>,
     bc_LogLevel := ''info''\<rparr>"

definition fiber_DevDefaultConfiguration :: base_configuration where
  "fiber_DevDefaultConfiguration = base_configuration0\<lparr>
     bc_API := api_config0\<lparr>api_BasePath := ''/souin-api'', api_Prometheus := api_endpoint0\<lparr>ep_Enable := True\<rparr>,
       api_Souin := api_endpoint0\<lparr>ep_Enable := True\<rparr>\<rparr>,
     bc_DefaultCache := default_cache0\<lparr>dc_RegexExclude := ''/excluded'', dc_TTL := 5 * Second\<rparr>,
     bc_LogLevel := ''debug''\<rparr>"

definition hertz_DefaultConfiguration :: base_configuration where
  "hertz_DefaultConfiguration = base_configuration0\<lparr>bc_DefaultCache := default_cache0\<lparr>dc_TTL := 10 * Second\<rparr>,
     bc_LogLevel := ''info''\<rparr>"

definition hertz_DevDefaultConfiguration :: base_configuration where
  "hertz_DevDefaultConfiguration = base_configuration0\<lparr>
     bc_API := api_config0\<lparr>api_BasePath := ''/souin-api'', api_Prometheus := api_endpoint0\<lparr>ep_Enable := True\<rparr>,
       api_Souin := api_endpoint0\<lparr>ep_Enable := True\<rparr>\<rparr>,
     bc_DefaultCache := default_cache0\<lparr>dc_RegexExclude := ''/excluded'', dc_TTL := 5 * Second\<rparr>,
     bc_LogLevel := ''debug''\<rparr>"

definition beego_DefaultConfiguration :: base_configuration where
  "beego_DefaultConfiguration = base_configuration0\<lparr>bc_DefaultCache := default_cache0\<lparr>dc_TTL := 10 * Second\<rparr>,
     bc_LogLevel := ''info''\<rparr>"

definition beego_DevDefaultConfiguration :: base_configuration where
  "beego_DevDefaultConfiguration = base_configuration0\<lparr>
     bc_API := api_config0\<lparr>api_BasePath := ''/souin-api'', api_Prometheus := api_endpoint0\<lparr>ep_Enable := True\<rparr>,
       api_Souin := api_endpoint0\<lparr>ep_Enable := True\<rparr>\<rparr>,
     bc_DefaultCache := default_cache0\<lparr>dc_RegexExclude := ''/excluded'', dc_TTL := 5 * Second\<rparr>,
     bc_LogLevel := ''debug''\<rparr>"

section \<open>Storages\<close>

text \<open>A library's constructor of a storer; \<open>None\<close> is an error.\<close>

type_synonym 'w factory = "cache_provider \<Rightarrow> duration \<Rightarrow> 'w storer option"

type_synonym 'w registry = "(string, 'w storer) amap"

record 'w storage_factories =
  sf_badger :: "'w factory"
  sf_etcd :: "'w factory"
  sf_nats :: "'w factory"
  sf_nuts :: "'w factory"
  sf_olric :: "'w factory"
  sf_otter :: "'w factory"
  sf_redis :: "'w factory"
  sf_simplefs :: "'w factory"

definition storages_isProviderEmpty :: "cache_provider \<Rightarrow> bool" where
  "storages_isProviderEmpty p \<longleftrightarrow> cp_Configuration p = VNil \<and> cp_Path p = [] \<and> cp_URL p = []"

definition toCoreCacheProvider :: "cache_provider \<Rightarrow> cache_provider" where
  "toCoreCacheProvider p = cache_provider0\<lparr>cp_Configuration := cp_Configuration p, cp_Path := cp_Path p, cp_URL := cp_URL p\<rparr>"

text \<open>\<open>register\<close> is \<open>core.RegisterStorage\<close> on the registry of the process.\<close>

definition tryToRegisterStorage ::
  "('w storer \<Rightarrow> 'w registry \<Rightarrow> 'w registry) \<Rightarrow> cache_provider \<Rightarrow> 'w factory \<Rightarrow> duration \<Rightarrow> 'w registry \<Rightarrow> 'w registry" where
  "tryToRegisterStorage register p f stale registry =
     (if storages_isProviderEmpty p then registry
      else case f (toCoreCacheProvider p) stale of None \<Rightarrow> registry | Some s \<Rightarrow> register s registry)"

definition InitFromConfiguration ::
  "('w storer \<Rightarrow> 'w registry \<Rightarrow> 'w registry) \<Rightarrow> 'w storage_factories \<Rightarrow> base_configuration \<Rightarrow> 'w registry \<Rightarrow> 'w registry" where
  "InitFromConfiguration register fs c registry =
     (let dc = bc_DefaultCache c;
          stale = dc_Stale dc
      in fold (\<lambda>(p, f). tryToRegisterStorage register p f stale)
           [(dc_Badger dc, sf_badger fs), (dc_Etcd dc, sf_etcd fs), (dc_Nats dc, sf_nats fs), (dc_Nuts dc, sf_nuts fs),
            (dc_Olric dc, sf_olric fs), (dc_Otter dc, sf_otter fs), (dc_Redis dc, sf_redis fs),
            (dc_SimpleFS dc, sf_simplefs fs)] registry)"

section \<open>Constructors\<close>

text \<open>What a plugin finds in its process.\<close>

record 'w plugin_env =
  pe_re :: regexp_engine
  pe_api :: api_env
  pe_memory :: "'w storer"
  pe_register :: "'w storer \<Rightarrow> 'w registry \<Rightarrow> 'w registry"
  pe_factories :: "'w storage_factories"
  pe_registry :: "'w registry"

definition plugin_NewHTTPCache :: "'w plugin_env \<Rightarrow> base_configuration \<Rightarrow> 'w handler go" where
  "plugin_NewHTTPCache pe c =
     NewHTTPCacheHandler (pe_re pe) (pe_api pe) (pe_memory pe)
       (InitFromConfiguration (pe_register pe) (pe_factories pe) c (pe_registry pe)) c"

text \<open>The constructors of the plugins differ in their names only.\<close>

definition chi_NewHTTPCache :: "'w plugin_env \<Rightarrow> base_configuration \<Rightarrow> 'w handler go" where
  "chi_NewHTTPCache pe c = plugin_NewHTTPCache pe c"

definition echo_NewMiddleware :: "'w plugin_env \<Rightarrow> base_configuration \<Rightarrow> 'w handler go" where
  "echo_NewMiddleware pe c = plugin_NewHTTPCache pe c"

definition gin_New :: "'w plugin_env \<Rightarrow> base_configuration \<Rightarrow> 'w handler go" where
  "gin_New pe c = plugin_NewHTTPCache pe c"

definition goa_NewHTTPCache :: "'w plugin_env \<Rightarrow> base_configuration \<Rightarrow> 'w handler go" where
  "goa_NewHTTPCache pe c = plugin_NewHTTPCache pe c"

definition gozero_NewHTTPCache :: "'w plugin_env \<Rightarrow> base_configuration \<Rightarrow> 'w handler go" where
  "gozero_NewHTTPCache pe c = plugin_NewHTTPCache pe c"

definition goyave_NewHTTPCache :: "'w plugin_env \<Rightarrow> base_configuration \<Rightarrow> 'w handler go" where
  "goyave_NewHTTPCache pe c = plugin_NewHTTPCache pe c"

definition dotweb_NewHTTPCache :: "'w plugin_env \<Rightarrow> base_configuration \<Rightarrow> 'w handler go" where
  "dotweb_NewHTTPCache pe c = plugin_NewHTTPCache pe c"

definition webgo_NewHTTPCache :: "'w plugin_env \<Rightarrow> base_configuration \<Rightarrow> 'w handler go" where
  "webgo_NewHTTPCache pe c = plugin_NewHTTPCache pe c"

definition fiber_NewHTTPCache :: "'w plugin_env \<Rightarrow> base_configuration \<Rightarrow> 'w handler go" where
  "fiber_NewHTTPCache pe c = plugin_NewHTTPCache pe c"

definition hertz_NewHTTPCache :: "'w plugin_env \<Rightarrow> base_configuration \<Rightarrow> 'w handler go" where
  "hertz_NewHTTPCache pe c = plugin_NewHTTPCache pe c"

definition kratos_NewHTTPCacheFilter :: "'w plugin_env \<Rightarrow> base_configuration \<Rightarrow> 'w handler go" where
  "kratos_NewHTTPCacheFilter pe c = plugin_NewHTTPCache pe c"

definition beego_NewHTTPCache :: "'w plugin_env \<Rightarrow> base_configuration \<Rightarrow> 'w handler go" where
  "beego_NewHTTPCache pe c = plugin_NewHTTPCache pe c"

section \<open>Configurations of the hosts\<close>

text \<open>
  Parsed into a configuration whose default cache is a nil pointer at first; without a section
  \<open>default_cache\<close> it stays nil and the first getter panics.
\<close>

definition host_configuration :: "regexp_engine \<Rightarrow> (string \<times> any) list \<Rightarrow> base_configuration go" where
  "host_configuration re m =
     go_bind (ParseConfiguration re m base_configuration0)
       (\<lambda>c. if ''default_cache'' \<in> set (map fst m) then Inr c else Inl NilDeref)"

text \<open>Beego: the section of the application's configuration, or the default when there is none or it cannot be read.\<close>

definition beego_NewHTTPCacheFilter :: "'w plugin_env \<Rightarrow> any option \<Rightarrow> 'w handler go" where
  "beego_NewHTTPCacheFilter pe section =
     go_bind (case section of
         Some v \<Rightarrow> if v = VNil then Inr beego_DefaultConfiguration
                   else go_bind (need_map v) (host_configuration (pe_re pe))
       | None \<Rightarrow> Inr beego_DefaultConfiguration)
       (beego_NewHTTPCache pe)"

text \<open>RoadRunner: \<open>None\<close> is the error that disables the plugin when the section is missing.\<close>

definition roadrunner_parseConfiguration :: "regexp_engine \<Rightarrow> any \<Rightarrow> base_configuration go" where
  "roadrunner_parseConfiguration re v = go_bind (need_map v) (host_configuration re)"

definition roadrunner_Init :: "'w plugin_env \<Rightarrow> any option \<Rightarrow> 'w handler option go" where
  "roadrunner_Init pe section =
     (case section of
        None \<Rightarrow> Inr None
      | Some v \<Rightarrow> go_bind (roadrunner_parseConfiguration (pe_re pe) v)
          (\<lambda>c. go_bind (plugin_NewHTTPCache pe c) (\<lambda>h. Inr (Some h))))"

text \<open>
  Skipper: the first argument of the filter is the configuration in JSON, which \<open>unmarshal\<close> reads;
  a configuration without default cache panics.
\<close>

definition skipper_CreateFilter ::
  "'w plugin_env \<Rightarrow> (string \<Rightarrow> (base_configuration \<times> bool) option) \<Rightarrow> any list \<Rightarrow> 'w handler option go" where
  "skipper_CreateFilter pe unmarshal config =
     (case config of
        VStr s # _ \<Rightarrow>
          if s = [] then Inr None
          else (case unmarshal s of
                  None \<Rightarrow> Inr None
                | Some (c, has_default_cache) \<Rightarrow>
                    if \<not> has_default_cache then Inl NilDeref
                    else go_bind (plugin_NewHTTPCache pe c) (\<lambda>h. Inr (Some h)))
      | _ \<Rightarrow> Inr None)"

end
