(* ===== verification/Plugins.thy ===== *)
theory Plugins
  imports PluginConfig Serve
begin

text \<open>
  The handlers of the plugins for the web frameworks: how each hands a request to \<open>ServeHTTP\<close>, what
  its framework's handler becomes as the \<open>next\<close> of the cache, and the response writers the plugins
  put between the two.  The frameworks themselves are what their handlers do to the writer they are
  given (\<open>me_next\<close>).
\<close>

section \<open>Handlers of net/http\<close>

text \<open>An \<open>http.Handler\<close> returns no error, and nobody looks at the error of \<open>ServeHTTP\<close>.\<close>

definition nil_error :: "upstream_reply \<Rightarrow> upstream_reply" where
  "nil_error reply = (case up_end reply of NextErr _ \<Rightarrow> reply\<lparr>up_end := NextOk\<rparr> | _ \<Rightarrow> reply)"

definition plain_next :: "mw_env \<Rightarrow> mw_env" where
  "plain_next e = e\<lparr>me_next := (\<lambda>l rq. nil_error (me_next e l rq))\<rparr>"

type_synonym 'w answered = "unit go \<times> response_writer \<times> 'w sys"

definition drop_error :: "'w served \<Rightarrow> 'w answered" where
  "drop_error x = (case x of (r, rw, s) \<Rightarrow> (go_bind r (\<lambda>_. Inr ()), rw, s))"

type_synonym ('w, 'r) plugin_handler =
  "mw_env \<Rightarrow> 'w handler \<Rightarrow> gtime \<Rightarrow> gtime \<Rightarrow> flight list \<Rightarrow> up_error option \<Rightarrow> response_writer \<Rightarrow> request \<Rightarrow> 'w sys \<Rightarrow> 'r"

definition chi_Handle :: "('w, 'w answered) plugin_handler" where
  "chi_Handle e h now later roles race rw rq s =
     drop_error (ServeHTTP (plain_next e) h now later roles race rw rq s)"

definition goa_handle :: "('w, 'w answered) plugin_handler" where
  "goa_handle e h now later roles race rw rq s =
     drop_error (ServeHTTP (plain_next e) h now later roles race rw rq s)"

definition gozero_Handle :: "('w, 'w answered) plugin_handler" where
  "gozero_Handle e h now later roles race rw rq s =
     drop_error (ServeHTTP (plain_next e) h now later roles race rw rq s)"

definition webgo_Middleware :: "('w, 'w answered) plugin_handler" where
  "webgo_Middleware e h now later roles race rw rq s =
     drop_error (ServeHTTP (plain_next e) h now later roles race rw rq s)"

definition roadrunner_Middleware :: "('w, 'w answered) plugin_handler" where
  "roadrunner_Middleware e h now later roles race rw rq s =
     drop_error (ServeHTTP (plain_next e) h now later roles race rw rq s)"

definition kratos_handle :: "('w, 'w answered) plugin_handler" where
  "kratos_handle e h now later roles race rw rq s =
     drop_error (ServeHTTP (plain_next e) h now later roles race rw rq s)"

section \<open>Gin\<close>

text \<open>
  Gin's handlers write through a decorator: headers, status and bodies go to the buffering writer,
  while \<open>WriteString\<close>, and every question about the response so far, goes past it to the writer of
  the client.
\<close>

datatype gin_call = GinCall writer_call | GinWriteString string

fun gin_write :: "gin_call \<Rightarrow> custom_writer \<Rightarrow> custom_writer" where
  "gin_write (GinCall c) cw = cw_call c cw"
| "gin_write (GinWriteString b) cw = cw\<lparr>cw_Rw := rw_Write b (cw_Rw cw)\<rparr>"

definition gin_writes :: "gin_call list \<Rightarrow> custom_writer \<Rightarrow> custom_writer" where
  "gin_writes cs cw = fold gin_write cs cw"

definition gin_Status :: "custom_writer \<Rightarrow> int" where
  "gin_Status cw = (case rw_status (cw_Rw cw) of None \<Rightarrow> 200 | Some code \<Rightarrow> code)"

definition gin_Written :: "custom_writer \<Rightarrow> bool" where
  "gin_Written cw \<longleftrightarrow> rw_Sent (cw_Rw cw) \<noteq> None"

text \<open>For handlers that do not use \<open>WriteString\<close>.\<close>

definition gin_Process :: "('w, 'w answered) plugin_handler" where
  "gin_Process e h now later roles race rw rq s =
     drop_error (ServeHTTP (plain_next e) h now later roles race rw rq s)"

section \<open>Echo and Dotweb\<close>

text \<open>
  Echo's handlers return errors, which the cache passes on.  The response keeps the writer of the
  cache (\<open>custom\<close>: the handler was called through it), so that Echo's error handler writes there.
\<close>

definition echo_Process :: "('w, 'w served) plugin_handler" where
  "echo_Process e h now later roles race rw rq s = ServeHTTP e h now later roles race rw rq s"

definition echo_answer_error :: "bool \<Rightarrow> writer_call list \<Rightarrow> custom_writer \<Rightarrow> custom_writer" where
  "echo_answer_error custom calls cw =
     (if custom then cw_calls calls cw else cw\<lparr>cw_Rw := rw_calls calls (cw_Rw cw)\<rparr>)"

text \<open>Dotweb drops the error of the next handler and returns that of the cache.\<close>

definition dotweb_Handle :: "('w, 'w served) plugin_handler" where
  "dotweb_Handle e h now later roles race rw rq s = ServeHTTP (plain_next e) h now later roles race rw rq s"

section \<open>Skipper\<close>

text \<open>A filter that runs before the route's backend: \<open>next\<close> does nothing.\<close>

definition skipper_next :: "mw_env \<Rightarrow> mw_env" where
  "skipper_next e = e\<lparr>me_next := (\<lambda>l rq. (me_next e l rq)\<lparr>up_calls := [], up_end := NextOk\<rparr>)\<rparr>"

definition skipper_Request :: "('w, 'w answered) plugin_handler" where
  "skipper_Request e h now later roles race rw rq s =
     drop_error (ServeHTTP (skipper_next e) h now later roles race rw rq s)"

section \<open>Beego\<close>

text \<open>
  Beego's handlers write to a writer of the plugin's own around that of the cache.  It passes bodies
  on; a status code it only remembers, for a \<open>Send\<close> that nobody calls, and hands to Beego's output.
\<close>

record beego_writer =
  bw_Buf :: string
  bw_Rw :: custom_writer
  bw_Headers :: header
  bw_headersSent :: bool
  bw_statusCode :: int
  bw_OutputStatus :: int

definition beego_writer_new :: "custom_writer \<Rightarrow> beego_writer" where
  "beego_writer_new cw = \<lparr>bw_Buf = [], bw_Rw = cw, bw_Headers = [], bw_headersSent = False, bw_statusCode = 0,
     bw_OutputStatus = 0\<rparr>"

definition beego_Write :: "string \<Rightarrow> beego_writer \<Rightarrow> beego_writer" where
  "beego_Write b w = w\<lparr>bw_OutputStatus := bw_statusCode w, bw_Buf := bw_Buf w @ b, bw_Rw := cw_Write b (bw_Rw w)\<rparr>"

definition beego_WriteHeader :: "int \<Rightarrow> beego_writer \<Rightarrow> beego_writer" where
  "beego_WriteHeader code w =
     (if bw_headersSent w then w else w\<lparr>bw_Headers := cw_Header (bw_Rw w), bw_statusCode := code\<rparr>)"

definition beego_update_Header :: "(header \<Rightarrow> header) \<Rightarrow> beego_writer \<Rightarrow> beego_writer" where
  "beego_update_Header f w = (if bw_headersSent w then w else w\<lparr>bw_Rw := cw_update_Header f (bw_Rw w)\<rparr>)"

fun beego_call :: "writer_call \<Rightarrow> beego_writer \<Rightarrow> beego_writer" where
  "beego_call (CallWriteHeader code) w = beego_WriteHeader code w"
| "beego_call (CallWrite b) w = beego_Write b w"
| "beego_call c w = beego_update_Header (header_call c) w"

definition beego_calls :: "writer_call list \<Rightarrow> beego_writer \<Rightarrow> beego_writer" where
  "beego_calls cs w = fold beego_call cs w"

text \<open>What reaches the writer of the cache.\<close>

definition beego_passed :: "writer_call list \<Rightarrow> writer_call list" where
  "beego_passed cs = filter (\<lambda>c. case c of CallWriteHeader _ \<Rightarrow> False | _ \<Rightarrow> True) cs"

definition beego_next :: "mw_env \<Rightarrow> mw_env" where
  "beego_next e = e\<lparr>me_next := (\<lambda>l rq. let reply = nil_error (me_next e l rq)
     in reply\<lparr>up_calls := beego_passed (up_calls reply)\<rparr>)\<rparr>"

definition beego_chainHandleFilter :: "('w, 'w answered) plugin_handler" where
  "beego_chainHandleFilter e h now later roles race rw rq s =
     drop_error (ServeHTTP (beego_next e) h now later roles race rw rq s)"

section \<open>Goyave\<close>

text \<open>
  Goyave's response gets the buffering writer, whose inner writer becomes a \<open>baseWriter\<close>: its
  \<open>WriteHeader\<close> copies the headers of the buffering writer and drops the code.
\<close>

record goyave_writer =
  gy_Rw :: response_writer
  gy_subHeaders :: header
  gy_headersSent :: bool

definition goyave_newBaseWriter :: "response_writer \<Rightarrow> custom_writer \<Rightarrow> goyave_writer" where
  "goyave_newBaseWriter rw sub = \<lparr>gy_Rw = rw, gy_subHeaders = cw_Headers sub, gy_headersSent = False\<rparr>"

definition goyave_synchronizeHeaders :: "goyave_writer \<Rightarrow> goyave_writer" where
  "goyave_synchronizeHeaders w =
     (if gy_headersSent w then w
      else w\<lparr>gy_Rw := (gy_Rw w)\<lparr>rw_Header :=
               fold (\<lambda>(k, vs) hdr. if vs = [] then hdr else header_set k (Join vs '', '') hdr) (gy_subHeaders w)
                 (rw_Header (gy_Rw w))\<rparr>,
             gy_headersSent := True\<rparr>)"

fun goyave_call :: "writer_call \<Rightarrow> goyave_writer \<Rightarrow> goyave_writer" where
  "goyave_call (CallWriteHeader code) w = goyave_synchronizeHeaders w"
| "goyave_call c w = w\<lparr>gy_Rw := rw_call c (gy_Rw w)\<rparr>"

section \<open>Fiber\<close>

text \<open>
  A fasthttp response, and the writer around it that keeps its headers to itself until the handler
  is done.  \<open>inner\<close> is what the next handlers of Fiber made of the response.
\<close>

record fast_response =
  fa_status :: int
  fa_header :: "(string, string) amap"
  fa_body :: string

definition fast_Reset :: fast_response where
  "fast_Reset = \<lparr>fa_status = 200, fa_header = [], fa_body = []\<rparr>"

record fiber_writer =
  fw_h :: header
  fw_Response :: fast_response

definition fiber_newWriter :: "fast_response \<Rightarrow> fiber_writer" where
  "fiber_newWriter r = \<lparr>fw_h = [], fw_Response = r\<rparr>"

fun fiber_call :: "writer_call \<Rightarrow> fiber_writer \<Rightarrow> fiber_writer" where
  "fiber_call (CallWriteHeader code) w = w\<lparr>fw_Response := (fw_Response w)\<lparr>fa_status := code\<rparr>\<rparr>"
| "fiber_call (CallWrite b) w = w\<lparr>fw_Response := (fw_Response w)\<lparr>fa_body := fa_body (fw_Response w) @ b\<rparr>\<rparr>"
| "fiber_call c w = w\<lparr>fw_h := header_call c (fw_h w)\<rparr>"

text \<open>The error of the handler, or the body it made, with a response that is empty again.\<close>

definition fiber_next :: "string option \<Rightarrow> fast_response \<Rightarrow> writer_call list \<times> upstream_end \<times> fast_response" where
  "fiber_next err inner =
     (case err of
        Some msg \<Rightarrow> ([], NextErr msg, inner)
      | None \<Rightarrow> ([CallWrite (fa_body inner)], NextOk, fast_Reset))"

text \<open>A header without values makes the synchronization panic.\<close>

definition first_value :: "string list \<Rightarrow> string go" where
  "first_value vs = (case vs of [] \<Rightarrow> Inl IndexOutOfRange | v # _ \<Rightarrow> Inr v)"

definition fiber_synchronize :: "fiber_writer \<Rightarrow> fast_response go" where
  "fiber_synchronize w =
     go_foldM (\<lambda>(hk, hv) r. go_bind (first_value hv) (\<lambda>v. Inr (r\<lparr>fa_header := amap_put hk v (fa_header r)\<rparr>)))
       (fw_h w) (fw_Response w)"

section \<open>Hertz\<close>

record hertz_writer =
  hw_statusCode :: int
  hw_baseRw :: fast_response
  hw_headers :: header
  hw_buf :: string

definition hertz_newWriter :: "fast_response \<Rightarrow> hertz_writer" where
  "hertz_newWriter r = \<lparr>hw_statusCode = 200, hw_baseRw = r, hw_headers = [], hw_buf = []\<rparr>"

text \<open>\<open>sentHeaders\<close> is never set, so that every call copies the headers again.\<close>

definition hertz_syncHeaders :: "hertz_writer \<Rightarrow> hertz_writer go" where
  "hertz_syncHeaders w =
     go_bind (go_foldM (\<lambda>(hname, hval) r. go_bind (first_value hval)
                (\<lambda>v. Inr (r\<lparr>fa_header := amap_put hname v (fa_header r)\<rparr>))) (hw_headers w) (hw_baseRw w))
       (\<lambda>r. Inr (w\<lparr>hw_baseRw := r\<rparr>))"

fun hertz_call :: "writer_call \<Rightarrow> hertz_writer \<Rightarrow> hertz_writer go" where
  "hertz_call (CallWriteHeader code) w = go_bind (hertz_syncHeaders w) (\<lambda>w1. Inr (w1\<lparr>hw_statusCode := code\<rparr>))"
| "hertz_call (CallWrite b) w =
     go_bind (hertz_syncHeaders w) (\<lambda>w1. Inr (w1\<lparr>hw_baseRw := (hw_baseRw w1)\<lparr>fa_status := hw_statusCode w1\<rparr>,
       hw_buf := hw_buf w1 @ b\<rparr>))"
| "hertz_call c w = Inr (w\<lparr>hw_headers := header_call c (hw_headers w)\<rparr>)"

text \<open>
  The request handed to the cache: every header by \<open>Set\<close>, so that the last value of a name stays.
  \<open>cookie\<close> is the text that \<open>AddCookie\<close> makes of a cookie, \<open>parse_uri\<close> the path and the query of a URI.
\<close>

record hertz_request =
  hq_FullURI :: string
  hq_Method :: string
  hq_Host :: string
  hq_Body :: string
  hq_Cookies :: "(string \<times> string) list"
  hq_Headers :: "(string \<times> string) list"

definition hertz_AddCookie :: "string \<Rightarrow> header \<Rightarrow> header" where
  "hertz_AddCookie text hdr =
     (let c = header_get hdr ''Cookie'' in header_set ''Cookie'' (if c \<noteq> [] then c @ ''; '' @ text else text) hdr)"

definition hertz_request_of ::
  "(string \<times> string \<Rightarrow> string) \<Rightarrow> (string \<Rightarrow> (string \<times> string) option) \<Rightarrow> request_context \<Rightarrow> hertz_request \<Rightarrow> request go" where
  "hertz_request_of cookie parse_uri ctx q =
     (case parse_uri (hq_FullURI q) of
        None \<Rightarrow> Inl NilDeref
      | Some (path, query) \<Rightarrow>
          Inr \<lparr>req_Method = hq_Method q, req_RequestURI = hq_FullURI q, req_Host = hq_Host q, req_Path = path,
            req_RawQuery = query, req_TLS = False,
            req_Header = fold (\<lambda>(k, v). header_set k v) (hq_Headers q)
              (fold (\<lambda>c. hertz_AddCookie (cookie c)) (hq_Cookies q) []),
            req_Body = Some (hq_Body q), req_ctx = ctx\<rparr>)"

section \<open>The Souin server\<close>

text \<open>
  The reverse proxy of plugins/souin/main.go: \<open>round_trip\<close> is the transport, with the scheme and the
  host it sends the request to; \<open>ended\<close> tells that the client is gone.
\<close>

definition souin_forwarded :: "request \<Rightarrow> request" where
  "souin_forwarded rq =
     rq\<lparr>req_Header := header_set ''X-Forwarded-Host'' (header_get (req_Header rq) ''Host'') (req_Header rq)\<rparr>"

definition souin_next ::
  "string \<Rightarrow> (string \<Rightarrow> string \<Rightarrow> request \<Rightarrow> string + int \<times> header \<times> string) \<Rightarrow> bool \<Rightarrow> request
     \<Rightarrow> writer_call list \<times> upstream_end" where
  "souin_next scheme round_trip ended rq =
     (if ended then ([], NextErr ''The user canceled the request'')
      else case round_trip scheme (req_Host rq) (souin_forwarded rq) of
             Inl err \<Rightarrow> ([], NextErr err)
           | Inr (code, headers, body) \<Rightarrow>
               (map (\<lambda>(k, vs). SetHeader k (Join vs '', '')) headers @ [CallWriteHeader code, CallWrite body], NextOk))"

definition souin_handler ::
  "string \<Rightarrow> (string \<Rightarrow> string \<Rightarrow> request \<Rightarrow> string + int \<times> header \<times> string) \<Rightarrow> (event list \<Rightarrow> bool)
     \<Rightarrow> ('w, 'w answered) plugin_handler" where
  "souin_handler scheme round_trip ended e h now later roles race rw rq s =
     drop_error (ServeHTTP
       (e\<lparr>me_next := (\<lambda>l req. let reply = me_next e l req in
            case souin_next scheme round_trip (ended l) req of
              (calls, end_) \<Rightarrow> reply\<lparr>up_calls := calls, up_end := end_\<rparr>)\<rparr>)
       h now later roles race rw rq s)"

end
