(* ===== verification/TraefikConfig.thy ===== *)
theory TraefikConfig
  imports Plugins TraefikServe
begin

text \<open>
  The Traefik plugin itself (plugins/traefik/main.go): the parser of its untyped configuration, the
  construction of the middleware and its handler.  Every \<open>range\<close> over a map visits the pairs in the
  order of the list.
\<close>

section \<open>Values\<close>

text \<open>\<open>cast.ToBool\<close>: false where the conversion fails.\<close>

definition cast_ToBool :: "any \<Rightarrow> bool" where
  "cast_ToBool v =
     (case v of
        VBool b \<Rightarrow> b
      | VInt n \<Rightarrow> n \<noteq> 0
      | VUint64 n \<Rightarrow> n \<noteq> 0
      | VFloat t \<Rightarrow> t \<noteq> ''0'' \<and> t \<noteq> ''-0''
      | VDuration d \<Rightarrow> d \<noteq> 0
      | VStr s \<Rightarrow> ParseBool s
      | _ \<Rightarrow> False)"

text \<open>The separator of the lists that Traefik hands over as a text, a box-drawing character in UTF-8.\<close>

definition list_sep :: string where
  "list_sep = [CHR 0xE2, CHR 0x95, CHR 0x91]"

definition list_prefix :: string where
  "list_prefix = list_sep @ ''24'' @ list_sep"

definition parseStringSlice :: "any \<Rightarrow> string list go" where
  "parseStringSlice i =
     (case i of
        VStrs ss \<Rightarrow> Inr ss
      | VList l \<Rightarrow> go_mapM need_str l
      | VStr value \<Rightarrow>
          Inr (if prefix list_prefix value then Split (drop (length list_prefix) value) list_sep else Split value '','')
      | _ \<Rightarrow> Inr [])"

definition parseIntSlice :: "any \<Rightarrow> int list go" where
  "parseIntSlice i = (case i of VInts ns \<Rightarrow> Inr ns | VList l \<Rightarrow> go_mapM need_int l | _ \<Rightarrow> Inr [])"

text \<open>A duration text, zero when it is no duration.\<close>

definition duration_text :: "any \<Rightarrow> duration go" where
  "duration_text v = duration_or 0 v"

section \<open>Cache keys\<close>

definition tk_key_field :: "string \<times> any \<Rightarrow> cache_key_rule \<Rightarrow> cache_key_rule go" where
  "tk_key_field kv ck =
     (case kv of (k, v) \<Rightarrow>
        if k = ''disable_body'' then Inr (ck\<lparr>ck_DisableBody := cast_ToBool v\<rparr>)
        else if k = ''disable_host'' then Inr (ck\<lparr>ck_DisableHost := cast_ToBool v\<rparr>)
        else if k = ''disable_method'' then Inr (ck\<lparr>ck_DisableMethod := cast_ToBool v\<rparr>)
        else if k = ''disable_query'' then Inr (ck\<lparr>ck_DisableQuery := cast_ToBool v\<rparr>)
        else if k = ''sort_query'' then Inr (ck\<lparr>ck_SortQuery := cast_ToBool v\<rparr>)
        else if k = ''disable_scheme'' then Inr (ck\<lparr>ck_DisableScheme := cast_ToBool v\<rparr>)
        else if k = ''disable_vary'' then Inr (ck\<lparr>ck_DisableVary := cast_ToBool v\<rparr>)
        else if k = ''hash'' then Inr (ck\<lparr>ck_Hash := True\<rparr>)
        else if k = ''headers'' then go_bind (parseStringSlice v) (\<lambda>hs. Inr (ck\<lparr>ck_Headers := hs\<rparr>))
        else if k = ''hide'' then Inr (ck\<lparr>ck_Hide := cast_ToBool v\<rparr>)
        else if k = ''template'' then go_bind (need_str v) (\<lambda>t. Inr (ck\<lparr>ck_Template := t\<rparr>))
        else Inr ck)"

definition configCacheKey :: "(string \<times> any) list \<Rightarrow> cache_key_rule go" where
  "configCacheKey m = go_foldM tk_key_field m cache_key_rule0"

definition tk_parseCacheKeys :: "regexp_engine \<Rightarrow> (string \<times> any) list \<Rightarrow> cache_keys go" where
  "tk_parseCacheKeys re m =
     go_mapM (\<lambda>(k, v). if \<not> re_ok re k then Inl MustCompile
       else go_bind (need_map v) (\<lambda>x. go_bind (configCacheKey x) (\<lambda>ck. Inr [(k, ck)]))) m"

section \<open>The API\<close>

text \<open>An endpoint is enabled by its presence; only a map that is not empty is looked into.\<close>

definition tk_endpoint :: "any \<Rightarrow> api_endpoint go" where
  "tk_endpoint v =
     (let m = (case v of VMap m \<Rightarrow> m | _ \<Rightarrow> []);
          base = (case map_of m ''basepath'' of None \<Rightarrow> VNil | Some b \<Rightarrow> b)
      in if base = VNil then Inr (api_endpoint0\<lparr>ep_Enable := True\<rparr>)
         else go_bind (need_str base) (\<lambda>s. Inr (api_endpoint0\<lparr>ep_Enable := True, ep_BasePath := s\<rparr>)))"

definition tk_parseAPI :: "(string \<times> any) list \<Rightarrow> api_config go" where
  "tk_parseAPI m =
     (let endpoint = (\<lambda>name. case map_of m name of None \<Rightarrow> Inr api_endpoint0 | Some v \<Rightarrow> tk_endpoint v)
      in go_bind (endpoint ''prometheus'') (\<lambda>p. go_bind (endpoint ''souin'') (\<lambda>s.
           Inr (api_config0\<lparr>api_Prometheus := p, api_Souin := s\<rparr>))))"

section \<open>The default cache\<close>

definition tk_cdn_field :: "string \<times> any \<Rightarrow> cdn_config \<Rightarrow> cdn_config go" where
  "tk_cdn_field kv c =
     (case kv of (k, v) \<Rightarrow>
        if k = ''api_key'' then go_bind (need_str v) (\<lambda>s. Inr (c\<lparr>cdn_APIKey := s\<rparr>))
        else if k = ''dynamic'' then Inr (c\<lparr>cdn_Dynamic := cast_ToBool v\<rparr>)
        else if k = ''email'' then go_bind (need_str v) (\<lambda>s. Inr (c\<lparr>cdn_Email := s\<rparr>))
        else if k = ''hostname'' then go_bind (need_str v) (\<lambda>s. Inr (c\<lparr>cdn_Hostname := s\<rparr>))
        else if k = ''network'' then go_bind (need_str v) (\<lambda>s. Inr (c\<lparr>cdn_Network := s\<rparr>))
        else if k = ''provider'' then go_bind (need_str v) (\<lambda>s. Inr (c\<lparr>cdn_Provider := s\<rparr>))
        else if k = ''service_id'' then go_bind (need_str v) (\<lambda>s. Inr (c\<lparr>cdn_ServiceID := s\<rparr>))
        else if k = ''strategy'' then go_bind (need_str v) (\<lambda>s. Inr (c\<lparr>cdn_Strategy := s\<rparr>))
        else if k = ''zone_id'' then go_bind (need_str v) (\<lambda>s. Inr (c\<lparr>cdn_ZoneID := s\<rparr>))
        else Inr c)"

text \<open>A missing pattern is nil, and no text.\<close>

definition tk_regex :: "(string \<times> any) list \<Rightarrow> default_cache \<Rightarrow> default_cache go" where
  "tk_regex m dc =
     go_bind (need_str (case map_of m ''exclude'' of None \<Rightarrow> VNil | Some x \<Rightarrow> x))
       (\<lambda>exclude. Inr (if exclude \<noteq> [] then dc\<lparr>dc_RegexExclude := exclude\<rparr> else dc))"

definition tk_timeout_field :: "string \<times> any \<Rightarrow> timeout_config \<Rightarrow> timeout_config go" where
  "tk_timeout_field kv t =
     (case kv of (k, v) \<Rightarrow>
        if k = ''backend'' then go_bind (duration_text v) (\<lambda>d. Inr (t\<lparr>to_Backend := d\<rparr>))
        else if k = ''cache'' then go_bind (duration_text v) (\<lambda>d. Inr (t\<lparr>to_Cache := d\<rparr>))
        else Inr t)"

definition tk_cache_field :: "string \<times> any \<Rightarrow> default_cache \<Rightarrow> default_cache go" where
  "tk_cache_field kv dc =
     (case kv of (k, v) \<Rightarrow>
        if k = ''cache_name'' then go_bind (need_str v) (\<lambda>s. Inr (dc\<lparr>dc_CacheName := s\<rparr>))
        else if k = ''cdn'' then
          go_bind (need_map v) (\<lambda>m. go_bind (go_foldM tk_cdn_field m (cdn_config0\<lparr>cdn_Dynamic := True\<rparr>))
            (\<lambda>c. Inr (dc\<lparr>dc_CDN := c\<rparr>)))
        else if k = ''headers'' then go_bind (parseStringSlice v) (\<lambda>x. Inr (dc\<lparr>dc_Headers := x\<rparr>))
        else if k = ''key'' then
          go_bind (need_map v) (\<lambda>m. go_bind (configCacheKey m) (\<lambda>ck. Inr (dc\<lparr>dc_Key := ck\<rparr>)))
        else if k = ''mode'' then go_bind (need_str v) (\<lambda>s. Inr (dc\<lparr>dc_Mode := s\<rparr>))
        else if k = ''regex'' then go_bind (need_map v) (\<lambda>m. tk_regex m dc)
        else if k = ''timeout'' then
          go_bind (need_map v) (\<lambda>m. go_bind (go_foldM tk_timeout_field m \<lparr>to_Backend = 0, to_Cache = 0\<rparr>)
            (\<lambda>t. Inr (dc\<lparr>dc_Timeout := t\<rparr>)))
        else if k = ''ttl'' then go_bind (duration_or (dc_TTL dc) v) (\<lambda>d. Inr (dc\<lparr>dc_TTL := d\<rparr>))
        else if k = ''allowed_http_verbs'' then go_bind (parseStringSlice v) (\<lambda>x. Inr (dc\<lparr>dc_AllowedHTTPVerbs := x\<rparr>))
        else if k = ''allowed_additional_status_codes'' then
          go_bind (parseIntSlice v) (\<lambda>x. Inr (dc\<lparr>dc_AllowedAdditionalStatusCodes := x\<rparr>))
        else if k = ''stale'' then go_bind (duration_or (dc_Stale dc) v) (\<lambda>d. Inr (dc\<lparr>dc_Stale := d\<rparr>))
        else if k = ''storers'' then go_bind (parseStringSlice v) (\<lambda>x. Inr (dc\<lparr>dc_Storers := x\<rparr>))
        else if k = ''default_cache_control'' then go_bind (need_str v) (\<lambda>s. Inr (dc\<lparr>dc_DefaultCacheControl := s\<rparr>))
        else if k = ''max_cachable_body_bytes'' then Inr (dc\<lparr>dc_MaxBodyBytes := uint64_or_zero v\<rparr>)
        else Inr dc)"

definition tk_parseDefaultCache :: "(string \<times> any) list \<Rightarrow> default_cache go" where
  "tk_parseDefaultCache m = go_foldM tk_cache_field m default_cache0"

section \<open>URLs and ykeys\<close>

definition any_index :: "(string \<times> any) list \<Rightarrow> string \<Rightarrow> any" where
  "any_index m k = (case map_of m k of None \<Rightarrow> VNil | Some v \<Rightarrow> v)"

definition tk_parse_url :: "any \<Rightarrow> url_config go" where
  "tk_parse_url urlV =
     go_bind (need_map urlV) (\<lambda>m.
     go_bind (parseStringSlice (any_index m ''headers'')) (\<lambda>hs.
     go_bind (duration_text (any_index m ''ttl'')) (\<lambda>ttl.
     go_bind (case map_of m ''default_cache_control'' of None \<Rightarrow> Inr [] | Some v \<Rightarrow> need_str v) (\<lambda>cc.
       Inr \<lparr>url_TTL = ttl, url_Headers = hs, url_DefaultCacheControl = cc\<rparr>))))"

definition tk_parseURLs :: "(string \<times> any) list \<Rightarrow> (string, url_config) amap go" where
  "tk_parseURLs m = go_foldM (\<lambda>(k, v) u. go_bind (tk_parse_url v) (\<lambda>x. Inr (amap_put k x u))) m []"

text \<open>
  \<open>json.Unmarshal\<close> of \<open>json.Marshal\<close>: fields by name, whatever their case, in the order of their
  names; a value of another type leaves the zero value.
\<close>

definition json_text :: "string \<Rightarrow> any \<Rightarrow> string" where
  "json_text old v = (case v of VStr s \<Rightarrow> s | _ \<Rightarrow> old)"

definition json_surrogate_field :: "string \<times> any \<Rightarrow> surrogate_keys \<Rightarrow> surrogate_keys" where
  "json_surrogate_field kv sk =
     (case kv of (k, v) \<Rightarrow>
        if ToLower k = ''storer'' then sk\<lparr>sk_Storer := json_text (sk_Storer sk) v\<rparr>
        else if ToLower k = ''url'' then sk\<lparr>sk_URL := json_text (sk_URL sk) v\<rparr>
        else if ToLower k = ''headers'' then
          (case v of
             VMap m \<Rightarrow> sk\<lparr>sk_Headers := fold (\<lambda>(hn, hv). amap_put hn (json_text [] hv)) m (sk_Headers sk)\<rparr>
           | VNil \<Rightarrow> sk\<lparr>sk_Headers := []\<rparr>
           | _ \<Rightarrow> sk)
        else sk)"

definition json_surrogate :: "any \<Rightarrow> surrogate_keys" where
  "json_surrogate v =
     (case v of VMap m \<Rightarrow> fold (\<lambda>k. json_surrogate_field (k, any_index m k)) (sort (amap_keys m)) surrogate_keys0
      | _ \<Rightarrow> surrogate_keys0)"

definition json_ykeys :: "any \<Rightarrow> (string, surrogate_keys) amap" where
  "json_ykeys v = (case v of VMap m \<Rightarrow> fold (\<lambda>(k, x). amap_put k (json_surrogate x)) m [] | _ \<Rightarrow> [])"

section \<open>The whole configuration\<close>

definition tk_config_field :: "regexp_engine \<Rightarrow> string \<times> any \<Rightarrow> base_configuration \<Rightarrow> base_configuration go" where
  "tk_config_field re kv c =
     (case kv of (k, v) \<Rightarrow>
        if k = ''api'' then go_bind (need_map v) (\<lambda>m. go_bind (tk_parseAPI m) (\<lambda>x. Inr (c\<lparr>bc_API := x\<rparr>)))
        else if k = ''cache_keys'' then
          go_bind (need_map v) (\<lambda>m. go_bind (tk_parseCacheKeys re m) (\<lambda>x. Inr (c\<lparr>bc_CacheKeys := x\<rparr>)))
        else if k = ''default_cache'' then
          go_bind (need_map v) (\<lambda>m. go_bind (tk_parseDefaultCache m) (\<lambda>x. Inr (c\<lparr>bc_DefaultCache := x\<rparr>)))
        else if k = ''log_level'' then go_bind (need_str v) (\<lambda>s. Inr (c\<lparr>bc_LogLevel := s\<rparr>))
        else if k = ''urls'' then go_bind (need_map v) (\<lambda>m. go_bind (tk_parseURLs m) (\<lambda>x. Inr (c\<lparr>bc_URLs := x\<rparr>)))
        else if k = ''ykeys'' then Inr (c\<lparr>bc_Ykeys := json_ykeys v\<rparr>)
        else if k = ''disable_surrogate_key'' then go_bind (need_bool v) (\<lambda>b. Inr (c\<lparr>bc_SurrogateKeyDisabled := b\<rparr>))
        else Inr c)"

definition tk_parseConfiguration :: "regexp_engine \<Rightarrow> (string \<times> any) list \<Rightarrow> base_configuration go" where
  "tk_parseConfiguration re m = go_foldM (tk_config_field re) m (base_configuration0\<lparr>bc_PluginName := ''traefik''\<rparr>)"

section \<open>The middleware\<close>

text \<open>Without a section \<open>default_cache\<close> the pointer stays nil, and its first getter panics.\<close>

definition tk_New ::
  "regexp_engine \<Rightarrow> codec \<Rightarrow> api_env \<Rightarrow> (string \<times> any) list \<Rightarrow> tk_provider handler go" where
  "tk_New re cd ae config =
     go_bind (tk_parseConfiguration re config)
       (\<lambda>c. if ''default_cache'' \<in> set (map fst config) then tk_NewHTTPCacheHandler re cd ae c else Inl NilDeref)"

definition tk_plugin_ServeHTTP ::
  "mw_env \<Rightarrow> 'w handler \<Rightarrow> gtime \<Rightarrow> gtime \<Rightarrow> flight list \<Rightarrow> up_error option \<Rightarrow> response_writer \<Rightarrow> request \<Rightarrow> 'w sys
     \<Rightarrow> unit go \<times> response_writer \<times> 'w sys" where
  "tk_plugin_ServeHTTP e h now later roles race rw rq s =
     drop_error (tk_ServeHTTP (plain_next e) h now later roles race rw rq s)"

end
