(* ===== verification/TraefikConfigLaws.thy ===== *)
theory TraefikConfigLaws
  imports TraefikConfig
begin

text \<open>
  What the Traefik plugin's configuration parser guarantees: lists survive the text in which Traefik
  hands them over; settings that make the plugin panic at start.
\<close>

section \<open>Lists\<close>

lemma split_scan_sep:
  assumes "sep = [a, b, c]" "a \<noteq> b" "a \<noteq> c" "\<not> sublist sep x"
  shows "split_scan sep acc (x @ sep @ r) = (rev acc @ x) # split_scan sep [] r"
  using assms(4)
proof (induction x arbitrary: acc)
  case Nil
  then show ?case using assms(1) by simp
next
  case (Cons d x)
  have no: "\<not> prefix sep (d # x @ sep @ r)"
  proof
    assume p: "prefix sep (d # x @ sep @ r)"
    show False
    proof (cases "length x \<ge> 2")
      case True
      then obtain y z x' where "x = y # z # x'" by (metis Suc_le_length_iff numeral_2_eq_2)
      then have "prefix sep (d # x)" using p assms(1) by simp
      then show ?thesis using Cons.prems by (simp add: prefix_imp_sublist)
    next
      case False
      then consider "x = []" | y where "x = [y]" by (cases x; cases "tl x") auto
      then show ?thesis using p assms(1-3) by cases auto
    qed
  qed
  have "\<not> sublist sep x" using Cons.prems by (auto simp: sublist_Cons_right)
  from Cons.IH[OF this, of "d # acc"] no show ?case by simp
qed

lemma split_scan_end:
  "\<not> sublist sep x \<Longrightarrow> split_scan sep acc x = [rev acc @ x]"
proof (induction x arbitrary: acc)
  case (Cons d x)
  then have "\<not> sublist sep x" "\<not> prefix sep (d # x)" by (auto simp: sublist_Cons_right)
  then show ?case using Cons.IH[of "d # acc"] by simp
qed simp

lemma Split_Join_sep:
  assumes "sep = [a, b, c]" "a \<noteq> b" "a \<noteq> c"
  shows "xs \<noteq> [] \<Longrightarrow> \<forall>x \<in> set xs. \<not> sublist sep x \<Longrightarrow> Split (Join xs sep) sep = xs"
proof (induction xs rule: induct_list012)
  case (2 x)
  then show ?case by (simp add: Split_def split_scan_end)
next
  case (3 x y xs)
  then have "Split (Join (y # xs) sep) sep = y # xs" by simp
  with split_scan_sep[OF assms, of x "[]" "Join (y # xs) sep"] 3(4) show ?case by (simp add: Split_def)
qed simp_all

text \<open>
  Traefik hands a list over as one text, its elements behind a mark and a separator of three
  bytes: the plugin reads back exactly the list, whatever commas its elements hold, when there is at
  least one element and none holds the separator.
\<close>

theorem tk_list_roundtrip:
  assumes "xs \<noteq> []" "\<forall>x \<in> set xs. \<not> sublist list_sep x"
  shows "parseStringSlice (VStr (list_prefix @ Join xs list_sep)) = Inr xs"
  using Split_Join_sep[OF list_sep_def _ _ assms] by (simp add: parseStringSlice_def)

theorem tk_list_roundtrip_witness:
  "parseStringSlice (VStr (list_prefix @ Join [''GET,HEAD'', [], ''POST''] list_sep)) = Inr [''GET,HEAD'', [], ''POST'']"
  by (rule tk_list_roundtrip) (simp_all add: list_sep_def sublist_code)

section \<open>A plugin that does not start\<close>

lemma tk_parse_url_needs_ttl:
  "map_of (kv :: (string \<times> any) list) ''ttl'' = None \<Longrightarrow> isl (tk_parse_url (VMap kv))"
  by (cases "parseStringSlice (any_index kv ''headers'')")
    (simp_all add: tk_parse_url_def need_map_def duration_text_def duration_or_def any_index_def need_str_def)

text \<open>
  One entry of \<open>urls\<close> without a \<open>ttl\<close> makes the construction of the middleware panic, wherever
  the entry and the section are visited and whatever the rest of the configuration says.
\<close>

theorem tk_url_without_ttl_panics:
  assumes "(''urls'', VMap urls) \<in> set config" "(pattern, VMap kv) \<in> set urls" "map_of kv ''ttl'' = None"
  shows "isl (tk_New re cd ae config)"
proof -
  have "isl (tk_parseURLs urls)"
    unfolding tk_parseURLs_def
    by (rule go_foldM_panics[OF assms(2)]) (use tk_parse_url_needs_ttl[OF assms(3)] in \<open>auto simp: isl_def\<close>)
  then have "isl (tk_config_field re (''urls'', VMap urls) c)" for c
    by (auto simp: tk_config_field_def need_map_def isl_def)
  then have "isl (tk_parseConfiguration re config)"
    unfolding tk_parseConfiguration_def by (rule go_foldM_panics[OF assms(1)])
  then show ?thesis by (auto simp: tk_New_def isl_def)
qed

theorem tk_url_without_ttl_panics_witness:
  "\<forall>re cd ae. isl (tk_New re cd ae
     [(''default_cache'', VMap [(''ttl'', VStr ''10s'')]),
      (''urls'', VMap [(''/a'', VMap [(''ttl'', VStr ''5s'')]), (''/b'', VMap [(''headers'', VStr ''Accept'')])])])"
  using tk_url_without_ttl_panics[of "[(''/a'', VMap [(''ttl'', VStr ''5s'')]), (''/b'', VMap [(''headers'', VStr ''Accept'')])]"
      "[(''default_cache'', VMap [(''ttl'', VStr ''10s'')]),
        (''urls'', VMap [(''/a'', VMap [(''ttl'', VStr ''5s'')]), (''/b'', VMap [(''headers'', VStr ''Accept'')])])]"
      "''/b''" "[(''headers'', VStr ''Accept'')]"] by simp

end
