(* ===== verification/BufferPool.thy ===== *)
theory BufferPool
  imports Prelude
begin

text \<open>
  The memory behind the buffering writers: the pool of \<open>bytes.Buffer\<close> objects of a
  \<open>SouinBaseHandler\<close>, the arrays under them, and the body that a coalesced flight hands on
  (\<open>ServeHTTP\<close> and \<open>Upstream\<close> of pkg/middleware/middleware.go and of the Traefik plugin's copy).
  The core package copies the body before it hands it on and gives a buffer back only when nobody
  writes to it any more; the copy hands on a slice of the buffer and gives the buffer back when the
  client's request ends.  \<open>copies\<close> tells the two apart.

  A request goes through the stages below.  Requests run concurrently, so the steps of different
  requests interleave freely; one step is what happens under the buffer's lock or inside
  \<open>singleflight.Group.Do\<close>.  \<open>key\<close> is the key of the flight a request asks for.  Requests
  that a storer answers and flights that end with an error are left out here.
\<close>

section \<open>Buffers and arrays\<close>

text \<open>
  An array is its contents up to its capacity; array 0 is the one of the nil slice.  A buffer is an
  array and a length, as is a slice: nothing is ever read from these buffers, so their offset is 0.
\<close>

type_synonym slice = "nat \<times> nat"

datatype flight_body = Slice slice | Copied string

datatype stage = Idle | Ready | Leading | Waiting nat | Landed flight_body | Loaded | Stopped

text \<open>
  What a request owns: its buffer, the request that led its flight, whether its client is gone, the
  body it answered with, and all that the upstream handler wrote for it.
\<close>

record job =
  jb_stage :: stage
  jb_buf :: nat
  jb_leader :: nat
  jb_gone :: bool
  jb_written :: string
  jb_answer :: "string option"

record pool_state =
  ps_heap :: "nat \<Rightarrow> string"
  ps_arrays :: nat
  ps_buffer :: "nat \<Rightarrow> slice"
  ps_buffers :: nat
  ps_pool :: "nat list"
  ps_job :: "nat \<Rightarrow> job"

definition pool_start :: pool_state where
  "pool_start = \<lparr>ps_heap = (\<lambda>a. []), ps_arrays = 1, ps_buffer = (\<lambda>b. (0, 0)), ps_buffers = 0, ps_pool = [],
     ps_job = (\<lambda>r. \<lparr>jb_stage = Idle, jb_buf = 0, jb_leader = r, jb_gone = False, jb_written = [], jb_answer = None\<rparr>)\<rparr>"

definition slice_bytes :: "pool_state \<Rightarrow> slice \<Rightarrow> string" where
  "slice_bytes s v = take (snd v) (ps_heap s (fst v))"

definition buf_Bytes :: "pool_state \<Rightarrow> nat \<Rightarrow> string" where
  "buf_Bytes s b = slice_bytes s (ps_buffer s b)"

definition set_buffer :: "nat \<Rightarrow> slice \<Rightarrow> pool_state \<Rightarrow> pool_state" where
  "set_buffer b v s = s\<lparr>ps_buffer := (ps_buffer s)(b := v)\<rparr>"

definition buf_Reset :: "nat \<Rightarrow> pool_state \<Rightarrow> pool_state" where
  "buf_Reset b s = set_buffer b (fst (ps_buffer s b), 0) s"

text \<open>In place when the capacity allows it, into a new array with \<open>extra\<close> spare bytes otherwise.\<close>

definition buf_Write :: "nat \<Rightarrow> nat \<Rightarrow> string \<Rightarrow> pool_state \<Rightarrow> pool_state" where
  "buf_Write extra b p s =
     (let (a, n) = ps_buffer s b;
          old = ps_heap s a;
          n' = n + length p
      in if n' \<le> length old
         then set_buffer b (a, n') (s\<lparr>ps_heap := (ps_heap s)(a := take n old @ p @ drop n' old)\<rparr>)
         else set_buffer b (ps_arrays s, n')
           (s\<lparr>ps_heap := (ps_heap s)(ps_arrays s := take n old @ p @ replicate extra (CHR 0x00)),
              ps_arrays := Suc (ps_arrays s)\<rparr>))"

section \<open>The steps of a request\<close>

definition set_job :: "nat \<Rightarrow> job \<Rightarrow> pool_state \<Rightarrow> pool_state" where
  "set_job r j s = s\<lparr>ps_job := (ps_job s)(r := j)\<rparr>"

definition upd_job :: "nat \<Rightarrow> (job \<Rightarrow> job) \<Rightarrow> pool_state \<Rightarrow> pool_state" where
  "upd_job r f s = set_job r (f (ps_job s r)) s"

definition stage_of :: "pool_state \<Rightarrow> nat \<Rightarrow> stage" where
  "stage_of s r = jb_stage (ps_job s r)"

text \<open>\<open>s.bufPool.Get()\<close> followed by \<open>Reset\<close>: a buffer of the pool, or a new one.\<close>

definition pool_take :: "nat \<Rightarrow> nat \<Rightarrow> pool_state \<Rightarrow> pool_state" where
  "pool_take r b s =
     upd_job r (\<lambda>j. j\<lparr>jb_stage := Ready, jb_buf := b\<rparr>) (buf_Reset b (s\<lparr>ps_pool := remove1 b (ps_pool s)\<rparr>))"

definition pool_new :: "nat \<Rightarrow> pool_state \<Rightarrow> pool_state" where
  "pool_new r s =
     upd_job r (\<lambda>j. j\<lparr>jb_stage := Ready, jb_buf := ps_buffers s\<rparr>)
       (set_buffer (ps_buffers s) (0, 0) (s\<lparr>ps_buffers := Suc (ps_buffers s)\<rparr>))"

definition pool_Put :: "nat \<Rightarrow> pool_state \<Rightarrow> pool_state" where
  "pool_Put b s = s\<lparr>ps_pool := b # ps_pool s\<rparr>"

definition job_lead :: "nat \<Rightarrow> pool_state \<Rightarrow> pool_state" where
  "job_lead r s = upd_job r (\<lambda>j. j\<lparr>jb_stage := Leading, jb_leader := r\<rparr>) s"

definition job_join :: "nat \<Rightarrow> nat \<Rightarrow> pool_state \<Rightarrow> pool_state" where
  "job_join r l s = upd_job r (\<lambda>j. j\<lparr>jb_stage := Waiting l, jb_leader := l\<rparr>) s"

text \<open>The upstream handler writes a part of the body.\<close>

definition job_write :: "nat \<Rightarrow> nat \<Rightarrow> string \<Rightarrow> pool_state \<Rightarrow> pool_state" where
  "job_write extra r p s =
     upd_job r (\<lambda>j. j\<lparr>jb_written := jb_written j @ p\<rparr>) (buf_Write extra (jb_buf (ps_job s r)) p s)"

text \<open>What the leader's function returns, and that all who wait get it.\<close>

definition flight_value :: "bool \<Rightarrow> nat \<Rightarrow> pool_state \<Rightarrow> flight_body" where
  "flight_value copies b s = (if copies then Copied (buf_Bytes s b) else Slice (ps_buffer s b))"

definition job_land :: "bool \<Rightarrow> nat \<Rightarrow> pool_state \<Rightarrow> pool_state" where
  "job_land copies r s =
     (let b = jb_buf (ps_job s r);
          v = flight_value copies b s
      in (buf_Reset b s)\<lparr>ps_job := (\<lambda>q. if q = r \<or> stage_of s q = Waiting r
             then (ps_job s q)\<lparr>jb_stage := Landed v\<rparr> else ps_job s q)\<rparr>)"

text \<open>\<open>customWriter.Buf.Reset()\<close> and \<open>customWriter.Write(sfWriter.body)\<close>.\<close>

definition body_bytes :: "pool_state \<Rightarrow> flight_body \<Rightarrow> string" where
  "body_bytes s v = (case v of Slice x \<Rightarrow> slice_bytes s x | Copied b \<Rightarrow> b)"

definition job_load :: "nat \<Rightarrow> nat \<Rightarrow> flight_body \<Rightarrow> pool_state \<Rightarrow> pool_state" where
  "job_load extra r v s =
     (let b = jb_buf (ps_job s r)
      in upd_job r (\<lambda>j. j\<lparr>jb_stage := Loaded\<rparr>) (buf_Write extra b (body_bytes s v) (buf_Reset b s)))"

text \<open>\<open>Send\<close>, the end of \<open>ServeHTTP\<close> and the deferred return of the buffer.\<close>

definition job_send :: "nat \<Rightarrow> pool_state \<Rightarrow> pool_state" where
  "job_send r s =
     (let b = jb_buf (ps_job s r)
      in upd_job r (\<lambda>j. j\<lparr>jb_stage := Stopped, jb_answer := Some (buf_Bytes s b)\<rparr>) (pool_Put b (buf_Reset b s)))"

text \<open>The context of the request ends first; the goroutine of the upstream goes on.\<close>

definition job_timeout :: "bool \<Rightarrow> nat \<Rightarrow> pool_state \<Rightarrow> pool_state" where
  "job_timeout copies r s =
     (let s1 = upd_job r (\<lambda>j. j\<lparr>jb_gone := True\<rparr>) s
      in if copies then s1 else pool_Put (jb_buf (ps_job s r)) s1)"

text \<open>
  The goroutine ends after its client: in the core package it gives the buffer back when it sees
  that the request has passed it on (\<open>owner\<close>), which it may have asked just before.
\<close>

definition job_finish :: "bool \<Rightarrow> bool \<Rightarrow> nat \<Rightarrow> pool_state \<Rightarrow> pool_state" where
  "job_finish copies owner r s =
     (let b = jb_buf (ps_job s r);
          s1 = upd_job r (\<lambda>j. j\<lparr>jb_stage := Stopped\<rparr>) s
      in if copies \<and> owner then pool_Put b (buf_Reset b s1) else s1)"

inductive pool_step :: "bool \<Rightarrow> (nat \<Rightarrow> string) \<Rightarrow> pool_state \<Rightarrow> pool_state \<Rightarrow> bool"
  for copies :: bool and key :: "nat \<Rightarrow> string" where
  Take: "stage_of s r = Idle \<Longrightarrow> b \<in> set (ps_pool s) \<Longrightarrow> pool_step copies key s (pool_take r b s)"
| New: "stage_of s r = Idle \<Longrightarrow> pool_step copies key s (pool_new r s)"
| Lead: "stage_of s r = Ready \<Longrightarrow> \<forall>l. stage_of s l = Leading \<longrightarrow> key l \<noteq> key r \<Longrightarrow>
    pool_step copies key s (job_lead r s)"
| Join: "stage_of s r = Ready \<Longrightarrow> stage_of s l = Leading \<Longrightarrow> key l = key r \<Longrightarrow>
    pool_step copies key s (job_join r l s)"
| Write: "stage_of s r = Leading \<Longrightarrow> pool_step copies key s (job_write extra r p s)"
| Land: "stage_of s r = Leading \<Longrightarrow> pool_step copies key s (job_land copies r s)"
| Again: "stage_of s r = Landed v \<Longrightarrow> jb_leader (ps_job s r) \<noteq> r \<Longrightarrow>
    pool_step copies key s (upd_job r (\<lambda>j. j\<lparr>jb_stage := Ready\<rparr>) s)"
| Load: "stage_of s r = Landed v \<Longrightarrow> pool_step copies key s (job_load extra r v s)"
| Send: "stage_of s r = Loaded \<Longrightarrow> \<not> jb_gone (ps_job s r) \<Longrightarrow> pool_step copies key s (job_send r s)"
| Timeout: "stage_of s r \<notin> {Idle, Stopped} \<Longrightarrow> \<not> jb_gone (ps_job s r) \<Longrightarrow>
    pool_step copies key s (job_timeout copies r s)"
| Finish: "stage_of s r = Loaded \<Longrightarrow> jb_gone (ps_job s r) \<Longrightarrow> pool_step copies key s (job_finish copies owner r s)"

inductive pool_reachable :: "bool \<Rightarrow> (nat \<Rightarrow> string) \<Rightarrow> pool_state \<Rightarrow> bool"
  for copies :: bool and key :: "nat \<Rightarrow> string" where
  Start: "pool_reachable copies key pool_start"
| Step: "pool_reachable copies key s \<Longrightarrow> pool_step copies key s s' \<Longrightarrow> pool_reachable copies key s'"

inductive_cases pool_stepE: "pool_step copies key s s'"

end
