(* ===== verification/BufferPoolLaws.thy ===== *)
theory BufferPoolLaws
  imports BufferPool
begin

text \<open>
  With copied bodies a client is only ever answered with what the upstream handler wrote for the
  request that led its flight, whatever the interleaving; with slices it may get the body of a
  request for another key.
\<close>

section \<open>Buffers do not share arrays\<close>

definition store_ok :: "pool_state \<Rightarrow> bool" where
  "store_ok s \<longleftrightarrow> ps_heap s 0 = [] \<and> 0 < ps_arrays s
     \<and> (\<forall>b < ps_buffers s. fst (ps_buffer s b) < ps_arrays s
          \<and> snd (ps_buffer s b) \<le> length (ps_heap s (fst (ps_buffer s b))))
     \<and> (\<forall>b < ps_buffers s. \<forall>b' < ps_buffers s. b \<noteq> b' \<longrightarrow> fst (ps_buffer s b) = fst (ps_buffer s b')
          \<longrightarrow> fst (ps_buffer s b) = 0)"

lemma set_buffer_sel [simp]:
  "ps_heap (set_buffer b v s) = ps_heap s" "ps_arrays (set_buffer b v s) = ps_arrays s"
  "ps_buffers (set_buffer b v s) = ps_buffers s" "ps_pool (set_buffer b v s) = ps_pool s"
  "ps_job (set_buffer b v s) = ps_job s" "ps_buffer (set_buffer b v s) = (ps_buffer s)(b := v)"
  by (simp_all add: set_buffer_def)

lemma buf_Reset_sel [simp]:
  "ps_heap (buf_Reset b s) = ps_heap s" "ps_arrays (buf_Reset b s) = ps_arrays s"
  "ps_buffers (buf_Reset b s) = ps_buffers s" "ps_pool (buf_Reset b s) = ps_pool s" "ps_job (buf_Reset b s) = ps_job s"
  by (simp_all add: buf_Reset_def)

lemma buf_Write_sel [simp]:
  "ps_buffers (buf_Write e b p s) = ps_buffers s" "ps_pool (buf_Write e b p s) = ps_pool s"
  "ps_job (buf_Write e b p s) = ps_job s"
  by (simp_all add: buf_Write_def Let_def case_prod_beta)

lemma upd_job_sel [simp]:
  "ps_heap (upd_job r f s) = ps_heap s" "ps_arrays (upd_job r f s) = ps_arrays s" "ps_buffer (upd_job r f s) = ps_buffer s"
  "ps_buffers (upd_job r f s) = ps_buffers s" "ps_pool (upd_job r f s) = ps_pool s"
  "ps_job (upd_job r f s) = (ps_job s)(r := f (ps_job s r))"
  by (simp_all add: upd_job_def set_job_def)

lemma store_ok_cong:
  "ps_heap s' = ps_heap s \<Longrightarrow> ps_arrays s' = ps_arrays s \<Longrightarrow> ps_buffer s' = ps_buffer s \<Longrightarrow> ps_buffers s' = ps_buffers s
    \<Longrightarrow> store_ok s' = store_ok s"
  by (simp add: store_ok_def)

lemma buf_Bytes_cong: "ps_heap s' = ps_heap s \<Longrightarrow> ps_buffer s' = ps_buffer s \<Longrightarrow> buf_Bytes s' = buf_Bytes s"
  by (simp add: fun_eq_iff buf_Bytes_def slice_bytes_def)

lemma buf_Reset_ok [simp]: "store_ok s \<Longrightarrow> store_ok (buf_Reset b s)"
  by (auto simp: store_ok_def buf_Reset_def)

lemma buf_Reset_Bytes [simp]: "buf_Bytes (buf_Reset b s) b' = (if b' = b then [] else buf_Bytes s b')"
  by (simp add: buf_Bytes_def slice_bytes_def buf_Reset_def)

lemma buf_new_ok:
  assumes "store_ok s"
  shows "store_ok (set_buffer (ps_buffers s) (0, 0) (s\<lparr>ps_buffers := Suc (ps_buffers s)\<rparr>))"
  using assms by (auto simp: store_ok_def less_Suc_eq)

text \<open>A write extends one buffer and touches no other.\<close>

lemma buf_Write_grow:
  assumes "store_ok s" "b < ps_buffers s" "length (ps_heap s (fst (ps_buffer s b))) < snd (ps_buffer s b) + length p"
  shows "store_ok (buf_Write e b p s)"
    and "b' < ps_buffers s \<Longrightarrow> buf_Bytes (buf_Write e b p s) b' = (if b' = b then buf_Bytes s b @ p else buf_Bytes s b')"
proof -
  have w: "buf_Write e b p s = set_buffer b (ps_arrays s, snd (ps_buffer s b) + length p)
      (s\<lparr>ps_heap := (ps_heap s)(ps_arrays s := take (snd (ps_buffer s b)) (ps_heap s (fst (ps_buffer s b))) @ p
          @ replicate e (CHR 0x00)), ps_arrays := Suc (ps_arrays s)\<rparr>)"
    using assms(3) by (simp add: buf_Write_def Let_def case_prod_beta)
  have old: "ps_buffer s c = (a, n) \<Longrightarrow> a < ps_arrays s \<and> n \<le> length (ps_heap s a)" if "c < ps_buffers s" for c a n
    using assms(1) that by (auto simp: store_ok_def)
  show "store_ok (buf_Write e b p s)"
    unfolding w using assms(1,2) old[OF assms(2)]
    by (auto simp: store_ok_def less_Suc_eq min_def)
  show "b' < ps_buffers s \<Longrightarrow> buf_Bytes (buf_Write e b p s) b' = (if b' = b then buf_Bytes s b @ p else buf_Bytes s b')"
    unfolding w using old[OF assms(2)] old[of b'] by (cases "ps_buffer s b'"; cases "ps_buffer s b")
      (auto simp: buf_Bytes_def slice_bytes_def min_def)
qed

lemma buf_Write_fits:
  assumes "store_ok s" "b < ps_buffers s" "snd (ps_buffer s b) + length p \<le> length (ps_heap s (fst (ps_buffer s b)))"
  shows "store_ok (buf_Write e b p s)"
    and "b' < ps_buffers s \<Longrightarrow> buf_Bytes (buf_Write e b p s) b' = (if b' = b then buf_Bytes s b @ p else buf_Bytes s b')"
proof -
  obtain a n where bn: "ps_buffer s b = (a, n)" by fastforce
  have w: "buf_Write e b p s = set_buffer b (a, n + length p)
      (s\<lparr>ps_heap := (ps_heap s)(a := take n (ps_heap s a) @ p @ drop (n + length p) (ps_heap s a))\<rparr>)"
    using assms(3) by (simp add: buf_Write_def Let_def bn)
  have len: "n + length p \<le> length (ps_heap s a)" using assms(3) bn by simp
  have nil: "a = 0 \<Longrightarrow> n = 0 \<and> p = []" using len assms(1) by (auto simp: store_ok_def)
  have apart: "a' = a \<Longrightarrow> a = 0" if "c < ps_buffers s" "c \<noteq> b" "ps_buffer s c = (a', n')" for c a' n'
    using assms(1,2) that bn by (metis (no_types, lifting) fst_conv store_ok_def)
  have old: "a' < ps_arrays s \<and> n' \<le> length (ps_heap s a')" if "c < ps_buffers s" "ps_buffer s c = (a', n')" for c a' n'
    using assms(1) that by (auto simp: store_ok_def)
  show "store_ok (buf_Write e b p s)"
    unfolding w using assms(1,2) len nil bn
    by (auto simp: store_ok_def min_def)
  show "b' < ps_buffers s \<Longrightarrow> buf_Bytes (buf_Write e b p s) b' = (if b' = b then buf_Bytes s b @ p else buf_Bytes s b')"
  proof -
    assume b': "b' < ps_buffers s"
    obtain a' n' where bn': "ps_buffer s b' = (a', n')" by fastforce
    show ?thesis
    proof (cases "b' = b")
      case True
      then show ?thesis unfolding w using len bn by (simp add: buf_Bytes_def slice_bytes_def)
    next
      case False
      then have "a' = a \<Longrightarrow> p = [] \<and> n' = 0" using apart[OF b' False bn'] old[OF b' bn'] nil assms(1) bn'
        by (auto simp: store_ok_def)
      then show ?thesis unfolding w using False bn' by (auto simp: buf_Bytes_def slice_bytes_def)
    qed
  qed
qed

lemma buf_Write_ok [simp]: "store_ok s \<Longrightarrow> b < ps_buffers s \<Longrightarrow> store_ok (buf_Write e b p s)"
  using buf_Write_grow(1) buf_Write_fits(1) by (meson not_le)

lemma buf_Write_Bytes [simp]:
  "store_ok s \<Longrightarrow> b < ps_buffers s \<Longrightarrow> b' < ps_buffers s \<Longrightarrow>
     buf_Bytes (buf_Write e b p s) b' = (if b' = b then buf_Bytes s b @ p else buf_Bytes s b')"
  using buf_Write_grow(2) buf_Write_fits(2) by (meson not_le)

section \<open>Copied bodies\<close>

definition holding :: "pool_state \<Rightarrow> nat \<Rightarrow> bool" where
  "holding s r \<longleftrightarrow> stage_of s r \<noteq> Idle \<and> stage_of s r \<noteq> Stopped"

text \<open>Every buffer has at most one owner: the pool or a request on its way.\<close>

definition owners_ok :: "pool_state \<Rightarrow> bool" where
  "owners_ok s \<longleftrightarrow> distinct (ps_pool s) \<and> (\<forall>b \<in> set (ps_pool s). b < ps_buffers s)
     \<and> (\<forall>r. holding s r \<longrightarrow> jb_buf (ps_job s r) < ps_buffers s \<and> jb_buf (ps_job s r) \<notin> set (ps_pool s))
     \<and> (\<forall>r q. r \<noteq> q \<longrightarrow> holding s r \<longrightarrow> holding s q \<longrightarrow> jb_buf (ps_job s r) \<noteq> jb_buf (ps_job s q))"

definition past :: "stage \<Rightarrow> bool" where
  "past g \<longleftrightarrow> (case g of Landed _ \<Rightarrow> True | Loaded \<Rightarrow> True | Stopped \<Rightarrow> True | _ \<Rightarrow> False)"

lemma past_simps [simp]:
  "past (Landed v)" "past Loaded" "past Stopped" "\<not> past Idle" "\<not> past Ready" "\<not> past Leading" "\<not> past (Waiting l)"
  by (simp_all add: past_def)

text \<open>The flight of a request was led for its own key and is over.\<close>

definition led :: "(nat \<Rightarrow> string) \<Rightarrow> (nat \<Rightarrow> job) \<Rightarrow> nat \<Rightarrow> bool" where
  "led key js r \<longleftrightarrow> key (jb_leader (js r)) = key r \<and> jb_leader (js (jb_leader (js r))) = jb_leader (js r)
     \<and> past (jb_stage (js (jb_leader (js r))))"

definition job_ok :: "(nat \<Rightarrow> string) \<Rightarrow> (nat \<Rightarrow> job) \<Rightarrow> string \<Rightarrow> nat \<Rightarrow> bool" where
  "job_ok key js bytes r \<longleftrightarrow>
     (let j = js r; l = jb_leader j
      in (case jb_stage j of
            Idle \<Rightarrow> jb_written j = []
          | Ready \<Rightarrow> jb_written j = [] \<and> bytes = []
          | Leading \<Rightarrow> l = r \<and> bytes = jb_written j
          | Waiting q \<Rightarrow> l = q \<and> q \<noteq> r \<and> key q = key r \<and> jb_stage (js q) = Leading \<and> jb_leader (js q) = q
              \<and> bytes = [] \<and> jb_written j = []
          | Landed v \<Rightarrow> v = Copied (jb_written (js l)) \<and> led key js r \<and> bytes = [] \<and> (l \<noteq> r \<longrightarrow> jb_written j = [])
          | Loaded \<Rightarrow> led key js r \<and> bytes = jb_written (js l)
          | Stopped \<Rightarrow> led key js r)
         \<and> (\<forall>a. jb_answer j = Some a \<longrightarrow> jb_stage j = Stopped \<and> a = jb_written (js l)))"

definition jobs_ok :: "(nat \<Rightarrow> string) \<Rightarrow> pool_state \<Rightarrow> bool" where
  "jobs_ok key s \<longleftrightarrow> (\<forall>r. job_ok key (ps_job s) (buf_Bytes s (jb_buf (ps_job s r))) r)"

definition pool_inv :: "(nat \<Rightarrow> string) \<Rightarrow> pool_state \<Rightarrow> bool" where
  "pool_inv key s \<longleftrightarrow> store_ok s \<and> owners_ok s \<and> jobs_ok key s"

lemma buf_Bytes_upd_job [simp]: "buf_Bytes (upd_job r f s) = buf_Bytes s"
  by (rule buf_Bytes_cong) simp_all

lemma buf_Bytes_Put [simp]: "buf_Bytes (pool_Put b s) = buf_Bytes s"
  by (rule buf_Bytes_cong) (simp_all add: pool_Put_def)

lemma buf_Bytes_pool [simp]: "buf_Bytes (s\<lparr>ps_pool := p\<rparr>) = buf_Bytes s" "buf_Bytes (s\<lparr>ps_job := js\<rparr>) = buf_Bytes s"
  by (rule buf_Bytes_cong; simp)+

lemma store_ok_upd [simp]:
  "store_ok (upd_job r f s) = store_ok s" "store_ok (pool_Put b s) = store_ok s"
  "store_ok (s\<lparr>ps_pool := p\<rparr>) = store_ok s" "store_ok (s\<lparr>ps_job := js\<rparr>) = store_ok s"
  by (rule store_ok_cong; simp add: pool_Put_def)+

lemma pool_step_store:
  assumes "pool_step copies key s s'" "store_ok s" "owners_ok s"
  shows "store_ok s'"
  using assms
  by (induction rule: pool_step.induct)
    (auto simp: pool_take_def pool_new_def job_lead_def job_join_def job_write_def job_land_def job_load_def job_send_def
      job_timeout_def job_finish_def Let_def owners_ok_def holding_def intro!: buf_new_ok)

lemma pool_Put_sel [simp]:
  "ps_job (pool_Put b s) = ps_job s" "ps_buffers (pool_Put b s) = ps_buffers s" "ps_pool (pool_Put b s) = b # ps_pool s"
  by (simp_all add: pool_Put_def)

lemma pool_step_owners:
  assumes "pool_step True key s s'" "owners_ok s"
  shows "owners_ok s'"
  using assms
  by (induction rule: pool_step.induct)
    (auto simp: pool_take_def pool_new_def job_lead_def job_join_def job_write_def job_land_def job_load_def job_send_def
      job_timeout_def job_finish_def Let_def owners_ok_def holding_def stage_of_def split: if_splits)

lemma jobs_okD: "jobs_ok key s \<Longrightarrow> job_ok key (ps_job s) (buf_Bytes s (jb_buf (ps_job s r))) r"
  by (simp add: jobs_ok_def)

text \<open>A step that changes one request, and keeps what others have from it.\<close>

lemma led_other:
  assumes "led key js q" "q \<noteq> r"
    and "past (jb_stage (js r)) \<Longrightarrow> jb_leader (js r) = r \<Longrightarrow> past (jb_stage j) \<and> jb_leader j = r \<and> jb_written j = jb_written (js r)"
  shows "led key (js(r := j)) q"
    "jb_written ((js(r := j)) (jb_leader (js q))) = jb_written (js (jb_leader (js q)))"
  using assms by (cases "jb_leader (js q) = r"; simp add: led_def)+

lemma job_ok_other:
  assumes "job_ok key js bytes q" "q \<noteq> r"
    and "jb_stage (js r) = Leading \<Longrightarrow> jb_stage j = Leading \<and> jb_leader j = r"
    and "past (jb_stage (js r)) \<Longrightarrow> jb_leader (js r) = r \<Longrightarrow> past (jb_stage j) \<and> jb_leader j = r \<and> jb_written j = jb_written (js r)"
  shows "job_ok key (js(r := j)) bytes q"
proof (cases "jb_stage (js q)")
  case (Waiting l)
  then show ?thesis using assms(1-3) by (cases "l = r") (simp_all add: job_ok_def Let_def)
next
  case (Landed v)
  then have "led key js q" using assms(1) by (simp add: job_ok_def Let_def)
  from led_other[OF this assms(2,4)] assms(1) Landed show ?thesis
    by (simp add: job_ok_def Let_def fun_upd_other[OF assms(2)] del: fun_upd_apply)
next
  case Loaded
  then have "led key js q" using assms(1) by (simp add: job_ok_def Let_def)
  from led_other[OF this assms(2,4)] assms(1) Loaded show ?thesis
    by (simp add: job_ok_def Let_def fun_upd_other[OF assms(2)] del: fun_upd_apply)
next
  case Stopped
  then have "led key js q" using assms(1) by (simp add: job_ok_def Let_def)
  from led_other[OF this assms(2,4)] assms(1) Stopped show ?thesis
    by (simp add: job_ok_def Let_def fun_upd_other[OF assms(2)] del: fun_upd_apply)
qed (use assms(1,2) in \<open>simp_all add: job_ok_def\<close>)

lemma jobs_ok_upd:
  assumes "jobs_ok key s" "ps_job s' = (ps_job s)(r := j)"
    and "\<And>q. q \<noteq> r \<Longrightarrow> stage_of s q \<noteq> Idle \<Longrightarrow> stage_of s q \<noteq> Stopped \<Longrightarrow>
      buf_Bytes s' (jb_buf (ps_job s q)) = buf_Bytes s (jb_buf (ps_job s q))"
    and "job_ok key (ps_job s') (buf_Bytes s' (jb_buf j)) r"
    and "stage_of s r = Leading \<Longrightarrow> jb_stage j = Leading \<and> jb_leader j = r"
    and "past (stage_of s r) \<Longrightarrow> jb_leader (ps_job s r) = r \<Longrightarrow>
      past (jb_stage j) \<and> jb_leader j = r \<and> jb_written j = jb_written (ps_job s r)"
  shows "jobs_ok key s'"
  unfolding jobs_ok_def
proof
  fix q
  show "job_ok key (ps_job s') (buf_Bytes s' (jb_buf (ps_job s' q))) q"
  proof (cases "q = r")
    case True
    then show ?thesis using assms(2,4) by simp
  next
    case False
    let ?b = "jb_buf (ps_job s q)"
    have "job_ok key (ps_job s) (buf_Bytes s' ?b) q"
    proof (cases "stage_of s q = Idle \<or> stage_of s q = Stopped")
      case True
      then show ?thesis using jobs_okD[OF assms(1), of q] by (auto simp: job_ok_def stage_of_def Let_def)
    next
      case other: False
      then show ?thesis using jobs_okD[OF assms(1), of q] assms(3)[OF False] by simp
    qed
    from job_ok_other[OF this False] show ?thesis
      using False assms(2,5,6) by (simp add: stage_of_def)
  qed
qed

lemma owners_okD:
  assumes "owners_ok s" "holding s q"
  shows "jb_buf (ps_job s q) < ps_buffers s" "jb_buf (ps_job s q) \<notin> set (ps_pool s)"
    "holding s r \<Longrightarrow> q \<noteq> r \<Longrightarrow> jb_buf (ps_job s q) \<noteq> jb_buf (ps_job s r)"
  using assms by (auto simp: owners_ok_def)

text \<open>A request on its way that changes no buffer but its own.\<close>

lemma jobs_ok_own:
  assumes "jobs_ok key s" "owners_ok s" "holding s r" "ps_job s' = (ps_job s)(r := j)"
    and "\<And>b. b \<noteq> jb_buf (ps_job s r) \<Longrightarrow> b < ps_buffers s \<Longrightarrow> buf_Bytes s' b = buf_Bytes s b"
    and "job_ok key ((ps_job s)(r := j)) (buf_Bytes s' (jb_buf j)) r"
    and "stage_of s r = Leading \<Longrightarrow> jb_stage j = Leading \<and> jb_leader j = r"
    and "past (stage_of s r) \<Longrightarrow> jb_leader (ps_job s r) = r \<Longrightarrow>
      past (jb_stage j) \<and> jb_leader j = r \<and> jb_written j = jb_written (ps_job s r)"
  shows "jobs_ok key s'"
proof (rule jobs_ok_upd[OF assms(1,4)])
  fix q
  assume q: "q \<noteq> r" "stage_of s q \<noteq> Idle" "stage_of s q \<noteq> Stopped"
  then have "holding s q" by (simp add: holding_def)
  with q owners_okD(1)[OF assms(2) this] owners_okD(3)[OF assms(2) this assms(3)] assms(5)
  show "buf_Bytes s' (jb_buf (ps_job s q)) = buf_Bytes s (jb_buf (ps_job s q))" by simp
qed (use assms(4,6-8) in simp_all)

lemma pool_take_jobs:
  assumes "stage_of s r = Idle" "b \<in> set (ps_pool s)" "owners_ok s" "jobs_ok key s"
  shows "jobs_ok key (pool_take r b s)"
proof (rule jobs_ok_upd[OF assms(4), where r = r and j = "(ps_job s r)\<lparr>jb_stage := Ready, jb_buf := b\<rparr>"])
  fix q
  assume q: "q \<noteq> r" "stage_of s q \<noteq> Idle" "stage_of s q \<noteq> Stopped"
  then have "jb_buf (ps_job s q) \<noteq> b" using owners_okD(2)[OF assms(3), of q] assms(2) by (auto simp: holding_def)
  then show "buf_Bytes (pool_take r b s) (jb_buf (ps_job s q)) = buf_Bytes s (jb_buf (ps_job s q))"
    by (simp add: pool_take_def)
qed (use jobs_okD[OF assms(4), of r] assms(1) in \<open>simp_all add: pool_take_def stage_of_def job_ok_def Let_def\<close>)

lemma pool_new_jobs:
  assumes "stage_of s r = Idle" "owners_ok s" "jobs_ok key s"
  shows "jobs_ok key (pool_new r s)"
proof (rule jobs_ok_upd[OF assms(3), where r = r and j = "(ps_job s r)\<lparr>jb_stage := Ready, jb_buf := ps_buffers s\<rparr>"])
  fix q
  assume q: "q \<noteq> r" "stage_of s q \<noteq> Idle" "stage_of s q \<noteq> Stopped"
  then have "jb_buf (ps_job s q) \<noteq> ps_buffers s" using owners_okD(1)[OF assms(2), of q] by (auto simp: holding_def)
  then show "buf_Bytes (pool_new r s) (jb_buf (ps_job s q)) = buf_Bytes s (jb_buf (ps_job s q))"
    by (simp add: pool_new_def buf_Bytes_def slice_bytes_def)
qed (use jobs_okD[OF assms(3), of r] assms(1) in
  \<open>simp_all add: pool_new_def stage_of_def job_ok_def Let_def buf_Bytes_def slice_bytes_def\<close>)

lemma job_lead_jobs:
  assumes "stage_of s r = Ready" "owners_ok s" "jobs_ok key s"
  shows "jobs_ok key (job_lead r s)"
  by (rule jobs_ok_own[OF assms(3,2), where r = r and j = "(ps_job s r)\<lparr>jb_stage := Leading, jb_leader := r\<rparr>"])
    (use jobs_okD[OF assms(3), of r] assms(1) in \<open>simp_all add: job_lead_def holding_def stage_of_def job_ok_def Let_def\<close>)

lemma job_join_jobs:
  assumes "stage_of s r = Ready" "stage_of s l = Leading" "key l = key r" "owners_ok s" "jobs_ok key s"
  shows "jobs_ok key (job_join r l s)"
proof -
  have "l \<noteq> r" using assms(1,2) by auto
  then show ?thesis
    by (intro jobs_ok_own[OF assms(5,4), where r = r and j = "(ps_job s r)\<lparr>jb_stage := Waiting l, jb_leader := l\<rparr>"])
      (use jobs_okD[OF assms(5), of r] jobs_okD[OF assms(5), of l] assms(1-3) in
        \<open>simp_all add: job_join_def holding_def stage_of_def job_ok_def Let_def\<close>)
qed

lemma job_write_jobs:
  assumes "stage_of s r = Leading" "store_ok s" "owners_ok s" "jobs_ok key s"
  shows "jobs_ok key (job_write extra r p s)"
proof -
  have h: "holding s r" using assms(1) by (simp add: holding_def)
  note b = owners_okD(1)[OF assms(3) h]
  show ?thesis
    by (rule jobs_ok_own[OF assms(4,3) h, where j = "(ps_job s r)\<lparr>jb_written := jb_written (ps_job s r) @ p\<rparr>"])
      (use jobs_okD[OF assms(4), of r] assms(1,2) b in \<open>simp_all add: job_write_def stage_of_def job_ok_def Let_def\<close>)
qed

lemma job_again_jobs:
  assumes "stage_of s r = Landed v" "jb_leader (ps_job s r) \<noteq> r" "owners_ok s" "jobs_ok key s"
  shows "jobs_ok key (upd_job r (\<lambda>j. j\<lparr>jb_stage := Ready\<rparr>) s)"
  by (rule jobs_ok_own[OF assms(4,3), where r = r and j = "(ps_job s r)\<lparr>jb_stage := Ready\<rparr>"])
    (use jobs_okD[OF assms(4), of r] assms(1,2) in \<open>simp_all add: holding_def stage_of_def job_ok_def Let_def\<close>)

lemma job_load_jobs:
  assumes "stage_of s r = Landed v" "store_ok s" "owners_ok s" "jobs_ok key s"
  shows "jobs_ok key (job_load extra r v s)"
proof -
  have h: "holding s r" using assms(1) by (simp add: holding_def)
  note b = owners_okD(1)[OF assms(3) h]
  show ?thesis
    by (rule jobs_ok_own[OF assms(4,3) h, where j = "(ps_job s r)\<lparr>jb_stage := Loaded\<rparr>"])
      (use jobs_okD[OF assms(4), of r] assms(1,2) b in
        \<open>auto simp: job_load_def stage_of_def job_ok_def led_def Let_def body_bytes_def\<close>)
qed

lemma job_end_jobs:
  assumes "stage_of s r = Loaded" "owners_ok s" "jobs_ok key s"
  shows "jobs_ok key (job_send r s)" "jobs_ok key (job_finish True owner r s)"
  by (rule jobs_ok_own[OF assms(3,2), where r = r and
      j = "(ps_job s r)\<lparr>jb_stage := Stopped, jb_answer := Some (buf_Bytes s (jb_buf (ps_job s r)))\<rparr>"];
    use jobs_okD[OF assms(3), of r] assms(1) in \<open>auto simp: job_send_def holding_def stage_of_def job_ok_def led_def Let_def\<close>)
   (rule jobs_ok_own[OF assms(3,2), where r = r and j = "(ps_job s r)\<lparr>jb_stage := Stopped\<rparr>"];
    use jobs_okD[OF assms(3), of r] assms(1) in \<open>auto simp: job_finish_def holding_def stage_of_def job_ok_def led_def Let_def\<close>)

lemma job_timeout_jobs:
  assumes "stage_of s r \<notin> {Idle, Stopped}" "owners_ok s" "jobs_ok key s"
  shows "jobs_ok key (job_timeout True r s)"
proof (rule jobs_ok_own[OF assms(3,2), where r = r and j = "(ps_job s r)\<lparr>jb_gone := True\<rparr>"])
  show "job_ok key ((ps_job s)(r := (ps_job s r)\<lparr>jb_gone := True\<rparr>))
      (buf_Bytes (job_timeout True r s) (jb_buf ((ps_job s r)\<lparr>jb_gone := True\<rparr>))) r"
    using jobs_okD[OF assms(3), of r]
    by (cases "jb_stage (ps_job s r)") (auto simp: job_timeout_def job_ok_def led_def Let_def)
qed (use jobs_okD[OF assms(3), of r] assms(1) in
  \<open>auto simp: job_timeout_def holding_def stage_of_def job_ok_def Let_def\<close>)

lemma job_land_jobs:
  assumes "stage_of s r = Leading" "owners_ok s" "jobs_ok key s"
  shows "jobs_ok key (job_land True r s)"
  unfolding jobs_ok_def
proof
  fix q
  let ?js = "ps_job s" and ?s' = "job_land True r s"
  let ?js' = "ps_job ?s'" and ?b = "jb_buf (ps_job s q)"
  have lead: "jb_leader (?js r) = r" "buf_Bytes s (jb_buf (?js r)) = jb_written (?js r)" "jb_answer (?js r) = None"
    using jobs_okD[OF assms(3), of r] assms(1) by (simp_all add: job_ok_def stage_of_def Let_def)
  have js': "?js' x = (if x = r \<or> stage_of s x = Waiting r then (?js x)\<lparr>jb_stage := Landed (Copied (jb_written (?js r)))\<rparr>
      else ?js x)" for x
    by (simp add: job_land_def flight_value_def Let_def lead)
  have bytes: "buf_Bytes ?s' b = (if b = jb_buf (?js r) then [] else buf_Bytes s b)" for b
    by (simp add: job_land_def Let_def)
  have other: "?js' l = ?js l" if "past (jb_stage (?js l)) \<or> jb_stage (?js l) = Leading" "l \<noteq> r" for l
    using that by (auto simp: js' stage_of_def)
  note q = jobs_okD[OF assms(3), of q]
  have apart: "?b \<noteq> jb_buf (?js r)" if "q \<noteq> r" "holding s q"
    using owners_okD(3)[OF assms(2) that(2), of r] that assms(1) by (simp add: holding_def)
  have led: "led key ?js' x \<and> jb_written (?js' (jb_leader (?js x))) = jb_written (?js (jb_leader (?js x)))"
    if "led key ?js x" "past (jb_stage (?js x))" for x
  proof -
    have "jb_leader (?js x) \<noteq> r" "x \<noteq> r" using that assms(1) by (auto simp: led_def stage_of_def)
    moreover have "past (jb_stage (?js (jb_leader (?js x))))" using that(1) by (simp add: led_def)
    ultimately have "?js' x = ?js x" "?js' (jb_leader (?js x)) = ?js (jb_leader (?js x))" using that(2) other by blast+
    then show ?thesis using that(1) by (simp add: led_def)
  qed
  show "job_ok key ?js' (buf_Bytes ?s' (jb_buf (?js' q))) q"
  proof (cases "q = r \<or> stage_of s q = Waiting r")
    case True
    then have "jb_leader (?js q) = r" "key r = key q" "jb_answer (?js q) = None" "q \<noteq> r \<longrightarrow> jb_written (?js q) = []"
      "q \<noteq> r \<longrightarrow> buf_Bytes s ?b = []"
      using q lead by (auto simp: job_ok_def stage_of_def Let_def)
    then show ?thesis
      using True lead(1,2) apart by (auto simp: job_ok_def led_def js' bytes Let_def holding_def)
  next
    case False
    then have same: "?js' q = ?js q" by (simp add: js')
    have b: "stage_of s q \<noteq> Idle \<Longrightarrow> stage_of s q \<noteq> Stopped \<Longrightarrow> buf_Bytes ?s' ?b = buf_Bytes s ?b"
      using apart False by (simp add: bytes holding_def)
    show ?thesis
      using q b led[of q] False other
      by (cases "jb_stage (?js q)") (auto simp: job_ok_def stage_of_def same Let_def)
  qed
qed

lemma pool_step_jobs:
  assumes "pool_step True key s s'" "store_ok s" "owners_ok s" "jobs_ok key s"
  shows "jobs_ok key s'"
  using assms
  by (induction rule: pool_step.induct)
    (simp_all add: pool_take_jobs pool_new_jobs job_lead_jobs job_join_jobs job_write_jobs job_land_jobs job_again_jobs
      job_load_jobs job_end_jobs job_timeout_jobs)

lemma pool_inv_reachable: "pool_reachable True key s \<Longrightarrow> pool_inv key s"
proof (induction rule: pool_reachable.induct)
  case Start
  then show ?case
    by (simp add: pool_inv_def pool_start_def store_ok_def owners_ok_def holding_def stage_of_def jobs_ok_def job_ok_def)
next
  case (Step s s')
  then show ?case using pool_step_store pool_step_owners pool_step_jobs unfolding pool_inv_def by blast
qed


text \<open>
  Two requests on their way never hold the same buffer in the core package, and none of them is
  in the pool.
\<close>

theorem pooled_buffers_apart:
  assumes "pool_reachable True key s" "holding s r" "holding s q" "r \<noteq> q"
  shows "jb_buf (ps_job s r) \<noteq> jb_buf (ps_job s q) \<and> jb_buf (ps_job s r) \<notin> set (ps_pool s)"
  using pool_inv_reachable[OF assms(1)] owners_okD[of s r] assms(2-) by (auto simp: pool_inv_def)

section \<open>Slices\<close>

lemmas job_defs = pool_take_def pool_new_def job_lead_def job_join_def job_write_def job_land_def flight_value_def
  job_load_def job_send_def job_timeout_def body_bytes_def Let_def

text \<open>
  Request 0 leads, request 1 waits for it.  Request 0 is answered and gives its buffer back before
  request 1 has read the flight's body; request 2 takes the buffer and its upstream writes to it.
\<close>

definition leak_landed :: "string \<Rightarrow> pool_state" where
  "leak_landed a = job_land False 0 (job_write 0 0 a (job_join 1 0 (pool_new 1 (job_lead 0 (pool_new 0 pool_start)))))"

definition leak_state :: "string \<Rightarrow> string \<Rightarrow> pool_state" where
  "leak_state a b =
     (let v = Slice (1, length a);
          s = job_send 0 (job_load 0 0 v (leak_landed a));
          s1 = job_write 0 2 b (job_lead 2 (pool_take 2 0 s))
      in job_send 1 (job_load 0 1 v s1))"

lemma leak_landed_eq:
  assumes "a \<noteq> []"
  shows "leak_landed a = \<lparr>ps_heap = (\<lambda>x. [])(1 := a), ps_arrays = 2, ps_buffer = (\<lambda>b. (0, 0))(0 := (1, 0)), ps_buffers = 2,
    ps_pool = [], ps_job = (ps_job pool_start)
      (0 := \<lparr>jb_stage = Landed (Slice (1, length a)), jb_buf = 0, jb_leader = 0, jb_gone = False, jb_written = a, jb_answer = None\<rparr>,
       1 := \<lparr>jb_stage = Landed (Slice (1, length a)), jb_buf = 1, jb_leader = 0, jb_gone = False, jb_written = [], jb_answer = None\<rparr>)\<rparr>"
  using assms
  by (auto simp: leak_landed_def job_defs pool_start_def buf_Write_def buf_Reset_def set_buffer_def upd_job_def set_job_def
      stage_of_def fun_eq_iff)

lemmas pool_eval = pool_start_def buf_Write_def buf_Reset_def set_buffer_def upd_job_def set_job_def pool_Put_def
  stage_of_def buf_Bytes_def slice_bytes_def

lemma leak_landed_reachable:
  assumes "key 1 = key (0::nat)"
  shows "pool_reachable False key (leak_landed a)"
proof -
  note step = pool_reachable.Step
  have "pool_reachable False key (pool_new 0 pool_start)"
    by (rule step[OF pool_reachable.Start pool_step.New]) (simp add: pool_eval)
  then have "pool_reachable False key (job_lead 0 (pool_new 0 pool_start))"
    by (rule step[OF _ pool_step.Lead]) (auto simp: job_defs pool_eval)
  then have "pool_reachable False key (pool_new 1 (job_lead 0 (pool_new 0 pool_start)))"
    by (rule step[OF _ pool_step.New]) (simp add: job_defs pool_eval)
  then have "pool_reachable False key (job_join 1 0 (pool_new 1 (job_lead 0 (pool_new 0 pool_start))))"
    by (rule step[OF _ pool_step.Join]) (use assms in \<open>simp_all add: job_defs pool_eval\<close>)
  then have "pool_reachable False key (job_write 0 0 a (job_join 1 0 (pool_new 1 (job_lead 0 (pool_new 0 pool_start)))))"
    by (rule step[OF _ pool_step.Write]) (simp add: job_defs pool_eval)
  then show ?thesis
    unfolding leak_landed_def by (rule step[OF _ pool_step.Land]) (simp add: job_defs pool_eval)
qed

text \<open>After the leader's answer, and after the upstream has written for request 2.\<close>

abbreviation (input) leak_jobs :: "string \<Rightarrow> job \<Rightarrow> job \<Rightarrow> nat \<Rightarrow> job" where
  "leak_jobs a j0 j2 \<equiv> (ps_job pool_start)(0 := j0, Suc 0 := \<lparr>jb_stage = Landed (Slice (Suc 0, length a)), jb_buf = Suc 0,
     jb_leader = 0, jb_gone = False, jb_written = [], jb_answer = None\<rparr>, 2 := j2)"

lemma leak_steps:
  assumes "a \<noteq> []"
  defines "loaded \<equiv> job_load 0 0 (Slice (Suc 0, length a)) (leak_landed a)"
    and "j0 \<equiv> \<lparr>jb_stage = Stopped, jb_buf = 0, jb_leader = 0, jb_gone = False, jb_written = a, jb_answer = Some a\<rparr>"
    and "j2 \<equiv> \<lparr>jb_stage = Leading, jb_buf = 0, jb_leader = 2, jb_gone = False, jb_written = [], jb_answer = None\<rparr>"
  shows "loaded = \<lparr>ps_heap = (\<lambda>x. [])(Suc 0 := a), ps_arrays = 2, ps_buffer = (\<lambda>b. (0, 0))(0 := (Suc 0, length a)),
      ps_buffers = 2, ps_pool = [], ps_job = leak_jobs a (j0\<lparr>jb_stage := Loaded, jb_answer := None\<rparr>) (ps_job pool_start 2)\<rparr>"
    and "job_send 0 loaded = \<lparr>ps_heap = (\<lambda>x. [])(Suc 0 := a), ps_arrays = 2, ps_buffer = (\<lambda>b. (0, 0))(0 := (Suc 0, 0)),
      ps_buffers = 2, ps_pool = [0], ps_job = leak_jobs a j0 (ps_job pool_start 2)\<rparr>"
    and "job_lead 2 (pool_take 2 0 (job_send 0 loaded)) = \<lparr>ps_heap = (\<lambda>x. [])(Suc 0 := a), ps_arrays = 2,
      ps_buffer = (\<lambda>b. (0, 0))(0 := (Suc 0, 0)), ps_buffers = 2, ps_pool = [], ps_job = leak_jobs a j0 j2\<rparr>"
    and "length b = length a \<Longrightarrow> job_write 0 2 b (job_lead 2 (pool_take 2 0 (job_send 0 loaded)))
      = \<lparr>ps_heap = (\<lambda>x. [])(Suc 0 := b), ps_arrays = 2, ps_buffer = (\<lambda>b. (0, 0))(0 := (Suc 0, length b)),
          ps_buffers = 2, ps_pool = [], ps_job = leak_jobs a j0 (j2\<lparr>jb_written := b\<rparr>)\<rparr>"
proof -
  show l: "loaded = \<lparr>ps_heap = (\<lambda>x. [])(Suc 0 := a), ps_arrays = 2, ps_buffer = (\<lambda>b. (0, 0))(0 := (Suc 0, length a)),
      ps_buffers = 2, ps_pool = [], ps_job = leak_jobs a (j0\<lparr>jb_stage := Loaded, jb_answer := None\<rparr>) (ps_job pool_start 2)\<rparr>"
    using assms(1) by (auto simp: loaded_def j0_def leak_landed_eq job_defs pool_eval fun_eq_iff)
  show m: "job_send 0 loaded = \<lparr>ps_heap = (\<lambda>x. [])(Suc 0 := a), ps_arrays = 2, ps_buffer = (\<lambda>b. (0, 0))(0 := (Suc 0, 0)),
      ps_buffers = 2, ps_pool = [0], ps_job = leak_jobs a j0 (ps_job pool_start 2)\<rparr>"
    unfolding l by (auto simp: j0_def job_defs pool_eval fun_eq_iff)
  show n: "job_lead 2 (pool_take 2 0 (job_send 0 loaded)) = \<lparr>ps_heap = (\<lambda>x. [])(Suc 0 := a), ps_arrays = 2,
      ps_buffer = (\<lambda>b. (0, 0))(0 := (Suc 0, 0)), ps_buffers = 2, ps_pool = [], ps_job = leak_jobs a j0 j2\<rparr>"
    unfolding m by (auto simp: j2_def job_defs pool_eval fun_eq_iff)
  show "length b = length a \<Longrightarrow> job_write 0 2 b (job_lead 2 (pool_take 2 0 (job_send 0 loaded)))
      = \<lparr>ps_heap = (\<lambda>x. [])(Suc 0 := b), ps_arrays = 2, ps_buffer = (\<lambda>b. (0, 0))(0 := (Suc 0, length b)),
          ps_buffers = 2, ps_pool = [], ps_job = leak_jobs a j0 (j2\<lparr>jb_written := b\<rparr>)\<rparr>"
    unfolding n by (auto simp: j2_def job_defs pool_eval fun_eq_iff)
qed

lemma leak_state_reachable:
  assumes "key 1 = key (0::nat)" "key 2 \<noteq> key 0" "a \<noteq> []" "length b = length a"
  shows "pool_reachable False key (leak_state a b)"
proof -
  note step = pool_reachable.Step
  let ?v = "Slice (1, length a)"
  let ?s1 = "job_load 0 0 ?v (leak_landed a)"
  note s = leak_steps[OF assms(3), folded One_nat_def]
  have "pool_reachable False key ?s1"
    by (rule step[OF leak_landed_reachable[OF assms(1)] pool_step.Load])
      (simp add: leak_landed_eq[OF assms(3)] stage_of_def)
  then have r2: "pool_reachable False key (job_send 0 ?s1)"
    by (rule step[OF _ pool_step.Send]) (unfold s(1), simp_all add: stage_of_def)
  have r3: "pool_reachable False key (pool_take 2 0 (job_send 0 ?s1))"
    by (rule step[OF r2 pool_step.Take]) (unfold s(2), simp_all add: pool_start_def stage_of_def)
  have r4: "pool_reachable False key (job_lead 2 (pool_take 2 0 (job_send 0 ?s1)))"
    by (rule step[OF r3 pool_step.Lead]) (unfold s(2), use assms(2) in \<open>auto simp: pool_take_def pool_eval\<close>)
  have r5: "pool_reachable False key (job_write 0 2 b (job_lead 2 (pool_take 2 0 (job_send 0 ?s1))))"
    by (rule step[OF r4 pool_step.Write]) (unfold s(3), simp add: stage_of_def)
  have r6: "pool_reachable False key (job_load 0 1 ?v (job_write 0 2 b (job_lead 2 (pool_take 2 0 (job_send 0 ?s1)))))"
    by (rule step[OF r5 pool_step.Load]) (unfold s(4)[OF assms(4)], simp add: stage_of_def)
  have "pool_reachable False key (job_send 1 (job_load 0 1 ?v (job_write 0 2 b (job_lead 2 (pool_take 2 0 (job_send 0 ?s1))))))"
    by (rule step[OF r6 pool_step.Send]) (unfold s(4)[OF assms(4)], simp_all add: job_load_def Let_def stage_of_def)
  then show ?thesis by (simp add: leak_state_def Let_def)
qed

lemma leak_state_answers:
  assumes "a \<noteq> []" "length b = length a"
  shows "jb_answer (ps_job (leak_state a b) 1) = Some b" "jb_leader (ps_job (leak_state a b) 1) = 0"
    "jb_written (ps_job (leak_state a b) 0) = a" "jb_written (ps_job (leak_state a b) 2) = b"
proof -
  note w = leak_steps(4)[OF assms]
  have b: "b \<noteq> []" using assms by auto
  have e: "leak_state a b = job_send (Suc 0) (job_load 0 (Suc 0) (Slice (Suc 0, length a))
      (job_write 0 2 b (job_lead 2 (pool_take 2 0 (job_send 0 (job_load 0 0 (Slice (Suc 0, length a)) (leak_landed a)))))))"
    by (simp add: leak_state_def Let_def)
  show "jb_answer (ps_job (leak_state a b) 1) = Some b" "jb_leader (ps_job (leak_state a b) 1) = 0"
    "jb_written (ps_job (leak_state a b) 0) = a" "jb_written (ps_job (leak_state a b) 2) = b"
    unfolding e w using assms b by (simp_all add: job_send_def job_load_def body_bytes_def Let_def pool_eval)
qed

text \<open>
  In the Traefik plugin a client can be answered with the body of a request for another key: the
  body of its flight is a slice of the leader's buffer, which is in use again when the slice is read.
\<close>

theorem tk_answer_of_another_key:
  assumes "key 1 = key (0::nat)" "key 2 \<noteq> key 0" "a \<noteq> []" "length b = length a"
  shows "\<exists>s. pool_reachable False key s \<and> jb_leader (ps_job s 1) = 0 \<and> jb_written (ps_job s 0) = a
    \<and> jb_written (ps_job s 2) = b \<and> jb_answer (ps_job s 1) = Some b"
  using leak_state_reachable[OF assms] leak_state_answers[OF assms(3,4)] by blast

theorem tk_answer_of_another_key_witness:
  "\<exists>s. pool_reachable False (\<lambda>r. if r = 2 then ''b'' else ''a'') s \<and> jb_written (ps_job s 0) = ''mine''
    \<and> jb_answer (ps_job s 1) = Some ''your''"
  using tk_answer_of_another_key[of "\<lambda>r. if r = 2 then ''b'' else ''a''" "''mine''" "''your''"] by auto

text \<open>Request 0 times out while its upstream handler runs; request 1 takes the buffer at once.\<close>

definition late_start :: pool_state where
  "late_start = job_lead 1 (pool_take 1 0 (job_timeout False 0 (job_lead 0 (pool_new 0 pool_start))))"

definition late_written :: "string \<Rightarrow> string \<Rightarrow> pool_state" where
  "late_written a b = job_write 0 1 b (job_write 0 0 a late_start)"

definition late_state :: "string \<Rightarrow> string \<Rightarrow> pool_state" where
  "late_state a b = job_send 1 (job_load 0 1 (Slice (2, length (a @ b))) (job_land False 1 (late_written a b)))"

lemma late_start_eq:
  "late_start = \<lparr>ps_heap = (\<lambda>x. []), ps_arrays = 1, ps_buffer = (\<lambda>b. (0, 0)), ps_buffers = 1, ps_pool = [],
    ps_job = (ps_job pool_start)
      (0 := \<lparr>jb_stage = Leading, jb_buf = 0, jb_leader = 0, jb_gone = True, jb_written = [], jb_answer = None\<rparr>,
       Suc 0 := \<lparr>jb_stage = Leading, jb_buf = 0, jb_leader = Suc 0, jb_gone = False, jb_written = [], jb_answer = None\<rparr>)\<rparr>"
  by (auto simp: late_start_def job_defs pool_eval fun_eq_iff)

lemma late_written_eq:
  assumes "a \<noteq> []" "b \<noteq> []"
  shows "late_written a b = \<lparr>ps_heap = (\<lambda>x. [])(Suc 0 := a, 2 := a @ b), ps_arrays = 3,
    ps_buffer = (\<lambda>b. (0, 0))(0 := (2, length (a @ b))), ps_buffers = 1, ps_pool = [], ps_job = (ps_job pool_start)
      (0 := \<lparr>jb_stage = Leading, jb_buf = 0, jb_leader = 0, jb_gone = True, jb_written = a, jb_answer = None\<rparr>,
       Suc 0 := \<lparr>jb_stage = Leading, jb_buf = 0, jb_leader = Suc 0, jb_gone = False, jb_written = b, jb_answer = None\<rparr>)\<rparr>"
  using assms unfolding late_written_def late_start_eq by (auto simp: job_defs pool_eval fun_eq_iff)

lemma job_write_stage: "jb_stage (ps_job (job_write e r p s) q) = jb_stage (ps_job s q)"
  by (simp add: job_write_def)

lemma late_state_reachable:
  assumes "key 1 \<noteq> key (0::nat)" "a \<noteq> []" "b \<noteq> []"
  shows "pool_reachable False key (late_state a b)"
proof -
  note step = pool_reachable.Step
  have "pool_reachable False key (pool_new 0 pool_start)"
    by (rule step[OF pool_reachable.Start pool_step.New]) (simp add: pool_eval)
  then have "pool_reachable False key (job_lead 0 (pool_new 0 pool_start))"
    by (rule step[OF _ pool_step.Lead]) (auto simp: job_defs pool_eval)
  then have "pool_reachable False key (job_timeout False 0 (job_lead 0 (pool_new 0 pool_start)))"
    by (rule step[OF _ pool_step.Timeout]) (simp_all add: job_defs pool_eval)
  then have "pool_reachable False key (pool_take 1 0 (job_timeout False 0 (job_lead 0 (pool_new 0 pool_start))))"
    by (rule step[OF _ pool_step.Take]) (simp_all add: job_defs pool_eval)
  then have "pool_reachable False key late_start"
    unfolding late_start_def by (rule step[OF _ pool_step.Lead]) (use assms(1) in \<open>auto simp: job_defs pool_eval\<close>)
  then have "pool_reachable False key (job_write 0 0 a late_start)"
    by (rule step[OF _ pool_step.Write]) (simp add: late_start_eq stage_of_def)
  then have w: "pool_reachable False key (late_written a b)"
    unfolding late_written_def by (rule step[OF _ pool_step.Write]) (simp add: job_write_stage late_start_eq stage_of_def)
  have l: "pool_reachable False key (job_land False 1 (late_written a b))"
    by (rule step[OF w pool_step.Land]) (simp add: late_written_eq[OF assms(2,3)] stage_of_def)
  have "pool_reachable False key (job_load 0 1 (Slice (2, length (a @ b))) (job_land False 1 (late_written a b)))"
    by (rule step[OF l pool_step.Load]) (unfold late_written_eq[OF assms(2,3)], simp add: job_defs pool_eval)
  then show ?thesis
    unfolding late_state_def
    by (rule step[OF _ pool_step.Send]) (unfold late_written_eq[OF assms(2,3)], simp_all add: job_defs pool_eval)
qed

lemma late_state_answers:
  assumes "a \<noteq> []" "b \<noteq> []"
  shows "jb_answer (ps_job (late_state a b) 1) = Some (a @ b)" "jb_leader (ps_job (late_state a b) 1) = 1"
    "jb_written (ps_job (late_state a b) 0) = a" "jb_written (ps_job (late_state a b) 1) = b"
  unfolding late_state_def late_written_eq[OF assms] by (simp_all add: job_defs pool_eval)

text \<open>
  C28. In the Traefik plugin, without any coalescing, a request that timed out and a later one for
  another key can write to the same buffer: what the upstream handler still writes for the first
  one is sent to the client of the second one.
\<close>

theorem tk_answer_mixes_bodies:
  assumes "key 1 \<noteq> key (0::nat)" "a \<noteq> []" "b \<noteq> []"
  shows "\<exists>s. pool_reachable False key s \<and> jb_leader (ps_job s 1) = 1 \<and> jb_written (ps_job s 0) = a
    \<and> jb_written (ps_job s 1) = b \<and> jb_answer (ps_job s 1) = Some (a @ b)"
  using late_state_reachable[OF assms] late_state_answers[OF assms(2,3)] by blast

theorem tk_answer_mixes_bodies_witness:
  "\<exists>s. pool_reachable False (\<lambda>r. if r = 0 then ''a'' else ''b'') s \<and> jb_answer (ps_job s 1) = Some ''minetheirs''"
  using tk_answer_mixes_bodies[of "\<lambda>r. if r = 0 then ''a'' else ''b''" "''mine''" "''theirs''"] by auto

section \<open>Witnesses\<close>

lemma sample_pool_run:
  "\<exists>s. pool_reachable True key s \<and> jb_answer (ps_job s 0) = Some []"
proof -
  note step = pool_reachable.Step
  have "pool_reachable True key (pool_new 0 pool_start)"
    by (rule step[OF pool_reachable.Start pool_step.New]) (simp add: pool_eval)
  then have "pool_reachable True key (job_lead 0 (pool_new 0 pool_start))"
    by (rule step[OF _ pool_step.Lead]) (auto simp: job_defs pool_eval)
  then have "pool_reachable True key (job_land True 0 (job_lead 0 (pool_new 0 pool_start)))"
    by (rule step[OF _ pool_step.Land]) (auto simp: job_defs pool_eval)
  then have "pool_reachable True key (job_load 0 0 (Copied []) (job_land True 0 (job_lead 0 (pool_new 0 pool_start))))"
    by (rule step[OF _ pool_step.Load]) (auto simp: job_defs pool_eval)
  then have r: "pool_reachable True key
      (job_send 0 (job_load 0 0 (Copied []) (job_land True 0 (job_lead 0 (pool_new 0 pool_start)))))" (is "pool_reachable True key ?s")
    by (rule step[OF _ pool_step.Send]) (auto simp: job_defs pool_eval)
  have "jb_answer (ps_job ?s 0) = Some []" by (simp add: job_defs pool_eval)
  with r show ?thesis by blast
qed


theorem pooled_buffers_apart_witness:
  "jb_buf (ps_job (pool_new 1 (pool_new 0 pool_start)) 0) \<noteq> jb_buf (ps_job (pool_new 1 (pool_new 0 pool_start)) 1)"
proof -
  have "pool_reachable True (\<lambda>r. ''k'') (pool_new 1 (pool_new 0 pool_start))"
    by (rule pool_reachable.Step[OF pool_reachable.Step[OF pool_reachable.Start pool_step.New] pool_step.New])
      (simp_all add: pool_new_def pool_eval)
  from pooled_buffers_apart[OF this, of 0 1] show ?thesis by (simp add: holding_def pool_new_def pool_eval)
qed

end
