(* ===== verification/PluginLaws.thy ===== *)
theory PluginLaws
  imports Plugins ServeLaws
begin

text \<open>
  What the plugins for the web frameworks make of the cache handler.
\<close>

section \<open>Which storages they use\<close>

text \<open>A handler looks its storages up by the identifiers in the configuration.\<close>

definition no_uuids :: "default_cache \<Rightarrow> bool" where
  "no_uuids dc \<longleftrightarrow> list_all (\<lambda>u. u = []) (configured_uuids dc)"

lemma no_uuids_iff:
  "no_uuids dc \<longleftrightarrow> cp_Uuid (dc_Badger dc) = [] \<and> cp_Uuid (dc_Etcd dc) = [] \<and> cp_Uuid (dc_Nats dc) = []
     \<and> cp_Uuid (dc_Nuts dc) = [] \<and> cp_Uuid (dc_Olric dc) = [] \<and> cp_Uuid (dc_Otter dc) = []
     \<and> cp_Uuid (dc_Redis dc) = [] \<and> cp_Uuid (dc_SimpleFS dc) = []"
  by (simp add: no_uuids_def configured_uuids_def)

lemma if_E: "(if b then x else y) = z \<Longrightarrow> (b \<Longrightarrow> x = z \<Longrightarrow> P) \<Longrightarrow> (\<not> b \<Longrightarrow> y = z \<Longrightarrow> P) \<Longrightarrow> P"
  by (simp split: if_splits)

lemma go_bind_InrE: "go_bind m f = Inr y \<Longrightarrow> (\<And>x. m = Inr x \<Longrightarrow> f x = Inr y \<Longrightarrow> P) \<Longrightarrow> P"
  by (auto simp: go_bind_Inr_iff)

lemma parse_provider_no_uuid:
  assumes "parse_provider with_url with_path v = Inr p"
  shows "cp_Uuid p = []"
proof -
  obtain m where "go_foldM (provider_field with_url with_path) m cache_provider0 = Inr p"
    using assms by (auto simp: parse_provider_def go_bind_Inr_iff)
  then show ?thesis
    by (rule go_foldM_invariant[where P = "\<lambda>p. cp_Uuid p = []"])
      (auto simp: cache_provider0_def provider_field_def go_bind_Inr_iff split: if_splits)
qed

lemma no_uuids_intros:
  "no_uuids dc \<Longrightarrow> no_uuids (dc\<lparr>dc_AllowedHTTPVerbs := xAllowedHTTPVerbs\<rparr>)"
  "no_uuids dc \<Longrightarrow> no_uuids (dc\<lparr>dc_AllowedAdditionalStatusCodes := xAllowedAdditionalStatusCodes\<rparr>)"
  "no_uuids dc \<Longrightarrow> no_uuids (dc\<lparr>dc_CDN := xCDN\<rparr>)"
  "no_uuids dc \<Longrightarrow> no_uuids (dc\<lparr>dc_CacheName := xCacheName\<rparr>)"
  "no_uuids dc \<Longrightarrow> no_uuids (dc\<lparr>dc_Distributed := xDistributed\<rparr>)"
  "no_uuids dc \<Longrightarrow> no_uuids (dc\<lparr>dc_Headers := xHeaders\<rparr>)"
  "no_uuids dc \<Longrightarrow> no_uuids (dc\<lparr>dc_Mode := xMode\<rparr>)"
  "no_uuids dc \<Longrightarrow> no_uuids (dc\<lparr>dc_RegexExclude := xRegexExclude\<rparr>)"
  "no_uuids dc \<Longrightarrow> no_uuids (dc\<lparr>dc_Stale := xStale\<rparr>)"
  "no_uuids dc \<Longrightarrow> no_uuids (dc\<lparr>dc_Storers := xStorers\<rparr>)"
  "no_uuids dc \<Longrightarrow> no_uuids (dc\<lparr>dc_Timeout := xTimeout\<rparr>)"
  "no_uuids dc \<Longrightarrow> no_uuids (dc\<lparr>dc_TTL := xTTL\<rparr>)"
  "no_uuids dc \<Longrightarrow> no_uuids (dc\<lparr>dc_DefaultCacheControl := xDefaultCacheControl\<rparr>)"
  "no_uuids dc \<Longrightarrow> no_uuids (dc\<lparr>dc_MaxBodyBytes := xMaxBodyBytes\<rparr>)"
  "no_uuids dc \<Longrightarrow> no_uuids (dc\<lparr>dc_MappingEvictionInterval := xMappingEvictionInterval\<rparr>)"
  "no_uuids dc \<Longrightarrow> parse_provider u t v = Inr p \<Longrightarrow> no_uuids (dc\<lparr>dc_Badger := p\<rparr>)"
  "no_uuids dc \<Longrightarrow> parse_provider u t v = Inr p \<Longrightarrow> no_uuids (dc\<lparr>dc_Etcd := p\<rparr>)"
  "no_uuids dc \<Longrightarrow> parse_provider u t v = Inr p \<Longrightarrow> no_uuids (dc\<lparr>dc_Nats := p\<rparr>)"
  "no_uuids dc \<Longrightarrow> parse_provider u t v = Inr p \<Longrightarrow> no_uuids (dc\<lparr>dc_Nuts := p\<rparr>)"
  "no_uuids dc \<Longrightarrow> parse_provider u t v = Inr p \<Longrightarrow> no_uuids (dc\<lparr>dc_Olric := p\<rparr>)"
  "no_uuids dc \<Longrightarrow> parse_provider u t v = Inr p \<Longrightarrow> no_uuids (dc\<lparr>dc_Otter := p\<rparr>)"
  "no_uuids dc \<Longrightarrow> parse_provider u t v = Inr p \<Longrightarrow> no_uuids (dc\<lparr>dc_Redis := p\<rparr>)"
  "no_uuids dc \<Longrightarrow> parse_provider u t v = Inr p \<Longrightarrow> no_uuids (dc\<lparr>dc_SimpleFS := p\<rparr>)"
  by (simp_all add: no_uuids_iff parse_provider_no_uuid)

lemma Inr_no_uuids: "Inr dc = Inr dc' \<Longrightarrow> no_uuids dc \<Longrightarrow> no_uuids dc'"
  by simp

lemma cache_field_rest_no_uuids:
  assumes "cache_field_rest (k, v) dc = Inr dc'" "no_uuids dc"
  shows "no_uuids dc'"
  by (insert assms(1), unfold cache_field_rest_def prod.case, elim if_E go_bind_InrE; (erule Inr_no_uuids, (intro no_uuids_intros assms(2))?, assumption?))

lemma cache_field_no_uuids:
  assumes "cache_field (k, v) dc = Inr dc'" "no_uuids dc"
  shows "no_uuids dc'"
  by (insert assms(1), unfold cache_field_def prod.case, elim if_E go_bind_InrE; (erule cache_field_rest_no_uuids[OF _ assms(2)]
      | (erule Inr_no_uuids, (intro no_uuids_intros assms(2))?, assumption?)))

lemma parseDefaultCache_no_uuids:
  assumes "parseDefaultCache m = Inr dc"
  shows "no_uuids dc"
proof (rule go_foldM_invariant[where P = no_uuids])
  show "go_foldM cache_field m (default_cache0\<lparr>dc_MappingEvictionInterval := Hour\<rparr>) = Inr dc"
    using assms by (simp add: parseDefaultCache_def)
  show "no_uuids (default_cache0\<lparr>dc_MappingEvictionInterval := Hour\<rparr>)"
    by (simp add: no_uuids_iff default_cache0_def cache_provider0_def)
  show "no_uuids s'" if "no_uuids s" "cache_field x s = Inr s'" for x s s'
    using cache_field_no_uuids[of "fst x" "snd x"] that by simp
qed

lemma ParseConfiguration_no_uuids:
  assumes "ParseConfiguration re m c = Inr c'" "no_uuids (bc_DefaultCache c)"
  shows "no_uuids (bc_DefaultCache c')"
proof (rule go_foldM_invariant[where P = "\<lambda>c. no_uuids (bc_DefaultCache c)"])
  show "go_foldM (config_field re) m c = Inr c'" using assms(1) by (simp add: ParseConfiguration_def)
  show "no_uuids (bc_DefaultCache c2)" if "config_field re x c1 = Inr c2" "no_uuids (bc_DefaultCache c1)" for x c1 c2
    using that by (auto simp: config_field_def go_bind_Inr_iff parseDefaultCache_no_uuids split: prod.splits if_splits)
qed (fact assms(2))

lemma reorderStorers_Nil [simp]: "reorderStorers [] xs = []"
  by (simp add: reorderStorers_def)

lemma choose_storers_no_uuids:
  assumes "no_uuids dc"
  shows "fst (choose_storers memory registry dc) =
    [case map_of registry (DefaultStorageName @ ''-'') of None \<Rightarrow> memory | Some st \<Rightarrow> st]"
  using assms
  by (simp add: choose_storers_def no_uuids_iff configured_uuids_def Let_def List.map_filter_def split: option.splits)

lemma NewHTTPCacheHandler_storers:
  assumes "NewHTTPCacheHandler re ae memory registry c = Inr h"
  shows "sh_Storers h = fst (choose_storers memory registry (bc_DefaultCache c))"
  using assms by (auto simp: NewHTTPCacheHandler_def Let_def go_bind_Inr_iff split: prod.splits if_splits)

text \<open>
  C7. The storages configured for the Beego and the RoadRunner plugin are opened and registered but
  never used: whatever the configuration says and whichever storages open, the handler keeps its
  responses in the in-memory storer, its own or the one registered under that name.
\<close>

theorem configured_storages_unused:
  assumes "beego_NewHTTPCacheFilter pe section = Inr h \<or> roadrunner_Init pe section = Inr (Some h)"
  shows "\<exists>c. sh_Storers h = [case map_of (InitFromConfiguration (pe_register pe) (pe_factories pe) c (pe_registry pe))
       (DefaultStorageName @ ''-'') of None \<Rightarrow> pe_memory pe | Some st \<Rightarrow> st]"
proof -
  obtain c where c: "plugin_NewHTTPCache pe c = Inr h"
    and "c = beego_DefaultConfiguration \<or> (\<exists>m. host_configuration (pe_re pe) m = Inr c)"
    using assms
    by (auto simp: beego_NewHTTPCacheFilter_def beego_NewHTTPCache_def roadrunner_Init_def roadrunner_parseConfiguration_def
        go_bind_Inr_iff split: option.splits if_splits)
  then have "no_uuids (bc_DefaultCache c)"
    using ParseConfiguration_no_uuids[of "pe_re pe" _ base_configuration0 c]
    by (auto simp: host_configuration_def go_bind_Inr_iff beego_DefaultConfiguration_def base_configuration0_def
        default_cache0_def cache_provider0_def no_uuids_iff split: if_splits)
  then show ?thesis
    using NewHTTPCacheHandler_storers[OF c[unfolded plugin_NewHTTPCache_def]] choose_storers_no_uuids by metis
qed

definition every_pattern :: regexp_engine where
  "every_pattern = no_regexp\<lparr>re_ok := (\<lambda>p. True)\<rparr>"

definition badger_storer :: "default_provider storer" where
  "badger_storer = (default_storer every_pattern sample_codec)\<lparr>st_Name := ''BADGER'', st_Uuid := ''1''\<rparr>"

text \<open>A process in which every storage opens.\<close>

definition sample_plugin_env :: "default_provider plugin_env" where
  "sample_plugin_env = \<lparr>pe_re = every_pattern,
     pe_api = \<lparr>ae_re = every_pattern, ae_codec = sample_codec, ae_decode = (\<lambda>_. None), ae_url_parts = (\<lambda>_. None),
       ae_url_ok = (\<lambda>_. False), ae_pprof = (\<lambda>_ r w. w), ae_promhttp = (\<lambda>r w. w)\<rparr>,
     pe_memory = default_storer every_pattern sample_codec,
     pe_register = (\<lambda>s. amap_put (st_Name s @ ''-'' @ st_Uuid s) s),
     pe_factories = \<lparr>sf_badger = (\<lambda>_ _. Some badger_storer), sf_etcd = (\<lambda>_ _. None), sf_nats = (\<lambda>_ _. None),
       sf_nuts = (\<lambda>_ _. None), sf_olric = (\<lambda>_ _. None), sf_otter = (\<lambda>_ _. None), sf_redis = (\<lambda>_ _. None),
       sf_simplefs = (\<lambda>_ _. None)\<rparr>,
     pe_registry = []\<rparr>"

lemma sample_registry:
  "map_of (InitFromConfiguration (pe_register sample_plugin_env) (pe_factories sample_plugin_env) c
     (pe_registry sample_plugin_env)) (DefaultStorageName @ ''-'') = None"
  by (simp add: sample_plugin_env_def InitFromConfiguration_def Let_def tryToRegisterStorage_def badger_storer_def
      DefaultStorageName_def)

abbreviation (input) sample_section :: any where
  "sample_section \<equiv> VMap [(''default_cache'', VMap [(''badger'', VMap [(''path'', VStr ''/tmp/badger'')])])]"

lemma sample_provider_parsed:
  "parse_provider True True (VMap [(''path'', VStr ''/tmp/badger'')]) = Inr (cache_provider0\<lparr>cp_Path := ''/tmp/badger''\<rparr>)"
  by (simp add: parse_provider_def need_map_def provider_field_def str_or_empty_def)

lemma sample_cache_field:
  "cache_field (''badger'', v) dc = go_bind (parse_provider True True v) (\<lambda>p. Inr (dc\<lparr>dc_Badger := p\<rparr>))"
  by (simp add: cache_field_def)

lemma sample_config_field:
  "config_field re (''default_cache'', VMap m) c = go_bind (parseDefaultCache m) (\<lambda>x. Inr (c\<lparr>bc_DefaultCache := x\<rparr>))"
  by (simp add: config_field_def need_map_def)

lemma sample_section_parsed:
  "roadrunner_parseConfiguration re sample_section = Inr (base_configuration0\<lparr>bc_DefaultCache :=
     default_cache0\<lparr>dc_MappingEvictionInterval := Hour, dc_Badger := cache_provider0\<lparr>cp_Path := ''/tmp/badger''\<rparr>\<rparr>\<rparr>)"
  by (simp add: roadrunner_parseConfiguration_def host_configuration_def need_map_def ParseConfiguration_def
      parseDefaultCache_def sample_config_field sample_cache_field sample_provider_parsed)

lemma choose_memory:
  assumes "no_uuids dc" "map_of registry (DefaultStorageName @ ''-'') = None"
  shows "choose_storers memory registry dc = ([memory], amap_put (st_Name memory @ ''-'' @ st_Uuid memory) memory registry)"
  using assms
  by (simp add: choose_storers_def no_uuids_iff configured_uuids_def Let_def List.map_filter_def)

lemma sample_roadrunner: "\<exists>h. roadrunner_Init sample_plugin_env (Some sample_section) = Inr (Some h)"
proof -
  define c where "c = base_configuration0\<lparr>bc_DefaultCache := default_cache0\<lparr>dc_MappingEvictionInterval := Hour,
    dc_Badger := cache_provider0\<lparr>cp_Path := ''/tmp/badger''\<rparr>\<rparr>\<rparr>"
  define registry where "registry = InitFromConfiguration (pe_register sample_plugin_env) (pe_factories sample_plugin_env) c
     (pe_registry sample_plugin_env)"
  have parsed: "roadrunner_parseConfiguration (pe_re sample_plugin_env) sample_section = Inr c"
    unfolding c_def by (rule sample_section_parsed)
  have "no_uuids (bc_DefaultCache c)"
    by (simp add: c_def no_uuids_iff default_cache0_def cache_provider0_def)
  note chosen = choose_memory[OF this sample_registry[of c, folded registry_def], of "pe_memory sample_plugin_env"]
  have fields: "bc_URLs c = []" "bc_SurrogateKeys c = []" "dc_RegexExclude (bc_DefaultCache c) = []" "bc_API c = api_config0"
    by (simp_all add: c_def base_configuration0_def default_cache0_def)
  have "\<exists>h. plugin_NewHTTPCache sample_plugin_env c = Inr h"
    unfolding plugin_NewHTTPCache_def registry_def[symmetric]
    by (simp add: NewHTTPCacheHandler_def chosen fields Let_def InitializeRegexp_def InitializeSurrogate_def bs_init_def
        GenerateHandlerMap_def api_Initialize_def initializeSouin_def)
       (simp add: sample_plugin_env_def every_pattern_def)
  then show ?thesis by (auto simp: roadrunner_Init_def parsed)
qed

theorem configured_storages_unused_witness:
  "\<exists>h. roadrunner_Init sample_plugin_env (Some sample_section) = Inr (Some h)
     \<and> sh_Storers h = [default_storer every_pattern sample_codec]"
proof -
  obtain h where h: "roadrunner_Init sample_plugin_env (Some sample_section) = Inr (Some h)"
    using sample_roadrunner by blast
  with configured_storages_unused[of sample_plugin_env "Some sample_section" h] show ?thesis
    by (simp only: sample_registry) (simp add: sample_plugin_env_def)
qed

section \<open>Skipper\<close>

lemma stored_entry_empty:
  assumes "cw_Buf cw = []" "\<not> body_storable h rq (cw_statusCode cw) 0"
  shows "stored_entry e h now rq co key cw = None"
  using assms by (simp add: stored_entry_def Let_def split: sum.split prod.split option.split)

lemma Store_empty:
  assumes "Store e h now rq (Some co) key uri cw s = (r, cw', s')" "cw_Buf cw = []"
    and "\<not> body_storable h rq (cw_statusCode cw) 0" "\<not> is_upstream_error (cw_statusCode cw)"
  shows "r = Inr None" "sy_store s' = sy_store s"
proof -
  show "sy_store s' = sy_store s"
    using Store_store[of e h now rq "Some co" key uri cw s] stored_entry_empty[OF assms(2,3)] assms(1) by simp
  show "r = Inr None"
  proof (cases "store_admission h rq cw")
    case (Inl a)
    then have "Store e h now rq (Some co) key uri cw s = (Inr (fst a), snd a, s)"
      by (cases a) (simp add: Store_def)
    then show ?thesis
      using Store_error[of e h now rq "Some co" key uri cw s] assms(1,4) by (cases "fst a") auto
  next
    case (Inr p)
    obtain cw1 rc where p: "store_admission h rq cw = Inr (cw1, rc)" using Inr by (cases p) simp
    have f: "cw_Buf cw1 = []" "cw_statusCode cw1 = cw_statusCode cw"
      using only_header_changed_fields[OF store_admission_writer(2)[OF p]] assms(2) by simp_all
    show ?thesis
    proof (cases "store_ttl now (cx_Mode (req_ctx rq)) rc (cw_Header cw1) (url_TTL (currentMatchedURL e h rq))")
      case None
      then show ?thesis using assms(1) by (simp add: Store_def p Let_def)
    next
      case (Some q)
      obtain ma fr where q: "q = (ma, fr)" by fastforce
      have "\<not> isl (store_allowed (cx_Mode (req_ctx rq)) (Some co) rc fr)" by (simp add: store_allowed_def)
      then obtain b where "store_allowed (cx_Mode (req_ctx rq)) (Some co) rc fr = Inr b"
        by (cases "store_allowed (cx_Mode (req_ctx rq)) (Some co) rc fr") auto
      then show ?thesis using assms(1,3) f by (cases b) (auto simp: Store_def p Some q Let_def split: if_splits)
    qed
  qed
qed

lemma upstream_landed_value:
  assumes "cacheable_status h (cw_statusCode cw)"
    and "GetSurrogateControl (sh_SurrogateKeyStorer h) (cw_Header cw) = (hn, cc)"
    and "Store e h now rq co key uri (if cc = [] then cw_Set hn (url_DefaultCacheControl (sh_DefaultMatchedUrl h)) cw else cw) s
      = (Inr None, cw', s')"
  shows "\<exists>v. upstream_landed e h now rq co key uri cw s = (Landed (Some v) None, reset_buffer cw', s')
    \<and> sf_body v = cw_Buf cw' \<and> sf_code v = cw_statusCode cw"
  using assms by (cases "cc = []") (simp_all add: upstream_landed_def Let_def)

lemma load_value_status: "pristine cw \<Longrightarrow> cw_statusCode (load_value v cw) = sf_code v"
  by (simp add: load_value_def)

text \<open>
  C8. The filter of the Skipper plugin answers every request that its cache does not hold by itself,
  with status 200 and an empty body, before the backend of the route is asked, and no response is
  ever stored.
\<close>

theorem skipper_never_stores:
  assumes "pristine cw" "cw_Buf cw = []" "cw_statusCode cw = 200" "fl_roles f = []" "fl_requestCc f = Some co"
    and "isSafeHTTPMethod (req_Method (fl_req f))" "req_Method (fl_req f) \<noteq> ''HEAD''"
    and "\<not> hasAllowedAdditionalStatusCodesToCache h 200"
  shows "\<exists>cw' s'. upstream_stage (skipper_next e) h f None cw s = (Inr None, cw', s')
    \<and> rw_status (cw_Rw cw') = Some 200 \<and> rw_Body (cw_Rw cw') = [] \<and> sy_store s' = sy_store s"
proof -
  let ?e = "skipper_next e" and ?rq = "fl_req f" and ?key = "fl_cachedKey f" and ?uri = "fl_uri f"
  let ?s = "sys_log (EvCount RequestCounter) (sys_log (EvCount NoCachedResponseCounter) s)"
  let ?reply = "me_next ?e (sy_log ?s) ?rq"
  let ?cw = "cw\<lparr>cw_Done := up_done ?reply\<rparr>" and ?now = "up_time ?reply"
  have reply: "up_calls ?reply = []" "up_end ?reply = NextOk" by (simp_all add: skipper_next_def)
  have ok: "cacheable_status h 200" "\<not> is_upstream_error 200" by (simp_all add: cacheable_status_def isCacheableCode_def is_upstream_error_def)
  have "\<not> body_storable h ?rq 200 0"
    using assms(7,8) by (simp add: body_storable_def canStatusCodeEmptyContent_def)
  obtain hn cc where g: "GetSurrogateControl (sh_SurrogateKeyStorer h) (cw_Header ?cw) = (hn, cc)" by fastforce
  let ?cw2 = "if cc = [] then cw_Set hn (url_DefaultCacheControl (sh_DefaultMatchedUrl h)) ?cw else ?cw"
  obtain r cw3 s3 where st: "Store ?e h ?now ?rq (Some co) ?key ?uri ?cw2 (sys_log (EvNext ?rq) ?s) = (r, cw3, s3)"
    by (metis prod_cases3)
  have "cw_Buf ?cw2 = []" "cw_statusCode ?cw2 = 200" using assms(2,3) by simp_all
  note stored = Store_empty[OF st this(1), unfolded this(2), OF \<open>\<not> body_storable h ?rq 200 0\<close> ok(2)]
  have cw3: "pristine cw3" "cw_Buf cw3 = []" using Store_keeps[OF st] assms(1,2) by simp_all
  have same: "invalidate_groups h now (req_Method ?rq) hd s' = s'" for now hd s'
    using assms(6) by (simp add: invalidate_groups_def sys_store_def bs_Invalidate_def)
  obtain v where L: "upstream_leader ?e h ?rq (Some co) ?key ?uri cw ?s = (Landed (Some v) None, reset_buffer cw3, s3)"
    and v: "sf_body v = []" "sf_code v = 200"
    using upstream_landed_value[OF _ g st[unfolded stored(1)]] ok(1) assms(3) cw3(2) reply
    by (auto simp: upstream_leader_def call_next_def Let_def same)
  have "\<not> vary_differs ?rq v" using L upstream_leader_requestHeaders not_vary_differs_own by blast
  then have "upstream_stage ?e h f None cw s = (Inr None, Send (me_serve ?e) (load_value v (reset_buffer cw3)), s3)"
    using L by (simp add: upstream_stage_leader[OF assms(4)] assms(5) upstream_alone_def upstream_round_def upstream_settle_def)
  moreover have "pristine (load_value v (reset_buffer cw3))" using cw3 by simp
  ultimately show ?thesis
    using Send_answers[of "load_value v (reset_buffer cw3)" "me_serve ?e"] stored(2) v cw3
    by (simp add: load_value_fields load_value_status sys_log_def)
qed

theorem skipper_never_stores_witness:
  "\<exists>cw' s'. upstream_stage (skipper_next (sample_env sample_reply)) (sample_handler sample_storers) (sample_flow [])
      None client_writer (sample_sys sample_provider) = (Inr None, cw', s')
    \<and> rw_Body (cw_Rw cw') = [] \<and> sy_store s' = sample_provider"
proof -
  have "isSafeHTTPMethod (req_Method (fl_req (sample_flow [])))" "req_Method (fl_req (sample_flow [])) \<noteq> ''HEAD''"
    "\<not> hasAllowedAdditionalStatusCodesToCache (sample_handler sample_storers) 200"
    by (simp_all add: sample_flow_def sample_request_def isSafeHTTPMethod_def sample_handler_def base_configuration0_def
        default_cache0_def hasAllowedAdditionalStatusCodesToCache_def)
  from skipper_never_stores[OF client_writer_facts sample_flow_fields(3,4) this, of "sample_env sample_reply"
      "sample_sys sample_provider"]
  show ?thesis by (auto simp: sample_sys_def)
qed

section \<open>Echo\<close>

lemma cw_call_rw: "rw_Sent (cw_Rw (cw_call c cw)) = rw_Sent (cw_Rw cw)" "rw_Body (cw_Rw (cw_call c cw)) = rw_Body (cw_Rw cw)"
  by (cases c; simp add: cw_WriteHeader_def cw_Write_def cw_update_Header_def)+

lemma cw_calls_rw:
  "rw_Sent (cw_Rw (cw_calls cs cw)) = rw_Sent (cw_Rw cw)" "rw_Body (cw_Rw (cw_calls cs cw)) = rw_Body (cw_Rw cw)"
  by (induction cs arbitrary: cw) (simp_all add: cw_call_rw)

text \<open>
  C9. When a handler of Echo returns an error, the cache returns it unanswered, and the answer that
  Echo's error handler then gives goes into the buffer of the cache: neither its status nor its
  body ever reaches the client.
\<close>

theorem echo_error_unanswered:
  assumes "pristine cw" "fl_roles f = []"
    and "me_next e (sy_log (sys_log (EvCount RequestCounter) (sys_log (EvCount NoCachedResponseCounter) s))) (fl_req f) = reply"
    and "up_end reply = NextErr msg"
  shows "\<exists>cw' s'. upstream_stage e h f None cw s = (Inr (Some (NextError msg)), cw', s')
    \<and> rw_status (cw_Rw (echo_answer_error True calls cw')) = None
    \<and> rw_Body (cw_Rw (echo_answer_error True calls cw')) = []"
proof -
  have "pristine (cache_status_miss (fl_req f) ''SERVE-HTTP-ERROR'' ((cw_calls (up_calls reply) cw)\<lparr>cw_Done := up_done reply\<rparr>))"
    (is "pristine ?cw") using assms(1) by simp
  then have "rw_Sent (cw_Rw ?cw) = None" "rw_Body (cw_Rw ?cw) = []" unfolding pristine_def by blast+
  then show ?thesis
    using assms(2-)
    by (simp add: upstream_stage_leader upstream_alone_def upstream_round_def upstream_leader_def call_next_def
        upstream_settle_def Let_def echo_answer_error_def rw_status_def cw_calls_rw)
qed

theorem echo_error_unanswered_witness:
  "\<exists>cw' s'. upstream_stage (sample_env (sample_reply\<lparr>up_end := NextErr ''not found''\<rparr>)) (sample_handler sample_storers)
      (sample_flow []) None client_writer (sample_sys sample_provider) = (Inr (Some (NextError ''not found'')), cw', s')
    \<and> rw_status (cw_Rw (echo_answer_error True [CallWriteHeader 404, CallWrite ''Not Found''] cw')) = None"
  using echo_error_unanswered[OF client_writer_facts(1) sample_flow_fields(3) sample_env_next, where msg = "''not found''"
      and h = "sample_handler sample_storers" and s = "sample_sys sample_provider"
      and calls = "[CallWriteHeader 404, CallWrite ''Not Found'']" and reply = "sample_reply\<lparr>up_end := NextErr ''not found''\<rparr>"]
  by (simp, blast)

section \<open>Beego\<close>

text \<open>A status code never reaches the writer of the cache; everything else does.\<close>

lemma beego_calls_passed:
  "\<not> bw_headersSent w \<Longrightarrow> bw_Rw (beego_calls cs w) = cw_calls (beego_passed cs) (bw_Rw w)"
proof (induction cs arbitrary: w)
  case (Cons c cs)
  have sent: "bw_headersSent (beego_call c w) = bw_headersSent w"
    by (cases c; simp add: beego_WriteHeader_def beego_Write_def beego_update_Header_def)
  have "bw_Rw (beego_call c w) = (case c of CallWriteHeader _ \<Rightarrow> bw_Rw w | _ \<Rightarrow> cw_call c (bw_Rw w))"
    using Cons.prems by (cases c; simp add: beego_WriteHeader_def beego_Write_def beego_update_Header_def)
  then show ?case
    using Cons.IH[of "beego_call c w"] Cons.prems sent
    by (cases c; simp add: beego_calls_def beego_passed_def)
qed (simp add: beego_calls_def beego_passed_def)

end
