(* ===== verification/CaddyLifecycle.thy ===== *)
theory CaddyLifecycle
  imports CaddyLaws
begin

text \<open>
  The life cycle of the Caddy modules (plugins/caddy/app.go, cleaner.go): what starting, stopping
  and cleaning up do to the usage pool of the process and to the registry of storages, across
  reloads of the configuration, in which the modules of the old and the new one live side by side.
\<close>

section \<open>The usage pool\<close>

text \<open>
  Caddy's pool counts the users of a value: \<open>LoadOrStore\<close> takes the value that is there and adds a
  user, \<open>Delete\<close> removes a user, and the value with the last one.
\<close>

datatype 'w pool_value = StorageProviders "string list" | SurrogatePool "'w base_storage" | OtherValue

type_synonym 'w usage_pool = "(string, 'w pool_value \<times> nat) amap"

definition up_LoadOrStore :: "string \<Rightarrow> 'w pool_value \<Rightarrow> 'w usage_pool \<Rightarrow> ('w pool_value \<times> bool) \<times> 'w usage_pool" where
  "up_LoadOrStore key val pool =
     (case map_of pool key of
        Some (x, n) \<Rightarrow> ((x, True), amap_put key (x, Suc n) pool)
      | None \<Rightarrow> ((val, False), amap_put key (val, 1) pool))"

definition up_Delete :: "string \<Rightarrow> 'w usage_pool \<Rightarrow> 'w usage_pool" where
  "up_Delete key pool =
     (case map_of pool key of
        None \<Rightarrow> pool
      | Some (x, n) \<Rightarrow> if n \<le> 1 then amap_del key pool else amap_put key (x, n - 1) pool)"

definition stored_providers_key :: string where "stored_providers_key = ''STORED_PROVIDERS_KEY''"
definition coalescing_key :: string where "coalescing_key = ''COALESCING''"
definition surrogate_key :: string where "surrogate_key = ''SURROGATE''"

section \<open>The modules\<close>

definition newStorageProvider :: "'w pool_value" where
  "newStorageProvider = StorageProviders []"

definition providers_Add :: "string \<Rightarrow> 'w pool_value \<Rightarrow> 'w pool_value" where
  "providers_Add key sp =
     (case sp of StorageProviders listed \<Rightarrow> StorageProviders (List.insert key listed) | _ \<Rightarrow> sp)"

definition app_Start :: "'w usage_pool \<Rightarrow> 'w usage_pool" where
  "app_Start pool = snd (up_LoadOrStore stored_providers_key newStorageProvider (up_Delete stored_providers_key pool))"

text \<open>\<open>Stop\<close> empties the registry of the process, with what a new configuration has registered.\<close>

definition app_Stop :: "(string, 'w storer) amap \<Rightarrow> (string, 'w storer) amap" where
  "app_Stop registry = []"

text \<open>\<open>Cleanup\<close> of a handler; the pool's value under \<open>stored_providers_key\<close> must be a list of providers.\<close>

definition keys_to_clean :: "string list \<Rightarrow> 'w usage_pool \<Rightarrow> string list" where
  "keys_to_clean listed pool =
     filter (\<lambda>k. k \<noteq> stored_providers_key \<and> k \<noteq> coalescing_key \<and> k \<noteq> surrogate_key \<and> k \<notin> set listed) (amap_keys pool)"

definition handler_Cleanup :: "'w usage_pool \<Rightarrow> 'w usage_pool go" where
  "handler_Cleanup pool =
     (case up_LoadOrStore stored_providers_key newStorageProvider pool of
        ((StorageProviders listed, _), pool1) \<Rightarrow> Inr (fold up_Delete (keys_to_clean listed pool1) pool1)
      | _ \<Rightarrow> Inl TypeAssertion)"

text \<open>
  \<open>Provision\<close> with the pool it shares with the other handlers of the process: the surrogate
  storage it finds there, or puts there.
\<close>

definition pooled_surrogates :: "'w usage_pool \<Rightarrow> 'w base_storage option" where
  "pooled_surrogates pool =
     (case map_of pool surrogate_key of Some (SurrogatePool st, _) \<Rightarrow> Some st | _ \<Rightarrow> None)"

definition provision_pooled ::
  "('w base_storage option \<Rightarrow> ('w handler \<times> 'w caddy_app \<times> 'w base_storage option) go) \<Rightarrow> 'w usage_pool
     \<Rightarrow> ('w handler \<times> 'w caddy_app \<times> 'w usage_pool) go" where
  "provision_pooled provision pool =
     go_bind (provision (pooled_surrogates pool)) (\<lambda>(h, app, st).
       case st of
         None \<Rightarrow> Inl NilDeref
       | Some st \<Rightarrow>
           (case up_LoadOrStore surrogate_key (SurrogatePool st) pool of
              ((SurrogatePool _, _), pool1) \<Rightarrow> Inr (h, app, pool1)
            | _ \<Rightarrow> Inl TypeAssertion))"

section \<open>The process\<close>

text \<open>
  What lives as long as the process: the pool, the registry, and - the old ones and the new ones
  while a configuration is reloaded - the applications and the handlers provisioned so far.
\<close>

record 'w caddy_process =
  pr_pool :: "'w usage_pool"
  pr_registry :: "(string, 'w storer) amap"
  pr_apps :: "'w caddy_app list"
  pr_handlers :: "'w handler list"

definition caddy_process0 :: "'w caddy_process" where
  "caddy_process0 = \<lparr>pr_pool = [], pr_registry = [], pr_apps = [], pr_handlers = []\<rparr>"

text \<open>
  A configuration is loaded in any order that Caddy may choose: \<open>Registered\<close> is a storage module
  putting its storer into the registry, \<open>Provisioned\<close> a handler of the application \<open>i\<close>.
\<close>

inductive caddy_step :: "'w caddy_process \<Rightarrow> 'w caddy_process \<Rightarrow> bool" where
  Loaded: "ca_SurrogateStorage app = None \<Longrightarrow>
    caddy_step p (p\<lparr>pr_apps := pr_apps p @ [app]\<rparr>)"
| Registered: "caddy_step p (p\<lparr>pr_registry := amap_put name storer (pr_registry p)\<rparr>)"
| Provisioned: "i < length (pr_apps p) \<Longrightarrow>
    provision_pooled (Provision re ae load cwd memory (pr_registry p) s (pr_apps p ! i)) (pr_pool p) = Inr (h, app, pool) \<Longrightarrow>
    caddy_step p (p\<lparr>pr_pool := pool, pr_apps := (pr_apps p)[i := app], pr_handlers := pr_handlers p @ [h]\<rparr>)"
| Started: "caddy_step p (p\<lparr>pr_pool := app_Start (pr_pool p)\<rparr>)"
| Stopped: "caddy_step p (p\<lparr>pr_registry := app_Stop (pr_registry p)\<rparr>)"
| CleanedUp: "handler_Cleanup (pr_pool p) = Inr pool \<Longrightarrow> caddy_step p (p\<lparr>pr_pool := pool\<rparr>)"

inductive_cases caddy_stepE: "caddy_step p p'"

section \<open>The pool's values\<close>

text \<open>Under the two keys in use lie values of the types their readers assert, and there are no other keys.\<close>

definition pool_ok :: "'w usage_pool \<Rightarrow> bool" where
  "pool_ok pool \<longleftrightarrow>
     (\<forall>k v n. map_of pool k = Some (v, n) \<longrightarrow>
        (k = stored_providers_key \<and> v = newStorageProvider) \<or> (k = surrogate_key \<and> (\<exists>st. v = SurrogatePool st)))"

lemma pool_keys_differ [simp]:
  "surrogate_key \<noteq> stored_providers_key" "stored_providers_key \<noteq> surrogate_key"
  by (simp_all add: surrogate_key_def stored_providers_key_def)

lemma pool_okD:
  "pool_ok pool \<Longrightarrow> map_of pool k = Some (v, n) \<Longrightarrow>
     (k = stored_providers_key \<and> v = newStorageProvider) \<or> (k = surrogate_key \<and> (\<exists>st. v = SurrogatePool st))"
  unfolding pool_ok_def by blast

lemma pool_ok_empty [simp]: "pool_ok []"
  by (simp add: pool_ok_def)

lemma pool_ok_put:
  "pool_ok pool \<Longrightarrow> (k = stored_providers_key \<and> v = newStorageProvider) \<or> (k = surrogate_key \<and> (\<exists>st. v = SurrogatePool st))
     \<Longrightarrow> pool_ok (amap_put k (v, n) pool)"
  unfolding pool_ok_def by (auto simp: map_of_amap_put)

lemma pool_ok_LoadOrStore:
  assumes "pool_ok pool" "(k = stored_providers_key \<and> v = newStorageProvider) \<or> (k = surrogate_key \<and> (\<exists>st. v = SurrogatePool st))"
  shows "pool_ok (snd (up_LoadOrStore k v pool))"
  using assms(1) pool_ok_put [OF assms]
  by (auto simp: up_LoadOrStore_def pool_ok_def split: option.splits intro!: pool_ok_put [unfolded pool_ok_def])

lemma pool_ok_Delete: "pool_ok pool \<Longrightarrow> pool_ok (up_Delete k pool)"
  unfolding pool_ok_def up_Delete_def by (auto simp: map_of_amap_put map_of_amap_del split: option.splits if_splits)

lemma surrogates_LoadOrStore [simp]:
  "k \<noteq> surrogate_key \<Longrightarrow> pooled_surrogates (snd (up_LoadOrStore k v pool)) = pooled_surrogates pool"
  by (auto simp: pooled_surrogates_def up_LoadOrStore_def map_of_amap_put split: option.splits)

lemma surrogates_Delete [simp]:
  "k \<noteq> surrogate_key \<Longrightarrow> pooled_surrogates (up_Delete k pool) = pooled_surrogates pool"
  by (auto simp: pooled_surrogates_def up_Delete_def map_of_amap_put map_of_amap_del split: option.splits)

lemma handler_Cleanup_ok:
  assumes "pool_ok pool"
  shows "handler_Cleanup pool = Inr (snd (up_LoadOrStore stored_providers_key newStorageProvider pool))"
proof -
  obtain v b pool1 where l: "up_LoadOrStore stored_providers_key newStorageProvider pool = ((v, b), pool1)"
    by (metis prod.collapse)
  then have v: "v = newStorageProvider"
    by (auto simp: up_LoadOrStore_def split: option.splits dest: pool_okD [OF assms])
  have "pool_ok pool1" using pool_ok_LoadOrStore [OF assms] l by (metis snd_conv)
  then have "keys_to_clean [] pool1 = []"
    by (auto simp: keys_to_clean_def filter_empty_conv dest!: weak_map_of_SomeI dest: pool_okD)
  then show ?thesis using l v by (simp add: handler_Cleanup_def newStorageProvider_def)
qed

section \<open>Reachable processes\<close>

text \<open>
  The invariant of the process: the pool is well formed, and whatever surrogate storage an
  application or a handler has is the one in the pool.
\<close>

definition process_ok :: "'w caddy_process \<Rightarrow> bool" where
  "process_ok p \<longleftrightarrow> pool_ok (pr_pool p)
     \<and> (\<forall>app \<in> set (pr_apps p). \<forall>st. ca_SurrogateStorage app = Some st \<longrightarrow> pooled_surrogates (pr_pool p) = Some st)
     \<and> (\<forall>h \<in> set (pr_handlers p). pooled_surrogates (pr_pool p) = Some (sh_SurrogateKeyStorer h))"

lemma pool_ok_surrogates:
  "pool_ok pool \<Longrightarrow> map_of pool surrogate_key = (case pooled_surrogates pool of None \<Rightarrow> None
     | Some st \<Rightarrow> Some (SurrogatePool st, snd (the (map_of pool surrogate_key))))"
  by (cases "map_of pool surrogate_key") (auto simp: pooled_surrogates_def split: pool_value.splits dest: pool_okD)

lemma provision_pooled_ok:
  assumes p: "provision_pooled (Provision re ae load cwd memory registry s app) pool = Inr (h, app', pool')"
    and pool: "pool_ok pool"
    and app: "\<forall>st. ca_SurrogateStorage app = Some st \<longrightarrow> pooled_surrogates pool = Some st"
  shows "pool_ok pool' \<and> pooled_surrogates pool' = Some (sh_SurrogateKeyStorer h)
    \<and> (\<forall>st. pooled_surrogates pool = Some st \<longrightarrow> sh_SurrogateKeyStorer h = st)
    \<and> (\<forall>st. ca_SurrogateStorage app' = Some st \<longrightarrow> sh_SurrogateKeyStorer h = st)"
proof -
  obtain r where P: "Provision re ae load cwd memory registry s app (pooled_surrogates pool) = Inr r"
    and R: "(case r of (h, app, st) \<Rightarrow>
       case st of
         None \<Rightarrow> Inl NilDeref
       | Some st \<Rightarrow>
           (case up_LoadOrStore surrogate_key (SurrogatePool st) pool of
              ((SurrogatePool _, _), pool1) \<Rightarrow> Inr (h, app, pool1)
            | _ \<Rightarrow> Inl TypeAssertion)) = Inr (h, app', pool')"
    using p unfolding provision_pooled_def go_bind_Inr_iff by blast
  obtain st where r: "r = (h, app', Some st)" and pool': "pool' = snd (up_LoadOrStore surrogate_key (SurrogatePool st) pool)"
    using R by (auto split: prod.splits option.splits pool_value.splits)
  note sp = Provision_surrogates [OF P [unfolded r]]
  have st: "st = sh_SurrogateKeyStorer h \<and> (\<forall>x. pooled_surrogates pool = Some x \<longrightarrow> x = st)"
    using sp(1-3) app by (cases "ca_SurrogateStorage app") auto
  have "pool_ok pool'" unfolding pool' by (rule pool_ok_LoadOrStore [OF pool]) simp
  moreover have "pooled_surrogates pool' = Some st"
    using st pool_ok_surrogates [OF pool]
    by (auto simp: pool' up_LoadOrStore_def pooled_surrogates_def map_of_amap_put split: option.splits)
  ultimately show ?thesis using st sp(4) by (metis option.inject)
qed

lemma process_ok_step:
  assumes "caddy_step p p'" "process_ok p"
  shows "process_ok p'"
  using assms
proof cases
  case (Provisioned i re ae load cwd memory s h app pool)
  let ?app = "pr_apps p ! i"
  have "\<forall>st. ca_SurrogateStorage ?app = Some st \<longrightarrow> pooled_surrogates (pr_pool p) = Some st"
    using assms(2) Provisioned(2) unfolding process_ok_def by (meson nth_mem)
  with provision_pooled_ok [OF Provisioned(3)] assms(2)
  have "pool_ok pool" "pooled_surrogates pool = Some (sh_SurrogateKeyStorer h)"
    and same: "\<And>st. pooled_surrogates (pr_pool p) = Some st \<Longrightarrow> sh_SurrogateKeyStorer h = st"
    and "\<And>st. ca_SurrogateStorage app = Some st \<Longrightarrow> sh_SurrogateKeyStorer h = st"
    unfolding process_ok_def by blast+
  then show ?thesis
    using assms(2) set_update_subset_insert [of "pr_apps p" i app]
    by (auto simp: Provisioned(1) process_ok_def dest: same)
qed (auto simp: process_ok_def app_Start_def handler_Cleanup_ok
      intro!: pool_ok_LoadOrStore pool_ok_Delete)

lemma process_ok_reachable:
  "caddy_step\<^sup>*\<^sup>* caddy_process0 p \<Longrightarrow> process_ok p"
  by (induction rule: rtranclp_induct)
    (auto simp: process_ok_step, simp add: process_ok_def caddy_process0_def)

text \<open>
  C10. In whatever order a process loads configurations, registers storages, provisions handlers, starts
  and stops applications and cleans up: all its handlers, those of the old configuration and those
  of every later one, share one surrogate storage, and no reload loses the surrogate keys.
\<close>

theorem handlers_share_surrogates:
  assumes "caddy_step\<^sup>*\<^sup>* caddy_process0 p" "h \<in> set (pr_handlers p)" "h' \<in> set (pr_handlers p)"
  shows "sh_SurrogateKeyStorer h = sh_SurrogateKeyStorer h'"
  using process_ok_reachable [OF assms(1)] assms(2,3) unfolding process_ok_def by (metis option.inject)

text \<open>
  \<open>Cleanup\<close> never panics and never cleans: the two keys it spares are the only ones that ever enter
  the pool, so that its one effect is to count another user of the list of providers.
\<close>

theorem Cleanup_cleans_nothing:
  assumes "caddy_step\<^sup>*\<^sup>* caddy_process0 p"
  shows "handler_Cleanup (pr_pool p) = Inr (snd (up_LoadOrStore stored_providers_key newStorageProvider (pr_pool p)))
    \<and> pooled_surrogates (snd (up_LoadOrStore stored_providers_key newStorageProvider (pr_pool p))) = pooled_surrogates (pr_pool p)"
  using process_ok_reachable [OF assms] by (simp add: process_ok_def handler_Cleanup_ok)

section \<open>Witnesses\<close>

text \<open>Two configurations one after the other, with a clean-up of the first.\<close>

lemma sample_pooled:
  assumes "pool_ok pool"
  shows "\<exists>h app pool'. provision_pooled (sample_provision sample_module) pool = Inr (h, app, pool')
    \<and> pool_ok pool'"
proof -
  obtain h app o1 where P: "sample_provision sample_module (pooled_surrogates pool) = Inr (h, app, o1)"
    using sample_provisioned by blast
  have "o1 = Some (sh_SurrogateKeyStorer h)" using Provision_surrogates(2) [OF P] by (simp add: sample_app_def)
  then show ?thesis
    using P pool_ok_surrogates [OF assms]
    by (auto simp: provision_pooled_def go_bind_def up_LoadOrStore_def intro!: pool_ok_put [OF assms]
        split: option.splits)
qed

lemma sample_load:
  fixes p :: "default_provider caddy_process"
  assumes "pool_ok (pr_pool p)" "pr_registry p = []"
  shows "\<exists>p' h. caddy_step\<^sup>*\<^sup>* p p' \<and> pool_ok (pr_pool p') \<and> pr_registry p' = [] \<and> pr_handlers p' = pr_handlers p @ [h]"
proof -
  let ?p1 = "p\<lparr>pr_apps := pr_apps p @ [sample_app]\<rparr>"
  obtain h app pool where P: "provision_pooled (sample_provision sample_module) (pr_pool p) = Inr (h, app, pool)" "pool_ok pool"
    using sample_pooled [OF assms(1)] by blast
  let ?p2 = "?p1\<lparr>pr_pool := pool, pr_apps := (pr_apps ?p1)[length (pr_apps p) := app], pr_handlers := pr_handlers ?p1 @ [h]\<rparr>"
  have "caddy_step p ?p1"
    using caddy_step.Loaded [of sample_app p] by (simp add: sample_app_def)
  moreover have "caddy_step ?p1 ?p2"
    by (rule caddy_step.Provisioned) (use P assms(2) in simp_all)
  ultimately have "caddy_step\<^sup>*\<^sup>* p ?p2" by (meson converse_rtranclp_into_rtranclp rtranclp.rtrancl_refl)
  then show ?thesis using P(2) assms(2) by (intro exI [of _ ?p2] exI [of _ h]) simp
qed

lemma sample_process:
  "\<exists>(p :: default_provider caddy_process) h h'. caddy_step\<^sup>*\<^sup>* caddy_process0 p \<and> pr_handlers p = [h, h']"
proof -
  let ?p0 = "caddy_process0 :: default_provider caddy_process"
  have 0: "pool_ok (pr_pool ?p0)" "pr_registry ?p0 = []" "pr_handlers ?p0 = []"
    by (simp_all add: caddy_process0_def)
  obtain p1 h where 1: "caddy_step\<^sup>*\<^sup>* ?p0 p1" "pool_ok (pr_pool p1)" "pr_registry p1 = []"
    "pr_handlers p1 = pr_handlers ?p0 @ [h]"
    using sample_load [OF 0(1,2)] by blast
  obtain p2 h' where 2: "caddy_step\<^sup>*\<^sup>* p1 p2" "pr_handlers p2 = pr_handlers p1 @ [h']"
    using sample_load [OF 1(2,3)] by blast
  have "pr_handlers p2 = [h, h']" using 0(3) 1(4) 2(2) by simp
  then show ?thesis using rtranclp_trans [OF 1(1) 2(1)] by blast
qed

theorem handlers_share_surrogates_witness:
  "\<exists>p h h'. caddy_step\<^sup>*\<^sup>* caddy_process0 p \<and> pr_handlers p = [h, h']
     \<and> sh_SurrogateKeyStorer h = sh_SurrogateKeyStorer (h' :: default_provider handler)"
proof -
  obtain p and h h' :: "default_provider handler"
    where p: "caddy_step\<^sup>*\<^sup>* caddy_process0 p" "pr_handlers p = [h, h']"
    using sample_process by blast
  then show ?thesis using handlers_share_surrogates [OF p(1), of h h'] by auto
qed

theorem Cleanup_cleans_nothing_witness:
  "\<exists>p pool. caddy_step\<^sup>*\<^sup>* caddy_process0 p \<and> length (pr_handlers p :: default_provider handler list) = 2
     \<and> handler_Cleanup (pr_pool p) = Inr pool \<and> pooled_surrogates pool = pooled_surrogates (pr_pool p)"
proof -
  obtain p and h h' :: "default_provider handler"
    where p: "caddy_step\<^sup>*\<^sup>* caddy_process0 p" "pr_handlers p = [h, h']"
    using sample_process by blast
  then show ?thesis using Cleanup_cleans_nothing [OF p(1)] by auto
qed

end
