(* ===== verification/CacheKeysJson.thy ===== *)
theory CacheKeysJson
  imports Api
begin

text \<open>
  The JSON form of the cache-key rules (\<open>CacheKeys.MarshalJSON\<close> and \<open>UnmarshalJSON\<close> of
  configurationtypes/types.go): the text that is written, the scanner of encoding/json that checks
  it and splits it into tokens, and what the rules are after the detour through JSON that every
  Caddyfile takes.
\<close>

section \<open>The scanner of encoding/json\<close>

text \<open>
  Texts are bytes.  A \<open>\u\<close> escape is written back in UTF-8; one of a surrogate pair, which the
  program never writes, counts as the replacement character.  Number literals are read when they
  are integers, whose printed form is the literal.
\<close>

definition hex_value :: "char \<Rightarrow> nat option" where
  "hex_value c =
     (if is_digit c then Some (char_nat c - 48)
      else if 97 \<le> char_nat c \<and> char_nat c \<le> 102 then Some (char_nat c - 87)
      else if 65 \<le> char_nat c \<and> char_nat c \<le> 70 then Some (char_nat c - 55)
      else None)"

definition utf8_bytes :: "nat \<Rightarrow> string" where
  "utf8_bytes n =
     (if n < 128 then [char_of n]
      else if n < 2048 then [char_of (192 + n div 64), char_of (128 + n mod 64)]
      else if 55296 \<le> n \<and> n < 57344 then [CHR 0xEF, CHR 0xBF, CHR 0xBD]
      else [char_of (224 + n div 4096), char_of (128 + n div 64 mod 64), char_of (128 + n mod 64)])"

text \<open>What follows a backslash in a string literal: the bytes it stands for and the rest.\<close>

fun read_escape :: "string \<Rightarrow> (string \<times> string) option" where
  "read_escape [] = None"
| "read_escape (e # s) =
     (if e \<in> {CHR 0x22, CHR 0x5C, CHR ''/''} then Some ([e], s)
      else if e = CHR ''b'' then Some ([CHR 0x08], s)
      else if e = CHR ''f'' then Some ([CHR 0x0C], s)
      else if e = CHR ''n'' then Some ([CHR 0x0A], s)
      else if e = CHR ''r'' then Some ([CHR 0x0D], s)
      else if e = CHR ''t'' then Some ([CHR 0x09], s)
      else if e = CHR ''u'' then
        (case s of
           a # b # c # d # r \<Rightarrow>
             (case (hex_value a, hex_value b, hex_value c, hex_value d) of
                (Some a, Some b, Some c, Some d) \<Rightarrow> Some (utf8_bytes (((a * 16 + b) * 16 + c) * 16 + d), r)
              | _ \<Rightarrow> None)
         | _ \<Rightarrow> None)
      else None)"

lemma read_escape_length: "read_escape s = Some (t, r) \<Longrightarrow> length r < length s"
  by (cases s) (auto split: if_splits list.splits option.splits)

text \<open>A string literal after its opening quote: its value and what follows the closing quote.\<close>

function read_string :: "string \<Rightarrow> (string \<times> string) option" where
  "read_string [] = None"
| "read_string (c # s) =
     (if c = CHR 0x22 then Some ([], s)
      else if c = CHR 0x5C then
        (case read_escape s of
           None \<Rightarrow> None
         | Some (t, r) \<Rightarrow> map_option (\<lambda>(u, r'). (t @ u, r')) (read_string r))
      else if char_nat c < 32 then None
      else map_option (\<lambda>(u, r'). (c # u, r')) (read_string s))"
  by pat_completeness auto
termination
  by (relation "measure length") (auto dest!: read_escape_length)

lemma read_string_length: "read_string s = Some (t, r) \<Longrightarrow> length r < length s"
proof (induction s arbitrary: t rule: read_string.induct)
  case (2 c s)
  then show ?case
    by (auto split: if_splits option.splits prod.splits dest!: read_escape_length) fastforce+
qed simp

definition json_space :: "char \<Rightarrow> bool" where
  "json_space c \<longleftrightarrow> c \<in> {CHR '' '', CHR 0x09, CHR 0x0A, CHR 0x0D}"

definition json_integer :: "string \<Rightarrow> bool" where
  "json_integer s \<longleftrightarrow> (let d = CutPrefix s ''-'' in d = ''0'' \<or> (d \<noteq> [] \<and> list_all is_digit d \<and> hd d \<noteq> CHR ''0''))"

definition read_literal :: "string \<Rightarrow> (json_token \<times> string) option" where
  "read_literal s =
     (let w = takeWhile (\<lambda>c. \<not> json_space c \<and> c \<notin> set '',:]}'') s;
          r = dropWhile (\<lambda>c. \<not> json_space c \<and> c \<notin> set '',:]}'') s
      in if w = ''null'' then Some (None, r)
         else if w \<in> {''true'', ''false''} \<or> json_integer w then Some (Some w, r)
         else None)"

lemma read_literal_length: "read_literal s = Some (t, r) \<Longrightarrow> length r < length s"
proof -
  assume a: "read_literal s = Some (t, r)"
  define p where "p = (\<lambda>c. \<not> json_space c \<and> c \<notin> set '',:]}'')"
  have "takeWhile p s \<noteq> []" and r: "r = dropWhile p s"
    using a by (auto simp: read_literal_def Let_def p_def json_integer_def CutPrefix_def split: if_splits)
  moreover have "length s = length (takeWhile p s) + length r"
    unfolding r by (metis length_append takeWhile_dropWhile_id)
  ultimately show ?thesis by simp
qed

text \<open>
  The states of the token reader: what may come next; the stack holds the states to go on with
  after the closing brackets.
\<close>

datatype json_state = TopValue | TopEnd | ArrayStart | ArrayValue | ArrayComma
  | ObjectStart | ObjectKey | ObjectColon | ObjectValue | ObjectComma

definition value_next :: "json_state \<Rightarrow> bool" where
  "value_next st \<longleftrightarrow> st \<in> {TopValue, ArrayStart, ArrayValue, ObjectValue}"

fun after_value :: "json_state \<Rightarrow> json_state" where
  "after_value TopValue = TopEnd"
| "after_value ObjectValue = ObjectComma"
| "after_value st = ArrayComma"

abbreviation (input) emit :: "json_token \<Rightarrow> json_token list option \<Rightarrow> json_token list option" where
  "emit t \<equiv> map_option ((#) t)"

text \<open>The tokens of a text; \<open>None\<close> when it is not JSON.\<close>

function json_scan :: "json_state \<Rightarrow> json_state list \<Rightarrow> string \<Rightarrow> json_token list option" where
  "json_scan st stack s =
     (case s of
        [] \<Rightarrow> if st = TopEnd then Some [] else None
      | c # r \<Rightarrow>
          if json_space c then json_scan st stack r
          else if c = CHR ''{'' \<and> value_next st then emit (Some ''{'') (json_scan ObjectStart (after_value st # stack) r)
          else if c = CHR ''['' \<and> value_next st then emit (Some ''['') (json_scan ArrayStart (after_value st # stack) r)
          else if c = CHR ''}'' \<and> st \<in> {ObjectStart, ObjectComma} then
            (case stack of [] \<Rightarrow> None | st' # stack' \<Rightarrow> emit (Some ''}'') (json_scan st' stack' r))
          else if c = CHR '']'' \<and> st \<in> {ArrayStart, ArrayComma} then
            (case stack of [] \<Rightarrow> None | st' # stack' \<Rightarrow> emit (Some '']'') (json_scan st' stack' r))
          else if c = CHR '','' \<and> st = ObjectComma then json_scan ObjectKey stack r
          else if c = CHR '','' \<and> st = ArrayComma then json_scan ArrayValue stack r
          else if c = CHR '':'' \<and> st = ObjectColon then json_scan ObjectValue stack r
          else if c = CHR 0x22 \<and> st \<in> {ObjectStart, ObjectKey} then
            (case read_string r of
               None \<Rightarrow> None
             | Some (t, r') \<Rightarrow> emit (Some t) (json_scan ObjectColon stack r'))
          else if c = CHR 0x22 \<and> value_next st then
            (case read_string r of
               None \<Rightarrow> None
             | Some (t, r') \<Rightarrow> emit (Some t) (json_scan (after_value st) stack r'))
          else if value_next st then
            (case read_literal s of
               None \<Rightarrow> None
             | Some (t, r') \<Rightarrow> emit t (json_scan (after_value st) stack r'))
          else None)"
  by pat_completeness auto
termination
  by (relation "measure (\<lambda>(_, _, s). length s)")
    (auto dest!: read_string_length read_literal_length)

declare json_scan.simps [simp del]

definition json_tokens :: "string \<Rightarrow> json_token list option" where
  "json_tokens s = json_scan TopValue [] s"

section \<open>Writing the rules\<close>

text \<open>\<open>json.Marshal\<close> of a \<open>Key\<close>: the fields that are not empty, in the order of the structure.\<close>

definition json_flag_field :: "string \<Rightarrow> bool \<Rightarrow> string list" where
  "json_flag_field name b = (if b then [json_string name @ '':true''] else [])"

definition json_Key :: "cache_key_rule \<Rightarrow> string" where
  "json_Key k = ''{'' @ Join
     (json_flag_field ''disable_body'' (ck_DisableBody k) @ json_flag_field ''disable_host'' (ck_DisableHost k)
      @ json_flag_field ''disable_method'' (ck_DisableMethod k) @ json_flag_field ''disable_query'' (ck_DisableQuery k)
      @ json_flag_field ''disable_scheme'' (ck_DisableScheme k) @ json_flag_field ''disable_vary'' (ck_DisableVary k)
      @ json_flag_field ''sort_query'' (ck_SortQuery k) @ json_flag_field ''hash'' (ck_Hash k)
      @ json_flag_field ''hide'' (ck_Hide k)
      @ (if ck_Template k = [] then [] else [json_string ''template'' @ '':'' @ json_string (ck_Template k)])
      @ (if ck_Headers k = [] then [] else [json_string ''headers'' @ '':'' @ json_strings (ck_Headers k)])) '','' @ ''}''"

text \<open>The pattern is put between quotes as it is, without escapes.\<close>

definition CacheKeys_MarshalJSON :: "cache_keys \<Rightarrow> string" where
  "CacheKeys_MarshalJSON keys =
     ''{'' @ Join (map (\<lambda>(rg, key). json_quote @ rg @ json_quote @ '': '' @ json_Key key) (concat keys)) '','' @ ''}''"

text \<open>
  What becomes of the rules when they are written and read again.  Outer \<open>None\<close>: the text is not
  JSON, which \<open>json.Marshal\<close> refuses; inner \<open>None\<close>: the reading does not end.
\<close>

definition CacheKeys_through_json :: "regexp_engine \<Rightarrow> cache_keys \<Rightarrow> cache_keys go option option" where
  "CacheKeys_through_json re keys =
     map_option (\<lambda>ts. CacheKeys_parseJSON re ts []) (json_tokens (CacheKeys_MarshalJSON keys))"

section \<open>The YAML form\<close>

text \<open>
  A mapping node of yaml.v3: its pairs of a pattern and a rule, \<open>None\<close> for a rule that does not
  decode.  Decoding compiles the patterns; the result is \<open>None\<close> for an error.
\<close>

type_synonym yaml_rules = "(string \<times> cache_key_rule option) list"

definition RegValue_UnmarshalYAML :: "regexp_engine \<Rightarrow> string \<Rightarrow> string go" where
  "RegValue_UnmarshalYAML re value = (if re_ok re value then Inr value else Inl MustCompile)"

text \<open>The JSON of a pattern is compiled with its quotes.\<close>

definition RegValue_UnmarshalJSON :: "regexp_engine \<Rightarrow> string \<Rightarrow> string go" where
  "RegValue_UnmarshalJSON re b = (if re_ok re b then Inr b else Inl MustCompile)"

definition yaml_Decode :: "regexp_engine \<Rightarrow> yaml_rules \<Rightarrow> (string, cache_key_rule) amap option go" where
  "yaml_Decode re node =
     go_bind (go_foldM (\<lambda>(rg, _) ps. go_bind (RegValue_UnmarshalYAML re rg) (\<lambda>p. Inr (ps @ [p]))) node [])
       (\<lambda>ps. Inr (if list_all (\<lambda>(_, k). k \<noteq> None) node then Some (zip ps (map (the \<circ> snd) node)) else None))"

text \<open>The loop over half the node's contents decodes the whole node each time.\<close>

fun yaml_rounds :: "(string, cache_key_rule) amap option go \<Rightarrow> nat \<Rightarrow> cache_keys \<Rightarrow> (bool \<times> cache_keys) go" where
  "yaml_rounds d 0 c = Inr (False, c)"
| "yaml_rounds d (Suc n) c =
     go_bind d (\<lambda>r. case r of None \<Rightarrow> Inr (True, c) | Some m \<Rightarrow> yaml_rounds d n (c @ [m]))"

definition CacheKeys_UnmarshalYAML :: "regexp_engine \<Rightarrow> yaml_rules \<Rightarrow> cache_keys \<Rightarrow> (bool \<times> cache_keys) go" where
  "CacheKeys_UnmarshalYAML re node c = yaml_rounds (yaml_Decode re node) (length node) c"

text \<open>An error of \<open>time.ParseDuration\<close> is returned here, where \<open>UnmarshalJSON\<close> drops it.\<close>

definition Duration_UnmarshalYAML :: "string \<Rightarrow> duration option" where
  "Duration_UnmarshalYAML value = ParseDuration value"

text \<open>A node with \<open>n\<close> rules gives every rule \<open>n\<close> times.\<close>

lemma yaml_rounds_repeat: "yaml_rounds (Inr (Some m)) n c = Inr (False, c @ replicate n m)"
  by (induction n arbitrary: c) (simp_all add: go_bind_def replicate_append_same [symmetric])

lemma UnmarshalYAML_repeats:
  assumes "yaml_Decode re node = Inr (Some m)"
  shows "CacheKeys_UnmarshalYAML re node c = Inr (False, c @ replicate (length node) m)"
  by (simp add: CacheKeys_UnmarshalYAML_def assms yaml_rounds_repeat)

section \<open>What was written is read\<close>

lemma hex_value_lower_hex: "n < 16 \<Longrightarrow> hex_value (lower_hex n) = Some n"
proof -
  assume "n < 16"
  then have "n \<in> set [0..<16]" by simp
  then show ?thesis
    by (simp add: upt_rec lower_hex_def hex_value_def is_digit_def char_nat_def del: One_nat_def) auto
qed

lemma read_string_json_char: "read_string (json_char c @ s) = map_option (\<lambda>(u, r). (c # u, r)) (read_string s)"
proof -
  have n: "char_nat c < 256" unfolding char_nat_def by (metis of_char_eq_iff nat_of_char_less_256)
  have "hex_value (lower_hex (char_nat c div 16)) = Some (char_nat c div 16)"
    "hex_value (lower_hex (char_nat c mod 16)) = Some (char_nat c mod 16)"
    using n by (simp_all add: hex_value_lower_hex)
  moreover have "hex_value (CHR ''0'') = Some 0" by (simp add: hex_value_def is_digit_def char_nat_def)
  moreover have "utf8_bytes (char_nat c) = [c]" if "char_nat c < 128"
    using that by (simp add: utf8_bytes_def char_nat_def)
  moreover have "char_nat c < 128" if "c \<in> {CHR ''<'', CHR ''>'', CHR ''&''}"
    using that by (auto simp: char_nat_def)
  moreover have "char_nat (CHR 0x22) = 34" "char_nat (CHR 0x5C) = 92" by (simp_all add: char_nat_def)
  ultimately show ?thesis
    by (auto simp: json_char_def split: option.splits)
qed

lemma read_string_concat:
  "read_string (concat (map json_char s) @ CHR 0x22 # r) = Some (s, r)"
  by (induction s) (simp_all add: read_string_json_char)

text \<open>A text without quotes, backslashes and control characters is a string literal as it is.\<close>

definition plain_text :: "string \<Rightarrow> bool" where
  "plain_text s \<longleftrightarrow> list_all (\<lambda>c. c \<noteq> CHR 0x22 \<and> c \<noteq> CHR 0x5C \<and> 32 \<le> char_nat c) s"

lemma read_string_plain_prefix:
  "plain_text s \<Longrightarrow> read_string (s @ r) = map_option (\<lambda>(u, r'). (s @ u, r')) (read_string r)"
  by (induction s) (auto simp: plain_text_def option.map_comp comp_def option.map_ident split_def)

lemma read_string_plain: "plain_text s \<Longrightarrow> read_string (s @ CHR 0x22 # r) = Some (s, r)"
  by (simp add: read_string_plain_prefix)

abbreviation key_next :: "json_state \<Rightarrow> bool" where
  "key_next st \<equiv> st \<in> {ObjectStart, ObjectKey}"

lemma json_space_simps [simp]:
  "json_space (CHR '' '')" "\<not> json_space (CHR 0x22)" "\<not> json_space (CHR ''{'')" "\<not> json_space (CHR ''}'')"
  "\<not> json_space (CHR ''['')" "\<not> json_space (CHR '']'')" "\<not> json_space (CHR '','')" "\<not> json_space (CHR '':'')"
  "\<not> json_space (CHR ''t'')" "\<not> json_space (CHR ''r'')" "\<not> json_space (CHR ''u'')" "\<not> json_space (CHR ''e'')"
  by (simp_all add: json_space_def)

lemma scan_space [simp]: "json_scan st stack (CHR '' '' # r) = json_scan st stack r"
  by (simp add: json_scan.simps [of _ _ "_ # _"])

lemma scan_colon [simp]: "json_scan ObjectColon stack (CHR '':'' # r) = json_scan ObjectValue stack r"
  by (simp add: json_scan.simps [of _ _ "_ # _"] value_next_def)

lemma scan_comma [simp]:
  "json_scan ObjectComma stack (CHR '','' # r) = json_scan ObjectKey stack r"
  "json_scan ArrayComma stack (CHR '','' # r) = json_scan ArrayValue stack r"
  by (simp_all add: json_scan.simps [of _ _ "_ # _"] value_next_def)

lemma scan_open:
  "value_next st \<Longrightarrow> json_scan st stack (CHR ''{'' # r) = emit (Some ''{'') (json_scan ObjectStart (after_value st # stack) r)"
  "value_next st \<Longrightarrow> json_scan st stack (CHR ''['' # r) = emit (Some ''['') (json_scan ArrayStart (after_value st # stack) r)"
  by (simp_all add: json_scan.simps [of _ _ "_ # _"])

lemma scan_close:
  "st \<in> {ObjectStart, ObjectComma} \<Longrightarrow> json_scan st (st' # stack) (CHR ''}'' # r) = emit (Some ''}'') (json_scan st' stack r)"
  "st \<in> {ArrayStart, ArrayComma} \<Longrightarrow> json_scan st (st' # stack) (CHR '']'' # r) = emit (Some '']'') (json_scan st' stack r)"
  by (auto simp: json_scan.simps [of _ _ "_ # _"] value_next_def)

lemma scan_key:
  "key_next st \<Longrightarrow> read_string s = Some (t, r) \<Longrightarrow> json_scan st stack (CHR 0x22 # s) = emit (Some t) (json_scan ObjectColon stack r)"
  by (auto simp: json_scan.simps [of _ _ "_ # _"] value_next_def)

lemma scan_string_value:
  "value_next st \<Longrightarrow> read_string s = Some (t, r)
     \<Longrightarrow> json_scan st stack (CHR 0x22 # s) = emit (Some t) (json_scan (after_value st) stack r)"
  by (auto simp: json_scan.simps [of _ _ "_ # _"] value_next_def)

lemma scan_json_string_key:
  "key_next st \<Longrightarrow> json_scan st stack (json_string s @ r) = emit (Some s) (json_scan ObjectColon stack r)"
  unfolding json_string_def json_quote_def by (simp, rule scan_key) (simp_all add: read_string_concat)

lemma scan_json_string_value:
  "value_next st \<Longrightarrow> json_scan st stack (json_string s @ r) = emit (Some s) (json_scan (after_value st) stack r)"
  unfolding json_string_def json_quote_def by (simp, rule scan_string_value) (simp_all add: read_string_concat)

lemma scan_true:
  "c \<in> {CHR '','', CHR ''}''} \<Longrightarrow> json_scan ObjectValue stack (''true'' @ c # r) = emit (Some ''true'') (json_scan ObjectComma stack (c # r))"
  by (auto simp: json_scan.simps [of _ _ "_ # _"] value_next_def read_literal_def)

lemma append_eta: "((@) (a @ b)) = (\<lambda>x. a @ b @ x)" "((@) (c # b)) = (\<lambda>x. c # b @ x)"
  by (simp_all add: fun_eq_iff)

text \<open>The members of an object and the elements of an array of strings.\<close>

definition is_member :: "string \<Rightarrow> json_token list \<Rightarrow> bool" where
  "is_member f ts \<longleftrightarrow> (\<forall>st stack c r. key_next st \<longrightarrow> c \<in> {CHR '','', CHR ''}''} \<longrightarrow>
     json_scan st stack (f @ c # r) = map_option (\<lambda>x. ts @ x) (json_scan ObjectComma stack (c # r)))"

lemma scan_members:
  assumes "list_all2 is_member fs tss" "fs \<noteq> []" "key_next st"
  shows "json_scan st stack (Join fs '','' @ CHR ''}'' # r) = map_option (\<lambda>x. (concat tss) @ x) (json_scan ObjectComma stack (CHR ''}'' # r))"
  using assms
proof (induction fs "'',''" arbitrary: tss st rule: Join.induct)
  case (2 x)
  then show ?case by (auto simp: list_all2_Cons1 is_member_def)
next
  case (3 x y xs)
  then obtain t ts where t: "tss = t # ts" "is_member x t" "list_all2 is_member (y # xs) ts"
    by (auto simp: list_all2_Cons1)
  have "json_scan ObjectKey stack (Join (y # xs) '','' @ CHR ''}'' # r)
      = map_option (\<lambda>x. (concat ts) @ x) (json_scan ObjectComma stack (CHR ''}'' # r))"
    by (rule 3(1)) (use t in simp_all)
  moreover have "json_scan st stack (x @ CHR '','' # Join (y # xs) '','' @ CHR ''}'' # r)
      = map_option (\<lambda>x. t @ x) (json_scan ObjectComma stack (CHR '','' # Join (y # xs) '','' @ CHR ''}'' # r))"
    using t(2) 3(4) unfolding is_member_def by blast
  ultimately show ?case by (simp add: t(1) option.map_comp comp_def append_eta)
qed simp

lemma scan_object:
  assumes "list_all2 is_member fs tss" "value_next st"
  shows "json_scan st stack (''{'' @ Join fs '','' @ ''}'' @ r)
     = map_option (\<lambda>x. (Some ''{'' # concat tss @ [Some ''}'']) @ x) (json_scan (after_value st) stack r)"
proof (cases "fs = []")
  case True
  then show ?thesis using assms by (simp add: scan_open scan_close option.map_comp comp_def append_eta)
next
  case False
  then show ?thesis
    using scan_members [OF assms(1), of ObjectStart] assms(2)
    by (simp add: scan_open scan_close option.map_comp comp_def append_eta)
qed

lemma scan_elements:
  assumes "hs \<noteq> []" "value_next st" "after_value st = ArrayComma"
  shows "json_scan st stack (Join (map json_string hs) '','' @ CHR '']'' # r)
     = map_option (\<lambda>x. (map Some hs) @ x) (json_scan ArrayComma stack (CHR '']'' # r))"
  using assms
proof (induction "map json_string hs" "'',''" arbitrary: hs st rule: Join.induct)
  case (3 x y xs)
  then obtain h h' hs' where "hs = h # h' # hs'" "x = json_string h" "y = json_string h'" "xs = map json_string hs'"
    by auto
  moreover from this have "json_scan ArrayValue stack (Join (map json_string (h' # hs')) '','' @ CHR '']'' # r)
      = map_option (\<lambda>x. (map Some (h' # hs')) @ x) (json_scan ArrayComma stack (CHR '']'' # r))"
    by (intro 3(1)) (auto simp: value_next_def)
  ultimately show ?case
    using 3(4,5) by (simp add: scan_json_string_value option.map_comp comp_def append_eta)
qed (auto simp: scan_json_string_value append_eta)

lemma scan_json_strings:
  "value_next st \<Longrightarrow> json_scan st stack (json_strings hs @ r)
     = map_option (\<lambda>x. (Some ''['' # map Some hs @ [Some '']'']) @ x) (json_scan (after_value st) stack r)"
  using scan_elements [of hs ArrayStart]
  by (cases "hs = []")
    (simp_all add: json_strings_def scan_open scan_close option.map_comp comp_def append_eta value_next_def)

section \<open>The tokens of the rules\<close>

definition flag_tokens :: "string \<Rightarrow> bool \<Rightarrow> json_token list list" where
  "flag_tokens name b = (if b then [[Some name, Some ''true'']] else [])"

definition key_tokens :: "cache_key_rule \<Rightarrow> json_token list" where
  "key_tokens k = concat
     (flag_tokens ''disable_body'' (ck_DisableBody k) @ flag_tokens ''disable_host'' (ck_DisableHost k)
      @ flag_tokens ''disable_method'' (ck_DisableMethod k) @ flag_tokens ''disable_query'' (ck_DisableQuery k)
      @ flag_tokens ''disable_scheme'' (ck_DisableScheme k) @ flag_tokens ''disable_vary'' (ck_DisableVary k)
      @ flag_tokens ''sort_query'' (ck_SortQuery k) @ flag_tokens ''hash'' (ck_Hash k)
      @ flag_tokens ''hide'' (ck_Hide k)
      @ (if ck_Template k = [] then [] else [[Some ''template'', Some (ck_Template k)]])
      @ (if ck_Headers k = [] then [] else [Some ''headers'' # Some ''['' # map Some (ck_Headers k) @ [Some '']'']]))"

lemma flag_member: "list_all2 is_member (json_flag_field n b) (flag_tokens n b)"
  by (auto simp: json_flag_field_def flag_tokens_def is_member_def scan_json_string_key scan_true [simplified]
      option.map_comp comp_def)

lemma template_member: "is_member (json_string ''template'' @ '':'' @ json_string t) [Some ''template'', Some t]"
  by (auto simp: is_member_def scan_json_string_key scan_json_string_value value_next_def option.map_comp comp_def)

lemma headers_member:
  "is_member (json_string ''headers'' @ '':'' @ json_strings hs) (Some ''headers'' # Some ''['' # map Some hs @ [Some '']''])"
  by (auto simp: is_member_def scan_json_string_key scan_json_strings value_next_def option.map_comp comp_def append_eta)

lemma scan_json_Key:
  "value_next st \<Longrightarrow> json_scan st stack (json_Key k @ r)
     = map_option (\<lambda>x. (Some ''{'' # key_tokens k @ [Some ''}'']) @ x) (json_scan (after_value st) stack r)"
  unfolding json_Key_def key_tokens_def append_assoc
  by (rule scan_object) (auto intro!: list_all2_appendI flag_member template_member [simplified] headers_member [simplified])

lemma rule_member:
  "plain_text rg \<Longrightarrow> is_member (json_quote @ rg @ json_quote @ '': '' @ json_Key k)
     (Some rg # Some ''{'' # key_tokens k @ [Some ''}''])"
  by (auto simp: is_member_def json_quote_def scan_key [OF _ read_string_plain] scan_json_Key value_next_def
      option.map_comp comp_def append_eta)

abbreviation rule_tokens :: "string \<times> cache_key_rule \<Rightarrow> json_token list" where
  "rule_tokens \<equiv> \<lambda>(rg, k). Some rg # Some ''{'' # key_tokens k @ [Some ''}'']"

lemma tokens_MarshalJSON:
  assumes "list_all (\<lambda>(rg, _). plain_text rg) (concat keys)"
  shows "json_tokens (CacheKeys_MarshalJSON keys)
    = Some (Some ''{'' # concat (map rule_tokens (concat keys)) @ [Some ''}''])"
proof -
  have m: "list_all2 is_member (map (\<lambda>(rg, key). json_quote @ rg @ json_quote @ '': '' @ json_Key key) rs)
      (map rule_tokens rs)" if "list_all (\<lambda>(rg, _). plain_text rg) rs" for rs
    using that by (induction rs) (auto simp del: append.simps append_Cons intro!: rule_member)
  have "json_scan TopEnd [] [] = Some []" by (simp add: json_scan.simps [of _ _ "[]"])
  then show ?thesis
    using scan_object [OF m [OF assms], of TopValue "[]" "[]"]
    by (simp add: json_tokens_def CacheKeys_MarshalJSON_def value_next_def)
qed

section \<open>Reading the tokens\<close>

lemma rule_end [simp]: "json_rule (Some ''}'' # ts) k = Some (k, ts)"
  by (simp add: json_rule.simps [of "_ # _"])

lemma rule_flag:
  "n \<in> set json_flags \<Longrightarrow>
     json_rule (concat (flag_tokens n b) @ ts) k = json_rule ts (if b then set_json_flag n True k else k)"
  by (auto simp: flag_tokens_def json_rule.simps [of "_ # _"] next_token_def Sprint_def ParseBool_def json_flags_def)

lemma rule_template:
  "json_rule (Some ''template'' # Some v # ts) k = json_rule ts (k\<lparr>ck_Template := v\<rparr>)"
  by (simp add: json_rule.simps [of "_ # _"] next_token_def Sprint_def json_flags_def)

lemma json_headers_map: "'']'' \<notin> set hs \<Longrightarrow> json_headers (map Some hs @ Some '']'' # ts) = Some (hs, ts)"
  by (induction hs) (auto simp: Sprint_def)

lemma rule_headers:
  "'']'' \<notin> set hs \<Longrightarrow>
     json_rule (Some ''headers'' # Some ''['' # map Some hs @ Some '']'' # ts) k = json_rule ts (k\<lparr>ck_Headers := hs\<rparr>)"
  by (simp add: json_rule.simps [of "_ # _"] next_token_def Sprint_def json_flags_def json_headers_map)

lemma set_json_flag_if:
  "(if b then set_json_flag ''disable_body'' True k else k) = k\<lparr>ck_DisableBody := ck_DisableBody k \<or> b\<rparr>"
  "(if b then set_json_flag ''disable_host'' True k else k) = k\<lparr>ck_DisableHost := ck_DisableHost k \<or> b\<rparr>"
  "(if b then set_json_flag ''disable_method'' True k else k) = k\<lparr>ck_DisableMethod := ck_DisableMethod k \<or> b\<rparr>"
  "(if b then set_json_flag ''disable_query'' True k else k) = k\<lparr>ck_DisableQuery := ck_DisableQuery k \<or> b\<rparr>"
  "(if b then set_json_flag ''disable_scheme'' True k else k) = k\<lparr>ck_DisableScheme := ck_DisableScheme k \<or> b\<rparr>"
  "(if b then set_json_flag ''disable_vary'' True k else k) = k\<lparr>ck_DisableVary := ck_DisableVary k \<or> b\<rparr>"
  "(if b then set_json_flag ''sort_query'' True k else k) = k\<lparr>ck_SortQuery := ck_SortQuery k \<or> b\<rparr>"
  "(if b then set_json_flag ''hash'' True k else k) = k\<lparr>ck_Hash := ck_Hash k \<or> b\<rparr>"
  "(if b then set_json_flag ''hide'' True k else k) = k\<lparr>ck_Hide := ck_Hide k \<or> b\<rparr>"
  by (simp_all add: set_json_flag_def)

lemma read_key_tokens:
  assumes "'']'' \<notin> set (ck_Headers k)"
  shows "json_rule (key_tokens k @ Some ''}'' # ts) cache_key_rule0 = Some (k, ts)"
proof -
  have m: "\<And>n. n \<in> set json_flags \<longleftrightarrow> n \<in> {''disable_body'', ''disable_host'', ''disable_method'', ''disable_query'',
     ''disable_scheme'', ''disable_vary'', ''sort_query'', ''hash'', ''hide''}"
    by (auto simp: json_flags_def)
  show ?thesis
    using assms
    by (cases "ck_Template k = []"; cases "ck_Headers k = []"; cases k)
      (simp_all add: key_tokens_def rule_flag m set_json_flag_if rule_template rule_headers cache_key_rule0_def)
qed

lemma read_rules:
  assumes "list_all (\<lambda>(rg, k). rg \<noteq> ''}'' \<and> '']'' \<notin> set (ck_Headers k)) rs"
  shows "json_rules (concat (map rule_tokens rs) @ [Some ''}'']) = Some rs"
  using assms
proof (induction rs)
  case Nil
  then show ?case by (simp add: json_rules.simps [of "_ # _"] json_rules.simps [of "[]"])
next
  case (Cons r rs)
  obtain rg k where r: "r = (rg, k)" by fastforce
  have "json_rule (Some ''{'' # key_tokens k @ Some ''}'' # ts) cache_key_rule0 = Some (k, ts)" for ts
    using read_key_tokens [of k ts] Cons(2)
    by (subst json_rule.simps) (simp add: r Sprint_def json_flags_def)
  then show ?case using Cons by (simp add: r json_rules.simps [of "_ # _"] Sprint_def)
qed

section \<open>What the detour does to the rules\<close>

definition json_flag :: "cache_key_rule \<Rightarrow> string \<Rightarrow> bool" where
  "json_flag k name \<longleftrightarrow> k = set_json_flag name True k"

text \<open>The first flag that is set, in the order of the structure: the first token of the rule's object.\<close>

definition first_flag :: "cache_key_rule \<Rightarrow> string option" where
  "first_flag k = find (json_flag k) json_flags"

lemma json_flag_simps:
  "json_flag k ''disable_body'' = ck_DisableBody k" "json_flag k ''disable_host'' = ck_DisableHost k"
  "json_flag k ''disable_method'' = ck_DisableMethod k" "json_flag k ''disable_query'' = ck_DisableQuery k"
  "json_flag k ''disable_scheme'' = ck_DisableScheme k" "json_flag k ''disable_vary'' = ck_DisableVary k"
  "json_flag k ''sort_query'' = ck_SortQuery k" "json_flag k ''hash'' = ck_Hash k" "json_flag k ''hide'' = ck_Hide k"
  by (cases k; simp add: json_flag_def set_json_flag_def)+

lemma set_json_flag_simps:
  "set_json_flag ''disable_body'' b k = k\<lparr>ck_DisableBody := b\<rparr>"
  "set_json_flag ''disable_host'' b k = k\<lparr>ck_DisableHost := b\<rparr>"
  "set_json_flag ''disable_method'' b k = k\<lparr>ck_DisableMethod := b\<rparr>"
  "set_json_flag ''disable_query'' b k = k\<lparr>ck_DisableQuery := b\<rparr>"
  "set_json_flag ''disable_scheme'' b k = k\<lparr>ck_DisableScheme := b\<rparr>"
  "set_json_flag ''disable_vary'' b k = k\<lparr>ck_DisableVary := b\<rparr>"
  "set_json_flag ''sort_query'' b k = k\<lparr>ck_SortQuery := b\<rparr>"
  "set_json_flag ''hash'' b k = k\<lparr>ck_Hash := b\<rparr>"
  "set_json_flag ''hide'' b k = k\<lparr>ck_Hide := b\<rparr>"
  by (simp_all add: set_json_flag_def)

lemma key_tokens_first_flag:
  assumes "first_flag k = Some f"
  shows "key_tokens k = Some f # Some ''true'' # key_tokens (set_json_flag f False k)"
proof -
  have F: "\<And>n. flag_tokens n True = [[Some n, Some ''true'']]" "\<And>n. flag_tokens n False = []"
    by (simp_all add: flag_tokens_def)
  consider  "ck_DisableBody k" "f = ''disable_body''"
    | "\<not> ck_DisableBody k" "ck_DisableHost k" "f = ''disable_host''"
    | "\<not> ck_DisableBody k" "\<not> ck_DisableHost k" "ck_DisableMethod k" "f = ''disable_method''"
    | "\<not> ck_DisableBody k" "\<not> ck_DisableHost k" "\<not> ck_DisableMethod k" "ck_DisableQuery k" "f = ''disable_query''"
    | "\<not> ck_DisableBody k" "\<not> ck_DisableHost k" "\<not> ck_DisableMethod k" "\<not> ck_DisableQuery k" "ck_DisableScheme k" "f = ''disable_scheme''"
    | "\<not> ck_DisableBody k" "\<not> ck_DisableHost k" "\<not> ck_DisableMethod k" "\<not> ck_DisableQuery k" "\<not> ck_DisableScheme k" "ck_DisableVary k" "f = ''disable_vary''"
    | "\<not> ck_DisableBody k" "\<not> ck_DisableHost k" "\<not> ck_DisableMethod k" "\<not> ck_DisableQuery k" "\<not> ck_DisableScheme k" "\<not> ck_DisableVary k" "ck_SortQuery k" "f = ''sort_query''"
    | "\<not> ck_DisableBody k" "\<not> ck_DisableHost k" "\<not> ck_DisableMethod k" "\<not> ck_DisableQuery k" "\<not> ck_DisableScheme k" "\<not> ck_DisableVary k" "\<not> ck_SortQuery k" "ck_Hash k" "f = ''hash''"
    | "\<not> ck_DisableBody k" "\<not> ck_DisableHost k" "\<not> ck_DisableMethod k" "\<not> ck_DisableQuery k" "\<not> ck_DisableScheme k" "\<not> ck_DisableVary k" "\<not> ck_SortQuery k" "\<not> ck_Hash k" "ck_Hide k" "f = ''hide''"
    using assms unfolding first_flag_def json_flags_def find.simps json_flag_simps by (metis option.inject option.distinct(1))
  then show ?thesis
    by cases (simp_all add: key_tokens_def F set_json_flag_simps)
qed

lemma first_flag_in: "first_flag k = Some f \<Longrightarrow> f \<in> set json_flags"
  by (auto simp: first_flag_def find_Some_iff)

lemma set_json_flag_headers [simp]: "ck_Headers (set_json_flag f b k) = ck_Headers k"
  by (simp add: set_json_flag_def)

text \<open>
  C11. The first rule loses its pattern when the rules go through JSON, as they do from a Caddyfile to
  the module they configure: its first flag becomes the pattern and is no longer set; the other
  rules come through unchanged.
\<close>

theorem json_loses_first_pattern:
  assumes "concat keys = (rg, k) # rest" "first_flag k = Some f"
    and "list_all (\<lambda>(rg, k). plain_text rg \<and> rg \<noteq> ''}'' \<and> '']'' \<notin> set (ck_Headers k)) ((rg, k) # rest)"
    and "list_all (\<lambda>(rg, _). re_ok re rg) ((f, k) # rest)"
  shows "CacheKeys_through_json re keys = Some (Some (Inr ([(f, set_json_flag f False k)] # map (\<lambda>r. [r]) rest)))"
proof -
  let ?R = "concat (map rule_tokens rest) @ [Some ''}'']"
  have "json_tokens (CacheKeys_MarshalJSON keys)
      = Some (Some ''{'' # Some rg # Some ''{'' # key_tokens k @ Some ''}'' # ?R)"
    using tokens_MarshalJSON [of keys] assms(1,3) by (simp add: list_all_iff split_def)
  moreover have "json_rules ?R = Some rest"
    by (rule read_rules) (use assms(3) in \<open>auto simp: list_all_iff\<close>)
  moreover have "json_rule (Some ''true'' # key_tokens (set_json_flag f False k) @ Some ''}'' # ?R) cache_key_rule0
      = Some (set_json_flag f False k, ?R)"
    using read_key_tokens [of "set_json_flag f False k" ?R] assms(3)
    by (subst json_rule.simps) (simp add: Sprint_def json_flags_def)
  moreover have "f \<noteq> ''}''" using first_flag_in [OF assms(2)] by (auto simp: json_flags_def)
  ultimately show ?thesis
    using assms(4) key_tokens_first_flag [OF assms(2)]
    by (simp add: CacheKeys_through_json_def CacheKeys_parseJSON_def json_rules.simps [of "_ # _"] Sprint_def)
qed

lemma scan_members_bad:
  assumes "list_all2 is_member fs tss" "key_next st" "\<And>st x. key_next st \<Longrightarrow> json_scan st stack (bad @ x) = None"
  shows "json_scan st stack (Join (fs @ bad # gs) '','' @ r) = None"
  using assms(1,2)
proof (induction fs arbitrary: tss st)
  case Nil
  then show ?case by (cases gs) (auto simp: assms(3))
next
  case (Cons f fs)
  obtain y ys where y: "fs @ bad # gs = y # ys" by (cases "fs @ bad # gs") auto
  have "json_scan ObjectKey stack (Join (y # ys) '','' @ r) = None"
    using Cons.IH [of "tl tss" ObjectKey] Cons.prems(1) by (auto simp: y list_all2_Cons1)
  then show ?case using Cons.prems by (auto simp: y list_all2_Cons1 is_member_def)
qed

text \<open>
  C12. A pattern with an escape that JSON does not know, such as \<open>.+\.css\<close>, makes the text of all rules
  invalid: marshalling them is an error, and Caddy hands the module no settings at all.
\<close>

theorem json_refuses_pattern:
  assumes "concat keys = pre @ (a @ CHR 0x5C # e # b, k) # post"
    and "list_all (\<lambda>(rg, _). plain_text rg) pre" "plain_text a"
    and "e \<notin> {CHR 0x22, CHR 0x5C, CHR ''/'', CHR ''b'', CHR ''f'', CHR ''n'', CHR ''r'', CHR ''t'', CHR ''u''}"
  shows "CacheKeys_through_json re keys = None"
proof -
  let ?f = "\<lambda>(rg, key). json_quote @ rg @ json_quote @ '': '' @ json_Key key"
  have "list_all2 is_member (map ?f pre) (map rule_tokens pre)"
    using assms(2) by (induction pre) (auto simp del: append.simps append_Cons intro!: rule_member)
  moreover have "read_string (a @ CHR 0x5C # e # x) = None" for x
    using assms(4) by (simp add: read_string_plain_prefix [OF assms(3)])
  then have "json_scan st stack (?f (a @ CHR 0x5C # e # b, k) @ x) = None" if "key_next st" for st stack x
    using that by (auto simp: json_quote_def json_scan.simps [of _ _ "_ # _"] value_next_def)
  ultimately have "json_scan ObjectStart [TopEnd] (Join (map ?f pre @ ?f (a @ CHR 0x5C # e # b, k) # map ?f post) '','' @ ''}'') = None"
    by (intro scan_members_bad) auto
  then show ?thesis
    by (simp add: CacheKeys_through_json_def json_tokens_def CacheKeys_MarshalJSON_def assms(1) scan_open value_next_def)
qed

section \<open>Witnesses\<close>

theorem json_loses_first_pattern_witness:
  "CacheKeys_through_json (no_regexp\<lparr>re_ok := \<lambda>_. True\<rparr>)
     [[(''/a.+'', cache_key_rule0\<lparr>ck_DisableBody := True, ck_Hash := True\<rparr>)], [(''/b.+'', cache_key_rule0)]]
   = Some (Some (Inr [[(''disable_body'', cache_key_rule0\<lparr>ck_Hash := True\<rparr>)], [(''/b.+'', cache_key_rule0)]]))"
proof -
  let ?k = "cache_key_rule0\<lparr>ck_DisableBody := True, ck_Hash := True\<rparr>"
  have "CacheKeys_through_json (no_regexp\<lparr>re_ok := \<lambda>_. True\<rparr>) [[(''/a.+'', ?k)], [(''/b.+'', cache_key_rule0)]]
      = Some (Some (Inr ([(''disable_body'', set_json_flag ''disable_body'' False ?k)] # map (\<lambda>r. [r]) [(''/b.+'', cache_key_rule0)])))"
    by (rule json_loses_first_pattern)
      (auto simp: first_flag_def json_flags_def json_flag_simps plain_text_def char_nat_def cache_key_rule0_def)
  then show ?thesis by (simp add: set_json_flag_simps cache_key_rule0_def)
qed

theorem json_refuses_pattern_witness:
  "CacheKeys_through_json (no_regexp\<lparr>re_ok := \<lambda>_. True\<rparr>) [[(''/a.+'', cache_key_rule0)], [(''.+'' @ CHR 0x5C # ''.css'', cache_key_rule0)]] = None"
  by (rule json_refuses_pattern [where pre = "[(''/a.+'', cache_key_rule0)]" and a = "''.+''" and b = "''css''" and post = "[]"])
    (auto simp: plain_text_def char_nat_def)

end
