(* ===== verification/TlsProviders.thy ===== *)
theory TlsProviders
  imports GoStrings
begin

text \<open>
  The certificates of the Souin server (plugins/souin/providers, plugins/souin/main.go): each
  configured provider has a file of certificates that is loaded at the start and again whenever it
  is written, and every certificate loaded makes the TLS server start again.

  Parameters: what a file holds when it is read, encoding/json's decoder of it, encoding/base64's
  and crypto/tls's conversions with their errors ignored as the code ignores them, and which files
  a watcher can be set on.
\<close>

section \<open>Data\<close>

record acme_domain =
  ad_Main :: string
  ad_SANs :: "string list"

record acme_certificate =
  ac_Certificate :: string
  ac_Domain :: acme_domain
  ac_Key :: string

record acme_body =
  ab_Contact :: "string list"
  ab_Status :: string

record acme_registration =
  ar_Body :: acme_body
  ar_URI :: string

record acme_account =
  aa_Email :: string
  aa_KeyType :: string
  aa_PrivateKey :: string
  aa_Registration :: acme_registration

record acme_file =
  af_Account :: acme_account
  af_Certificates :: "acme_certificate list"

record certificate =
  ce_certificate :: string
  ce_key :: string

record common_provider =
  pv_Certificates :: "(string, certificate) amap"
  pv_fileLocation :: string

text \<open>
  The configuration of the TLS listeners that all goroutines share: its certificates, and how many
  times a value has been sent over the channel that makes the listener start again.
\<close>

record 'cert tls_config =
  tc_Certificates :: "'cert list"
  tc_restarts :: nat

text \<open>
  The packages: the content of a file (\<open>None\<close>: the error of \<open>os.ReadFile\<close>), the decoded JSON
  (outer \<open>None\<close>: the error; inner \<open>None\<close>: JSON null, which leaves a nil pointer), what base64
  decoding gives although it may have failed, and the key pair, the empty certificate on an error.
\<close>

record 'cert tls_env =
  te_ReadFile :: "string \<Rightarrow> string option"
  te_Unmarshal :: "string \<Rightarrow> acme_file option option"
  te_DecodeString :: "string \<Rightarrow> string"
  te_X509KeyPair :: "string \<Rightarrow> string \<Rightarrow> 'cert"

section \<open>Loading\<close>

definition load_certificate ::
  "'cert tls_env \<Rightarrow> acme_certificate \<Rightarrow> common_provider \<times> 'cert tls_config \<Rightarrow> common_provider \<times> 'cert tls_config" where
  "load_certificate e i pt =
     (let decodedKey = te_DecodeString e (ac_Key i);
          first = hd (Split (te_DecodeString e (ac_Certificate i)) [CHR 0x0A, CHR 0x0A]);
          (c, t) = pt
      in (c\<lparr>pv_Certificates := amap_put (ad_Main (ac_Domain i)) \<lparr>ce_certificate = first, ce_key = decodedKey\<rparr> (pv_Certificates c)\<rparr>,
          t\<lparr>tc_Certificates := tc_Certificates t @ [te_X509KeyPair e first decodedKey], tc_restarts := Suc (tc_restarts t)\<rparr>))"

definition LoadFromConfigFile ::
  "'cert tls_env \<Rightarrow> common_provider \<Rightarrow> 'cert tls_config \<Rightarrow> (common_provider \<times> 'cert tls_config) go" where
  "LoadFromConfigFile e c t =
     (case te_ReadFile e (pv_fileLocation c) of
        None \<Rightarrow> Inr (c, t)
      | Some acmeFile \<Rightarrow>
          (case te_Unmarshal e acmeFile of
             None \<Rightarrow> Inl HandlerPanic
           | Some None \<Rightarrow> Inl NilDeref
           | Some (Some certificates) \<Rightarrow> Inr (fold (load_certificate e) (af_Certificates certificates) (c, t))))"

lemma load_certificates_fold:
  "fold (load_certificate e) cs (c, t) = (c', t') \<Longrightarrow>
     pv_fileLocation c' = pv_fileLocation c
     \<and> tc_Certificates t' = tc_Certificates t @ map (\<lambda>i. te_X509KeyPair e
         (hd (Split (te_DecodeString e (ac_Certificate i)) [CHR 0x0A, CHR 0x0A])) (te_DecodeString e (ac_Key i))) cs
     \<and> tc_restarts t' = tc_restarts t + length cs"
  by (induction cs arbitrary: c t) (auto simp: load_certificate_def Let_def)

text \<open>A load never takes a certificate away, and starts the listener once for each it adds.\<close>

lemma LoadFromConfigFile_adds:
  "LoadFromConfigFile e c t = Inr (c', t') \<Longrightarrow> pv_fileLocation c' = pv_fileLocation c
     \<and> (\<exists>cs. tc_Certificates t' = tc_Certificates t @ cs \<and> tc_restarts t' = tc_restarts t + length cs)"
  by (auto simp: LoadFromConfigFile_def split: option.splits dest!: load_certificates_fold)

section \<open>Watching\<close>

text \<open>
  How \<open>InitWatcher\<close> ends: it returns when no watcher can be set on the file, waits for ever on a
  channel that nobody closes when one was set, and exits the process when there are no watchers.
\<close>

datatype watch_end = Returned | Waiting | ProcessExit

definition InitWatcher ::
  "'cert tls_env \<Rightarrow> bool \<Rightarrow> (string \<Rightarrow> bool) \<Rightarrow> common_provider \<Rightarrow> 'cert tls_config
     \<Rightarrow> (watch_end \<times> common_provider \<times> 'cert tls_config) go" where
  "InitWatcher e available addable c t =
     go_bind (LoadFromConfigFile e c t) (\<lambda>(c1, t1).
       Inr (if \<not> available then ProcessExit else if addable (pv_fileLocation c1) then Waiting else Returned, c1, t1))"

text \<open>
  What the watcher's goroutine does for one event: on a write the file is loaded again.
\<close>

datatype watch_event = FileWritten | OtherEvent | WatchError

definition watcher_event ::
  "'cert tls_env \<Rightarrow> watch_event \<Rightarrow> common_provider \<times> 'cert tls_config \<Rightarrow> (common_provider \<times> 'cert tls_config) go" where
  "watcher_event e ev ct =
     (case ev of FileWritten \<Rightarrow> LoadFromConfigFile e (fst ct) (snd ct) | _ \<Rightarrow> Inr ct)"

section \<open>The providers, one after the other\<close>

definition provider_of :: "string \<Rightarrow> common_provider" where
  "provider_of provider = \<lparr>pv_Certificates = [], pv_fileLocation = ''/ssl/'' @ provider @ ''.json''\<rparr>"

text \<open>The loop over the providers, and the provider it waits for, if it does.\<close>

fun watch_providers ::
  "'cert tls_env \<Rightarrow> bool \<Rightarrow> (string \<Rightarrow> bool) \<Rightarrow> common_provider list \<Rightarrow> 'cert tls_config
     \<Rightarrow> (watch_end \<times> common_provider option \<times> 'cert tls_config) go" where
  "watch_providers e available addable [] t = Inr (Returned, None, t)"
| "watch_providers e available addable (p # ps) t =
     go_bind (InitWatcher e available addable p t) (\<lambda>(w, p1, t1).
       if w = Returned then watch_providers e available addable ps t1 else Inr (w, Some p1, t1))"

definition InitProviders ::
  "'cert tls_env \<Rightarrow> bool \<Rightarrow> (string \<Rightarrow> bool) \<Rightarrow> string list \<Rightarrow> 'cert tls_config
     \<Rightarrow> (watch_end \<times> common_provider option \<times> 'cert tls_config) go" where
  "InitProviders e available addable providers t =
     watch_providers e available addable (map provider_of providers) t"

section \<open>The certificate of a connection\<close>

text \<open>
  \<open>main\<close> puts its own certificate first; crypto/tls answers a connection with the first
  certificate that suits it, or the first one of all.
\<close>

definition souin_tls :: "'cert \<Rightarrow> 'cert tls_config" where
  "souin_tls default_pair = \<lparr>tc_Certificates = [default_pair], tc_restarts = 0\<rparr>"

definition tls_certificate :: "('cert \<Rightarrow> bool) \<Rightarrow> 'cert tls_config \<Rightarrow> 'cert option" where
  "tls_certificate suits t =
     (case find suits (tc_Certificates t) of
        Some c \<Rightarrow> Some c
      | None \<Rightarrow> (case tc_Certificates t of [] \<Rightarrow> None | c # _ \<Rightarrow> Some c))"

section \<open>Which providers are loaded\<close>

text \<open>
  A provider whose file can be watched is the last one: the loop over the providers waits inside
  its call for ever, so that the files of those named after it are never read.
\<close>

theorem later_providers_never_loaded:
  assumes "available \<Longrightarrow> addable (pv_fileLocation (provider_of p))"
  shows "InitProviders e available addable (ps @ p # later) t = InitProviders e available addable (ps @ [p]) t"
proof -
  have stop: "watch_providers e available addable (provider_of p # qs) t = watch_providers e available addable [provider_of p] t"
    for qs t
    using assms by (auto simp: InitWatcher_def go_bind_def split: sum.splits dest!: LoadFromConfigFile_adds)
  show ?thesis
    unfolding InitProviders_def
  proof (induction ps arbitrary: t)
    case Nil
    show ?case using stop [of "map provider_of later" t] by simp
  next
    case (Cons q ps)
    then show ?case by (simp add: go_bind_def split: sum.splits)
  qed
qed

section \<open>Which certificate is served\<close>

lemma watcher_events_add:
  assumes "go_foldM (watcher_event e) evs (c, t) = Inr (c', t')"
  shows "\<exists>cs. tc_Certificates t' = tc_Certificates t @ cs \<and> tc_restarts t' = tc_restarts t + length cs"
proof -
  let ?P = "\<lambda>ct. \<exists>cs. tc_Certificates (snd ct) = tc_Certificates t @ cs \<and> tc_restarts (snd ct) = tc_restarts t + length cs"
  have "?P (c', t')"
  proof (rule go_foldM_invariant [OF assms, of ?P])
    show "?P s'" if "?P s" "watcher_event e ev s = Inr s'" for ev s s'
      using that by (cases ev; cases s; cases s')
        (auto simp: watcher_event_def dest!: LoadFromConfigFile_adds)
  qed simp
  then show ?thesis by simp
qed

text \<open>
  C26. A renewed certificate is not served: while one that was loaded before suits the connection, it
  is the one that goes out, whatever the watched file holds when it is written again.  (crypto/tls
  asks for the names and the signature schemes, not for the dates.)
\<close>

theorem renewed_certificate_not_served:
  assumes "tls_certificate suits t = Some c" "suits c"
    and "go_foldM (watcher_event e) evs (p, t) = Inr (p', t')"
  shows "tls_certificate suits t' = Some c"
proof -
  obtain cs where cs: "tc_Certificates t' = tc_Certificates t @ cs" using watcher_events_add [OF assms(3)] by blast
  have "find suits (tc_Certificates t) = Some c"
    using assms(1,2) by (auto simp: tls_certificate_def find_None_iff split: option.splits list.splits)
  moreover have "find suits xs = Some c \<Longrightarrow> find suits (xs @ cs) = Some c" for xs
    by (induction xs) auto
  ultimately show ?thesis by (simp add: tls_certificate_def cs)
qed

section \<open>Witnesses\<close>

text \<open>One certificate for the domain, whose PEM text is the content of the file; pairs are their texts.\<close>

definition sample_acme :: "string \<Rightarrow> acme_file" where
  "sample_acme pem = \<lparr>af_Account = \<lparr>aa_Email = [], aa_KeyType = [], aa_PrivateKey = [],
       aa_Registration = \<lparr>ar_Body = \<lparr>ab_Contact = [], ab_Status = []\<rparr>, ar_URI = []\<rparr>\<rparr>,
     af_Certificates = [\<lparr>ac_Certificate = pem, ac_Domain = \<lparr>ad_Main = ''a.org'', ad_SANs = []\<rparr>, ac_Key = ''k''\<rparr>]\<rparr>"

definition sample_tls_env :: "string \<Rightarrow> string tls_env" where
  "sample_tls_env pem = \<lparr>te_ReadFile = (\<lambda>f. Some pem), te_Unmarshal = (\<lambda>s. Some (Some (sample_acme s))),
     te_DecodeString = (\<lambda>s. s), te_X509KeyPair = (\<lambda>c k. c)\<rparr>"

theorem later_providers_never_loaded_witness:
  "InitProviders (sample_tls_env ''old'') True (\<lambda>_. True) ([] @ ''traefik'' # [''other'']) (souin_tls ''own'')
     = InitProviders (sample_tls_env ''old'') True (\<lambda>_. True) ([] @ [''traefik'']) (souin_tls ''own'')"
  by (rule later_providers_never_loaded) simp

theorem renewed_certificate_not_served_witness:
  "\<exists>p' t'. go_foldM (watcher_event (sample_tls_env ''new'')) [FileWritten, OtherEvent]
        (provider_of ''traefik'', \<lparr>tc_Certificates = [''own'', ''old''], tc_restarts = 1\<rparr>) = Inr (p', t')
     \<and> ''new'' \<in> set (tc_Certificates t') \<and> tls_certificate (\<lambda>c. c \<in> {''old'', ''new''}) t' = Some ''old''"
proof -
  obtain p' and t' where e: "go_foldM (watcher_event (sample_tls_env ''new'')) [FileWritten, OtherEvent]
      (provider_of ''traefik'', \<lparr>tc_Certificates = [''own'', ''old''], tc_restarts = 1\<rparr>) = Inr (p', t')"
    and "''new'' \<in> set (tc_Certificates t')"
    by (simp add: watcher_event_def LoadFromConfigFile_def sample_tls_env_def sample_acme_def load_certificate_def
        provider_of_def go_bind_def Split_def Let_def)
  moreover have "tls_certificate (\<lambda>c. c \<in> {''old'', ''new''}) t' = Some ''old''"
    by (rule renewed_certificate_not_served [OF _ _ e]) (simp_all add: tls_certificate_def)
  ultimately show ?thesis by blast
qed

end
