(* ===== verification/Metrics.thy ===== *)
theory Metrics
  imports Api
begin

text \<open>
  The metrics of pkg/api/prometheus: a map of the process from names to counters and histograms,
  set up by the first handler that is constructed and counted up on the request path.
\<close>

section \<open>The registry\<close>

text \<open>
  A counter holds its value, a histogram what it observed.  The values that the program adds are
  whole numbers: ones, and milliseconds.
\<close>

datatype metric = Counter int | Histogram "int list"

text \<open>
  \<open>mt_default\<close>: the names registered with the default registry of client_golang, which panics on
  a second registration; \<open>mt_registered\<close>: the package's map, nil before the first \<open>run\<close>.
\<close>

record metrics =
  mt_default :: "string list"
  mt_registered :: "(string, metric) amap option"

definition metrics0 :: metrics where
  "metrics0 = \<lparr>mt_default = [], mt_registered = None\<rparr>"

definition registered_map :: "metrics \<Rightarrow> (string, metric) amap" where
  "registered_map m = (case mt_registered m of None \<Rightarrow> [] | Some r \<Rightarrow> r)"

definition prom_counter :: string where "prom_counter = ''counter''"
definition prom_average :: string where "prom_average = ''average''"

definition metric_push :: "string \<Rightarrow> string \<Rightarrow> metrics \<Rightarrow> metrics go" where
  "metric_push promType name m =
     (if promType \<notin> {prom_counter, prom_average} then Inr m
      else if name \<in> set (mt_default m) then Inl HandlerPanic
      else Inr (m\<lparr>mt_default := name # mt_default m,
             mt_registered := Some (amap_put name (if promType = prom_counter then Counter 0 else Histogram []) (registered_map m))\<rparr>))"

definition metric_names :: "(string \<times> string) list" where
  "metric_names = [(prom_counter, ''souin_request_upstream_counter''), (prom_counter, ''souin_request_revalidation_counter''),
     (prom_counter, ''souin_no_cached_response_counter''), (prom_counter, ''souin_cached_response_counter''),
     (prom_average, ''souin_avg_response_time'')]"

definition metrics_run :: "metrics \<Rightarrow> metrics go" where
  "metrics_run m = go_foldM (\<lambda>(t, n). metric_push t n) metric_names (m\<lparr>mt_registered := Some []\<rparr>)"

text \<open>What \<open>InitializePrometheus\<close> does to the metrics; what it returns is \<open>InitializePrometheus\<close> of \<open>Api\<close>.\<close>

definition metrics_initialize :: "metrics \<Rightarrow> metrics go" where
  "metrics_initialize m = (if mt_registered m = None then metrics_run m else Inr m)"

definition metric_Increment :: "string \<Rightarrow> metrics \<Rightarrow> metrics go" where
  "metric_Increment name m =
     (case map_of (registered_map m) name of
        None \<Rightarrow> Inr m
      | Some (Counter n) \<Rightarrow> Inr (m\<lparr>mt_registered := Some (amap_put name (Counter (n + 1)) (registered_map m))\<rparr>)
      | Some (Histogram _) \<Rightarrow> Inl TypeAssertion)"

text \<open>A counter refuses a negative value with a panic.\<close>

definition metric_Add :: "string \<Rightarrow> int \<Rightarrow> metrics \<Rightarrow> metrics go" where
  "metric_Add name v m =
     (case map_of (registered_map m) name of
        None \<Rightarrow> Inr m
      | Some (Counter n) \<Rightarrow>
          if v < 0 then Inl HandlerPanic
          else Inr (m\<lparr>mt_registered := Some (amap_put name (Counter (n + v)) (registered_map m))\<rparr>)
      | Some (Histogram vs) \<Rightarrow> Inr (m\<lparr>mt_registered := Some (amap_put name (Histogram (vs @ [v])) (registered_map m))\<rparr>))"

section \<open>Counting\<close>

text \<open>The request path's calls.\<close>

datatype metric_event = Constructed | Incremented string | Observed int

definition metric_event :: "metric_event \<Rightarrow> metrics \<Rightarrow> metrics go" where
  "metric_event ev m =
     (case ev of
        Constructed \<Rightarrow> metrics_initialize m
      | Incremented name \<Rightarrow> metric_Increment name m
      | Observed ms \<Rightarrow> metric_Add ''souin_avg_response_time'' ms m)"

definition counter_value :: "string \<Rightarrow> metrics \<Rightarrow> int" where
  "counter_value name m = (case map_of (registered_map m) name of Some (Counter n) \<Rightarrow> n | _ \<Rightarrow> 0)"

definition counter_names :: "string list" where
  "counter_names = [''souin_request_upstream_counter'', ''souin_request_revalidation_counter'',
     ''souin_no_cached_response_counter'', ''souin_cached_response_counter'']"

text \<open>Once set up, every name of a counter has a counter, and the average a histogram.\<close>

definition metrics_ok :: "metrics \<Rightarrow> bool" where
  "metrics_ok m \<longleftrightarrow> mt_registered m \<noteq> None
     \<and> (\<forall>name \<in> set counter_names. \<exists>n. map_of (registered_map m) name = Some (Counter n))
     \<and> (\<exists>vs. map_of (registered_map m) ''souin_avg_response_time'' = Some (Histogram vs))"

definition program_event :: "metric_event \<Rightarrow> bool" where
  "program_event ev \<longleftrightarrow> (case ev of Incremented name \<Rightarrow> name \<in> set counter_names | _ \<Rightarrow> True)"

lemma registered_map_update [simp]: "registered_map (m\<lparr>mt_registered := Some r\<rparr>) = r"
  by (simp add: registered_map_def)

lemma average_no_counter: "name \<in> set counter_names \<Longrightarrow> name \<noteq> ''souin_avg_response_time''"
  by (auto simp: counter_names_def)

lemma metrics_first:
  "\<exists>m. metrics_initialize metrics0 = Inr m \<and> metrics_ok m \<and> (\<forall>name \<in> set counter_names. counter_value name m = 0)"
  by (simp add: metrics_initialize_def metrics0_def metrics_run_def metric_names_def metric_push_def prom_counter_def
      prom_average_def go_bind_def metrics_ok_def counter_names_def counter_value_def registered_map_def)

lemma metric_event_ok:
  assumes "metrics_ok m" "program_event ev"
  shows "\<exists>m'. metric_event ev m = Inr m' \<and> metrics_ok m'
    \<and> (\<forall>name \<in> set counter_names. counter_value name m' = counter_value name m + (if ev = Incremented name then 1 else 0))"
proof (cases ev)
  case Constructed
  then show ?thesis using assms(1) by (auto simp: metric_event_def metrics_initialize_def metrics_ok_def)
next
  case (Incremented name)
  then obtain n where "map_of (registered_map m) name = Some (Counter n)" and c: "name \<in> set counter_names"
    using assms by (auto simp: program_event_def metrics_ok_def)
  then show ?thesis using assms(1) average_no_counter [OF c]
    by (auto simp: Incremented metric_event_def metric_Increment_def metrics_ok_def counter_value_def map_of_amap_put)
next
  case (Observed ms)
  then obtain vs where "map_of (registered_map m) ''souin_avg_response_time'' = Some (Histogram vs)"
    using assms by (auto simp: metrics_ok_def)
  then show ?thesis using assms(1)
    by (auto simp: Observed metric_event_def metric_Add_def metrics_ok_def counter_value_def map_of_amap_put
        dest: average_no_counter)
qed

text \<open>
  However many handlers are constructed, the metrics are registered once, nothing panics, and a
  counter's value is the number of times it was counted up.
\<close>

theorem metrics_count:
  assumes "list_all program_event evs" "name \<in> set counter_names"
  shows "\<exists>m. go_foldM metric_event (Constructed # evs) metrics0 = Inr m
    \<and> counter_value name m = int (count_list evs (Incremented name))"
proof -
  have run: "\<exists>m'. go_foldM metric_event evs m = Inr m'
      \<and> counter_value name m' = counter_value name m + int (count_list evs (Incremented name))"
    if "metrics_ok m" for m
    using assms(1) that
  proof (induction evs arbitrary: m)
    case (Cons ev evs)
    obtain m1 where "metric_event ev m = Inr m1" "metrics_ok m1"
      "counter_value name m1 = counter_value name m + (if ev = Incremented name then 1 else 0)"
      using metric_event_ok [of m ev] Cons.prems assms(2) by auto
    then show ?case using Cons.IH [of m1] Cons.prems by (auto simp: go_bind_def)
  qed simp
  obtain m0 where "metrics_initialize metrics0 = Inr m0" "metrics_ok m0" "counter_value name m0 = 0"
    using metrics_first assms(2) by blast
  then show ?thesis using run [of m0] by (simp add: metric_event_def go_bind_def)
qed

theorem metrics_count_witness:
  "\<exists>m. go_foldM metric_event [Constructed, Incremented ''souin_cached_response_counter'', Constructed, Observed 12,
        Incremented ''souin_cached_response_counter''] metrics0 = Inr m
     \<and> counter_value ''souin_cached_response_counter'' m = 2"
  using metrics_count [of "[Incremented ''souin_cached_response_counter'', Constructed, Observed 12,
        Incremented ''souin_cached_response_counter'']" "''souin_cached_response_counter''"]
  by (simp add: program_event_def counter_names_def)

end
