(* ===== verification/Tyk.thy ===== *)
theory Tyk
  imports TraefikServe
begin

text \<open>
  The Tyk plugin (plugins/tyk): the storage of its override (override/storage) over
  \<open>patrickmn/go-cache\<close>, and the two hooks of main.go, one before a request is proxied and one
  before its response goes back to the client.

  The plugin was written against an older core and does not build with the packages it imports at
  this commit: the validator of a look-up is the one of storages/core here, and
  \<open>ValidateMaxAgeCachedStaleResponse\<close> gets the directives its current version asks for.
\<close>

section \<open>go-cache\<close>

text \<open>
  The package is a parameter: a cache is made with a default duration and an interval of its
  cleaner, \<open>Get\<close> answers nothing for a key that is missing or expired, \<open>Items\<close> is the copy of the
  live items in the order of a range over it.  A stored value is a Go value.
\<close>

record 'c go_cache =
  gc_New :: "duration \<Rightarrow> duration \<Rightarrow> 'c"
  gc_Get :: "gtime \<Rightarrow> string \<Rightarrow> 'c \<Rightarrow> any option"
  gc_Set :: "gtime \<Rightarrow> string \<Rightarrow> any \<Rightarrow> duration \<Rightarrow> 'c \<Rightarrow> 'c"
  gc_Delete :: "string \<Rightarrow> 'c \<Rightarrow> 'c"
  gc_Flush :: "'c \<Rightarrow> 'c"
  gc_Items :: "gtime \<Rightarrow> 'c \<Rightarrow> (string \<times> any) list"

text \<open>What its documentation promises about \<open>Get\<close>.\<close>

definition go_cache_laws :: "'c go_cache \<Rightarrow> bool" where
  "go_cache_laws G \<longleftrightarrow>
     (\<forall>d i t k. gc_Get G t k (gc_New G d i) = None)
     \<and> (\<forall>now k v d c t k'. gc_Get G t k' (gc_Set G now k v d c) \<in> (if k' = k then {None, Some v} else {gc_Get G t k' c}))
     \<and> (\<forall>k c t k'. gc_Get G t k' (gc_Delete G k c) = (if k' = k then None else gc_Get G t k' c))
     \<and> (\<forall>c t k. gc_Get G t k (gc_Flush G c) = None)"

section \<open>The storage\<close>

record 'c ty_provider =
  ty_Cache :: 'c
  ty_stale :: duration

definition ty_CacheConnectionFactory :: "'c go_cache \<Rightarrow> base_configuration \<Rightarrow> 'c ty_provider" where
  "ty_CacheConnectionFactory G c = \<lparr>ty_Cache = gc_New G (1 * Second) (1 * Second), ty_stale = dc_Stale (bc_DefaultCache c)\<rparr>"

definition ty_NewStorages :: "'c go_cache \<Rightarrow> base_configuration \<Rightarrow> 'c ty_provider list" where
  "ty_NewStorages G c = [ty_CacheConnectionFactory G c]"

definition ty_Name :: string where
  "ty_Name = ''CACHE''"

definition ty_ListKeys :: "'c go_cache \<Rightarrow> gtime \<Rightarrow> 'c ty_provider \<Rightarrow> string list" where
  "ty_ListKeys G now s = map fst (gc_Items G now (ty_Cache s))"

text \<open>The result is a nil map: an item that is a string cannot be put into it, and no other kind is converted.\<close>

definition ty_MapKeys :: "'c go_cache \<Rightarrow> gtime \<Rightarrow> string \<Rightarrow> 'c ty_provider \<Rightarrow> (string, string) amap go" where
  "ty_MapKeys G now pre s =
     (case gc_Items G now (ty_Cache s) of
        [] \<Rightarrow> Inr []
      | (k, VStr v) # _ \<Rightarrow> Inl NilDeref
      | _ \<Rightarrow> Inl TypeAssertion)"

definition ty_Get :: "'c go_cache \<Rightarrow> gtime \<Rightarrow> string \<Rightarrow> 'c ty_provider \<Rightarrow> string go" where
  "ty_Get G now key s =
     (case gc_Get G now key (ty_Cache s) of
        None \<Rightarrow> Inr []
      | Some (VBytes b) \<Rightarrow> Inr b
      | Some _ \<Rightarrow> Inl TypeAssertion)"

definition ty_Prefix :: "'c go_cache \<Rightarrow> gtime \<Rightarrow> string \<Rightarrow> 'c ty_provider \<Rightarrow> string list" where
  "ty_Prefix G now key s = filter (prefix key) (map fst (gc_Items G now (ty_Cache s)))"

definition ty_Set :: "'c go_cache \<Rightarrow> gtime \<Rightarrow> string \<Rightarrow> string \<Rightarrow> url_config \<Rightarrow> duration \<Rightarrow> 'c ty_provider \<Rightarrow> 'c ty_provider" where
  "ty_Set G now key val url d s =
     s\<lparr>ty_Cache := gc_Set G now key (VBytes val) (if d = 0 then url_TTL url else d) (ty_Cache s)\<rparr>"

definition ty_Delete :: "'c go_cache \<Rightarrow> string \<Rightarrow> 'c ty_provider \<Rightarrow> 'c ty_provider" where
  "ty_Delete G key s = s\<lparr>ty_Cache := gc_Delete G key (ty_Cache s)\<rparr>"

definition ty_DeleteMany :: "'c go_cache \<Rightarrow> regexp_engine \<Rightarrow> gtime \<Rightarrow> string \<Rightarrow> 'c ty_provider \<Rightarrow> 'c ty_provider" where
  "ty_DeleteMany G re now key s =
     fold (\<lambda>(k, v) s. if delete_many_hits re key k then ty_Delete G k s else s) (gc_Items G now (ty_Cache s)) s"

definition ty_Reset :: "'c go_cache \<Rightarrow> 'c ty_provider \<Rightarrow> 'c ty_provider" where
  "ty_Reset G s = s\<lparr>ty_Cache := gc_Flush G (ty_Cache s)\<rparr>"

section \<open>Mappings\<close>

text \<open>A value that is missing is read as an empty text, never as nil.\<close>

fun ty_election_loop ::
  "codec \<Rightarrow> (string \<Rightarrow> string go) \<Rightarrow> gtime \<Rightarrow> request \<Rightarrow> storage_mapper \<Rightarrow> response option \<Rightarrow> revalidator \<Rightarrow> election go" where
  "ty_election_loop cd get now req [] stale v = Inr (None, stale, v, False)"
| "ty_election_loop cd get now req ((k, ki) # m) stale v =
     (if \<not> tk_headers_match req ki then ty_election_loop cd get now req m stale v
      else
        let v1 = ValidateETagFromHeader (ki_Etag ki) v
        in if \<not> rv_Matched v1 then ty_election_loop cd get now req m stale v1
           else if now < ki_FreshTime ki then
             go_bind (get k) (\<lambda>b.
               case cd_Read cd b req of
                 None \<Rightarrow> Inr (None, stale, v1, True)
               | Some r \<Rightarrow> Inr (Some r, stale, v1, False))
           else if now < ki_StaleTime ki then
             go_bind (get k) (\<lambda>b.
               case cd_Read cd b req of
                 None \<Rightarrow> Inr (None, None, v1, True)
               | Some r \<Rightarrow> ty_election_loop cd get now req m (Some r) v1)
           else ty_election_loop cd get now req m stale v1)"

definition ty_mappingElection ::
  "codec \<Rightarrow> (string \<Rightarrow> string go) \<Rightarrow> gtime \<Rightarrow> string \<Rightarrow> request \<Rightarrow> revalidator \<Rightarrow> election go" where
  "ty_mappingElection cd get now item req v =
     (case (if item \<noteq> [] then cd_Unmarshal cd item else Some []) of
        None \<Rightarrow> Inr (None, None, v, True)
      | Some m \<Rightarrow> ty_election_loop cd get now req m None v)"

definition ty_mappingUpdater ::
  "codec \<Rightarrow> string \<Rightarrow> string \<Rightarrow> gtime \<Rightarrow> gtime \<Rightarrow> gtime \<Rightarrow> header \<Rightarrow> string \<Rightarrow> string \<Rightarrow> string option" where
  "ty_mappingUpdater cd key item now freshTime staleTime variedHeaders etag realKey =
     (case (if item = [] then Some [] else cd_Unmarshal cd item) of
        None \<Rightarrow> None
      | Some m \<Rightarrow>
          cd_Marshal cd (amap_put key
            \<lparr>ki_StoredAt = now, ki_FreshTime = freshTime, ki_StaleTime = staleTime,
             ki_VariedHeaders = variedHeaders, ki_Etag = etag, ki_RealKey = realKey\<rparr> m))"

definition ty_GetMultiLevel ::
  "'c go_cache \<Rightarrow> codec \<Rightarrow> gtime \<Rightarrow> string \<Rightarrow> request \<Rightarrow> revalidator \<Rightarrow> 'c ty_provider
     \<Rightarrow> (response option \<times> response option \<times> revalidator) go" where
  "ty_GetMultiLevel G cd now key req v s =
     (case gc_Get G now (MappingKeyPrefix @ key) (ty_Cache s) of
        Some (VBytes b) \<Rightarrow>
          if b = [] then Inr (None, None, v)
          else go_bind (ty_mappingElection cd (\<lambda>k. ty_Get G now k s) now b req v) (\<lambda>(fresh, stale, v', _). Inr (fresh, stale, v'))
      | _ \<Rightarrow> Inr (None, None, v))"

text \<open>The error, if any; a mapping that is not there is one.\<close>

datatype ty_error = KeyNotFound | NotBytes | MappingError

definition ty_SetMultiLevel ::
  "'c go_cache \<Rightarrow> codec \<Rightarrow> gtime \<Rightarrow> string \<Rightarrow> string \<Rightarrow> string \<Rightarrow> header \<Rightarrow> string \<Rightarrow> duration \<Rightarrow> string
     \<Rightarrow> 'c ty_provider \<Rightarrow> ty_error option \<times> 'c ty_provider" where
  "ty_SetMultiLevel G cd now baseKey variedKey val variedHeaders etag d realKey s =
     (let s1 = s\<lparr>ty_Cache := gc_Set G now variedKey (VBytes val) (d + ty_stale s) (ty_Cache s)\<rparr>;
          mappingKey = MappingKeyPrefix @ baseKey
      in case gc_Get G now mappingKey (ty_Cache s1) of
           None \<Rightarrow> (Some KeyNotFound, s1)
         | Some (VBytes b) \<Rightarrow>
             (case ty_mappingUpdater cd variedKey b now (now + d) (now + (d + ty_stale s)) variedHeaders etag realKey of
                None \<Rightarrow> (Some MappingError, s1)
              | Some b' \<Rightarrow> (None, s1\<lparr>ty_Cache := gc_Set G now mappingKey (VBytes b') (-1) (ty_Cache s1)\<rparr>))
         | Some _ \<Rightarrow> (Some NotBytes, s1))"

section \<open>Before the request\<close>

definition ty_excluded :: "mw_env \<Rightarrow> 'w handler \<Rightarrow> request \<Rightarrow> bool" where
  "ty_excluded e h rq \<longleftrightarrow>
     header_get (req_Header rq) ''Upgrade'' = ''websocket''
     \<or> (case sh_ExcludeRegex h of None \<Rightarrow> False | Some p \<Rightarrow> re_MatchString (me_re e) p (req_RequestURI rq))"

text \<open>A response from the cache: its headers, if they are copied at all, and its body; the code is never set.\<close>

definition ty_write_fresh :: "response \<Rightarrow> response_writer \<Rightarrow> response_writer" where
  "ty_write_fresh resp rw =
     rw_Write (resp_Body resp) (fold (\<lambda>(hn, hv). rw_set_header hn (Join hv '', '')) (resp_Header resp) rw)"

definition ty_write_stale :: "response \<Rightarrow> response_writer \<Rightarrow> response_writer" where
  "ty_write_stale resp rw = rw_Write (resp_Body resp) rw"

definition ty_serve_fresh ::
  "gtime \<Rightarrow> request_directives \<Rightarrow> response \<Rightarrow> response_writer \<Rightarrow> response_writer go" where
  "ty_serve_fresh now co fresh rw =
     (let resp = SetCacheStatusHeader now fresh ty_Name
      in go_bind (ValidateMaxAgeCachedResponse co resp) (\<lambda>r. Inr (if r \<noteq> None then ty_write_fresh resp rw else rw)))"

definition ty_serve_stale ::
  "gtime \<Rightarrow> bool \<Rightarrow> request_directives \<Rightarrow> response \<Rightarrow> response_writer \<Rightarrow> response_writer go" where
  "ty_serve_stale now strict co stale rw =
     (case ValidateCacheControl now stale co of
        (False, _) \<Rightarrow> Inr rw
      | (True, resp0) \<Rightarrow>
          let addTime = stored_ttl_seconds resp0;
              resp = SetCacheStatusHeader now resp0 ty_Name
          in case ParseResponseCacheControl (header_get (resp_Header resp) ''Cache-Control'') of
               None \<Rightarrow> Inl NilDeref
             | Some rc \<Rightarrow>
                 if 0 < rs_StaleIfError rc then Inr (ty_write_stale resp rw)
                 else if \<not> strict \<or> ValidateMaxAgeCachedStaleResponse co (Some rc) resp addTime \<noteq> None
                 then Inr (ty_write_stale resp rw)
                 else Inr rw)"

definition ty_cache_stage ::
  "'c go_cache \<Rightarrow> codec \<Rightarrow> mw_env \<Rightarrow> gtime \<Rightarrow> request \<Rightarrow> request_directives \<Rightarrow> response_writer \<Rightarrow> 'c ty_provider
     \<Rightarrow> response_writer go" where
  "ty_cache_stage G cd e now rq co rw s =
     (if rq_NoCache co then Inr rw
      else go_bind (ty_GetMultiLevel G cd now (hash_key e (cx_Hashed (req_ctx rq)) (key_of rq)) rq (ParseRequest rq) s)
        (\<lambda>(fresh, stale, v).
           let strict = Strict (cx_Mode (req_ctx rq));
               accepted = (case fresh of
                   None \<Rightarrow> None
                 | Some r \<Rightarrow> if \<not> strict then Some r
                     else (case ValidateCacheControl now r co of (ok, r') \<Rightarrow> if ok then Some r' else None))
           in case accepted of
                Some r \<Rightarrow> ty_serve_fresh now co r rw
              | None \<Rightarrow>
                  if \<not> rq_OnlyIfCached co \<and> (rq_MaxStaleSet co \<or> -1 < rq_MaxStale co)
                  then (case stale of None \<Rightarrow> Inr rw | Some r \<Rightarrow> ty_serve_stale now strict co r rw)
                  else Inr rw))"

text \<open>\<open>SouinRequestHandler\<close>: a request that nothing was written for goes on to the upstream.\<close>

definition SouinRequestHandler ::
  "'c go_cache \<Rightarrow> codec \<Rightarrow> mw_env \<Rightarrow> 'c ty_provider handler \<Rightarrow> gtime \<Rightarrow> response_writer \<Rightarrow> request \<Rightarrow> 'c ty_provider
     \<Rightarrow> response_writer go \<times> 'c ty_provider" where
  "SouinRequestHandler G cd e h now rw baseRq s =
     (case HandleInternally h baseRq of
        Some internal \<Rightarrow> internal now baseRq rw s
      | None \<Rightarrow>
          let rq = SetBaseContext now (sh_context h) baseRq
          in if ty_excluded e h rq then (Inr (bypass_status rq ''EXCLUDED-REQUEST-URI'' rw), s)
             else if \<not> cx_SupportedMethod (req_ctx rq) then (Inr (bypass_status rq ''UNSUPPORTED-METHOD'' rw), s)
             else case ParseRequestCacheControl (header_get (req_Header rq) ''Cache-Control'') of
               None \<Rightarrow> (Inr (bypass_status rq ''CACHE-CONTROL-EXTRACTION-ERROR'' rw), s)
             | Some co \<Rightarrow> (ty_cache_stage G cd e now (set_contexts e h rq baseRq) co rw s, s))"

section \<open>After the response\<close>

text \<open>
  \<open>SouinResponseHandler\<close> reads the directives and the status from a writer it has just made: the
  headers of the server's writer, the code 200, and headers of its own that hold nothing yet.
\<close>

definition ty_max_age :: "response_directives \<Rightarrow> duration \<Rightarrow> duration" where
  "ty_max_age rc ttl =
     (let ma = (if 0 < rs_MaxAge rc then rs_MaxAge rc * Second
                else if 0 < rs_SMaxAge rc then rs_SMaxAge rc * Second else ttl)
      in if ttl < ma then ttl else ma)"

definition ty_stored_headers :: "gtime \<Rightarrow> duration \<Rightarrow> header" where
  "ty_stored_headers now ma = header_set ''Date'' (Format TimeFormat now) (header_set StoredTTLHeader (Duration_String ma) [])"

text \<open>The text of the Cache-Status header, the storage, and the logged call of the surrogate storage.\<close>

definition ty_store ::
  "'c go_cache \<Rightarrow> gtime \<Rightarrow> request \<Rightarrow> url_config \<Rightarrow> duration \<Rightarrow> header \<Rightarrow> string \<Rightarrow> bool \<Rightarrow> string \<Rightarrow> 'c ty_provider
     \<Rightarrow> string \<times> 'c ty_provider \<times> (header \<times> string) list" where
  "ty_store G now rq url ma resH body ended status s =
     (let (variedHeaders, isVaryStar) = VariedHeaderAllCommaSepValues resH
      in if isVaryStar then (status @ ''; detail=UPSTREAM-VARY-STAR'', s, [])
         else
           let cachedKey = key_of rq @ fst (tk_GetVariedCacheKey rq variedHeaders)
           in if ended then (status @ ''; detail=REQUEST-CANCELED-OR-UPSTREAM-BROKEN-PIPE'', s, [])
              else (status @ ''; stored'', ty_Set G now cachedKey (DumpResponse 200 resH body) url ma s, [(resH, cachedKey)]))"

definition SouinResponseHandler ::
  "'c go_cache \<Rightarrow> mw_env \<Rightarrow> 'c ty_provider handler \<Rightarrow> gtime \<Rightarrow> bool \<Rightarrow> response_writer \<Rightarrow> response \<Rightarrow> request \<Rightarrow> 'c ty_provider
     \<Rightarrow> (response_writer \<times> response \<times> 'c ty_provider \<times> (header \<times> string) list) go" where
  "SouinResponseHandler G e h now ended rw rs baseRq0 s =
     (if header_get (resp_Header rs) ''Cache-Status'' \<noteq> [] then Inr (rw, rs, s, [])
      else
        let baseRq = baseRq0\<lparr>req_Path := req_RequestURI baseRq0\<rparr>;
            rq = set_contexts e h (SetBaseContext now (sh_context h) baseRq) baseRq;
            with_status = (\<lambda>t. rs\<lparr>resp_Header := header_set ''Cache-Status'' t (resp_Header rs)\<rparr>)
        in if ty_excluded e h rq then Inr (bypass_status rq ''EXCLUDED-REQUEST-URI'' rw, rs, s, [])
           else if \<not> cx_SupportedMethod (req_ctx rq) then Inr (bypass_status rq ''UNSUPPORTED-METHOD'' rw, rs, s, [])
           else case ParseResponseCacheControl (header_get (rw_Header rw) ''Cache-Control'') of
             None \<Rightarrow> Inl NilDeref
           | Some rc \<Rightarrow>
               let url = currentMatchedURL e h rq;
                   ma0 = ty_max_age rc (url_TTL url);
                   ma = ma0 - (now - parsed_or_zero (http_ParseTime (Format TimeFormat now)));
                   status = cx_CacheName (req_ctx rq) @ ''; fwd=uri-miss'';
                   key = ''; key='' @ GetCacheKeyFromCtx (req_ctx rq)
               in case ParseRequestCacheControl (header_get (req_Header rq) ''Cache-Control'') of
                    None \<Rightarrow> Inr (rw, with_status ''Souin; fwd=bypass; detail=CACHE-CONTROL-EXTRACTION-ERROR'', s, [])
                  | Some co \<Rightarrow>
                      if rq_NoStore co \<or> rs_NoStore rc
                      then Inr (rw, with_status (status @ ''; detail=NO-STORE-DIRECTIVE'' @ key), s, [])
                      else case ty_store G now rq url ma (ty_stored_headers now ma0) (resp_Body rs) ended status s of
                        (st, s1, calls) \<Rightarrow> Inr (rw, with_status (st @ key), s1, calls))"

end
