(* ===== verification/TykLaws.thy ===== *)
theory TykLaws
  imports Tyk TraefikStorageLaws ServeLaws
begin

text \<open>
  What the Tyk plugin serves: its storage never holds a mapping, so that no look-up finds anything
  and every request goes to the upstream; and what it stores of a response.
\<close>

section \<open>No mapping is ever made\<close>

definition ty_unmapped :: "'c go_cache \<Rightarrow> 'c ty_provider \<Rightarrow> bool" where
  "ty_unmapped G s \<longleftrightarrow> (\<forall>t key. gc_Get G t (MappingKeyPrefix @ key) (ty_Cache s) = None)"

lemma go_cacheD:
  assumes "go_cache_laws G"
  shows "gc_Get G t k (gc_New G d i) = None"
    and "k' \<noteq> k \<Longrightarrow> gc_Get G t k' (gc_Set G now k v d c) = gc_Get G t k' c"
    and "gc_Get G t k' (gc_Delete G k c) = (if k' = k then None else gc_Get G t k' c)"
    and "gc_Get G t k (gc_Flush G c) = None"
proof -
  show "gc_Get G t k' (gc_Set G now k v d c) = gc_Get G t k' c" if "k' \<noteq> k"
  proof -
    have "gc_Get G t k' (gc_Set G now k v d c) \<in> (if k' = k then {None, Some v} else {gc_Get G t k' c})"
      using assms unfolding go_cache_laws_def by blast
    then show ?thesis using that by simp
  qed
qed (use assms in \<open>simp_all add: go_cache_laws_def\<close>)

lemma user_key_no_mapping: "user_key k \<Longrightarrow> MappingKeyPrefix @ key \<noteq> k"
  by (auto simp: user_key_def)

lemma ty_unmapped_set:
  "go_cache_laws G \<Longrightarrow> ty_unmapped G s \<Longrightarrow> user_key k \<Longrightarrow> ty_unmapped G (s\<lparr>ty_Cache := gc_Set G now k v d (ty_Cache s)\<rparr>)"
  by (simp add: ty_unmapped_def go_cacheD(2) user_key_no_mapping)

lemma ty_unmapped_Delete: "go_cache_laws G \<Longrightarrow> ty_unmapped G s \<Longrightarrow> ty_unmapped G (ty_Delete G k s)"
  by (simp add: ty_unmapped_def ty_Delete_def go_cacheD(3))

lemma ty_unmapped_DeleteMany: "go_cache_laws G \<Longrightarrow> ty_unmapped G s \<Longrightarrow> ty_unmapped G (ty_DeleteMany G re now key s)"
proof -
  have "ty_unmapped G (fold (\<lambda>(k, v) s. if delete_many_hits re key k then ty_Delete G k s else s) es s)"
    if "go_cache_laws G" "ty_unmapped G s" for es s
    using that by (induction es arbitrary: s) (auto simp: ty_unmapped_Delete)
  then show "go_cache_laws G \<Longrightarrow> ty_unmapped G s \<Longrightarrow> ?thesis" unfolding ty_DeleteMany_def by blast
qed

lemma ty_unmapped_SetMultiLevel:
  assumes "go_cache_laws G" "ty_unmapped G s" "user_key vk"
  shows "fst (ty_SetMultiLevel G cd now bk vk b vh etag d rk s) = Some KeyNotFound"
    and "ty_unmapped G (snd (ty_SetMultiLevel G cd now bk vk b vh etag d rk s))"
  using assms ty_unmapped_set [OF assms]
  by (simp_all add: ty_SetMultiLevel_def Let_def ty_unmapped_def go_cacheD(2) user_key_no_mapping)

lemma ty_unmapped_Get:
  "ty_unmapped G s \<Longrightarrow> ty_GetMultiLevel G cd now key req v s = Inr (None, None, v)"
  by (simp add: ty_unmapped_def ty_GetMultiLevel_def)

text \<open>
  The life of the storage: the hooks, the deletions of the API, and the storer's own operations.
  A key under which something is stored does not begin with the prefix of mappings.
\<close>

inductive ty_step ::
  "'c go_cache \<Rightarrow> codec \<Rightarrow> mw_env \<Rightarrow> 'c ty_provider handler \<Rightarrow> 'c ty_provider \<Rightarrow> 'c ty_provider \<Rightarrow> bool"
  for G :: "'c go_cache" and cd :: codec and e :: mw_env and h :: "'c ty_provider handler" where
  Responded: "SouinResponseHandler G e h now ended rw rs rq s = Inr (rw', rs', s', calls) \<Longrightarrow>
    list_all (\<lambda>(_, key). user_key key) calls \<Longrightarrow> ty_step G cd e h s s'"
| Stored: "user_key key \<Longrightarrow> ty_step G cd e h s (ty_Set G now key b url d s)"
| StoredMulti: "user_key vk \<Longrightarrow> ty_step G cd e h s (snd (ty_SetMultiLevel G cd now bk vk b vh etag d rk s))"
| Deleted: "ty_step G cd e h s (ty_Delete G key s)"
| DeletedMany: "ty_step G cd e h s (ty_DeleteMany G re now key s)"
| Emptied: "ty_step G cd e h s (ty_Reset G s)"

inductive_cases ty_stepE: "ty_step G cd e h s s'"

definition ty_reachable :: "'c go_cache \<Rightarrow> codec \<Rightarrow> mw_env \<Rightarrow> 'c ty_provider handler \<Rightarrow> 'c ty_provider \<Rightarrow> bool" where
  "ty_reachable G cd e h s \<longleftrightarrow> (\<exists>s0 \<in> set (ty_NewStorages G (sh_Configuration h)). (ty_step G cd e h)\<^sup>*\<^sup>* s0 s)"

lemma ty_store_keeps:
  assumes "go_cache_laws G" "ty_unmapped G s"
    and "ty_store G now rq url ma resH body ended status s = (st, s', calls)" "list_all (\<lambda>(_, key). user_key key) calls"
  shows "ty_unmapped G s'"
  using assms(2-)
  by (auto simp: ty_store_def ty_Set_def ty_unmapped_set [OF assms(1)] Let_def split: prod.splits if_splits)

lemma ty_response_keeps:
  assumes "go_cache_laws G" "ty_unmapped G s"
    and "SouinResponseHandler G e h now ended rw rs rq s = Inr (rw', rs', s', calls)"
    and "list_all (\<lambda>(_, key). user_key key) calls"
  shows "ty_unmapped G s'"
  using assms(2-) ty_store_keeps [OF assms(1,2)]
  by (auto simp: SouinResponseHandler_def Let_def split: if_splits option.splits prod.splits)

lemma ty_step_keeps:
  assumes "ty_step G cd e h s s'" "go_cache_laws G" "ty_unmapped G s"
  shows "ty_unmapped G s'"
  using assms
proof cases
  case Responded
  then show ?thesis using ty_response_keeps assms(2,3) by metis
next
  case Emptied
  then show ?thesis using assms(2) by (simp add: ty_Reset_def ty_unmapped_def go_cacheD(4))
qed (auto simp: assms(2,3) ty_Set_def ty_unmapped_set ty_unmapped_SetMultiLevel ty_unmapped_Delete ty_unmapped_DeleteMany)

lemma ty_reachable_unmapped:
  assumes "ty_reachable G cd e h s" "go_cache_laws G"
  shows "ty_unmapped G s"
proof -
  obtain s0 where s0: "s0 \<in> set (ty_NewStorages G (sh_Configuration h))" "(ty_step G cd e h)\<^sup>*\<^sup>* s0 s"
    using assms(1) by (auto simp: ty_reachable_def)
  have "ty_unmapped G s0"
    using s0(1) by (simp add: ty_NewStorages_def ty_CacheConnectionFactory_def ty_unmapped_def go_cacheD(1) [OF assms(2)])
  with s0(2) show ?thesis by (induction rule: rtranclp_induct) (auto intro: ty_step_keeps [OF _ assms(2)])
qed

section \<open>Nothing is served\<close>

text \<open>
  C25. The Tyk plugin never answers a request from its cache: whatever was stored before, the hook in
  front of the upstream writes neither a status line nor a body, and leaves the storage as it is.
\<close>

theorem tyk_never_serves:
  assumes "go_cache_laws G" "ty_reachable G cd e h s" "HandleInternally h rq = None"
  shows "\<exists>rw'. SouinRequestHandler G cd e h now rw rq s = (Inr rw', s) \<and> rw_Sent rw' = rw_Sent rw \<and> rw_Body rw' = rw_Body rw"
proof -
  have "ty_cache_stage G cd e now rq' co rw s = Inr rw" for rq' co
    using ty_unmapped_Get [OF ty_reachable_unmapped [OF assms(2,1)]]
    by (simp add: ty_cache_stage_def go_bind_def)
  then show ?thesis
    by (simp add: SouinRequestHandler_def assms(3) bypass_status_def rw_set_header_def Let_def split: option.splits)
qed

text \<open>
  What is stored does not depend on the status code and the headers of the response: a failure, or
  a response that forbids to be stored, is stored with the status 200 like any other.
\<close>

theorem tyk_ignores_response_head:
  assumes "header_get (resp_Header rs) ''Cache-Status'' = []" "header_get h' ''Cache-Status'' = []"
    and "SouinResponseHandler G e h now ended rw rs rq s = Inr (rw1, rs1, s1, calls)"
  shows "\<exists>rs2. SouinResponseHandler G e h now ended rw (rs\<lparr>resp_StatusCode := code, resp_Header := h'\<rparr>) rq s = Inr (rw1, rs2, s1, calls)"
  using assms by (auto simp: SouinResponseHandler_def Let_def split: if_splits option.splits prod.splits)

section \<open>Witnesses\<close>

text \<open>A cache that keeps its values until they are deleted.\<close>

definition map_cache :: "(string, any) amap go_cache" where
  "map_cache = \<lparr>gc_New = (\<lambda>d i. []), gc_Get = (\<lambda>t k c. map_of c k), gc_Set = (\<lambda>now k v d c. amap_put k v c),
     gc_Delete = amap_del, gc_Flush = (\<lambda>c. []), gc_Items = (\<lambda>now c. c)\<rparr>"

lemma map_cache_laws: "go_cache_laws map_cache"
  by (simp add: go_cache_laws_def map_cache_def)

definition idle_storer :: "'w storer" where
  "idle_storer = \<lparr>st_Name = ty_Name, st_Uuid = [], st_MapKeys = (\<lambda>_ _ w. ([], w)), st_ListKeys = (\<lambda>_ w. (Inr [], w)),
     st_Get = (\<lambda>_ _ w. (None, w)), st_Set = (\<lambda>_ _ _ _ w. (False, w)), st_Delete = (\<lambda>_ w. w),
     st_DeleteMany = (\<lambda>_ _ w. w), st_Reset = (\<lambda>_ w. (False, w)), st_GetMultiLevel = (\<lambda>_ _ _ v w. (Inr (None, None, v), w)),
     st_SetMultiLevel = (\<lambda>_ _ _ _ _ _ _ _ w. (Inr False, w))\<rparr>"

definition sample_tyk_handler :: "(string, any) amap ty_provider handler" where
  "sample_tyk_handler = \<lparr>sh_Configuration = base_configuration0, sh_Storers = [idle_storer],
     sh_InternalEndpointHandlers = None, sh_ExcludeRegex = None, sh_RegexpUrls = [],
     sh_SurrogateKeyStorer = \<lparr>bs_parent = SouinLayer, bs_Storage = idle_storer, bs_Keys = [], bs_keysRegexp = [],
       bs_dynamic = True, bs_keepStale = True, bs_duration = 0\<rparr>,
     sh_DefaultMatchedUrl = default_matched_url (default_cache0\<lparr>dc_TTL := 60 * Second\<rparr>),
     sh_context = Context_Init base_configuration0, sh_storersLen = 1\<rparr>"

definition sample_tyk :: "(string, any) amap ty_provider" where
  "sample_tyk = \<lparr>ty_Cache = [], ty_stale = 0\<rparr>"

lemma sample_tyk_stored:
  "case SouinResponseHandler map_cache (sample_env sample_reply) sample_tyk_handler 0 False response_writer0 sample_response
      sample_request sample_tyk of
     Inl p \<Rightarrow> False
   | Inr (_, _, s1, calls) \<Rightarrow> map snd calls = [''GET-http-h-/a''] \<and> map fst (ty_Cache s1) = [''GET-http-h-/a'']"
  by code_simp

lemma sample_tyk_response:
  obtains rw1 rs1 s1 calls where
    "SouinResponseHandler map_cache (sample_env sample_reply) sample_tyk_handler 0 False response_writer0 sample_response
       sample_request sample_tyk = Inr (rw1, rs1, s1, calls)"
    "map snd calls = [''GET-http-h-/a'']" "map fst (ty_Cache s1) = [''GET-http-h-/a'']"
  using sample_tyk_stored by (auto split: sum.splits prod.splits)

theorem tyk_never_serves_witness:
  "\<exists>s1 rw'. map fst (ty_Cache s1) = [''GET-http-h-/a'']
     \<and> SouinRequestHandler map_cache sample_codec (sample_env sample_reply) sample_tyk_handler 1 response_writer0 sample_request s1
       = (Inr rw', s1) \<and> rw_Sent rw' = None \<and> rw_Body rw' = []"
proof -
  obtain rw1 rs1 s1 calls where r:
    "SouinResponseHandler map_cache (sample_env sample_reply) sample_tyk_handler 0 False response_writer0 sample_response
       sample_request sample_tyk = Inr (rw1, rs1, s1, calls)"
    "map snd calls = [''GET-http-h-/a'']" "map fst (ty_Cache s1) = [''GET-http-h-/a'']"
    by (rule sample_tyk_response)
  have "user_key ''GET-http-h-/a''" by (simp add: user_key_def MappingKeyPrefix_def)
  then have "list_all (\<lambda>(_, key). user_key key) calls" using r(2) by (auto simp: list_all_iff)
  then have "ty_step map_cache sample_codec (sample_env sample_reply) sample_tyk_handler sample_tyk s1"
    by (rule ty_step.Responded [OF r(1)])
  moreover have "sample_tyk \<in> set (ty_NewStorages map_cache (sh_Configuration sample_tyk_handler))"
    by (simp add: ty_NewStorages_def ty_CacheConnectionFactory_def sample_tyk_def map_cache_def sample_tyk_handler_def
        base_configuration0_def default_cache0_def)
  ultimately have "ty_reachable map_cache sample_codec (sample_env sample_reply) sample_tyk_handler s1"
    unfolding ty_reachable_def by blast
  moreover have "HandleInternally sample_tyk_handler sample_request = None"
    by (simp add: HandleInternally_def sample_tyk_handler_def)
  ultimately obtain rw' where "SouinRequestHandler map_cache sample_codec (sample_env sample_reply) sample_tyk_handler 1
      response_writer0 sample_request s1 = (Inr rw', s1)" "rw_Sent rw' = rw_Sent response_writer0"
    "rw_Body rw' = rw_Body response_writer0"
    using tyk_never_serves [OF map_cache_laws] by blast
  with r(3) show ?thesis by (intro exI [of _ s1] exI [of _ rw']) (simp add: response_writer0_def)
qed

theorem tyk_ignores_response_head_witness:
  "\<exists>rw1 rs2 s1 calls. SouinResponseHandler map_cache (sample_env sample_reply) sample_tyk_handler 0 False response_writer0
      (sample_response\<lparr>resp_StatusCode := 500, resp_Header := [(''Cache-Control'', [''no-store''])]\<rparr>) sample_request sample_tyk
    = Inr (rw1, rs2, s1, calls) \<and> map fst (ty_Cache s1) = [''GET-http-h-/a'']"
proof -
  obtain rw1 rs1 s1 calls where r:
    "SouinResponseHandler map_cache (sample_env sample_reply) sample_tyk_handler 0 False response_writer0 sample_response
       sample_request sample_tyk = Inr (rw1, rs1, s1, calls)"
    "map fst (ty_Cache s1) = [''GET-http-h-/a'']"
    by (rule sample_tyk_response)
  have "header_get (resp_Header sample_response) ''Cache-Status'' = []"
    "header_get [(''Cache-Control'', [''no-store''])] ''Cache-Status'' = []"
    by code_simp+
  from tyk_ignores_response_head [OF this r(1), of 500] obtain rs2
    where "SouinResponseHandler map_cache (sample_env sample_reply) sample_tyk_handler 0 False response_writer0
      (sample_response\<lparr>resp_StatusCode := 500, resp_Header := [(''Cache-Control'', [''no-store''])]\<rparr>) sample_request sample_tyk
    = Inr (rw1, rs2, s1, calls)"
    by blast
  with r(2) show ?thesis by (intro exI conjI)
qed

end
