(* ===== verification/EndToEnd.thy ===== *)
theory EndToEnd
  imports PluginLaws
begin

text \<open>
  Two requests through \<open>ServeHTTP\<close> of pkg/middleware, one after the other, with the in-memory
  storer: the first goes to the upstream and is stored, the second is answered from the cache.
  The lemmas of the stages (look-up, \<open>Store\<close>, \<open>Upstream\<close>, the answer from a fresh response) are
  put together here.
\<close>

section \<open>Requests that reach the cache\<close>

text \<open>
  The request with its contexts and its parsed Cache-Control, unless it is for an internal endpoint,
  excluded, of an unsupported method, malformed or a mutation.
\<close>

definition reaches_cache ::
  "mw_env \<Rightarrow> 'w handler \<Rightarrow> gtime \<Rightarrow> request \<Rightarrow> (request \<times> request_directives option) option" where
  "reaches_cache e h now rq =
     (let req = SetBaseContext now (sh_context h) rq;
          co = ParseRequestCacheControl (HeaderAllCommaSepValuesString (req_Header req) ''Cache-Control'');
          req1 = set_contexts e h req rq
      in if HandleInternally h rq \<noteq> None \<or> excluded e h req \<or> \<not> cx_SupportedMethod (req_ctx req)
            \<or> (\<not> Bypass_request (cx_Mode (req_ctx req)) \<and> co = None) \<or> cx_IsMutationRequest (req_ctx req1)
         then None else Some (req1, co))"

lemma ServeHTTP_cached:
  "reaches_cache e h now rq = Some (req, co) \<Longrightarrow>
     ServeHTTP e h now later roles race rw rq s = serve_cached e h now later roles race req co rw s"
  by (auto simp: reaches_cache_def ServeHTTP_def Let_def split: if_splits)

section \<open>The look-up\<close>

context multi_level_contract
begin

text \<open>
  What is found after a store in its fresh period, with the validator the election leaves, in any
  state that has kept the mapping and the value.
\<close>

lemma found_while_fresh:
  assumes "wf w" "user_key vk" "user_key rk" "mapping bk w = None"
    and "fst (st_SetMultiLevel S now bk vk b vh etag d rk w) = Inr False"
    and "entry_fits req v (new_entry now d (grace w) vh etag rk)" "cd_Read cd (cd_Compress cd b) req = Some r"
    and "now \<le> t" "t < now + d" "0 \<le> grace w"
    and "wf w'" "mapping bk w' = mapping bk (snd (st_SetMultiLevel S now bk vk b vh etag d rk w))"
    and "val t vk w' = val t vk (snd (st_SetMultiLevel S now bk vk b vh etag d rk w))"
  shows "fst (st_GetMultiLevel S t bk req v w') = Inr (Some r, None, ValidateETagFromHeader etag v)"
  using assms
  by (simp add: get_multi set_multi_mapping set_multi_val mapping_or_empty_def elected_def Let_def
      new_entry_def entry_fits_def)

end

lemma lookup_unmapped:
  assumes "ds_wf cd w" "ds_mapping cd key w = None"
  shows "lookup_storers now [default_storer re cd] key req v 0 w = (Inr (None, None, v, [], Suc 0), w)"
proof -
  have "map_of (ds_m w) (MappingKeyPrefix @ key) = None"
    using assms ds_mapping_value[of cd w key] by (fastforce simp: ds_wf_def)
  then show ?thesis by (simp add: default_storer_def ds_GetMultiLevel_def)
qed

lemma miss_goes_on:
  assumes "sh_Storers h = [default_storer re cd]" "ds_wf cd (sy_store s)" "fl_requestCc f = Some co"
    and "ds_mapping cd (hash_key e (cx_Hashed (req_ctx (fl_req f))) (fl_cachedKey f)) (sy_store s) = None"
  shows "cache_stage e h f cw s = Cont cw s"
proof -
  let ?l = "lookup_storers (fl_now f) (sh_Storers h) (hash_key e (cx_Hashed (req_ctx (fl_req f))) (fl_cachedKey f))
    (fl_req f) (ParseRequest (fl_req f)) 0 (sy_store s)"
  have "?l = (Inr (None, None, ParseRequest (fl_req f), [], Suc 0), sy_store s)"
    unfolding assms(1) by (rule lookup_unmapped[OF assms(2,4)])
  moreover have "serve_from_cache e h f v None None name idx cw s = Cont cw s" for v name idx
    using assms(3) by (simp add: serve_from_cache_def fresh_acceptable_def serve_max_stale_def Let_def)
  ultimately show ?thesis
    using assms(3) by (simp add: cache_stage_def Let_def split: bool.split)
qed

section \<open>The first request\<close>

lemma Store_stored:
  assumes "sh_Storers h = [st]" "stored_entry e h now rq co key cw = Some (r, hdr)" "header_get hdr ''X-Souin-Storer'' = []"
    and "set_multi now st r (sy_store s) = (Inr False, w')" "Store e h now rq co key uri cw s = (x, cw', s')"
  shows "x = Inr None" "sy_store s' = w'"
proof -
  show "sy_store s' = w'"
    using Store_store[of e h now rq co key uri cw s] assms by (simp add: write_entry_def)
  obtain cw1 rc where adm: "store_admission h rq cw = Inr (cw1, rc)"
    using assms(2) by (auto simp: stored_entry_def split: sum.splits prod.splits)
  obtain ma fr where ttl: "store_ttl now (cx_Mode (req_ctx rq)) rc (cw_Header cw1) (url_TTL (currentMatchedURL e h rq)) = Some (ma, fr)"
    using assms(2) adm by (auto simp: stored_entry_def split: option.splits)
  have f: "cw_Buf cw1 = cw_Buf cw" "cw_Done cw1 = cw_Done cw" "cw_statusCode cw1 = cw_statusCode cw"
    using only_header_changed_fields[OF store_admission_writer(2)[OF adm]] by simp_all
  let ?h1 = "stored_headers rq rc (length (cw_Buf cw)) (cw_Header (cw_Set StoredTTLHeader (Duration_String ma) cw1))"
  let ?resH = "header_set StoredLengthHeader (header_get ?h1 ''Content-Length'') ?h1"
  obtain names star where v: "VariedHeaderAllCommaSepValues ?resH = (names, star)" by fastforce
  obtain sf names' where g: "GetVariedCacheKey rq names = (sf, names')" by fastforce
  let ?r = "\<lparr>so_baseKey = hash_key e (cx_Hashed (req_ctx rq)) key, so_variedKey = hash_key e (cx_Hashed (req_ctx rq)) (key @ sf),
    so_value = dumpResponse (cw_statusCode cw) ?resH (cw_Buf cw), so_variedHeaders = varied_request_headers rq names',
    so_etag = header_get ?resH ''Etag'', so_duration = store_duration now rq ma\<rparr>"
  have c: "store_allowed (cx_Mode (req_ctx rq)) co rc fr = Inr True" "\<not> body_too_large h (length (cw_Buf cw))"
      "body_storable h rq (cw_statusCode cw) (length (cw_Buf cw))" "\<not> star" "\<not> cw_Done cw"
    and r: "?r = r" and hdr: "?resH = hdr"
    using assms(2) by (auto simp: stored_entry_def adm ttl v g Let_def simp del: header_get_set split: if_splits)
  obtain st' s2 where "store_entry e h now rq key uri (cw_statusCode cw) (cw_Buf cw) hdr (store_duration now rq ma) False
      (cx_CacheName (req_ctx rq) @ ''; fwd=uri-miss'') s = (Inr st', s2)"
    using assms(1,3,4) c(4)
    by (simp add: store_entry_def store_write_def Let_def v[unfolded hdr] g r[unfolded hdr] del: header_get_set)
  then show "x = Inr None"
    using assms(5) c by (simp add: Store_def adm ttl f Let_def hdr del: header_get_set)
qed

text \<open>
  What the upstream answers to a request that misses, the writer as it leaves it, and with the
  default Cache-Control when it gave none.
\<close>

definition reply_on_miss :: "mw_env \<Rightarrow> 'w sys \<Rightarrow> request \<Rightarrow> upstream_reply" where
  "reply_on_miss e s rq =
     me_next e (sy_log (sys_log (EvCount RequestCounter) (sys_log (EvCount NoCachedResponseCounter) s))) rq"

definition written_by :: "upstream_reply \<Rightarrow> custom_writer \<Rightarrow> custom_writer" where
  "written_by reply cw = (cw_calls (up_calls reply) cw)\<lparr>cw_Done := up_done reply\<rparr>"

definition with_default_control :: "'w handler \<Rightarrow> custom_writer \<Rightarrow> custom_writer" where
  "with_default_control h cw =
     (let (headerName, cacheControl) = GetSurrogateControl (sh_SurrogateKeyStorer h) (cw_Header cw)
      in if cacheControl = [] then cw_Set headerName (url_DefaultCacheControl (sh_DefaultMatchedUrl h)) cw else cw)"

lemma with_default_control_keeps:
  "cw_statusCode (with_default_control h cw) = cw_statusCode cw" "cw_Buf (with_default_control h cw) = cw_Buf cw"
  "pristine (with_default_control h cw) = pristine cw"
  by (auto simp: with_default_control_def split: prod.split)

lemma safe_method_invalidates_nothing:
  "isSafeHTTPMethod meth \<Longrightarrow> invalidate_groups h now meth headers s = s"
  by (simp add: invalidate_groups_def sys_store_def bs_Invalidate_def)

lemma miss_is_stored:
  fixes e :: mw_env and h :: "'w handler" and s :: "'w sys" and f :: flow and cw :: custom_writer
  assumes "sh_Storers h = [st]" "fl_roles f = []" "pristine cw" "isSafeHTTPMethod (req_Method (fl_req f))"
  defines "reply \<equiv> reply_on_miss e s (fl_req f)"
  defines "cwU \<equiv> written_by reply cw"
  assumes "up_end reply = NextOk"
    and "stored_entry e h (up_time reply) (fl_req f) (fl_requestCc f) (fl_cachedKey f) (with_default_control h cwU) = Some (r, hdr)"
    and "header_get hdr ''X-Souin-Storer'' = []" "set_multi (up_time reply) st r (sy_store s) = (Inr False, w')"
  shows "\<exists>cw' s'. upstream_stage e h f None cw s = (Inr None, cw', s') \<and> rw_status (cw_Rw cw') = Some (cw_statusCode cwU)
    \<and> rw_Body (cw_Rw cw') = cw_Buf cwU \<and> sy_store s' = w' \<and> next_calls s' = Suc (next_calls s)"
proof -
  let ?rq = "fl_req f" and ?co = "fl_requestCc f" and ?key = "fl_cachedKey f" and ?uri = "fl_uri f"
  let ?s = "sys_log (EvCount RequestCounter) (sys_log (EvCount NoCachedResponseCounter) s)"
  let ?s1 = "sys_log (EvNext ?rq) ?s" and ?cwS = "with_default_control h cwU"
  obtain hn cc where g: "GetSurrogateControl (sh_SurrogateKeyStorer h) (cw_Header cwU) = (hn, cc)" by fastforce
  have S: "?cwS = (if cc = [] then cw_Set hn (url_DefaultCacheControl (sh_DefaultMatchedUrl h)) cwU else cwU)"
    by (simp add: with_default_control_def g)
  obtain cw1 rc where "store_admission h ?rq ?cwS = Inr (cw1, rc)"
    using assms(8) by (auto simp: stored_entry_def split: sum.splits)
  from store_admission_conditions(1)[OF this] have ok: "cacheable_status h (cw_statusCode cwU)"
    by (simp only: with_default_control_keeps)
  obtain x cw3 s3 where St: "Store e h (up_time reply) ?rq ?co ?key ?uri ?cwS ?s1 = (x, cw3, s3)" by (metis prod_cases3)
  have "set_multi (up_time reply) st r (sy_store ?s1) = (Inr False, w')" using assms(10) by (simp add: sys_log_def)
  note stored = Store_stored[OF assms(1,8,9) this St]
  have cw3: "pristine cw3" "cw_Buf cw3 = cw_Buf cwU"
    using Store_keeps[OF St] assms(3) by (simp_all add: with_default_control_keeps cwU_def written_by_def)
  obtain v where L: "upstream_leader e h ?rq ?co ?key ?uri cw ?s = (Landed (Some v) None, reset_buffer cw3, s3)"
    and v: "sf_body v = cw_Buf cwU" "sf_code v = cw_statusCode cwU"
    using upstream_landed_value[OF ok g St[unfolded stored(1) S]] assms(7) cw3(2)
    by (auto simp: upstream_leader_def call_next_def Let_def safe_method_invalidates_nothing[OF assms(4)] reply_def
        reply_on_miss_def cwU_def written_by_def)
  have "\<not> vary_differs ?rq v" using L upstream_leader_requestHeaders not_vary_differs_own by blast
  then have "upstream_stage e h f None cw s = (Inr None, Send (me_serve e) (load_value v (reset_buffer cw3)), s3)"
    using L by (simp add: upstream_stage_leader[OF assms(2)] upstream_alone_def upstream_round_def upstream_settle_def)
  moreover have "next_calls s3 = Suc (next_calls s)" using upstream_leader_next_calls[OF L] by simp
  ultimately show ?thesis
    using Send_answers[of "load_value v (reset_buffer cw3)" "me_serve e"] stored(2) v cw3
    by (simp add: load_value_fields load_value_status)
qed

section \<open>The second request\<close>

text \<open>A request without conditions of its own, and the validator that it gives rise to.\<close>

definition unconditional :: "request \<Rightarrow> bool" where
  "unconditional rq \<longleftrightarrow>
     (\<forall>k \<in> {''If-None-Match'', ''If-Modified-Since'', ''If-Unmodified-Since''}. header_get (req_Header rq) k = [])"

lemma unconditional_validator:
  fixes rq :: request and etag :: string
  assumes "unconditional rq"
  defines "v \<equiv> ValidateETagFromHeader etag (ParseRequest rq)"
  shows "etag_accepts (ParseRequest rq) etag" "rv_Matched v" "\<not> rv_NeedRevalidation v" "\<not> rv_NotModified v" "rv_ResponseETag v = etag"
  using assms
  by (simp_all add: unconditional_def ParseRequest_def ValidateETagFromHeader_def etag_accepts_def Let_def)

text \<open>
  Nothing stands in the way of a fresh response: neither the directives of the request nor those of
  the response, nor the checks of the strict mode.
\<close>

definition answers_fresh :: "'w handler \<Rightarrow> gtime \<Rightarrow> request \<Rightarrow> request_directives \<Rightarrow> response \<Rightarrow> bool" where
  "answers_fresh h now rq co resp \<longleftrightarrow>
     \<not> rq_NoCache co
     \<and> (case ParseResponseCacheControl (HeaderAllCommaSepValuesString (resp_Header resp)
            (fst (GetSurrogateControl (sh_SurrogateKeyStorer h) []))) of
           None \<Rightarrow> False | Some rc \<Rightarrow> \<not> rs_NoCachePresent rc)
     \<and> (Strict (cx_Mode (req_ctx rq)) \<longrightarrow> strict_accepts now co resp DefaultStorageName)"

lemma hit_is_answered:
  assumes "pristine cw" "cw_Buf cw = []" "cw_Header cw = []" "fl_requestCc f = Some co" "unconditional (fl_req f)"
    and "answers_fresh h (fl_now f) (fl_req f) co resp"
    and "lookup_storers (fl_now f) (sh_Storers h) (hash_key e (cx_Hashed (req_ctx (fl_req f))) (fl_cachedKey f)) (fl_req f)
      (ParseRequest (fl_req f)) 0 (sy_store s)
      = (Inr (Some resp, None, ValidateETagFromHeader etag (ParseRequest (fl_req f)), DefaultStorageName, idx), w1)"
  shows "\<exists>cw' s'. cache_stage e h f cw s = Ret (Inr None) cw' s' \<and> rw_status (cw_Rw cw') = Some (resp_StatusCode resp)
    \<and> rw_Body (cw_Rw cw') = resp_Body resp \<and> next_calls s' = next_calls s"
proof -
  let ?v = "ValidateETagFromHeader etag (ParseRequest (fl_req f))" and ?s = "s\<lparr>sy_store := w1\<rparr>"
  let ?hn = "fst (GetSurrogateControl (sh_SurrogateKeyStorer h) [])"
  note v = unconditional_validator[OF assms(5), of etag]
  obtain rc where a: "\<not> rq_NoCache co" "\<not> rs_NoCachePresent rc"
    "ParseResponseCacheControl (HeaderAllCommaSepValuesString (resp_Header resp) ?hn) = Some rc"
    "Strict (fl_mode f) \<longrightarrow> strict_accepts (fl_now f) co resp DefaultStorageName"
    using assms(6) unfolding answers_fresh_def fl_mode_def by (auto split: option.splits)
  note fresh = strict_accepts_fresh[OF assms(4) a(4)]
  have "cache_stage e h f cw s = serve_fresh e h f ?hn ?v resp DefaultStorageName idx cw ?s"
    using a assms(3,4,7) fresh(1) by (auto simp: cache_stage_def serve_from_cache_def)
  moreover note fresh(2)
  ultimately show ?thesis
    using a v assms(1,2)
    by (auto simp: serve_fresh_def serve_etag_match_def serve_fresh_hit_def Let_def Send_answers)
qed

section \<open>One after the other\<close>

text \<open>The base key of a request in the storers, the request and the writer of the cached path.\<close>

definition storage_key :: "mw_env \<Rightarrow> request \<Rightarrow> string" where
  "storage_key e req = hash_key e (cx_Hashed (req_ctx req)) (key_of req)"

definition flow_of :: "gtime \<Rightarrow> gtime \<Rightarrow> flight list \<Rightarrow> request \<Rightarrow> request_directives option \<Rightarrow> flow" where
  "flow_of now later roles req co =
     \<lparr>fl_now = now, fl_later = later, fl_req = fst (cached_writer req response_writer0), fl_requestCc = co,
      fl_cachedKey = key_of req, fl_uri = req_Path req, fl_roles = roles\<rparr>"

lemma flow_of_sel [simp]:
  "fl_now (flow_of now later roles req co) = now" "fl_roles (flow_of now later roles req co) = roles"
  "fl_req (flow_of now later roles req co) = fst (cached_writer req response_writer0)"
  "fl_requestCc (flow_of now later roles req co) = co" "fl_cachedKey (flow_of now later roles req co) = key_of req"
  "hash_key e (cx_Hashed (req_ctx (fst (cached_writer req rw)))) (key_of req) = storage_key e req"
  "req_Method (fst (cached_writer req rw)) = req_Method req"
  by (simp_all add: flow_of_def storage_key_def cached_writer_def Let_def)

lemma serve_cached_stages:
  "serve_cached e h now later roles race req co response_writer0 s =
     (case cache_stage e h (flow_of now later roles req co) (snd (cached_writer req response_writer0)) s of
        Ret r cw1 s1 \<Rightarrow> (r, cw_Rw cw1, s1)
      | Cont cw1 s1 \<Rightarrow> (case upstream_stage e h (flow_of now later roles req co) race cw1 s1 of (r, cw2, s2) \<Rightarrow> (r, cw_Rw cw2, s2)))"
  by (simp add: serve_cached_def flow_of_def case_prod_beta Let_def split: outcome.split)

lemma client_writer_of:
  assumes "header_get (req_Header req) ''Range'' = []"
  shows "pristine (snd (cached_writer req response_writer0))" "cw_Buf (snd (cached_writer req response_writer0)) = []"
    "cw_Header (snd (cached_writer req response_writer0)) = []"
  using pristine_cached_writer[OF assms, of response_writer0]
  by (simp_all add: response_writer0_def cw_Header_def cached_writer_def Let_def NewCustomWriter_def cw_detached_def)

text \<open>
  What may happen in the storer between the requests: anything that leaves the mapping of the one
  base key and the value of the one varied key as they are - other requests, goroutines that store
  surrogate keys, the eviction of other responses.
\<close>

definition undisturbed :: "codec \<Rightarrow> gtime \<Rightarrow> string \<Rightarrow> string \<Rightarrow> default_provider \<Rightarrow> default_provider \<Rightarrow> bool" where
  "undisturbed cd t bk vk w w' \<longleftrightarrow>
     (ds_wf cd w \<longrightarrow> ds_wf cd w') \<and> ds_mapping cd bk w' = ds_mapping cd bk w \<and> ds_val t vk w' = ds_val t vk w"

text \<open>
  C1. The cache is transparent to a repeated request.  A first request misses, is answered by the
  upstream, and its answer is storable; a later request with the same key, within the stored
  duration and with the same varied headers, gets the status and the body that the first client got,
  and the upstream is not asked again, whatever else has happened to the storer in between.
\<close>

theorem repeated_request_from_cache:
  fixes e :: mw_env and h :: "default_provider handler" and s :: "default_provider sys" and req req' :: request
  defines "req1 \<equiv> fst (cached_writer req response_writer0)" and "req2 \<equiv> fst (cached_writer req' response_writer0)"
  defines "reply \<equiv> reply_on_miss e s req1"
  defines "cwU \<equiv> written_by reply (snd (cached_writer req response_writer0))"
  assumes "sh_Storers h = [default_storer re cd]" "ds_wf cd (sy_store s)" "0 \<le> ds_stale (sy_store s)"
    and "reaches_cache e h now rq = Some (req, Some co)" "header_get (req_Header req) ''Range'' = []"
    and "isSafeHTTPMethod (req_Method req)" "ds_mapping cd (storage_key e req) (sy_store s) = None"
    and "up_end reply = NextOk"
    and "stored_entry e h (up_time reply) req1 (Some co) (key_of req) (with_default_control h cwU) = Some (r, hdr)"
    and "header_get hdr ''X-Souin-Storer'' = []" "user_key (so_variedKey r)"
    and "fst (set_multi (up_time reply) (default_storer re cd) r (sy_store s)) = Inr False"
    and "reaches_cache e h now' rq' = Some (req', Some co')" "header_get (req_Header req') ''Range'' = []"
    and "unconditional req2" "storage_key e req' = storage_key e req"
    and "up_time reply \<le> now'" "now' < up_time reply + so_duration r"
    and "headers_match req2 (new_entry (up_time reply) (so_duration r) (ds_stale (sy_store s)) (so_variedHeaders r) (so_etag r)
      (so_variedKey r))"
    and "cd_Read cd (cd_Compress cd (so_value r)) req2 = Some resp"
    and "resp_StatusCode resp = cw_statusCode cwU" "resp_Body resp = cw_Buf cwU" "answers_fresh h now' req2 co' resp"
  shows "\<exists>rw1 s1. ServeHTTP e h now later [] None response_writer0 rq s = (Inr None, rw1, s1)
    \<and> rw_status rw1 = Some (cw_statusCode cwU) \<and> rw_Body rw1 = cw_Buf cwU \<and> next_calls s1 = Suc (next_calls s)
    \<and> (\<forall>s2. undisturbed cd now' (so_baseKey r) (so_variedKey r) (sy_store s1) (sy_store s2) \<longrightarrow>
         (\<exists>rw2 s3. ServeHTTP e h now' later' roles' race' response_writer0 rq' s2 = (Inr None, rw2, s3)
            \<and> rw_status rw2 = rw_status rw1 \<and> rw_Body rw2 = rw_Body rw1 \<and> next_calls s3 = next_calls s2))"
proof -
  let ?f = "flow_of now later [] req (Some co)" and ?f' = "flow_of now' later' roles' req' (Some co')"
  let ?cw = "snd (cached_writer req response_writer0)" and ?cw' = "snd (cached_writer req' response_writer0)"
  let ?st = "default_storer re cd" and ?w = "sy_store s"
  let ?w' = "snd (set_multi (up_time reply) ?st r ?w)"
  have base: "so_baseKey r = storage_key e req"
    using assms(13) by (auto simp: stored_entry_def Let_def req1_def split: sum.splits prod.splits option.splits if_splits)
  have "cache_stage e h ?f ?cw s = Cont ?cw s"
    using miss_goes_on[OF assms(5,6)] assms(11) by simp
  moreover obtain cw1 s1 where u: "upstream_stage e h ?f None ?cw s = (Inr None, cw1, s1)"
    "rw_status (cw_Rw cw1) = Some (cw_statusCode cwU)" "rw_Body (cw_Rw cw1) = cw_Buf cwU" "sy_store s1 = ?w'"
    "next_calls s1 = Suc (next_calls s)"
    using miss_is_stored[of h ?st ?f ?cw e s r hdr ?w', folded req1_def] client_writer_of[OF assms(9)] assms(5,10,12-14,16)
    unfolding flow_of_sel reply_def cwU_def req1_def by (metis prod.collapse)
  ultimately have first: "ServeHTTP e h now later [] None response_writer0 rq s = (Inr None, cw_Rw cw1, s1)"
    by (simp add: ServeHTTP_cached[OF assms(8)] serve_cached_stages)
  have second: "\<exists>rw2 s3. ServeHTTP e h now' later' roles' race' response_writer0 rq' s2 = (Inr None, rw2, s3)
      \<and> rw_status rw2 = rw_status (cw_Rw cw1) \<and> rw_Body rw2 = rw_Body (cw_Rw cw1) \<and> next_calls s3 = next_calls s2"
    if "undisturbed cd now' (so_baseKey r) (so_variedKey r) ?w' (sy_store s2)" for s2
  proof -
    let ?v = "ValidateETagFromHeader (so_etag r) (ParseRequest req2)" and ?w2 = "sy_store s2"
    have "ds_wf cd ?w'" using assms(6,15) dm.set_multi_wf by (simp add: set_multi_def)
    then have "fst (st_GetMultiLevel ?st now' (storage_key e req) req2 (ParseRequest req2) ?w2) = Inr (Some resp, None, ?v)"
      using dm.found_while_fresh[of cd ?w "so_variedKey r" "so_variedKey r" "so_baseKey r" re "up_time reply" "so_value r"
          "so_variedHeaders r" "so_etag r" "so_duration r" req2 "ParseRequest req2" resp now' ?w2] that assms base
        unconditional_validator(1)[OF assms(19), of "so_etag r"]
      by (simp add: undisturbed_def set_multi_def entry_fits_def new_entry_def)
    then obtain w3 where "lookup_storers now' (sh_Storers h) (storage_key e req') req2 (ParseRequest req2) 0 ?w2
        = (Inr (Some resp, None, ?v, DefaultStorageName, 0), w3)"
      using assms(5,20) by (cases "st_GetMultiLevel ?st now' (storage_key e req) req2 (ParseRequest req2) ?w2")
        (simp add: default_storer_def)
    then obtain cw2 s3 where "cache_stage e h ?f' ?cw' s2 = Ret (Inr None) cw2 s3"
      "rw_status (cw_Rw cw2) = Some (resp_StatusCode resp)" "rw_Body (cw_Rw cw2) = resp_Body resp" "next_calls s3 = next_calls s2"
      using hit_is_answered[OF client_writer_of[OF assms(18)], of ?f' co' h resp e s2 "so_etag r" 0 w3] assms(19,27)
      by (auto simp: req2_def)
    then show ?thesis using u(2,3) assms(25,26) by (simp add: ServeHTTP_cached[OF assms(17)] serve_cached_stages)
  qed
  show ?thesis using first u second by (intro exI[of _ "cw_Rw cw1"] exI[of _ s1]) simp
qed

section \<open>Witness\<close>

text \<open>A codec that knows the one mapping of the sample exchange, and reads the stored answer back.\<close>

definition repeat_key :: string where
  "repeat_key = ''GET-http-h-/a''"

definition repeat_index :: key_index where
  "repeat_index = new_entry 0 (10 * Second) 5 [] [] repeat_key"

definition repeat_response :: response where
  "repeat_response = \<lparr>resp_StatusCode = 200, resp_Header = [(''Cache-Control'', [''max-age=10''])], resp_Body = ''hi'',
     resp_Request = sample_request\<rparr>"

definition repeat_codec :: codec where
  "repeat_codec = \<lparr>cd_Marshal = (\<lambda>m. if m = [(repeat_key, repeat_index)] then Some ''m'' else None),
     cd_Unmarshal = (\<lambda>b. if b = ''m'' then Some [(repeat_key, repeat_index)] else None),
     cd_Compress = (\<lambda>b. b), cd_Read = (\<lambda>b req. if b = [] then None else Some repeat_response)\<rparr>"

definition repeat_handler :: "default_provider handler" where
  "repeat_handler = sample_handler [default_storer no_regexp repeat_codec]"

abbreviation (input) repeat_env :: mw_env where
  "repeat_env \<equiv> sample_env sample_reply"

text \<open>The request as it reaches the cache at time \<open>t\<close>, and what the upstream writes for it.\<close>

definition repeat_request :: "gtime \<Rightarrow> request" where
  "repeat_request t = sample_request\<lparr>req_Header := [(''Accept'', [''x'']), (''Date'', [''Thu, 01 Jan 1970 00:00:00 UTC''])],
     req_ctx := request_context0\<lparr>cx_CacheName := ''Souin'', cx_RequestCacheControl := Some request_directives0,
       cx_Key := Some repeat_key, cx_DisplayableKey := Some True, cx_DisableVary := Some False, cx_SupportedMethod := True,
       cx_Mode := \<lparr>Strict = True, Bypass_request = False, Bypass_response = False\<rparr>, cx_Now := t,
       cx_Deadline := Some (t + 10 * Second), cx_TimeoutCache := 10 * Millisecond\<rparr>\<rparr>"

definition repeat_written :: custom_writer where
  "repeat_written = written_by sample_reply (snd (cached_writer (repeat_request 0) response_writer0))"

lemma repeat_reaches:
  "reaches_cache repeat_env repeat_handler 0 sample_request = Some (repeat_request 0, Some request_directives0)"
  "reaches_cache repeat_env repeat_handler 3 sample_request = Some (repeat_request 3, Some request_directives0)"
  by code_simp+

lemma repeat_request_facts:
  "header_get (req_Header (repeat_request 0)) ''Range'' = []" "header_get (req_Header (repeat_request 3)) ''Range'' = []"
  "isSafeHTTPMethod (req_Method (repeat_request 0))" "storage_key repeat_env (repeat_request 0) = repeat_key"
  "storage_key repeat_env (repeat_request 3) = repeat_key"
  by code_simp+

lemma repeat_second_facts:
  "unconditional (fst (cached_writer (repeat_request 3) response_writer0))"
  "headers_match (fst (cached_writer (repeat_request 3) response_writer0)) repeat_index"
  "answers_fresh repeat_handler 3 (fst (cached_writer (repeat_request 3) response_writer0)) request_directives0 repeat_response"
  by code_simp+

lemma repeat_stored:
  "map_option (\<lambda>(r, hdr). (so_variedKey r, so_variedHeaders r, so_etag r, so_duration r, so_baseKey r, so_value r = [],
       header_get hdr ''X-Souin-Storer''))
     (stored_entry repeat_env repeat_handler 0 (fst (cached_writer (repeat_request 0) response_writer0)) (Some request_directives0)
       (key_of (repeat_request 0)) (with_default_control repeat_handler repeat_written))
   = Some (repeat_key, [], [], 10 * Second, repeat_key, False, [])"
  by code_simp

lemma repeat_written_facts: "cw_statusCode repeat_written = 200" "cw_Buf repeat_written = ''hi''"
  by code_simp+

lemma repeat_provider_facts:
  "ds_wf repeat_codec sample_provider" "ds_mapping repeat_codec repeat_key sample_provider = None" "ds_stale sample_provider = 5"
proof -
  show "ds_wf repeat_codec sample_provider"
    by (simp add: ds_wf_def codec_ok_def repeat_codec_def sample_provider_def ds_ok_Factory)
qed (simp_all add: sample_provider_def ds_mapping_def default_provider_Factory_def)

lemma repeat_handler_facts:
  "sh_Storers repeat_handler = [default_storer no_regexp repeat_codec]"
  "reply_on_miss repeat_env s rq = sample_reply" "up_end sample_reply = NextOk" "up_time sample_reply = 0"
  "sy_store (sample_sys w) = w" "user_key repeat_key"
  by (simp_all add: repeat_handler_def reply_on_miss_def sample_env_def sample_reply_def sample_sys_def user_key_def
      repeat_key_def MappingKeyPrefix_def)

theorem repeated_request_from_cache_witness:
  "\<exists>rw1 s1 rw2 s2. ServeHTTP repeat_env repeat_handler 0 0 [] None response_writer0 sample_request (sample_sys sample_provider)
      = (Inr None, rw1, s1)
    \<and> ServeHTTP repeat_env repeat_handler 3 3 [] None response_writer0 sample_request s1 = (Inr None, rw2, s2)
    \<and> rw_status rw2 = Some 200 \<and> rw_Body rw2 = ''hi'' \<and> next_calls s2 = next_calls s1"
proof -
  obtain r hdr where r: "stored_entry repeat_env repeat_handler 0 (fst (cached_writer (repeat_request 0) response_writer0))
      (Some request_directives0) (key_of (repeat_request 0)) (with_default_control repeat_handler repeat_written) = Some (r, hdr)"
    and f: "so_variedKey r = repeat_key" "so_variedHeaders r = []" "so_etag r = []" "so_duration r = 10 * Second"
      "so_baseKey r = repeat_key" "so_value r \<noteq> []" "header_get hdr ''X-Souin-Storer'' = []"
    using repeat_stored unfolding map_option_eq_Some by (auto split: prod.splits)
  have set: "fst (set_multi 0 (default_storer no_regexp repeat_codec) r sample_provider) = Inr False"
    by (simp add: set_multi_def f ds_SetMultiLevel_def sample_provider_def default_provider_Factory_def MappingUpdater_def
        repeat_codec_def repeat_index_def new_entry_def repeat_key_def MappingKeyPrefix_def Let_def)
  have read: "cd_Read repeat_codec (cd_Compress repeat_codec (so_value r)) rq = Some repeat_response" for rq
    by (simp add: repeat_codec_def f)
  have entry: "new_entry 0 (so_duration r) 5 (so_variedHeaders r) (so_etag r) (so_variedKey r) = repeat_index"
    by (simp add: repeat_index_def f)
  let ?first = "fst (cached_writer (repeat_request 0) response_writer0)" and ?second = "fst (cached_writer (repeat_request 3) response_writer0)"
  have "\<exists>rw1 s1. ServeHTTP repeat_env repeat_handler 0 0 [] None response_writer0 sample_request (sample_sys sample_provider)
      = (Inr None, rw1, s1)
    \<and> rw_status rw1 = Some (cw_statusCode repeat_written) \<and> rw_Body rw1 = cw_Buf repeat_written
    \<and> next_calls s1 = Suc (next_calls (sample_sys sample_provider))
    \<and> (\<forall>s2. undisturbed repeat_codec 3 (so_baseKey r) (so_variedKey r) (sy_store s1) (sy_store s2) \<longrightarrow>
         (\<exists>rw2 s3. ServeHTTP repeat_env repeat_handler 3 3 [] None response_writer0 sample_request s2 = (Inr None, rw2, s3)
            \<and> rw_status rw2 = rw_status rw1 \<and> rw_Body rw2 = rw_Body rw1 \<and> next_calls s3 = next_calls s2))"
    by (rule repeated_request_from_cache[where cd = repeat_codec and re = no_regexp and e = repeat_env and s = "sample_sys sample_provider"
          and req = "repeat_request 0" and req' = "repeat_request 3" and co = request_directives0 and co' = request_directives0
          and r = r and hdr = hdr and resp = repeat_response, unfolded repeat_handler_facts, folded repeat_written_def])
      (use r f set read entry in \<open>simp_all add: repeat_handler_facts repeat_provider_facts repeat_request_facts repeat_reaches
        repeat_second_facts repeat_written_facts\<close>, simp_all add: repeat_response_def Second_def)
  moreover have "undisturbed repeat_codec 3 bk vk w w" for bk vk w by (simp add: undisturbed_def)
  ultimately show ?thesis unfolding repeat_written_facts by metis
qed

end
