(* ===== verification/Spec2Isabelle.thy ===== *)
theory Spec2Isabelle
  imports Surrogate Api StoreLaws UpstreamLaws HandlerLaws ServeLaws CaddyLaws CaddyfileLaws KratosConfig
    TraefikLaws TraefikConfigLaws BufferPoolLaws PluginLaws CaddyLifecycle CacheKeysJson TlsProviders Metrics TykLaws EndToEnd
begin

text \<open>
  Souin, an HTTP cache in Go: a model of its request path, its storage, its invalidation and its
  configuration, with the theorems that make them correct.  Paths are relative to the repository.

  \<^bold>\<open>The program.\<close>  A plugin parses a configuration (plugins/souin/agnostic, plugins/kratos,
  plugins/caddy) and builds a \<open>SouinBaseHandler\<close> (pkg/middleware).  For each request the handler
  sets the contexts of package context, among them the cache key; looks the key up in its storers
  (pkg/storage, storages/core), which elect the entry whose varied headers and entity tag fit the
  request; serves it fresh or stale after the checks of pkg/rfc, possibly with a revalidation; or
  calls the upstream handler, with requests for one key coalesced, stores the answer and sends it
  through a buffering writer.  Surrogate keys (pkg/surrogate) name groups of cached keys, and the
  administration API (pkg/api) lists and deletes by key, pattern or group.  The Traefik plugin cannot
  use these packages: plugins/traefik/override replaces them by older copies with a storage of their
  own, and plugins/traefik/main.go parses its own configuration.  The other plugins (chi, echo, gin,
  goa, go-zero, goyave, dotweb, webgo, fiber, hertz, beego, skipper, roadrunner, kratos) wrap the
  handler into the middleware of a web framework, some with a response writer of their own; the Souin
  server (plugins/souin) puts it in front of a reverse proxy, and the Tyk plugin stores and serves
  from two hooks of its gateway.

  \<^bold>\<open>Conventions.\<close>
  \<^item> Strings are lists of bytes; instants and durations are integers of nanoseconds.  The clock readings
    of a call are arguments: \<open>now\<close>, and \<open>later\<close> for one taken after the upstream has answered.
  \<^item> A panic is a value: \<open>'a go\<close> is \<open>go_panic + 'a\<close> (Prelude).  A returned Go error is a component of
    the result.
  \<^item> A Go map is an association list with distinct keys; its order is the order of one \<open>range\<close> over it,
    so a theorem about every list is a theorem about every visit.
  \<^item> The state of all storers is one value of type \<open>'w\<close>, which each operation takes and returns; it may
    be shared between storers.
  \<^item> A goroutine is an entry of the event log when it is started, and its body is a definition that
    \<open>run_event\<close> executes on the state at the time it runs.  A race with a deadline is the argument
    \<open>race\<close>.  The roles of a request in coalesced flights are the list of arguments \<open>flight\<close>: it leads,
    or follows with a given result.  Steps that lock a mutex are atomic; what may happen between
    two steps of the eviction lock is an argument of it.
  \<^item> Parameters for code outside the repository: the regular expressions (\<open>regexp_engine\<close>), the
    protobuf and lz4 codec of mappings (\<open>codec\<close>, with \<open>codec_ok\<close> for its round trip), the hash of
    keys and of GraphQL bodies, the JSON decoder of invalidations, URL parsing in the API,
    \<open>http.ServeContent\<close> (GoServeContent gives an instance), the upstream handler \<open>me_next\<close>, the
    loading of storage modules by Caddy and its dispenser of Caddyfile tokens, the values of the
    Kratos configuration interface, the cache library of the Tyk plugin (\<open>go_cache\<close>, with
    \<open>go_cache_laws\<close> for what its documentation promises), and the reading of files and key pairs of
    the TLS providers (\<open>tls_env\<close>).  A web framework is what its handler does to a writer.

  \<^bold>\<open>The theories\<close> and the code they model.
  \<^item> Prelude: panics, maps, monadic folds.  GoStrings, GoConv, GoTime, GoDuration, GoHeader,
    GoServeContent: the parts of the standard library that the program uses, with the round trip of
    durations through their text.
  \<^item> CacheObject: Cache-Control parsing (package cacheobject, vendored), with bounds on every number.
  \<^item> HttpTypes: requests, responses, context values.  ConfigTypes: configurationtypes/types.go and
    pkg/middleware/configuration.go with their JSON codecs.
  \<^item> Rfc: pkg/rfc (age.go, cache\_status.go, revalidation.go, vary.go).
  \<^item> StorageCore: the storer interface, \<open>MappingUpdater\<close>, \<open>MappingElection\<close> (storages/core, vendored).
    StorerContract: what a client of a storer relies on, as the locales \<open>storer_contract\<close> (values)
    and \<open>multi_level_contract\<close> (mappings), with the lemmas of the clients.  DefaultStorage:
    pkg/storage/defaultProvider.go, its invariant and the interpretations of both locales.
  \<^item> RequestContext: package context, from the configuration to the key of a request.
  \<^item> Surrogate: pkg/surrogate/providers, with the locale \<open>surrogate_storer\<close>, an extension of the
    storer's contract under which storing, purging and listing of tags are proved.
  \<^item> Writer: pkg/middleware/writer.go.  Handler: the state of the handler, its construction, the choice
    of storers, the eviction lock.  StoreResponse: \<open>Store\<close> and \<open>backfillStorers\<close>.  Upstream: \<open>Upstream\<close>,
    \<open>Revalidate\<close> and the coalescing.  Serve: \<open>ServeHTTP\<close>, cut at its stages.
  \<^item> Api: pkg/api, every handler of the invalidation endpoint, bulk deletion and mapping eviction.
  \<^item> ConfigParser: plugins/souin/agnostic.  KratosConfig: plugins/kratos.  CaddyConfig and Caddyfile:
    plugins/caddy (configuration.go, dispatch.go, httpcache.go, app.go, admin.go).
  \<^item> TraefikStorage, TraefikSurrogate, TraefikApi, TraefikHandler, TraefikServe: the packages under
    plugins/traefik/override (storage over the vendored akyoto/cache, surrogate, api, context,
    middleware).  Names begin with \<open>tk_\<close>; a function that is word for word the one of the core package
    is its definition.  TraefikConfig: plugins/traefik/main.go.
  \<^item> BufferPool: the pool of body buffers of pkg/middleware and of the Traefik copy, their arrays and
    the body a coalesced flight hands on, as a step relation in which the requests interleave.
  \<^item> PluginConfig: the default configurations and constructors of the web framework plugins and the
    registration of storages (plugins/souin/storages).  Plugins: their handlers and response writers,
    and the reverse proxy of the Souin server.
  \<^item> CaddyLifecycle: the start, stop and clean-up of the Caddy modules over the usage pool of the
    process (plugins/caddy/app.go, cleaner.go), as a step relation across reloads.
  \<^item> CacheKeysJson: the scanner of encoding/json, the JSON form of the cache-key rules and their YAML
    form (configurationtypes/types.go).  TlsProviders: plugins/souin/providers.  Metrics: the registry
    of pkg/api/prometheus.
  \<^item> Tyk: the storage of plugins/tyk/override/storage and the hooks of plugins/tyk/main.go.

  \<^bold>\<open>What is proved.\<close>
  \<^item> StoreLaws: \<open>Store\<close> refines an abstract specification, the entry \<open>stored_entry\<close> written by
    \<open>store_write\<close>; under which conditions and for how long a response is stored.
  \<^item> DefaultStorage, Surrogate, Api: the invariant of the in-memory map is kept by every operation and
    excludes its panics; what was stored is served fresh for its duration, stale for the stale
    period, and not afterwards; what is served as fresh had a fitting, fresh entry; tags list what
    was stored under them and a purge by tag removes it from the storer.
  \<^item> UpstreamLaws: the recursion of \<open>Upstream\<close> ends and calls the upstream handler at most twice; when
    a waiting request is answered from another one's flight.
  \<^item> ServeLaws: an answer without an upstream call is a stored response or 304; a fresh response is
    served; what \<open>Store\<close> wrote is found; the answers on errors, aborts and deadlines.
  \<^item> RequestContext: default keys are injective on requests whose parts hold no separator; sorted
    queries give keys independent of the order.
  \<^item> ParserLaws, CaddyLaws, KratosConfig: independence of the order of visits, the precedence of
    settings, which settings are lost, which storages take part, and that a reload keeps the
    surrogate keys.  CaddyfileLaws: the Caddyfile parser ends on every input and what it builds is
    consistent.
  \<^item> TraefikStorageLaws interprets the locale \<open>kv_storer\<close> of StorerContract, which the storers of both
    packages fulfil, and its extension \<open>override_storer\<close>; TraefikSurrogate adds \<open>override_surrogate\<close>.
    TraefikLaws: the entry the copy stores is the one of the core package, and answers later requests.
    BufferPoolLaws: in the core package no interleaving of requests gives one of them the body of
    another; in the copy some do.
  \<^item> EndToEnd puts the stages together: of two requests with one key the second, within the stored
    duration, gets the status and body of the first, without another call of the upstream, whatever
    else happens to the storer in between, as long as the stored response and its mapping stay.
  \<^item> PluginLaws: what the plugins make of the handler; the storages of every plugin but Caddy's are
    registered and never used, Skipper stores nothing, an error of Echo stays unanswered.
    CaddyLifecycle: all handlers of a process share one surrogate storage, whatever is reloaded, and a
    clean-up removes nothing.  CacheKeysJson: what the detour through JSON makes of the cache-key
    rules.  TlsProviders: which certificates are loaded and served.  Metrics: every counter holds the
    number of its increments.  TykLaws: the Tyk plugin never serves from its cache.
  \<^item> Several theorems state what the code does where that is not what it means to do: a coalesced
    request answered with an empty 200, a doubled body under stale-if-error, a panic on a malformed
    request, an eviction lock that does not exclude, mappings that are never evicted, settings that
    are lost; and in the Traefik copy a purge that names no key, headers cut to one value, a deadline
    answered 200 and bodies of other requests.

  \<^bold>\<open>Bounds and fuel.\<close>  The loops over the Caddyfile's dispenser may run for ever for a dispenser that
  never ends; \<open>parseConfiguration_ends\<close> shows that they do not when each step consumes a token.
  All other recursions are total.  Only \<open>processBatches\<close> has fuel, the length of its
  list, which is enough since every batch but an empty one takes an element.  The scanners of JSON and of Cache-Control consume a byte in every round.

  \<^bold>\<open>Not modelled.\<close>  Logging; the getters of the configuration structures, which are their fields; the
  JSON form of \<open>CacheProvider\<close> and the decoding of the other structures by encoding/json and yaml;
  the listeners of the Souin server and the reading of its YAML file; the handlers of pprof and
  promhttp (parameters); the web frameworks themselves, and the runs of Fiber, Hertz and Goyave
  through their own writers down to \<open>ServeHTTP\<close>.  Of plugins/tyk, which does not build against the
  packages of this commit, the construction of the instance per API is left out; the \<open>ServeHTTP\<close> of
  its middleware copy is never called, its surrogate copy is not installed by its Makefile, and its
  API copy is that of the Traefik plugin.
\<close>

end
